(* ===== verification/Prelude.thy ===== *)
theory Prelude
  imports Main "HOL-Library.Sublist" "HOL-Library.Char_ord" "HOL-Library.List_Lexorder"
    "HOL-Library.Word"
begin

text \<open>
  Shared vocabulary of the development: the part of Rust's standard library for strings,
  \<^verbatim>\<open>Option\<close> and \<^verbatim>\<open>Result\<close> that the proxy uses, with the generic lemmas the components share.

  A Rust \<^verbatim>\<open>str\<close> is the list of its UTF-8 bytes (\<^typ>\<open>string\<close>, whose characters are bytes); \<^verbatim>\<open>len\<close> is
  \<^const>\<open>length\<close> and \<^verbatim>\<open>Ord\<close> is the bytewise lexicographic order of \<open>List_Lexorder\<close> and
  \<open>Char_ord\<close>. \<^verbatim>\<open>str::trim\<close> removes the 25 code points of the Unicode property
  \<open>White_Space\<close>, given here by their UTF-8 encodings; matching an encoding at either end of a
  well-formed string is the same as matching the code point, since UTF-8 is self-synchronising.
  \<^verbatim>\<open>Result<T, E>\<close> is the sum \<open>'e + 'a\<close> with \<^const>\<open>Inl\<close> for \<^verbatim>\<open>Err\<close>, and \<open>res_bind\<close> is the
  \<^verbatim>\<open>?\<close> operator. Unsigned integers keep their width (\<open>u32\<close>, \<open>u64\<close>); lengths of vectors are \<^typ>\<open>nat\<close>.
\<close>

named_theorems str_simps "unfolding rules for the string library"
named_theorems res_simps "rules for results and options"

type_synonym u16 = "16 word"
type_synonym u32 = "32 word"
type_synonym u64 = "64 word"
type_synonym 'a vec = "'a list"

section \<open>Results and options\<close>

definition res_bind :: "'e + 'a \<Rightarrow> ('a \<Rightarrow> 'e + 'b) \<Rightarrow> 'e + 'b" where
  "res_bind r f = (case r of Inl e \<Rightarrow> Inl e | Inr a \<Rightarrow> f a)"

definition map_err :: "('e \<Rightarrow> 'd) \<Rightarrow> 'e + 'a \<Rightarrow> 'd + 'a" where
  "map_err f r = (case r of Inl e \<Rightarrow> Inl (f e) | Inr a \<Rightarrow> Inr a)"

definition ok_or :: "'e \<Rightarrow> 'a option \<Rightarrow> 'e + 'a" where
  "ok_or e x = (case x of None \<Rightarrow> Inl e | Some a \<Rightarrow> Inr a)"

definition ok :: "'e + 'a \<Rightarrow> 'a option" where
  "ok r = (case r of Inl _ \<Rightarrow> None | Inr a \<Rightarrow> Some a)"

definition or_else :: "'a option \<Rightarrow> 'a option \<Rightarrow> 'a option" where
  "or_else x y = (case x of None \<Rightarrow> y | Some a \<Rightarrow> Some a)"

definition unwrap_or :: "'a option \<Rightarrow> 'a \<Rightarrow> 'a" where
  "unwrap_or x d = (case x of None \<Rightarrow> d | Some a \<Rightarrow> a)"

definition is_some_and :: "'a option \<Rightarrow> ('a \<Rightarrow> bool) \<Rightarrow> bool" where
  "is_some_and x p = (case x of None \<Rightarrow> False | Some a \<Rightarrow> p a)"

definition opt_filter :: "('a \<Rightarrow> bool) \<Rightarrow> 'a option \<Rightarrow> 'a option" where
  "opt_filter p x = (case x of None \<Rightarrow> None | Some a \<Rightarrow> if p a then Some a else None)"

text \<open>\<^verbatim>\<open>then_some\<close>\<close>

definition then_some :: "bool \<Rightarrow> 'a \<Rightarrow> 'a option" where
  "then_some b a = (if b then Some a else None)"

text \<open>\<^verbatim>\<open>Iterator::find_map\<close>\<close>

fun find_map :: "('a \<Rightarrow> 'b option) \<Rightarrow> 'a list \<Rightarrow> 'b option" where
  "find_map f [] = None"
| "find_map f (x # xs) = (case f x of None \<Rightarrow> find_map f xs | Some b \<Rightarrow> Some b)"

text \<open>\<^verbatim>\<open>iter.map(f).collect::<Result<Vec<_>, _>>()\<close>: stops at the first error.\<close>

fun collect_results :: "('a \<Rightarrow> 'e + 'b) \<Rightarrow> 'a list \<Rightarrow> 'e + 'b list" where
  "collect_results f [] = Inr []"
| "collect_results f (x # xs) =
     res_bind (f x) (\<lambda>y. res_bind (collect_results f xs) (\<lambda>ys. Inr (y # ys)))"

lemma res_bind_simps [simp, res_simps]:
  "res_bind (Inl e) f = Inl e" "res_bind (Inr a) f = f a"
  by (simp_all add: res_bind_def)

lemma res_bind_Inr_iff: "res_bind r f = Inr b \<longleftrightarrow> (\<exists>a. r = Inr a \<and> f a = Inr b)"
  by (cases r) auto

lemma res_bind_Inl_iff:
  "res_bind r f = Inl e \<longleftrightarrow> r = Inl e \<or> (\<exists>a. r = Inr a \<and> f a = Inl e)"
  by (cases r) auto

lemma res_combinator_simps [simp, res_simps]:
  "map_err g (Inl e) = Inl (g e)" "map_err g (Inr a) = Inr a"
  "ok_or e None = Inl e" "ok_or e (Some a) = Inr a"
  "ok (Inl e) = None" "ok (Inr a) = Some a"
  "or_else None y = y" "or_else (Some a) y = Some a"
  "unwrap_or None d = d" "unwrap_or (Some a) d = a"
  "is_some_and None p = False" "is_some_and (Some a) p = p a"
  "opt_filter q None = None" "opt_filter q (Some a) = (if q a then Some a else None)"
  "then_some True a = Some a" "then_some False a = None"
  by (simp_all add: map_err_def ok_or_def ok_def or_else_def unwrap_or_def is_some_and_def
      opt_filter_def then_some_def)

lemma map_err_Inr_iff [simp]: "map_err g r = Inr a \<longleftrightarrow> r = Inr a"
  by (cases r) auto

lemma then_some_eq_Some [simp]: "then_some b a = Some c \<longleftrightarrow> b \<and> a = c"
  by (cases b) auto

lemma then_some_eq_None [simp]: "then_some b a = None \<longleftrightarrow> \<not> b"
  by (cases b) auto

lemma or_else_eq_None [simp]: "or_else x y = None \<longleftrightarrow> x = None \<and> y = None"
  by (cases x) auto

lemma is_some_and_iff: "is_some_and x p \<longleftrightarrow> (\<exists>a. x = Some a \<and> p a)"
  by (cases x) auto

lemma find_map_SomeD: "find_map f xs = Some b \<Longrightarrow> \<exists>x \<in> set xs. f x = Some b"
  by (induction xs) (auto split: option.splits)

lemma find_map_None_iff: "find_map f xs = None \<longleftrightarrow> (\<forall>x \<in> set xs. f x = None)"
  by (induction xs) (auto split: option.splits)

lemma collect_results_Inr_iff:
  "collect_results f xs = Inr ys \<longleftrightarrow> list_all2 (\<lambda>x y. f x = Inr y) xs ys"
proof (induction xs arbitrary: ys)
  case Nil
  then show ?case by auto
next
  case (Cons x xs)
  then show ?case by (cases ys) (auto simp: res_bind_Inr_iff)
qed

lemma collect_results_InlD:
  "collect_results f xs = Inl e \<Longrightarrow> \<exists>x \<in> set xs. f x = Inl e"
  by (induction xs) (auto simp: res_bind_Inl_iff)

lemma map_filter_fixpoint: "(\<And>x. x \<in> set xs \<Longrightarrow> f x = Some x) \<Longrightarrow> List.map_filter f xs = xs"
  by (induction xs) (auto simp: List.map_filter_simps)

lemma find_map_cong [fundef_cong]:
  "xs = ys \<Longrightarrow> (\<And>x. x \<in> set ys \<Longrightarrow> f x = g x) \<Longrightarrow> find_map f xs = find_map g ys"
  by (induction xs arbitrary: ys) (auto split: option.splits)

lemma find_SomeD: "find P xs = Some x \<Longrightarrow> x \<in> set xs \<and> P x"
  by (induction xs) (auto split: if_splits)

lemma find_None_iff_Ball: "find P xs = None \<longleftrightarrow> (\<forall>x \<in> set xs. \<not> P x)"
  by (induction xs) auto

lemma find_Some_split:
  assumes "find P xs = Some x"
  obtains pre post where "xs = pre @ x # post" "P x" "\<forall>y \<in> set pre. \<not> P y"
proof -
  have "\<exists>pre post. xs = pre @ x # post \<and> P x \<and> (\<forall>y \<in> set pre. \<not> P y)"
    using assms
  proof (induction xs)
    case Nil
    then show ?case by simp
  next
    case (Cons a xs)
    show ?case
    proof (cases "P a")
      case True
      with Cons.prems show ?thesis by (intro exI [of _ "[]"] exI [of _ xs]) auto
    next
      case False
      with Cons obtain pre post where "xs = pre @ x # post" "P x" "\<forall>y \<in> set pre. \<not> P y"
        by auto
      with False show ?thesis by (intro exI [of _ "a # pre"] exI [of _ post]) auto
    qed
  qed
  with that show ?thesis by blast
qed

lemma find_append_hit:
  "\<forall>y \<in> set pre. \<not> P y \<Longrightarrow> P x \<Longrightarrow> find P (pre @ x # post) = Some x"
  by (induction pre) auto

section \<open>Strings\<close>

subsection \<open>ASCII case and classes\<close>

definition code :: "char \<Rightarrow> nat" where
  "code c = of_char c"

definition is_ascii_digit :: "char \<Rightarrow> bool" where
  "is_ascii_digit c \<longleftrightarrow> 48 \<le> code c \<and> code c \<le> 57"

definition is_ascii_upper :: "char \<Rightarrow> bool" where
  "is_ascii_upper c \<longleftrightarrow> 65 \<le> code c \<and> code c \<le> 90"

definition is_ascii_lower :: "char \<Rightarrow> bool" where
  "is_ascii_lower c \<longleftrightarrow> 97 \<le> code c \<and> code c \<le> 122"

definition is_ascii_alphanumeric :: "char \<Rightarrow> bool" where
  "is_ascii_alphanumeric c \<longleftrightarrow> is_ascii_digit c \<or> is_ascii_upper c \<or> is_ascii_lower c"

definition ascii_lower :: "char \<Rightarrow> char" where
  "ascii_lower c = (if is_ascii_upper c then char_of (code c + 32) else c)"

definition ascii_upper :: "char \<Rightarrow> char" where
  "ascii_upper c = (if is_ascii_lower c then char_of (code c - 32) else c)"

definition to_ascii_lowercase :: "string \<Rightarrow> string" where
  "to_ascii_lowercase s = map ascii_lower s"

definition to_ascii_uppercase :: "string \<Rightarrow> string" where
  "to_ascii_uppercase s = map ascii_upper s"

definition eq_ignore_ascii_case :: "string \<Rightarrow> string \<Rightarrow> bool" where
  "eq_ignore_ascii_case s t \<longleftrightarrow> to_ascii_lowercase s = to_ascii_lowercase t"

lemma code_char_of [simp]: "n < 256 \<Longrightarrow> code (char_of n) = n"
  by (simp add: code_def)

lemma char_of_code [simp]: "char_of (code c) = c"
  by (simp add: code_def)

lemma code_inject: "code c = code d \<longleftrightarrow> c = d"
  by (metis char_of_code)

lemma code_ascii_lower:
  "code (ascii_lower c) = (if 65 \<le> code c \<and> code c \<le> 90 then code c + 32 else code c)"
  by (simp add: ascii_lower_def is_ascii_upper_def)

lemma code_ascii_upper:
  "code (ascii_upper c) = (if 97 \<le> code c \<and> code c \<le> 122 then code c - 32 else code c)"
  by (auto simp: ascii_upper_def is_ascii_lower_def)

lemma ascii_lower_idem [simp]: "ascii_lower (ascii_lower c) = ascii_lower c"
  by (simp add: code_inject [symmetric] code_ascii_lower)

lemma ascii_upper_idem [simp]: "ascii_upper (ascii_upper c) = ascii_upper c"
  by (auto simp: code_inject [symmetric] code_ascii_upper)

lemma ascii_lower_upper [simp]: "ascii_lower (ascii_upper c) = ascii_lower c"
  by (auto simp: code_inject [symmetric] code_ascii_lower code_ascii_upper)

lemma ascii_upper_lower [simp]: "ascii_upper (ascii_lower c) = ascii_upper c"
  by (auto simp: code_inject [symmetric] code_ascii_lower code_ascii_upper)

lemma to_ascii_lowercase_idem [simp]:
  "to_ascii_lowercase (to_ascii_lowercase s) = to_ascii_lowercase s"
  by (simp add: to_ascii_lowercase_def)

lemma to_ascii_uppercase_idem [simp]:
  "to_ascii_uppercase (to_ascii_uppercase s) = to_ascii_uppercase s"
  by (simp add: to_ascii_uppercase_def)

lemma to_ascii_lowercase_upper [simp]:
  "to_ascii_lowercase (to_ascii_uppercase s) = to_ascii_lowercase s"
  by (simp add: to_ascii_lowercase_def to_ascii_uppercase_def)

lemma to_ascii_uppercase_lower [simp]:
  "to_ascii_uppercase (to_ascii_lowercase s) = to_ascii_uppercase s"
  by (simp add: to_ascii_lowercase_def to_ascii_uppercase_def)

lemma to_ascii_uppercase_eq_iff:
  "to_ascii_uppercase s = to_ascii_uppercase t \<longleftrightarrow> to_ascii_lowercase s = to_ascii_lowercase t"
  by (metis to_ascii_lowercase_upper to_ascii_uppercase_lower)

lemma to_ascii_case_Nil_iff [simp]:
  "to_ascii_lowercase s = [] \<longleftrightarrow> s = []" "to_ascii_uppercase s = [] \<longleftrightarrow> s = []"
  by (simp_all add: to_ascii_lowercase_def to_ascii_uppercase_def)

text \<open>A byte that is not an ASCII letter is fixed by both case maps and hit only by itself.\<close>

lemma ascii_case_nonletter:
  assumes "\<not> is_ascii_upper x" "\<not> is_ascii_lower x"
  shows "ascii_lower c = x \<longleftrightarrow> c = x" "ascii_upper c = x \<longleftrightarrow> c = x"
  using assms
  by (auto simp: code_inject [symmetric] code_ascii_lower code_ascii_upper is_ascii_upper_def
      is_ascii_lower_def split: if_splits)

text \<open>The ASCII letters and digits of a string, in lower case.\<close>

definition alnum_lower :: "string \<Rightarrow> string" where
  "alnum_lower s = map ascii_lower (filter is_ascii_alphanumeric s)"

lemma is_ascii_alphanumeric_lower [simp]:
  "is_ascii_alphanumeric (ascii_lower c) = is_ascii_alphanumeric c"
  by (auto simp: is_ascii_alphanumeric_def is_ascii_digit_def is_ascii_upper_def is_ascii_lower_def
      code_ascii_lower)

lemma alnum_lower_idem [simp]: "alnum_lower (alnum_lower s) = alnum_lower s"
  by (simp add: alnum_lower_def filter_map o_def)

subsection \<open>Trimming\<close>

text \<open>
  The UTF-8 encodings of the code points with the Unicode property \<open>White_Space\<close>:
  U+0009 to U+000D, U+0020, U+0085, U+00A0, U+1680, U+2000 to U+200A, U+2028, U+2029, U+202F,
  U+205F and U+3000.
\<close>

definition white_space :: "string list" where
  "white_space =
     [[CHR 0x20], [CHR 0x09], [CHR 0x0A], [CHR 0x0B], [CHR 0x0C], [CHR 0x0D],
      [CHR 0xC2, CHR 0x85], [CHR 0xC2, CHR 0xA0], [CHR 0xE1, CHR 0x9A, CHR 0x80],
      [CHR 0xE2, CHR 0x80, CHR 0x80], [CHR 0xE2, CHR 0x80, CHR 0x81],
      [CHR 0xE2, CHR 0x80, CHR 0x82], [CHR 0xE2, CHR 0x80, CHR 0x83],
      [CHR 0xE2, CHR 0x80, CHR 0x84], [CHR 0xE2, CHR 0x80, CHR 0x85],
      [CHR 0xE2, CHR 0x80, CHR 0x86], [CHR 0xE2, CHR 0x80, CHR 0x87],
      [CHR 0xE2, CHR 0x80, CHR 0x88], [CHR 0xE2, CHR 0x80, CHR 0x89],
      [CHR 0xE2, CHR 0x80, CHR 0x8A], [CHR 0xE2, CHR 0x80, CHR 0xA8],
      [CHR 0xE2, CHR 0x80, CHR 0xA9], [CHR 0xE2, CHR 0x80, CHR 0xAF],
      [CHR 0xE2, CHR 0x81, CHR 0x9F], [CHR 0xE3, CHR 0x80, CHR 0x80]]"

text \<open>Remove leading occurrences of the given non-empty encodings.\<close>

function strip_all :: "string list \<Rightarrow> string \<Rightarrow> string" where
  "strip_all ws s =
     (case find (\<lambda>w. w \<noteq> [] \<and> prefix w s) ws of
        None \<Rightarrow> s
      | Some w \<Rightarrow> strip_all ws (drop (length w) s))"
  by pat_completeness auto
termination
  by (relation "measure (\<lambda>(ws, s). length s)") (auto dest!: find_SomeD prefix_length_le simp: neq_Nil_conv)

declare strip_all.simps [simp del]

definition trim_start :: "string \<Rightarrow> string" where
  "trim_start s = strip_all white_space s"

definition trim_end :: "string \<Rightarrow> string" where
  "trim_end s = rev (strip_all (map rev white_space) (rev s))"

definition trim :: "string \<Rightarrow> string" where
  "trim s = trim_end (trim_start s)"

lemma strip_all_stop:
  "(\<forall>w \<in> set ws. w = [] \<or> \<not> prefix w s) \<Longrightarrow> strip_all ws s = s"
  by (subst strip_all.simps) (auto simp: find_None_iff_Ball split: option.splits dest: find_SomeD)

lemma strip_all_clean: "\<forall>w \<in> set ws. w = [] \<or> \<not> prefix w (strip_all ws s)"
proof (induction ws s rule: strip_all.induct)
  case (1 ws s)
  show ?case
  proof (cases "find (\<lambda>w. w \<noteq> [] \<and> prefix w s) ws")
    case None
    then have "strip_all ws s = s" by (simp add: strip_all.simps [of ws s])
    with None show ?thesis by (auto simp: find_None_iff_Ball)
  next
    case (Some w)
    with "1.IH" [OF Some] show ?thesis by (simp add: strip_all.simps [of ws s])
  qed
qed

lemma strip_all_idem [simp]: "strip_all ws (strip_all ws s) = strip_all ws s"
  by (rule strip_all_stop, rule strip_all_clean)

lemma suffix_strip_all: "suffix (strip_all ws s) s"
proof (induction ws s rule: strip_all.induct)
  case (1 ws s)
  then show ?case
    by (subst strip_all.simps)
      (auto split: option.splits intro: suffix_order.trans suffix_drop)
qed

lemma strip_all_map:
  assumes "\<forall>w \<in> set ws. \<forall>x \<in> set w. \<forall>c. f c = x \<longleftrightarrow> c = x"
  shows "strip_all ws (map f s) = map f (strip_all ws s)"
  using assms
proof (induction ws s rule: strip_all.induct)
  case (1 ws s)
  have "prefix w (map f s) \<longleftrightarrow> prefix w s" if "w \<in> set ws" for w
  proof -
    have "\<forall>x \<in> set w. \<forall>c. f c = x \<longleftrightarrow> c = x" using "1.prems" that by blast
    then show ?thesis
    proof (induction w arbitrary: s)
      case Nil
      then show ?case by simp
    next
      case (Cons a w)
      then have "\<And>c. (a = f c) = (a = c)" "\<And>t. prefix w (map f t) = prefix w t"
        by (simp_all add: eq_commute [of a])
      then show ?case by (cases s) simp_all
    qed
  qed
  then have eq: "find (\<lambda>w. w \<noteq> [] \<and> prefix w (map f s)) ws = find (\<lambda>w. w \<noteq> [] \<and> prefix w s) ws"
    by (intro find_cong) auto
  show ?case
  proof (cases "find (\<lambda>w. w \<noteq> [] \<and> prefix w s) ws")
    case None
    then show ?thesis
      by (simp add: eq strip_all.simps [of ws s] strip_all.simps [of ws "map f s"])
  next
    case (Some w)
    with "1.IH" [OF Some] "1.prems" have "strip_all ws (map f (drop (length w) s)) =
      map f (strip_all ws (drop (length w) s))" by blast
    with Some show ?thesis
      by (simp add: eq drop_map strip_all.simps [of ws s] strip_all.simps [of ws "map f s"])
  qed
qed

lemma white_space_nonletter:
  "w \<in> set white_space \<Longrightarrow> x \<in> set w \<Longrightarrow> \<not> is_ascii_upper x \<and> \<not> is_ascii_lower x"
  by (auto simp: white_space_def is_ascii_upper_def is_ascii_lower_def code_def)

lemma trim_map:
  assumes "\<And>w x c. w \<in> set white_space \<Longrightarrow> x \<in> set w \<Longrightarrow> f c = x \<longleftrightarrow> c = x"
  shows "trim (map f s) = map f (trim s)"
proof -
  have "strip_all white_space (map f t) = map f (strip_all white_space t)" for t
    by (rule strip_all_map) (use assms in blast)
  moreover have
    "strip_all (map rev white_space) (map f t) = map f (strip_all (map rev white_space) t)" for t
    by (rule strip_all_map) (use assms in fastforce)
  ultimately show ?thesis
    by (simp add: trim_def trim_start_def trim_end_def rev_map)
qed

lemma trim_to_ascii_lowercase: "trim (to_ascii_lowercase s) = to_ascii_lowercase (trim s)"
  unfolding to_ascii_lowercase_def
  by (rule trim_map) (use white_space_nonletter ascii_case_nonletter in blast)

lemma trim_to_ascii_uppercase: "trim (to_ascii_uppercase s) = to_ascii_uppercase (trim s)"
  unfolding to_ascii_uppercase_def
  by (rule trim_map) (use white_space_nonletter ascii_case_nonletter in blast)

lemma trim_end_prefix: "prefix (trim_end s) s"
  using suffix_strip_all [of "map rev white_space" "rev s"]
  by (simp add: trim_end_def suffix_to_prefix)

lemma trim_start_suffix: "suffix (trim_start s) s"
  by (simp add: trim_start_def suffix_strip_all)

text \<open>Trimming the end keeps the start trimmed, so \<^const>\<open>trim\<close> is idempotent.\<close>

lemma trim_start_trim: "trim_start (trim s) = trim s"
proof -
  have "\<not> prefix w (trim s)" if w: "w \<in> set white_space" "w \<noteq> []" for w
  proof
    assume "prefix w (trim s)"
    then have "prefix w (trim_start s)"
      using trim_end_prefix [of "trim_start s"] by (auto simp: trim_def intro: prefix_order.trans)
    with w strip_all_clean [of white_space s] show False by (auto simp: trim_start_def)
  qed
  then show ?thesis unfolding trim_start_def by (intro strip_all_stop) blast
qed

lemma trim_idem [simp]: "trim (trim s) = trim s"
proof -
  have "trim (trim s) = trim_end (trim s)" by (simp add: trim_def [of "trim s"] trim_start_trim)
  also have "\<dots> = trim s" by (simp add: trim_def trim_end_def)
  finally show ?thesis .
qed

lemma trim_sublist: "sublist (trim s) s"
  using prefix_imp_sublist [OF trim_end_prefix [of "trim_start s"]]
    suffix_imp_sublist [OF trim_start_suffix [of s]]
  by (auto simp: trim_def intro: sublist_order.order.trans)

lemma set_trim_subset: "set (trim s) \<subseteq> set s"
  using trim_sublist set_mono_sublist by blast

lemma trim_Nil [simp]: "trim [] = []"
  using trim_sublist [of "[]"] by simp

subsection \<open>Splitting, stripping and joining\<close>

text \<open>\<^verbatim>\<open>str::split\<close> with a set of ASCII separators: always at least one piece.\<close>

fun split_by :: "(char \<Rightarrow> bool) \<Rightarrow> string \<Rightarrow> string list" where
  "split_by p [] = [[]]"
| "split_by p (x # xs) =
     (if p x then [] # split_by p xs
      else case split_by p xs of [] \<Rightarrow> [[x]] | q # qs \<Rightarrow> (x # q) # qs)"

abbreviation split_on :: "char \<Rightarrow> string \<Rightarrow> string list" where
  "split_on c \<equiv> split_by (\<lambda>x. x = c)"

text \<open>\<^verbatim>\<open>[String]::join\<close>\<close>

fun join :: "string \<Rightarrow> string list \<Rightarrow> string" where
  "join sep [] = []"
| "join sep [x] = x"
| "join sep (x # y # xs) = x @ sep @ join sep (y # xs)"

fun split_once :: "char \<Rightarrow> string \<Rightarrow> (string \<times> string) option" where
  "split_once c [] = None"
| "split_once c (x # xs) =
     (if x = c then Some ([], xs) else map_option (\<lambda>(a, b). (x # a, b)) (split_once c xs))"

text \<open>\<^verbatim>\<open>rsplit_once\<close> with a string pattern: the last occurrence.\<close>

fun rsplit_once :: "string \<Rightarrow> string \<Rightarrow> (string \<times> string) option" where
  "rsplit_once pat [] = (if pat = [] then Some ([], []) else None)"
| "rsplit_once pat (x # xs) =
     (case rsplit_once pat xs of
        Some (a, b) \<Rightarrow> Some (x # a, b)
      | None \<Rightarrow> if prefix pat (x # xs) then Some ([], drop (length pat) (x # xs)) else None)"

definition strip_prefix :: "string \<Rightarrow> string \<Rightarrow> string option" where
  "strip_prefix p s = (if prefix p s then Some (drop (length p) s) else None)"

definition strip_suffix :: "string \<Rightarrow> string \<Rightarrow> string option" where
  "strip_suffix p s = (if suffix p s then Some (take (length s - length p) s) else None)"

abbreviation starts_with :: "string \<Rightarrow> string \<Rightarrow> bool" where
  "starts_with s p \<equiv> prefix p s"

abbreviation ends_with :: "string \<Rightarrow> string \<Rightarrow> bool" where
  "ends_with s p \<equiv> suffix p s"

fun contains_str :: "string \<Rightarrow> string \<Rightarrow> bool" where
  "contains_str [] pat = (pat = [])"
| "contains_str (x # xs) pat = (prefix pat (x # xs) \<or> contains_str xs pat)"

definition trim_start_matches :: "char \<Rightarrow> string \<Rightarrow> string" where
  "trim_start_matches c s = dropWhile (\<lambda>x. x = c) s"

definition trim_end_matches :: "char \<Rightarrow> string \<Rightarrow> string" where
  "trim_end_matches c s = rev (dropWhile (\<lambda>x. x = c) (rev s))"

lemma split_by_ne [simp]: "split_by p s \<noteq> []"
  by (cases s) (auto split: list.splits)

lemma join_split_on: "join [c] (split_on c s) = s"
proof (induction s)
  case Nil
  then show ?case by simp
next
  case (Cons x s)
  obtain q qs where q: "split_on c s = q # qs" by (cases "split_on c s") auto
  show ?case
  proof (cases "x = c")
    case True
    with Cons q show ?thesis by simp
  next
    case False
    with Cons q show ?thesis by (cases qs) auto
  qed
qed

lemma split_by_no_sep: "q \<in> set (split_by p s) \<Longrightarrow> x \<in> set q \<Longrightarrow> \<not> p x"
  by (induction s arbitrary: q) (fastforce split: if_splits list.splits)+

lemma split_by_single: "\<forall>x \<in> set s. \<not> p x \<Longrightarrow> split_by p s = [s]"
  by (induction s) auto

lemma split_by_append_sep:
  "\<forall>x \<in> set s. \<not> p x \<Longrightarrow> p c \<Longrightarrow> split_by p (s @ c # t) = s # split_by p t"
  by (induction s) auto

lemma split_once_SomeD: "split_once c s = Some (a, b) \<Longrightarrow> s = a @ c # b \<and> c \<notin> set a"
  by (induction s arbitrary: a) (auto split: if_splits)

lemma split_once_None_iff: "split_once c s = None \<longleftrightarrow> c \<notin> set s"
  by (induction s) auto

lemma split_once_append: "c \<notin> set a \<Longrightarrow> split_once c (a @ c # b) = Some (a, b)"
  by (induction a) auto

lemma rsplit_once_SomeD: "rsplit_once pat s = Some (a, b) \<Longrightarrow> s = a @ pat @ b"
proof (induction s arbitrary: a b)
  case Nil
  then show ?case by (auto split: if_splits)
next
  case (Cons x s)
  then show ?case
    by (auto split: option.splits if_splits simp: prefix_def)
qed

lemma strip_prefix_eq_Some [simp]: "strip_prefix p s = Some t \<longleftrightarrow> s = p @ t"
  by (auto simp: strip_prefix_def prefix_def)

lemma strip_suffix_eq_Some [simp]: "strip_suffix p s = Some t \<longleftrightarrow> s = t @ p"
  by (auto simp: strip_suffix_def suffix_def)

lemma strip_prefix_None [simp]: "strip_prefix p s = None \<longleftrightarrow> \<not> prefix p s"
  by (simp add: strip_prefix_def)

lemma contains_str_iff: "contains_str s pat \<longleftrightarrow> sublist pat s"
  by (induction s) (auto simp: sublist_Cons_right)

lemma trim_end_matches_idem [simp]:
  "trim_end_matches c (trim_end_matches c s) = trim_end_matches c s"
  by (simp add: trim_end_matches_def)

subsection \<open>Decimal numerals\<close>

definition digit_char :: "nat \<Rightarrow> char" where
  "digit_char d = char_of (48 + d)"

fun show_nat :: "nat \<Rightarrow> string" where
  "show_nat n = (if n < 10 then [digit_char n] else show_nat (n div 10) @ [digit_char (n mod 10)])"

declare show_nat.simps [simp del]

definition digit_val :: "char \<Rightarrow> nat" where
  "digit_val c = code c - 48"

definition nat_of_digits :: "string \<Rightarrow> nat" where
  "nat_of_digits s = foldl (\<lambda>n c. 10 * n + digit_val c) 0 s"

text \<open>
  \<^verbatim>\<open>str::parse\<close> for an unsigned integer of the given width: an optional plus sign, at least one
  decimal digit, and no overflow.
\<close>

definition parse_uint :: "nat \<Rightarrow> string \<Rightarrow> nat option" where
  "parse_uint w s =
     (let ds = (case s of [] \<Rightarrow> [] | c # cs \<Rightarrow> if c = CHR ''+'' then cs else s)
      in if ds = [] \<or> \<not> list_all is_ascii_digit ds then None
         else if nat_of_digits ds < 2 ^ w then Some (nat_of_digits ds) else None)"

lemma code_digit_char: "d < 10 \<Longrightarrow> code (digit_char d) = 48 + d"
  by (simp add: digit_char_def)

lemma digit_val_digit_char [simp]: "d < 10 \<Longrightarrow> digit_val (digit_char d) = d"
  by (simp add: digit_val_def code_digit_char)

lemma show_nat_ne [simp]: "show_nat n \<noteq> []"
  by (subst show_nat.simps) simp

lemma show_nat_digits: "list_all is_ascii_digit (show_nat n)"
proof (induction n rule: show_nat.induct)
  case (1 n)
  have "is_ascii_digit (digit_char d)" if "d < 10" for d
    using that by (simp add: is_ascii_digit_def code_digit_char)
  with "1.IH" show ?case by (simp add: show_nat.simps [of n])
qed

lemma nat_of_digits_show_nat [simp]: "nat_of_digits (show_nat n) = n"
proof (induction n rule: show_nat.induct)
  case (1 n)
  then show ?case by (simp add: show_nat.simps [of n] nat_of_digits_def)
qed

lemma show_nat_inject [simp]: "show_nat m = show_nat n \<longleftrightarrow> m = n"
  by (metis nat_of_digits_show_nat)

lemma parse_uint_show_nat:
  assumes "n < 2 ^ w"
  shows "parse_uint w (show_nat n) = Some n"
proof -
  have "hd (show_nat n) \<noteq> CHR ''+''"
    using show_nat_digits [of n] by (cases "show_nat n") (auto simp: is_ascii_digit_def code_def)
  then show ?thesis
    using assms show_nat_digits [of n] by (cases "show_nat n") (auto simp: parse_uint_def Let_def
      dest: arg_cong [of _ _ nat_of_digits])
qed

lemma parse_uint_bound: "parse_uint w s = Some n \<Longrightarrow> n < 2 ^ w"
  by (auto simp: parse_uint_def Let_def split: if_splits)

text \<open>Counts shown in the messages: \<^verbatim>\<open>usize\<close> and \<^verbatim>\<open>u32\<close> values.\<close>

definition show_u32 :: "u32 \<Rightarrow> string" where
  "show_u32 w = show_nat (unat w)"

definition show_u64 :: "u64 \<Rightarrow> string" where
  "show_u64 w = show_nat (unat w)"

end
