(* ===== verification/Btree.thy ===== *)
theory Btree
  imports Prelude
begin

text \<open>
  \<^verbatim>\<open>std::collections::BTreeMap\<close> and \<^verbatim>\<open>BTreeSet\<close>. A map is the association list of its entries in
  key order and a set is the list of its elements in order, so that iteration, \<^verbatim>\<open>into_values\<close> and
  \<^verbatim>\<open>collect\<close> are list operations. The interface the other components rely on is the locale
  \<open>ordered_map\<close> (lookup after insert, the ordering invariant, the result of collecting a sequence
  of entries, where a later entry wins); \<open>btm\<close> is its interpretation on the lists.
\<close>

section \<open>The interface\<close>

locale ordered_map =
  fixes empty :: "'m"
    and insert :: "'k \<Rightarrow> 'v \<Rightarrow> 'm \<Rightarrow> 'm"
    and get :: "'m \<Rightarrow> 'k \<Rightarrow> 'v option"
    and invar :: "'m \<Rightarrow> bool"
  assumes get_empty: "get empty k = None"
    and get_insert: "invar m \<Longrightarrow> get (insert k v m) j = (if j = k then Some v else get m j)"
    and invar_empty: "invar empty"
    and invar_insert: "invar m \<Longrightarrow> invar (insert k v m)"
begin

lemma invar_fold: "invar m \<Longrightarrow> invar (foldl (\<lambda>m (k, v). insert k v m) m kvs)"
  by (induction kvs arbitrary: m) (auto simp: invar_insert)

lemma get_fold:
  "invar m \<Longrightarrow>
   get (foldl (\<lambda>m (k, v). insert k v m) m kvs) j =
     (case map_of (rev kvs) j of None \<Rightarrow> get m j | Some v \<Rightarrow> Some v)"
proof (induction kvs arbitrary: m)
  case Nil
  then show ?case by simp
next
  case (Cons kv kvs)
  obtain k v where kv: "kv = (k, v)" by (cases kv)
  from Cons have "get (foldl (\<lambda>m (k, v). insert k v m) (insert k v m) kvs) j =
      (case map_of (rev kvs) j of None \<Rightarrow> get (insert k v m) j | Some v \<Rightarrow> Some v)"
    by (simp add: invar_insert)
  with Cons.prems show ?case
    by (auto simp: kv get_insert map_add_def split: option.splits)
qed

lemma get_collect: "get (foldl (\<lambda>m (k, v). insert k v m) empty kvs) j = map_of (rev kvs) j"
  by (simp add: get_fold invar_empty get_empty split: option.splits)

end

section \<open>Maps\<close>

type_synonym ('k, 'v) btree_map = "('k \<times> 'v) list"

fun btm_insert :: "'k::linorder \<Rightarrow> 'v \<Rightarrow> ('k, 'v) btree_map \<Rightarrow> ('k, 'v) btree_map" where
  "btm_insert k v [] = [(k, v)]"
| "btm_insert k v ((j, u) # m) =
     (if k < j then (k, v) # (j, u) # m
      else if k = j then (k, v) # m
      else (j, u) # btm_insert k v m)"

definition btm_get :: "('k, 'v) btree_map \<Rightarrow> 'k \<Rightarrow> 'v option" where
  "btm_get m k = map_of m k"

text \<open>\<^verbatim>\<open>entry(k).or_insert(v)\<close>\<close>

definition btm_or_insert :: "'k::linorder \<Rightarrow> 'v \<Rightarrow> ('k, 'v) btree_map \<Rightarrow> ('k, 'v) btree_map" where
  "btm_or_insert k v m = (case btm_get m k of None \<Rightarrow> btm_insert k v m | Some _ \<Rightarrow> m)"

definition btm_collect :: "('k::linorder \<times> 'v) list \<Rightarrow> ('k, 'v) btree_map" where
  "btm_collect kvs = foldl (\<lambda>m (k, v). btm_insert k v m) [] kvs"

definition btm_values :: "('k, 'v) btree_map \<Rightarrow> 'v list" where
  "btm_values m = map snd m"

definition btm_invar :: "('k::linorder, 'v) btree_map \<Rightarrow> bool" where
  "btm_invar m \<longleftrightarrow> sorted_wrt (<) (map fst m)"

lemma fst_btm_insert: "fst ` set (btm_insert k v m) = insert k (fst ` set m)"
  by (induction k v m rule: btm_insert.induct) auto

lemma btm_invar_insert: "btm_invar m \<Longrightarrow> btm_invar (btm_insert k v m)"
proof (induction k v m rule: btm_insert.induct)
  case (2 k v j u m)
  have "x \<in> fst ` set (btm_insert k v m) \<Longrightarrow> x = k \<or> x \<in> fst ` set m" for x
    by (simp add: fst_btm_insert)
  with 2 show ?case by (fastforce simp: btm_invar_def)
qed (simp add: btm_invar_def)

lemma map_of_btm_insert:
  "btm_invar m \<Longrightarrow> map_of (btm_insert k v m) j = (if j = k then Some v else map_of m j)"
  by (induction k v m rule: btm_insert.induct) (auto simp: btm_invar_def)

interpretation btm: ordered_map "[]" btm_insert btm_get btm_invar
  by unfold_locales
    (auto simp: btm_get_def map_of_btm_insert btm_invar_insert, auto simp: btm_invar_def)

lemma btm_get_collect: "btm_get (btm_collect kvs) k = map_of (rev kvs) k"
  unfolding btm_collect_def by (rule btm.get_collect)

lemma btm_invar_collect: "btm_invar (btm_collect kvs)"
  unfolding btm_collect_def by (intro btm.invar_fold btm.invar_empty)

lemma btm_invar_or_insert: "btm_invar m \<Longrightarrow> btm_invar (btm_or_insert k v m)"
  by (simp add: btm_or_insert_def btm_invar_insert split: option.splits)

lemma btm_get_or_insert:
  "btm_invar m \<Longrightarrow>
   btm_get (btm_or_insert k v m) j =
     (if j = k \<and> btm_get m k = None then Some v else btm_get m j)"
  by (auto simp: btm_or_insert_def btm.get_insert split: option.splits)

lemma btm_get_SomeD: "btm_get m k = Some v \<Longrightarrow> (k, v) \<in> set m"
  by (auto simp: btm_get_def dest: map_of_SomeD)

lemma btm_distinct: "btm_invar m \<Longrightarrow> distinct (map fst m)"
  by (simp add: btm_invar_def strict_sorted_imp_sorted strict_sorted_iff)

lemma btm_get_eq_Some_iff: "btm_invar m \<Longrightarrow> btm_get m k = Some v \<longleftrightarrow> (k, v) \<in> set m"
  by (simp add: btm_get_def btm_distinct)

lemma set_btm_values: "btm_invar m \<Longrightarrow> set (btm_values m) = {v. \<exists>k. btm_get m k = Some v}"
  by (force simp: btm_values_def btm_get_eq_Some_iff image_iff)

section \<open>Sets\<close>

type_synonym 'a btree_set = "'a list"

text \<open>\<^verbatim>\<open>collect::<BTreeSet<_>>()\<close>\<close>

definition bts_collect :: "'a::linorder list \<Rightarrow> 'a btree_set" where
  "bts_collect xs = remdups_adj (sort xs)"

definition bts_contains :: "'a btree_set \<Rightarrow> 'a \<Rightarrow> bool" where
  "bts_contains s x \<longleftrightarrow> x \<in> set s"

text \<open>\<^verbatim>\<open>BTreeSet::insert\<close>: the new set and whether the element was absent.\<close>

definition bts_insert :: "'a::linorder \<Rightarrow> 'a btree_set \<Rightarrow> 'a btree_set \<times> bool" where
  "bts_insert x s = (if x \<in> set s then (s, False) else (insort x s, True))"

lemma set_bts_collect [simp]: "set (bts_collect xs) = set xs"
  by (simp add: bts_collect_def)

lemma bts_collect_Nil_iff [simp]: "bts_collect xs = [] \<longleftrightarrow> xs = []"
  by (metis set_bts_collect set_empty)

lemma distinct_remdups_adj_sorted: "sorted xs \<Longrightarrow> distinct (remdups_adj xs)"
  by (induction xs rule: remdups_adj.induct) (auto simp: less_le)

lemma sorted_distinct_bts_collect: "sorted (bts_collect xs) \<and> distinct (bts_collect xs)"
  by (simp add: bts_collect_def sorted_remdups_adj distinct_remdups_adj_sorted)

lemma bts_collect_idem: "bts_collect (bts_collect xs) = bts_collect xs"
  using sorted_distinct_bts_collect [of xs]
  by (simp add: bts_collect_def [of "bts_collect xs"] sorted_sort_id remdups_adj_distinct)

lemma set_bts_insert: "set (fst (bts_insert x s)) = insert x (set s)"
  by (auto simp: bts_insert_def set_insort_key)

lemma snd_bts_insert [simp]: "snd (bts_insert x s) \<longleftrightarrow> x \<notin> set s"
  by (simp add: bts_insert_def)

end
