(* ===== verification/Normalize.thy ===== *)
theory Normalize
  imports Btree
begin

text \<open>
  Normalisation of identifiers and selectors (\<^verbatim>\<open>crates/security/src/normalize.rs\<close>).
  The contract every user of a normal form relies on is the locale \<open>normaliser\<close> (a normal form is
  its own normal form, is not empty, and depends only on the trimmed and case-folded text);
  it is interpreted for match values (\<open>mv\<close>) and for vulnerability identifiers (\<open>vid\<close>).
\<close>

section \<open>The contract of a normal form\<close>

definition same_text :: "string \<Rightarrow> string \<Rightarrow> bool" where
  "same_text s t \<longleftrightarrow> eq_ignore_ascii_case (trim s) (trim t)"

locale normaliser =
  fixes norm :: "string \<Rightarrow> string option"
  assumes norm_idem: "norm s = Some t \<Longrightarrow> norm t = Some t"
    and norm_None_iff: "norm s = None \<longleftrightarrow> trim s = []"
    and norm_eq_iff: "norm s = norm t \<longleftrightarrow> same_text s t"
begin

lemma norm_ne: "norm s = Some t \<Longrightarrow> t \<noteq> []"
  using norm_idem norm_None_iff [of "[]"] by auto

lemma map_filter_fixed: "t \<in> set (List.map_filter norm xs) \<Longrightarrow> norm t = Some t"
  by (auto simp: map_filter_def intro: norm_idem)

lemma map_filter_Nil_iff: "List.map_filter norm xs = [] \<longleftrightarrow> (\<forall>x \<in> set xs. trim x = [])"
  by (auto simp: map_filter_def filter_empty_conv norm_None_iff)

lemma mem_map_filter_iff:
  "norm y = Some n \<Longrightarrow> n \<in> set (List.map_filter norm xs) \<longleftrightarrow> (\<exists>x \<in> set xs. same_text x y)"
proof -
  assume y: "norm y = Some n"
  have "n \<in> set (List.map_filter norm xs) \<longleftrightarrow> (\<exists>x \<in> set xs. norm x = Some n)"
    by (force simp: map_filter_def)
  also have "\<dots> \<longleftrightarrow> (\<exists>x \<in> set xs. norm x = norm y)" by (simp add: y)
  finally show ?thesis by (simp add: norm_eq_iff)
qed

end

section \<open>The functions\<close>

definition normalize_vulnerability_id :: "string \<Rightarrow> string option" where
  "normalize_vulnerability_id i =
     (let normalized = to_ascii_uppercase (trim i) in then_some (normalized \<noteq> []) normalized)"

definition normalize_match_value :: "string \<Rightarrow> string option" where
  "normalize_match_value v =
     (let normalized = to_ascii_lowercase (trim v) in then_some (normalized \<noteq> []) normalized)"

definition normalize_context_value :: "string \<Rightarrow> string \<Rightarrow> string" where
  "normalize_context_value v d = unwrap_or (normalize_match_value v) d"

definition normalized_selector_list :: "string list \<Rightarrow> string list" where
  "normalized_selector_list values =
     remdups_adj (sort (List.map_filter normalize_match_value values))"

definition matches_case_insensitive_selector :: "string list \<Rightarrow> string option \<Rightarrow> bool" where
  "matches_case_insensitive_selector selectors value =
     (if selectors = [] then True
      else is_some_and (Option.bind value normalize_match_value)
             (\<lambda>v. \<exists>selector \<in> set selectors. selector = v))"

lemma same_text_refl [simp]: "same_text s s"
  by (simp add: same_text_def eq_ignore_ascii_case_def)

lemma same_text_sym: "same_text s t \<Longrightarrow> same_text t s"
  by (simp add: same_text_def eq_ignore_ascii_case_def)

interpretation mv: normaliser normalize_match_value
proof unfold_locales
  fix s t
  show "normalize_match_value s = Some t \<Longrightarrow> normalize_match_value t = Some t"
    by (auto simp: normalize_match_value_def Let_def trim_to_ascii_lowercase)
  show "normalize_match_value s = None \<longleftrightarrow> trim s = []"
    by (simp add: normalize_match_value_def Let_def)
  show "normalize_match_value s = normalize_match_value t \<longleftrightarrow> same_text s t"
    by (auto simp: normalize_match_value_def Let_def same_text_def eq_ignore_ascii_case_def
        then_some_def) (metis to_ascii_case_Nil_iff(1))+
qed

interpretation vid: normaliser normalize_vulnerability_id
proof unfold_locales
  fix s t
  show "normalize_vulnerability_id s = Some t \<Longrightarrow> normalize_vulnerability_id t = Some t"
    by (auto simp: normalize_vulnerability_id_def Let_def trim_to_ascii_uppercase)
  show "normalize_vulnerability_id s = None \<longleftrightarrow> trim s = []"
    by (simp add: normalize_vulnerability_id_def Let_def)
  show "normalize_vulnerability_id s = normalize_vulnerability_id t \<longleftrightarrow> same_text s t"
    by (auto simp: normalize_vulnerability_id_def Let_def same_text_def eq_ignore_ascii_case_def
        then_some_def to_ascii_uppercase_eq_iff [symmetric]) (metis to_ascii_case_Nil_iff(2))+
qed

lemma set_normalized_selector_list [simp]:
  "set (normalized_selector_list vs) = set (List.map_filter normalize_match_value vs)"
  by (simp add: normalized_selector_list_def)

lemma normalized_selector_list_Nil_iff:
  "normalized_selector_list vs = [] \<longleftrightarrow> (\<forall>v \<in> set vs. trim v = [])"
  by (metis mv.map_filter_Nil_iff set_empty set_normalized_selector_list)

lemma normalized_selector_list_sorted:
  "sorted (normalized_selector_list vs) \<and> distinct (normalized_selector_list vs)"
  using sorted_distinct_bts_collect by (simp add: normalized_selector_list_def bts_collect_def)

lemma normalized_selector_list_idem:
  "normalized_selector_list (normalized_selector_list vs) = normalized_selector_list vs"
proof -
  have "List.map_filter normalize_match_value (normalized_selector_list vs) =
      normalized_selector_list vs"
    by (rule map_filter_fixpoint) (auto intro: mv.map_filter_fixed)
  then show ?thesis
    using normalized_selector_list_sorted [of vs]
    by (simp add: normalized_selector_list_def [of "normalized_selector_list vs"] sorted_sort_id
        remdups_adj_distinct)
qed

lemma normalize_match_value_Some_iff:
  "(\<exists>n. normalize_match_value x = Some n) \<longleftrightarrow> trim x \<noteq> []"
  using mv.norm_None_iff [of x] by auto

text \<open>
  What a stored selector list matches: everything, when no entry of the configured list has
  any text; otherwise exactly the values that equal some configured entry up to surrounding white
  space and ASCII case, and never an absent or blank value.
\<close>

theorem selector_list_matches:
  "matches_case_insensitive_selector (normalized_selector_list vs) value \<longleftrightarrow>
     (\<forall>v \<in> set vs. trim v = []) \<or>
     (\<exists>x. value = Some x \<and> trim x \<noteq> [] \<and> (\<exists>v \<in> set vs. same_text v x))"
proof (cases "normalized_selector_list vs = []")
  case True
  then show ?thesis
    by (auto simp: matches_case_insensitive_selector_def normalized_selector_list_Nil_iff)
next
  case False
  have "matches_case_insensitive_selector (normalized_selector_list vs) value \<longleftrightarrow>
      (\<exists>x n. value = Some x \<and> normalize_match_value x = Some n \<and>
         n \<in> set (List.map_filter normalize_match_value vs))"
    using False by (auto simp: matches_case_insensitive_selector_def is_some_and_iff bind_eq_Some_conv)
  also have "\<dots> \<longleftrightarrow> (\<exists>x. value = Some x \<and> trim x \<noteq> [] \<and> (\<exists>v \<in> set vs. same_text v x))"
    using mv.mem_map_filter_iff [of _ _ vs]
    by (auto simp flip: normalize_match_value_Some_iff)
  finally show ?thesis using False by (auto simp: normalized_selector_list_Nil_iff)
qed

theorem selector_list_matches_witness:
  "matches_case_insensitive_selector (normalized_selector_list ['' NPM-Internal '', '' '']) (Some ''npm-internal'')"
proof -
  have "\<exists>v \<in> set ['' NPM-Internal '', '' '']. same_text v ''npm-internal''" by code_simp
  moreover have "trim ''npm-internal'' \<noteq> []" by code_simp
  ultimately show ?thesis by (subst selector_list_matches) blast
qed

end
