(* ===== verification/Severity.thy ===== *)
theory Severity
  imports Complex_Main Prelude
begin

text \<open>
  The severity scale (\<^verbatim>\<open>crates/security/src/severity.rs\<close>) and the reading of scanner scores
  (\<^verbatim>\<open>severity_from_cvss\<close> and \<^verbatim>\<open>severity_from_text_or_score\<close> of \<^verbatim>\<open>crates/security/src/osv.rs\<close>).

  A finite \<^verbatim>\<open>f64\<close> is a mantissa and a binary exponent; \<open>round_f64\<close> rounds a fraction to nearest, ties to even,
  with 53 significant bits, gradual underflow at \<open>2 ^ -1074\<close> and overflow to infinity, and
  \<open>parse_f64\<close> is \<^verbatim>\<open>str::parse::<f64>()\<close>. The sign of a zero is not kept: no comparison sees it.
\<close>

section \<open>The scale\<close>

datatype severity = Low | Medium | High | Critical

definition severity_rank :: "severity \<Rightarrow> nat" where
  "severity_rank s = (case s of Low \<Rightarrow> 0 | Medium \<Rightarrow> 1 | High \<Rightarrow> 2 | Critical \<Rightarrow> 3)"

lemma severity_rank_inject: "severity_rank s = severity_rank t \<longleftrightarrow> s = t"
  by (cases s; cases t) (simp_all add: severity_rank_def)

text \<open>The derived \<^verbatim>\<open>Ord\<close>: the order of the variants.\<close>

instantiation severity :: linorder
begin

definition less_eq_severity :: "severity \<Rightarrow> severity \<Rightarrow> bool" where
  "s \<le> t \<longleftrightarrow> severity_rank s \<le> severity_rank t"

definition less_severity :: "severity \<Rightarrow> severity \<Rightarrow> bool" where
  "s < t \<longleftrightarrow> severity_rank s < severity_rank t"

instance
  by standard (auto simp: less_eq_severity_def less_severity_def severity_rank_inject)

end

definition severity_all :: "severity list" where
  "severity_all = [Low, Medium, High, Critical]"

fun severity_as_str :: "severity \<Rightarrow> string" where
  "severity_as_str Low = ''LOW''"
| "severity_as_str Medium = ''MEDIUM''"
| "severity_as_str High = ''HIGH''"
| "severity_as_str Critical = ''CRITICAL''"

datatype severity_parse_error = Severity_Parse_Error (spe_input: string)

definition severity_from_str :: "string \<Rightarrow> severity_parse_error + severity" where
  "severity_from_str input =
     (let u = to_ascii_uppercase (trim input)
      in if u = ''LOW'' then Inr Low
         else if u = ''MEDIUM'' \<or> u = ''MODERATE'' then Inr Medium
         else if u = ''HIGH'' then Inr High
         else if u = ''CRITICAL'' then Inr Critical
         else Inl (Severity_Parse_Error input))"

lemma set_severity_all [simp]: "set severity_all = UNIV"
  using severity.exhaust by (auto simp: severity_all_def)

lemma distinct_severity_all: "distinct severity_all"
  by (simp add: severity_all_def)

lemma severity_from_str_as_str: "severity_from_str (severity_as_str s) = Inr s"
  by (induction s) (code_simp+)

text \<open>Only the trimmed, case-folded text is read.\<close>

lemma severity_from_str_cong:
  "to_ascii_lowercase (trim s) = to_ascii_lowercase (trim t) \<Longrightarrow>
   ok (severity_from_str s) = ok (severity_from_str t)"
  by (auto simp: severity_from_str_def Let_def to_ascii_uppercase_eq_iff [symmetric])

section \<open>Floating point\<close>

text \<open>\<open>Fin m e\<close> is the number \<open>m * 2 ^ e\<close>.\<close>

datatype f64 = NaN | Inf bool | Fin int int

fun bit_length :: "int \<Rightarrow> int" where
  "bit_length n = (if n \<le> 0 then 0 else 1 + bit_length (n div 2))"

declare bit_length.simps [simp del]

text \<open>The two sides of a fraction scaled by \<open>2 ^ - e\<close>.\<close>

definition scale2 :: "int \<Rightarrow> int \<times> int \<Rightarrow> int \<times> int" where
  "scale2 e q = (if 0 \<le> e then (fst q, snd q * 2 ^ nat e) else (fst q * 2 ^ nat (- e), snd q))"

definition log2_floor :: "int \<times> int \<Rightarrow> int" where
  "log2_floor q =
     (let k = bit_length (fst q) - bit_length (snd q); (a, b) = scale2 k q
      in if b \<le> a then k else k - 1)"

definition div_half_even :: "int \<times> int \<Rightarrow> int" where
  "div_half_even q =
     (let f = fst q div snd q; r = fst q mod snd q
      in if 2 * r < snd q then f
         else if snd q < 2 * r then f + 1
         else if even f then f else f + 1)"

text \<open>The number nearest to the non-negative fraction \<open>q\<close>, negated when \<open>neg\<close>.\<close>

definition round_f64 :: "bool \<Rightarrow> int \<times> int \<Rightarrow> f64" where
  "round_f64 neg q =
     (if fst q = 0 then Fin 0 0
      else let e = max (log2_floor q - 52) (- 1074); m = div_half_even (scale2 e q)
           in if 1024 < bit_length m + e then Inf neg
              else Fin (if neg then - m else m) e)"

definition int_of_digits :: "string \<Rightarrow> int" where
  "int_of_digits s = foldl (\<lambda>n c. 10 * n + int (digit_val c)) 0 s"

definition split_sign :: "string \<Rightarrow> bool \<times> string" where
  "split_sign s =
     (case s of [] \<Rightarrow> (False, [])
      | c # cs \<Rightarrow> if c = CHR ''-'' then (True, cs) else if c = CHR ''+'' then (False, cs)
                else (False, s))"

text \<open>The fraction that a decimal numeral denotes.\<close>

definition decimal_value :: "string \<Rightarrow> string \<Rightarrow> int \<Rightarrow> int \<times> int" where
  "decimal_value ip fp ex =
     (let m = int_of_digits (ip @ fp); k = ex - int (length fp)
      in if 0 \<le> k then (m * 10 ^ nat k, 1) else (m, 10 ^ nat (- k)))"

definition parse_f64 :: "string \<Rightarrow> f64 option" where
  "parse_f64 s =
     (let (neg, r) = split_sign s
      in if eq_ignore_ascii_case r ''inf'' \<or> eq_ignore_ascii_case r ''infinity'' then Some (Inf neg)
         else if eq_ignore_ascii_case r ''nan'' then Some NaN
         else let ip = takeWhile is_ascii_digit r; r1 = dropWhile is_ascii_digit r;
                  dot = (r1 \<noteq> [] \<and> hd r1 = CHR ''.'');
                  fp = (if dot then takeWhile is_ascii_digit (tl r1) else []);
                  r2 = (if dot then dropWhile is_ascii_digit (tl r1) else r1)
              in if ip @ fp = [] then None
                 else case r2 of
                   [] \<Rightarrow> Some (round_f64 neg (decimal_value ip fp 0))
                 | c # t \<Rightarrow>
                     if c = CHR ''e'' \<or> c = CHR ''E'' then
                       (let (eneg, ds) = split_sign t
                        in if ds = [] \<or> \<not> list_all is_ascii_digit ds then None
                           else Some (round_f64 neg (decimal_value ip fp
                                  (if eneg then - int_of_digits ds
                                   else int_of_digits ds))))
                     else None)"

text \<open>Comparison; false as soon as one side is not a number.\<close>

fun f64_le :: "f64 \<Rightarrow> f64 \<Rightarrow> bool" where
  "f64_le NaN _ = False"
| "f64_le _ NaN = False"
| "f64_le (Inf True) _ = True"
| "f64_le (Inf False) b = (b = Inf False)"
| "f64_le (Fin _ _) (Inf neg) = (\<not> neg)"
| "f64_le (Fin m e) (Fin n f) = (m * 2 ^ nat (e - min e f) \<le> n * 2 ^ nat (f - min e f))"

definition f64_lt :: "f64 \<Rightarrow> f64 \<Rightarrow> bool" where
  "f64_lt a b \<longleftrightarrow> f64_le a b \<and> \<not> f64_le b a"

definition f64_lit :: "int \<Rightarrow> int \<Rightarrow> f64" where
  "f64_lit n d = round_f64 False (n, d)"

section \<open>Scores\<close>

definition severity_from_cvss :: "f64 \<Rightarrow> severity option" where
  "severity_from_cvss score =
     (if f64_le (f64_lit 9 1) score \<and> f64_le score (f64_lit 10 1) then Some Critical
      else if f64_le (f64_lit 7 1) score \<and> f64_lt score (f64_lit 9 1) then Some High
      else if f64_le (f64_lit 4 1) score \<and> f64_lt score (f64_lit 7 1) then Some Medium
      else if f64_le (f64_lit 1 10) score \<and> f64_lt score (f64_lit 4 1) then Some Low
      else None)"

definition severity_from_text_or_score :: "string \<Rightarrow> severity option" where
  "severity_from_text_or_score value =
     or_else (ok (severity_from_str value))
       (Option.bind (parse_f64 value) severity_from_cvss)"

text \<open>The value of a finite number, as a rational.\<close>

definition pow2 :: "int \<Rightarrow> rat" where
  "pow2 e = (if 0 \<le> e then 2 ^ nat e else 1 / 2 ^ nat (- e))"

definition fin_val :: "int \<Rightarrow> int \<Rightarrow> rat" where
  "fin_val m e = of_int m * pow2 e"

lemma pow2_pos [simp]: "0 < pow2 e"
  by (simp add: pow2_def)

lemma pow2_powi: "pow2 e = 2 powi e"
  by (simp add: pow2_def power_int_def inverse_eq_divide power_one_over)

lemma pow2_diff: "0 \<le> d \<Longrightarrow> pow2 (e + d) = pow2 e * 2 ^ nat d"
  by (simp add: pow2_powi power_int_add) (simp add: power_int_def)

lemma f64_le_Fin: "f64_le (Fin m e) (Fin n f) \<longleftrightarrow> fin_val m e \<le> fin_val n f"
proof -
  define k where "k = min e f"
  have e: "fin_val m e = of_int (m * 2 ^ nat (e - k)) * pow2 k"
    using pow2_diff [of "e - k" k] by (simp add: fin_val_def k_def)
  have f: "fin_val n f = of_int (n * 2 ^ nat (f - k)) * pow2 k"
    using pow2_diff [of "f - k" k] by (simp add: fin_val_def k_def)
  have "fin_val m e \<le> fin_val n f \<longleftrightarrow> m * 2 ^ nat (e - k) \<le> n * 2 ^ nat (f - k)"
    unfolding e f by (simp only: mult_le_cancel_right_pos pow2_pos of_int_le_iff)
  then show ?thesis by (simp add: k_def)
qed

lemma f64_lits:
  "f64_lit 9 1 = Fin 5066549580791808 (- 49)" "f64_lit 10 1 = Fin 5629499534213120 (- 49)"
  "f64_lit 7 1 = Fin 7881299347898368 (- 50)" "f64_lit 4 1 = Fin 4503599627370496 (- 50)"
  "f64_lit 1 10 = Fin 7205759403792794 (- 56)"
  by code_simp+

text \<open>The least score that is rated: the \<^verbatim>\<open>f64\<close> nearest to one tenth.\<close>

definition cvss_min :: rat where
  "cvss_min = fin_val 7205759403792794 (- 56)"

lemma fin_val_lits:
  "fin_val 5066549580791808 (- 49) = 9" "fin_val 5629499534213120 (- 49) = 10"
  "fin_val 7881299347898368 (- 50) = 7" "fin_val 4503599627370496 (- 50) = 4"
  by (simp_all add: fin_val_def pow2_def)

lemma severity_from_cvss_Fin:
  "severity_from_cvss (Fin m e) =
     (let v = fin_val m e
      in if 9 \<le> v \<and> v \<le> 10 then Some Critical
         else if 7 \<le> v \<and> v < 9 then Some High
         else if 4 \<le> v \<and> v < 7 then Some Medium
         else if cvss_min \<le> v \<and> v < 4 then Some Low
         else None)"
  by (simp only: severity_from_cvss_def f64_lits f64_lt_def f64_le_Fin fin_val_lits
      cvss_min_def [symmetric] Let_def not_le) auto

lemma severity_from_cvss_special [simp]:
  "severity_from_cvss NaN = None" "severity_from_cvss (Inf b) = None"
proof -
  show "severity_from_cvss NaN = None" by (simp add: severity_from_cvss_def f64_lt_def f64_lits)
  show "severity_from_cvss (Inf b) = None"
    by (cases b) (simp_all add: severity_from_cvss_def f64_lt_def f64_lits)
qed

text \<open>
  A higher score is never rated lower: among the scores that \<^verbatim>\<open>severity_from_cvss\<close> rates at
  all, the rating is monotone in the score.
\<close>

theorem severity_from_cvss_mono:
  assumes "severity_from_cvss x = Some s" "severity_from_cvss y = Some t" "f64_le x y"
  shows "s \<le> t"
proof -
  obtain m e where x: "x = Fin m e" using assms(1) by (cases x) auto
  obtain n f where y: "y = Fin n f" using assms(2) by (cases y) auto
  have "fin_val m e \<le> fin_val n f" using assms(3) by (simp only: x y f64_le_Fin)
  with assms(1,2) show ?thesis
    by (auto simp: x y severity_from_cvss_Fin Let_def less_eq_severity_def severity_rank_def
        split: if_splits)
qed

theorem severity_from_cvss_mono_witness:
  "severity_from_cvss (f64_lit 75 10) = Some High \<and> severity_from_cvss (f64_lit 98 10) = Some Critical
   \<and> f64_le (f64_lit 75 10) (f64_lit 98 10) \<and> High \<le> Critical"
proof -
  have h: "severity_from_cvss (f64_lit 75 10) = Some High"
    "severity_from_cvss (f64_lit 98 10) = Some Critical"
    "f64_le (f64_lit 75 10) (f64_lit 98 10)"
    by code_simp+
  with severity_from_cvss_mono [OF h] show ?thesis by simp
qed

text \<open>
  Parsing a severity undoes printing it, whatever ASCII case and surrounding white space the
  text has: any text that trims and folds to the printed form of a severity is read as it.
\<close>

theorem severity_parse_print:
  assumes "to_ascii_lowercase (trim s) = to_ascii_lowercase (severity_as_str v)"
  shows "severity_from_str s = Inr v"
proof -
  have "to_ascii_uppercase (trim s) = to_ascii_uppercase (severity_as_str v)"
    using assms by (simp add: to_ascii_uppercase_eq_iff)
  moreover have "to_ascii_uppercase (severity_as_str v) = severity_as_str v"
    by (induction v) (code_simp+)
  ultimately show ?thesis by (cases v) (simp_all add: severity_from_str_def)
qed

theorem severity_parse_print_witness: "severity_from_str ''  Critical '' = Inr Critical"
proof -
  have h: "to_ascii_lowercase (trim ''  Critical '') = to_ascii_lowercase (severity_as_str Critical)"
    by code_simp
  from severity_parse_print [OF h] show ?thesis .
qed

end
