(* ===== verification/Target.thy ===== *)
theory Target
  imports Normalize Severity
begin

text \<open>
  Scan targets (\<^verbatim>\<open>crates/security/src/target.rs\<close>) and vulnerabilities
  (\<^verbatim>\<open>crates/security/src/vulnerability.rs\<close>).
\<close>

section \<open>Targets\<close>

datatype package_identity =
    Osv (osv_ecosystem: string) (osv_name: string)
  | Purl (purl: string)
  | GitCommit (commit: string)

record package_coordinate =
  pc_source_format :: string
  pc_identity :: package_identity
  pc_version :: "string option"

record artifact_target =
  at_source_format :: string
  at_uri :: string
  at_digest :: "string option"

datatype scan_target = Package package_coordinate | Artifact artifact_target

definition from_osv :: "string \<Rightarrow> string \<Rightarrow> string \<Rightarrow> package_coordinate" where
  "from_osv ecosystem name version =
     \<lparr>pc_source_format = ecosystem, pc_identity = Osv ecosystem name, pc_version = Some version\<rparr>"

definition from_purl :: "string \<Rightarrow> string \<Rightarrow> string option \<Rightarrow> package_coordinate" where
  "from_purl source_format p version =
     \<lparr>pc_source_format = source_format, pc_identity = Purl p, pc_version = version\<rparr>"

definition from_git_commit :: "string \<Rightarrow> package_coordinate" where
  "from_git_commit c = \<lparr>pc_source_format = ''git'', pc_identity = GitCommit c, pc_version = None\<rparr>"

definition artifact_new :: "string \<Rightarrow> string \<Rightarrow> artifact_target" where
  "artifact_new source_format uri =
     \<lparr>at_source_format = source_format, at_uri = uri, at_digest = None\<rparr>"

definition artifact_with_digest :: "string \<Rightarrow> string \<Rightarrow> string \<Rightarrow> artifact_target" where
  "artifact_with_digest source_format uri digest =
     \<lparr>at_source_format = source_format, at_uri = uri, at_digest = Some digest\<rparr>"

fun cache_namespace :: "scan_target \<Rightarrow> string" where
  "cache_namespace (Package p) = pc_source_format p"
| "cache_namespace (Artifact a) = at_source_format a"

fun cache_identifier :: "scan_target \<Rightarrow> string" where
  "cache_identifier (Package p) =
     (case pc_identity p of
        Osv ecosystem name \<Rightarrow> ecosystem @ ''/'' @ name
      | Purl p' \<Rightarrow> p'
      | GitCommit c \<Rightarrow> c)"
| "cache_identifier (Artifact a) = unwrap_or (at_digest a) (at_uri a)"

fun cache_version :: "scan_target \<Rightarrow> string option" where
  "cache_version (Package p) = pc_version p"
| "cache_version (Artifact a) = None"

fun display_name :: "scan_target \<Rightarrow> string" where
  "display_name (Package p) =
     (case pc_identity p of
        Osv ecosystem name \<Rightarrow>
          (case pc_version p of
             Some version \<Rightarrow> ecosystem @ '':'' @ name @ ''@'' @ version
           | None \<Rightarrow> ecosystem @ '':'' @ name)
      | Purl p' \<Rightarrow> p'
      | GitCommit c \<Rightarrow> ''git commit '' @ c)"
| "display_name (Artifact a) =
     (case at_digest a of
        Some digest \<Rightarrow> at_source_format a @ '' artifact '' @ digest
      | None \<Rightarrow> at_source_format a @ '' artifact '' @ at_uri a)"

definition normalize_repository_format :: "string \<Rightarrow> string" where
  "normalize_repository_format fmt = alnum_lower fmt"

definition default_osv_ecosystem_for_format :: "string \<Rightarrow> string option" where
  "default_osv_ecosystem_for_format repository_format =
     (let f = normalize_repository_format repository_format
      in if f \<in> {''cargo'', ''rust'', ''rustcargo''} then Some ''crates.io''
         else if f \<in> {''go'', ''golang''} then Some ''Go''
         else if f \<in> {''maven'', ''maven2''} then Some ''Maven''
         else if f \<in> {''npm'', ''node''} then Some ''npm''
         else if f \<in> {''pypi'', ''python''} then Some ''PyPI''
         else None)"

section \<open>Vulnerabilities\<close>

record reference =
  ref_url :: string
  ref_kind :: "string option"

record vulnerability =
  v_id :: string
  v_aliases :: "string list"
  v_summary :: "string option"
  v_details :: "string option"
  v_severity :: "severity option"
  v_references :: "reference list"
  v_component_name :: "string option"
  v_component_version :: "string option"
  v_fixed_versions :: "string list"

definition identifiers :: "vulnerability \<Rightarrow> string list" where
  "identifiers v = v_id v # v_aliases v"

definition mitigation :: "vulnerability \<Rightarrow> string \<Rightarrow> string option" where
  "mitigation v fallback_component =
     then_some (v_fixed_versions v \<noteq> [])
       (''Upgrade '' @ unwrap_or (v_component_name v) fallback_component
        @ '' to a fixed version: '' @ join '', '' (v_fixed_versions v))"

definition push_version :: "string list \<Rightarrow> string \<Rightarrow> string list" where
  "push_version known version =
     (if version \<noteq> [] \<and> version \<notin> set known then known @ [version] else known)"

definition normalized_fixed_versions :: "string list \<Rightarrow> string list" where
  "normalized_fixed_versions versions =
     foldl (\<lambda>known v. foldl push_version known (map trim (split_on (CHR '','') v))) [] versions"

lemma push_version_inv:
  assumes "distinct known" "[] \<notin> set known"
  shows "distinct (foldl push_version known vs) \<and>
    set (foldl push_version known vs) = set known \<union> {v \<in> set vs. v \<noteq> []}"
  using assms
proof (induction vs arbitrary: known)
  case Nil
  then show ?case by simp
next
  case (Cons v vs)
  have "distinct (push_version known v)" "[] \<notin> set (push_version known v)"
    "set (push_version known v) = set known \<union> (if v \<noteq> [] then {v} else {})"
    using Cons.prems by (auto simp: push_version_def)
  with Cons.IH [of "push_version known v"] show ?case by auto
qed

lemma fixed_versions_inv:
  assumes "distinct known" "[] \<notin> set known"
  shows "distinct (foldl (\<lambda>k v. foldl push_version k (map trim (split_on c v))) known vs) \<and>
    set (foldl (\<lambda>k v. foldl push_version k (map trim (split_on c v))) known vs) =
      set known \<union> {p. p \<noteq> [] \<and> (\<exists>v \<in> set vs. p \<in> trim ` set (split_on c v))}"
  using assms
proof (induction vs arbitrary: known)
  case Nil
  then show ?case by simp
next
  case (Cons v vs)
  let ?k = "foldl push_version known (map trim (split_on c v))"
  have k: "distinct ?k" "set ?k = set known \<union> {p \<in> trim ` set (split_on c v). p \<noteq> []}"
    using push_version_inv [OF Cons.prems, of "map trim (split_on c v)"] by auto
  then have "[] \<notin> set ?k" using Cons.prems by auto
  with Cons.IH [of ?k] k show ?case by auto
qed

text \<open>
  The fixed versions of a report are the non-empty, trimmed, comma-separated pieces of the
  scanner's texts, each exactly once.
\<close>

theorem normalized_fixed_versions_spec:
  "distinct (normalized_fixed_versions vs) \<and>
   set (normalized_fixed_versions vs) =
     {p. p \<noteq> [] \<and> (\<exists>v \<in> set vs. \<exists>q \<in> set (split_on (CHR '','') v). p = trim q)}"
  using fixed_versions_inv [of "[]" "CHR '',''" vs]
  by (auto simp: normalized_fixed_versions_def)

lemma cache_parts_inject_osv:
  "(cache_namespace (Package (from_osv e n v)), cache_identifier (Package (from_osv e n v)),
    cache_version (Package (from_osv e n v))) =
   (cache_namespace (Package (from_osv e' n' v')), cache_identifier (Package (from_osv e' n' v')),
    cache_version (Package (from_osv e' n' v')))
   \<longleftrightarrow> e = e' \<and> n = n' \<and> v = v'"
  by (auto simp: from_osv_def)

end
