(* ===== verification/Policy_Model.thy ===== *)
theory Policy_Model
  imports Target
begin

text \<open>
  The policy data model (\<^verbatim>\<open>crates/security/src/policy/model.rs\<close>): policies and their limits,
  scopes, exceptions, policy sets and their selection rules, evaluation results and block reports.

  \<^verbatim>\<open>time::OffsetDateTime\<close> is an instant (nanoseconds since the epoch) with a display offset and is
  compared by its instant; the crate's RFC 3339 parser and printers are the parameter \<open>time_lib\<close>.
\<close>

section \<open>Time\<close>

record offset_date_time =
  odt_nanos :: int
  odt_offset :: int

definition odt_less :: "offset_date_time \<Rightarrow> offset_date_time \<Rightarrow> bool" where
  "odt_less a b \<longleftrightarrow> odt_nanos a < odt_nanos b"

record time_lib =
  rfc3339_format :: "offset_date_time \<Rightarrow> string option"
  rfc3339_parse :: "string \<Rightarrow> string + offset_date_time"
  odt_to_string :: "offset_date_time \<Rightarrow> string"
  odt_unix_timestamp :: "offset_date_time \<Rightarrow> string"

definition format_rfc3339 :: "time_lib \<Rightarrow> offset_date_time \<Rightarrow> string" where
  "format_rfc3339 tlib value = unwrap_or (rfc3339_format tlib value) (odt_to_string tlib value)"

section \<open>Policies and limits\<close>

record vulnerability_limits =
  lim_total :: "u32 option"
  lim_low :: "u32 option"
  lim_medium :: "u32 option"
  lim_high :: "u32 option"
  lim_critical :: "u32 option"

definition no_limits :: vulnerability_limits where
  "no_limits = \<lparr>lim_total = None, lim_low = None, lim_medium = None, lim_high = None,
     lim_critical = None\<rparr>"

fun for_severity :: "vulnerability_limits \<Rightarrow> severity \<Rightarrow> u32 option" where
  "for_severity l Low = lim_low l"
| "for_severity l Medium = lim_medium l"
| "for_severity l High = lim_high l"
| "for_severity l Critical = lim_critical l"

record security_policy =
  minimum_blocking_severity :: severity
  allowed_vulnerability_ids :: "string btree_set"
  limits :: vulnerability_limits

definition default_security_policy :: security_policy where
  "default_security_policy =
     \<lparr>minimum_blocking_severity = High, allowed_vulnerability_ids = [], limits = no_limits\<rparr>"

definition security_policy_new ::
  "severity \<Rightarrow> string list \<Rightarrow> vulnerability_limits \<Rightarrow> security_policy" where
  "security_policy_new minimum ids lims =
     \<lparr>minimum_blocking_severity = minimum,
      allowed_vulnerability_ids = bts_collect (List.map_filter normalize_vulnerability_id ids),
      limits = lims\<rparr>"

definition allows_vulnerability :: "security_policy \<Rightarrow> vulnerability \<Rightarrow> bool" where
  "allows_vulnerability p v \<longleftrightarrow>
     (\<exists>i \<in> set (identifiers v).
        is_some_and (normalize_vulnerability_id i)
          (\<lambda>n. \<exists>a \<in> set (allowed_vulnerability_ids p). normalize_vulnerability_id a = Some n))"

definition effective_limit :: "security_policy \<Rightarrow> severity \<Rightarrow> u32 option" where
  "effective_limit p s =
     or_else (for_severity (limits p) s) (then_some (minimum_blocking_severity p \<le> s) 0)"

section \<open>Errors and enforcement mode\<close>

datatype policy_set_error =
    PolicyParse string
  | MissingPolicyId nat
  | EmptyField string string
  | DuplicatePolicyId string
  | DuplicateExceptionId string
  | InvalidExceptionExpiry string string string
  | EmptyExceptionVulnerabilityIds string

fun policy_set_error_display :: "policy_set_error \<Rightarrow> string" where
  "policy_set_error_display (PolicyParse e) = ''invalid policy file TOML: '' @ e"
| "policy_set_error_display (MissingPolicyId i) =
     ''policy id is required for [[policies]] entry at index '' @ show_nat i"
| "policy_set_error_display (EmptyField entity field) =
     entity @ '' field '' @ field @ '' must not be empty''"
| "policy_set_error_display (DuplicatePolicyId i) = ''duplicate policy id: '' @ i"
| "policy_set_error_display (DuplicateExceptionId i) = ''duplicate exception id: '' @ i"
| "policy_set_error_display (InvalidExceptionExpiry i expiry _) =
     ''invalid expires_at for exception '' @ i @ '': '' @ expiry"
| "policy_set_error_display (EmptyExceptionVulnerabilityIds i) =
     ''exception '' @ i @ '' must list at least one vulnerability id''"

datatype enforcement_mode = Enforce | ReportOnly

fun mode_as_str :: "enforcement_mode \<Rightarrow> string" where
  "mode_as_str Enforce = ''enforce''"
| "mode_as_str ReportOnly = ''report_only''"

definition mode_from_str :: "string \<Rightarrow> enforcement_mode option" where
  "mode_from_str input =
     (let l = to_ascii_lowercase (trim input)
      in if l \<in> {''enforce'', ''enforced'', ''block'', ''blocking''} then Some Enforce
         else if l \<in> {''report_only'', ''report-only'', ''reportonly'', ''audit''} then Some ReportOnly
         else None)"

section \<open>Contexts, scopes, rules and exceptions\<close>

record policy_context =
  ctx_repository :: string
  ctx_format :: string
  ctx_team :: "string option"

definition policy_context_new :: "string \<Rightarrow> string \<Rightarrow> string option \<Rightarrow> policy_context" where
  "policy_context_new repository format team =
     \<lparr>ctx_repository = normalize_context_value repository ''default'',
      ctx_format = normalize_context_value format ''generic'',
      ctx_team = Option.bind team normalize_match_value\<rparr>"

record policy_scope =
  sc_repositories :: "string list"
  sc_formats :: "string list"
  sc_teams :: "string list"

definition default_scope :: policy_scope where
  "default_scope = \<lparr>sc_repositories = [], sc_formats = [], sc_teams = []\<rparr>"

definition policy_scope_new :: "string list \<Rightarrow> string list \<Rightarrow> string list \<Rightarrow> policy_scope" where
  "policy_scope_new repositories formats teams =
     \<lparr>sc_repositories = normalized_selector_list repositories,
      sc_formats = normalized_selector_list formats,
      sc_teams = normalized_selector_list teams\<rparr>"

definition scope_matches :: "policy_scope \<Rightarrow> policy_context \<Rightarrow> bool" where
  "scope_matches s c \<longleftrightarrow>
     matches_case_insensitive_selector (sc_repositories s) (Some (ctx_repository c)) \<and>
     matches_case_insensitive_selector (sc_formats s) (Some (ctx_format c)) \<and>
     matches_case_insensitive_selector (sc_teams s) (ctx_team c)"

record policy_rule =
  rule_id :: string
  rule_mode :: enforcement_mode
  rule_scope :: policy_scope
  rule_policy :: security_policy

record repository_policy =
  rp_team :: string

record policy_exception_scope =
  es_repositories :: "string list"
  es_formats :: "string list"
  es_teams :: "string list"
  es_packages :: "string list"
  es_versions :: "string list"

definition exception_scope_new ::
  "string list \<Rightarrow> string list \<Rightarrow> string list \<Rightarrow> string list \<Rightarrow> string list \<Rightarrow> policy_exception_scope"
where
  "exception_scope_new repositories formats teams packages versions =
     \<lparr>es_repositories = normalized_selector_list repositories,
      es_formats = normalized_selector_list formats,
      es_teams = normalized_selector_list teams,
      es_packages = normalized_selector_list packages,
      es_versions = normalized_selector_list versions\<rparr>"

fun target_policy_package_name :: "scan_target \<Rightarrow> string" where
  "target_policy_package_name (Package p) =
     (case pc_identity p of Osv _ name \<Rightarrow> name | Purl p' \<Rightarrow> p' | GitCommit c \<Rightarrow> c)"
| "target_policy_package_name (Artifact a) = unwrap_or (at_digest a) (at_uri a)"

definition exception_scope_matches ::
  "policy_exception_scope \<Rightarrow> policy_context \<Rightarrow> scan_target \<Rightarrow> bool" where
  "exception_scope_matches s c t \<longleftrightarrow>
     matches_case_insensitive_selector (es_repositories s) (Some (ctx_repository c)) \<and>
     matches_case_insensitive_selector (es_formats s) (Some (ctx_format c)) \<and>
     matches_case_insensitive_selector (es_teams s) (ctx_team c) \<and>
     matches_case_insensitive_selector (es_packages s) (Some (target_policy_package_name t)) \<and>
     matches_case_insensitive_selector (es_versions s) (cache_version t)"

record policy_exception =
  ex_id :: string
  ex_owner :: string
  ex_ticket :: string
  ex_reason :: string
  ex_expires_at :: offset_date_time
  ex_vulnerability_ids :: "string btree_set"
  ex_scope :: policy_exception_scope

definition is_active_at :: "policy_exception \<Rightarrow> offset_date_time \<Rightarrow> bool" where
  "is_active_at e now \<longleftrightarrow> odt_less now (ex_expires_at e)"

definition matches_vulnerability :: "policy_exception \<Rightarrow> vulnerability \<Rightarrow> bool" where
  "matches_vulnerability e v \<longleftrightarrow>
     (\<exists>i \<in> set (identifiers v).
        is_some_and (normalize_vulnerability_id i) (bts_contains (ex_vulnerability_ids e)))"

record policy_exception_metadata =
  em_id :: string
  em_owner :: string
  em_ticket :: string
  em_reason :: string
  em_expires_at :: string
  em_vulnerability_ids :: "string list"

definition metadata_from_exception :: "time_lib \<Rightarrow> policy_exception \<Rightarrow> policy_exception_metadata"
where
  "metadata_from_exception tlib e =
     \<lparr>em_id = ex_id e, em_owner = ex_owner e, em_ticket = ex_ticket e, em_reason = ex_reason e,
      em_expires_at = format_rfc3339 tlib (ex_expires_at e),
      em_vulnerability_ids = ex_vulnerability_ids e\<rparr>"

section \<open>Policy sets\<close>

record policy_set =
  ps_default_policy :: policy_rule
  ps_repositories :: "(string, repository_policy) btree_map"
  ps_policies :: "policy_rule list"
  ps_exceptions :: "policy_exception list"

definition from_legacy_policy :: "security_policy \<Rightarrow> policy_set" where
  "from_legacy_policy p =
     \<lparr>ps_default_policy =
        \<lparr>rule_id = ''default'', rule_mode = Enforce, rule_scope = default_scope, rule_policy = p\<rparr>,
      ps_repositories = [], ps_policies = [], ps_exceptions = []\<rparr>"

definition default_policy_set :: policy_set where
  "default_policy_set = from_legacy_policy default_security_policy"

definition team_for_repository :: "policy_set \<Rightarrow> string \<Rightarrow> string option" where
  "team_for_repository ps repository =
     (case normalize_match_value repository of
        None \<Rightarrow> None
      | Some normalized \<Rightarrow>
          map_option (\<lambda>(_, r). rp_team r)
            (find (\<lambda>(candidate, _). normalize_match_value candidate = Some normalized)
               (ps_repositories ps)))"

definition policy_set_context :: "policy_set \<Rightarrow> string \<Rightarrow> string \<Rightarrow> policy_context" where
  "policy_set_context ps repository format =
     policy_context_new repository format (team_for_repository ps repository)"

definition select_policy :: "policy_set \<Rightarrow> policy_context \<Rightarrow> policy_rule" where
  "select_policy ps c =
     unwrap_or (find (\<lambda>p. scope_matches (rule_scope p) c) (ps_policies ps)) (ps_default_policy ps)"

section \<open>Evaluation results and block reports\<close>

record policy_violation =
  pv_reason :: string

record block_report =
  br_target :: scan_target
  br_reason :: string
  br_policy_id :: "string option"
  br_policy_violations :: "policy_violation list"
  br_vulnerabilities :: "vulnerability list"

datatype policy_outcome = Allowed | ReportOnlyOutcome block_report | Blocked block_report

record policy_evaluation =
  pe_outcome :: policy_outcome
  pe_policy_id :: string
  pe_mode :: enforcement_mode
  pe_applied_exceptions :: "policy_exception_metadata list"
  pe_expired_exceptions :: "policy_exception_metadata list"

definition evaluation_is_blocked :: "policy_evaluation \<Rightarrow> bool" where
  "evaluation_is_blocked e = (case pe_outcome e of Blocked _ \<Rightarrow> True | _ \<Rightarrow> False)"

definition unsupported_report :: "scan_target \<Rightarrow> string \<Rightarrow> block_report" where
  "unsupported_report t reason =
     \<lparr>br_target = t, br_reason = reason, br_policy_id = None, br_policy_violations = [],
      br_vulnerabilities = []\<rparr>"

abbreviation newline :: string where
  "newline \<equiv> [CHR 0x0A]"

definition vulnerability_text :: "vulnerability \<Rightarrow> string" where
  "vulnerability_text v =
     ''- '' @ v_id v @ '' ['' @ (case v_severity v of None \<Rightarrow> ''UNKNOWN'' | Some s \<Rightarrow> severity_as_str s)
     @ '']''
     @ (if v_aliases v = [] then [] else '' aliases='' @ join '','' (v_aliases v))
     @ (case v_summary v of None \<Rightarrow> [] | Some s \<Rightarrow> '': '' @ s)
     @ newline
     @ concat (map (\<lambda>r. ''  ref: '' @ ref_url r @ newline) (v_references v))"

definition to_plain_text :: "block_report \<Rightarrow> string" where
  "to_plain_text r =
     ''Package blocked by nexus-sec-proxy'' @ newline @ newline @ ''Target: ''
     @ display_name (br_target r) @ newline @ ''Reason: '' @ br_reason r @ newline
     @ (case br_policy_id r of None \<Rightarrow> [] | Some i \<Rightarrow> ''Policy: '' @ i @ newline)
     @ (if br_policy_violations r = [] then []
        else newline @ ''Policy violations:'' @ newline
             @ concat (map (\<lambda>v. ''- '' @ pv_reason v @ newline) (br_policy_violations r)))
     @ (if br_vulnerabilities r = [] then []
        else newline @ ''Vulnerabilities:'' @ newline
             @ concat (map vulnerability_text (br_vulnerabilities r)))"

datatype scan_decision = ScanAllowed | ScanBlocked block_report

section \<open>Lemmas\<close>

lemma mode_from_str_as_str: "mode_from_str (mode_as_str m) = Some m"
  by (induction m) (code_simp+)

lemma effective_limit_None_iff:
  "effective_limit p s = None \<longleftrightarrow> for_severity (limits p) s = None \<and> s < minimum_blocking_severity p"
  by (auto simp: effective_limit_def not_le)

text \<open>The allow list works on identifiers up to white space and case.\<close>

lemma allows_vulnerability_iff:
  "allows_vulnerability p v \<longleftrightarrow>
     (\<exists>i \<in> set (identifiers v). trim i \<noteq> [] \<and>
        (\<exists>a \<in> set (allowed_vulnerability_ids p). same_text a i))"
proof -
  have "is_some_and (normalize_vulnerability_id i)
      (\<lambda>n. \<exists>a \<in> A. normalize_vulnerability_id a = Some n) \<longleftrightarrow>
      trim i \<noteq> [] \<and> (\<exists>a \<in> A. same_text a i)" for i A
    using vid.norm_None_iff [of i] by (auto simp: is_some_and_iff simp flip: vid.norm_eq_iff)
  then show ?thesis by (simp add: allows_vulnerability_def)
qed

lemma set_security_policy_new:
  "set (allowed_vulnerability_ids (security_policy_new m ids l)) =
     set (List.map_filter normalize_vulnerability_id ids)"
  by (simp add: security_policy_new_def)

lemma context_repository_fixed:
  "normalize_match_value (ctx_repository (policy_context_new r f t)) =
     Some (ctx_repository (policy_context_new r f t))"
proof (cases "normalize_match_value r")
  case None
  then show ?thesis by (simp add: policy_context_new_def normalize_context_value_def) code_simp
next
  case (Some n)
  then show ?thesis
    by (simp add: policy_context_new_def normalize_context_value_def mv.norm_idem)
qed

text \<open>First match: the selected rule is the first whose scope matches, the default otherwise.\<close>

lemma select_policy_cases:
  obtains pre r post where "ps_policies ps = pre @ r # post" "scope_matches (rule_scope r) c"
      "\<forall>q \<in> set pre. \<not> scope_matches (rule_scope q) c" "select_policy ps c = r"
  | "\<forall>q \<in> set (ps_policies ps). \<not> scope_matches (rule_scope q) c"
      "select_policy ps c = ps_default_policy ps"
proof (cases "find (\<lambda>p. scope_matches (rule_scope p) c) (ps_policies ps)")
  case None
  then have "select_policy ps c = ps_default_policy ps" by (simp add: select_policy_def)
  with None [unfolded find_None_iff_Ball] that(2) show ?thesis by blast
next
  case (Some r)
  then have "select_policy ps c = r" by (simp add: select_policy_def)
  with find_Some_split [OF Some] that(1) show ?thesis by metis
qed

end
