(* ===== verification/Policy_Eval.thy ===== *)
theory Policy_Eval
  imports Policy_Model
begin

text \<open>
  The policy evaluator (\<^verbatim>\<open>crates/security/src/policy/evaluator.rs\<close>). The code filters the findings
  while it collects the exceptions that matched in two ordered maps; \<open>evaluate_at\<close> threads the two
  maps through the same traversal. The specification \<open>remaining\<close>, \<open>exceeds\<close> speaks of sets and
  counts only, and the theorems say that the traversal implements it.
\<close>

section \<open>The evaluator\<close>

type_synonym exception_log = "(string, policy_exception_metadata) btree_map"

definition exception_key :: "policy_exception \<Rightarrow> string" where
  "exception_key e = unwrap_or (normalize_match_value (ex_id e)) (ex_id e)"

text \<open>The loop body over the exceptions: \<open>(active_match, applied, expired)\<close>.\<close>

definition exception_step ::
  "time_lib \<Rightarrow> policy_context \<Rightarrow> scan_target \<Rightarrow> vulnerability \<Rightarrow> offset_date_time \<Rightarrow>
   bool \<times> exception_log \<times> exception_log \<Rightarrow> policy_exception \<Rightarrow> bool \<times> exception_log \<times> exception_log"
where
  "exception_step tlib c t v now = (\<lambda>(active_match, applied, expired) e.
     if \<not> exception_scope_matches (ex_scope e) c t \<or> \<not> matches_vulnerability e v
     then (active_match, applied, expired)
     else
       let key = exception_key e; metadata = metadata_from_exception tlib e
       in if is_active_at e now then (True, btm_or_insert key metadata applied, expired)
          else (active_match, applied, btm_or_insert key metadata expired))"

definition matching_exception_applies ::
  "time_lib \<Rightarrow> policy_exception list \<Rightarrow> policy_context \<Rightarrow> scan_target \<Rightarrow> vulnerability \<Rightarrow>
   offset_date_time \<Rightarrow> exception_log \<Rightarrow> exception_log \<Rightarrow> bool \<times> exception_log \<times> exception_log"
where
  "matching_exception_applies tlib exceptions c t v now applied expired =
     foldl (exception_step tlib c t v now) (False, applied, expired) exceptions"

definition total_violation :: "security_policy \<Rightarrow> vulnerability list \<Rightarrow> policy_violation list" where
  "total_violation p vs =
     (case lim_total (limits p) of
        Some limit \<Rightarrow>
          if length vs > unat limit
          then [\<lparr>pv_reason = show_nat (length vs)
                   @ '' non-allowlisted vulnerabilities exceeds total limit of '' @ show_u32 limit\<rparr>]
          else []
      | None \<Rightarrow> [])"

definition severity_violation ::
  "security_policy \<Rightarrow> vulnerability list \<Rightarrow> severity \<Rightarrow> policy_violation list" where
  "severity_violation p vs s =
     (case effective_limit p s of
        Some limit \<Rightarrow>
          let count = length (filter (\<lambda>v. v_severity v = Some s) vs)
          in if count > unat limit
             then [\<lparr>pv_reason = show_nat count @ '' '' @ severity_as_str s
                      @ '' vulnerabilities exceeds limit of '' @ show_u32 limit\<rparr>]
             else []
      | None \<Rightarrow> [])"

definition policy_violations :: "security_policy \<Rightarrow> vulnerability list \<Rightarrow> policy_violation list" where
  "policy_violations p vs =
     total_violation p vs @ concat (map (severity_violation p vs) severity_all)"

fun filter_evaluated ::
  "time_lib \<Rightarrow> policy_set \<Rightarrow> policy_rule \<Rightarrow> policy_context \<Rightarrow> scan_target \<Rightarrow> offset_date_time \<Rightarrow>
   exception_log \<Rightarrow> exception_log \<Rightarrow> vulnerability list \<Rightarrow>
   vulnerability list \<times> exception_log \<times> exception_log"
where
  "filter_evaluated tlib ps rule c t now applied expired [] = ([], applied, expired)"
| "filter_evaluated tlib ps rule c t now applied expired (v # vs) =
     (let (applies, applied', expired') =
            matching_exception_applies tlib (ps_exceptions ps) c t v now applied expired;
          (kept, log) = filter_evaluated tlib ps rule c t now applied' expired' vs
      in (if \<not> applies \<and> \<not> allows_vulnerability (rule_policy rule) v then v # kept else kept, log))"

definition evaluate_at ::
  "time_lib \<Rightarrow> policy_set \<Rightarrow> policy_context \<Rightarrow> scan_target \<Rightarrow> vulnerability list \<Rightarrow>
   offset_date_time \<Rightarrow> policy_evaluation"
where
  "evaluate_at tlib ps c t vs now =
     (let rule = select_policy ps c;
          (evaluated, applied, expired) = filter_evaluated tlib ps rule c t now [] [] vs;
          violations = policy_violations (rule_policy rule) evaluated;
          outcome =
            (if violations = [] then Allowed
             else
               let report = \<lparr>br_target = t, br_reason = ''vulnerability policy was violated'',
                     br_policy_id = Some (rule_id rule), br_policy_violations = violations,
                     br_vulnerabilities = evaluated\<rparr>
               in case rule_mode rule of
                    Enforce \<Rightarrow> Blocked report
                  | ReportOnly \<Rightarrow> ReportOnlyOutcome report)
      in \<lparr>pe_outcome = outcome, pe_policy_id = rule_id rule, pe_mode = rule_mode rule,
          pe_applied_exceptions = btm_values applied, pe_expired_exceptions = btm_values expired\<rparr>)"

text \<open>\<^verbatim>\<open>VulnerabilityEvaluator::evaluate\<close>; \<open>now\<close> is the clock \<^verbatim>\<open>evaluate_with_context\<close> reads.\<close>

definition evaluate ::
  "time_lib \<Rightarrow> policy_set \<Rightarrow> scan_target \<Rightarrow> vulnerability list \<Rightarrow> offset_date_time \<Rightarrow> scan_decision"
where
  "evaluate tlib ps t vs now =
     (let context = policy_context_new ''default'' (cache_namespace t) None
      in case pe_outcome (evaluate_at tlib ps context t vs now) of
           Allowed \<Rightarrow> ScanAllowed
         | ReportOnlyOutcome _ \<Rightarrow> ScanAllowed
         | Blocked report \<Rightarrow> ScanBlocked report)"

section \<open>Specification\<close>

definition exception_covers ::
  "policy_context \<Rightarrow> scan_target \<Rightarrow> policy_exception \<Rightarrow> vulnerability \<Rightarrow> bool" where
  "exception_covers c t e v \<longleftrightarrow> exception_scope_matches (ex_scope e) c t \<and> matches_vulnerability e v"

definition suppressed ::
  "policy_set \<Rightarrow> policy_context \<Rightarrow> scan_target \<Rightarrow> offset_date_time \<Rightarrow> vulnerability \<Rightarrow> bool" where
  "suppressed ps c t now v \<longleftrightarrow>
     (\<exists>e \<in> set (ps_exceptions ps). exception_covers c t e v \<and> is_active_at e now)"

text \<open>The findings a policy counts: neither excepted now nor on the selected policy's allow list.\<close>

definition remaining ::
  "policy_set \<Rightarrow> policy_context \<Rightarrow> scan_target \<Rightarrow> offset_date_time \<Rightarrow> vulnerability list \<Rightarrow>
   vulnerability list" where
  "remaining ps c t now vs =
     filter (\<lambda>v. \<not> suppressed ps c t now v \<and>
                 \<not> allows_vulnerability (rule_policy (select_policy ps c)) v) vs"

definition severity_count :: "vulnerability list \<Rightarrow> severity \<Rightarrow> nat" where
  "severity_count vs s = length (filter (\<lambda>v. v_severity v = Some s) vs)"

definition exceeds :: "security_policy \<Rightarrow> vulnerability list \<Rightarrow> bool" where
  "exceeds p vs \<longleftrightarrow>
     (\<exists>limit. lim_total (limits p) = Some limit \<and> unat limit < length vs) \<or>
     (\<exists>s limit. effective_limit p s = Some limit \<and> unat limit < severity_count vs s)"

section \<open>The traversal\<close>

lemma exception_fold:
  "foldl (exception_step tlib c t v now) (b, applied, expired) es =
     (b \<or> (\<exists>e \<in> set es. exception_covers c t e v \<and> is_active_at e now),
      foldl (\<lambda>m e. btm_or_insert (exception_key e) (metadata_from_exception tlib e) m) applied
        (filter (\<lambda>e. exception_covers c t e v \<and> is_active_at e now) es),
      foldl (\<lambda>m e. btm_or_insert (exception_key e) (metadata_from_exception tlib e) m) expired
        (filter (\<lambda>e. exception_covers c t e v \<and> \<not> is_active_at e now) es))"
  by (induction es arbitrary: b applied expired)
    (auto simp: exception_step_def exception_covers_def Let_def)

lemma filter_evaluated_kept:
  "fst (filter_evaluated tlib ps rule c t now applied expired vs) =
     filter (\<lambda>v. \<not> suppressed ps c t now v \<and> \<not> allows_vulnerability (rule_policy rule) v) vs"
  by (induction vs arbitrary: applied expired)
    (simp_all add: matching_exception_applies_def exception_fold suppressed_def split_beta Let_def)

text \<open>The two logs: the active and the expired exceptions met on the way, in traversal order.\<close>

definition covering ::
  "policy_set \<Rightarrow> policy_context \<Rightarrow> scan_target \<Rightarrow> (policy_exception \<Rightarrow> bool) \<Rightarrow> vulnerability list \<Rightarrow>
   policy_exception list" where
  "covering ps c t P vs =
     concat (map (\<lambda>v. filter (\<lambda>e. exception_covers c t e v \<and> P e) (ps_exceptions ps)) vs)"

lemma filter_evaluated_logs:
  "snd (filter_evaluated tlib ps rule c t now applied expired vs) =
     (foldl (\<lambda>m e. btm_or_insert (exception_key e) (metadata_from_exception tlib e) m) applied
        (covering ps c t (\<lambda>e. is_active_at e now) vs),
      foldl (\<lambda>m e. btm_or_insert (exception_key e) (metadata_from_exception tlib e) m) expired
        (covering ps c t (\<lambda>e. \<not> is_active_at e now) vs))"
  by (induction vs arbitrary: applied expired)
    (simp_all add: matching_exception_applies_def exception_fold covering_def split_beta Let_def)

lemma set_covering:
  "set (covering ps c t P vs) =
     {e \<in> set (ps_exceptions ps). P e \<and> (\<exists>v \<in> set vs. exception_covers c t e v)}"
  by (auto simp: covering_def)

lemma fold_or_insert:
  assumes "btm_invar m"
  shows "btm_invar (foldl (\<lambda>m e. btm_or_insert (k e) (d e) m) m es) \<and>
    btm_get (foldl (\<lambda>m e. btm_or_insert (k e) (d e) m) m es) j =
      (case btm_get m j of Some x \<Rightarrow> Some x | None \<Rightarrow> map_option d (find (\<lambda>e. k e = j) es))"
  using assms
  by (induction es arbitrary: m)
    (auto simp: btm_invar_or_insert btm_get_or_insert split: option.splits)

lemma values_fold_or_insert:
  assumes "inj_on k (set es)"
  shows "set (btm_values (foldl (\<lambda>m e. btm_or_insert (k e) (d e) m) [] es)) = d ` set es"
proof -
  let ?m = "foldl (\<lambda>m e. btm_or_insert (k e) (d e) m) [] es"
  have m: "btm_invar ?m" "btm_get ?m j = map_option d (find (\<lambda>e. k e = j) es)" for j
    using fold_or_insert [of "[]" k d es] by (simp_all add: btm.invar_empty btm.get_empty)
  have "find (\<lambda>e. k e = k x) es = Some x" if "x \<in> set es" for x
  proof -
    from that obtain y where y: "find (\<lambda>e. k e = k x) es = Some y"
      by (cases "find (\<lambda>e. k e = k x) es") (auto simp: find_None_iff_Ball)
    with find_SomeD [OF y] that assms show ?thesis by (auto dest: inj_onD)
  qed
  then show ?thesis
    by (force simp: set_btm_values m dest: find_SomeD)
qed

section \<open>Limits\<close>

lemma policy_violations_Nil_iff: "policy_violations p vs = [] \<longleftrightarrow> \<not> exceeds p vs"
proof -
  have "total_violation p vs = [] \<longleftrightarrow>
      \<not> (\<exists>limit. lim_total (limits p) = Some limit \<and> unat limit < length vs)"
    by (auto simp: total_violation_def split: option.splits)
  moreover have "severity_violation p vs s = [] \<longleftrightarrow>
      \<not> (\<exists>limit. effective_limit p s = Some limit \<and> unat limit < severity_count vs s)" for s
    by (auto simp: severity_violation_def severity_count_def Let_def split: option.splits)
  ultimately show ?thesis
    by (auto simp: policy_violations_def exceeds_def)
qed

lemma severity_count_subseq: "subseq vs ws \<Longrightarrow> severity_count vs s \<le> severity_count ws s"
  unfolding severity_count_def by (rule list_emb_length [OF subseq_filter])

lemma exceeds_mono: "exceeds p vs \<Longrightarrow> subseq vs ws \<Longrightarrow> exceeds p ws"
  unfolding exceeds_def
  by (meson list_emb_length order_less_le_trans severity_count_subseq)

lemma evaluate_at_outcome:
  "pe_outcome (evaluate_at tlib ps c t vs now) =
     (let rule = select_policy ps c; rest = remaining ps c t now vs;
          report = \<lparr>br_target = t, br_reason = ''vulnerability policy was violated'',
            br_policy_id = Some (rule_id rule),
            br_policy_violations = policy_violations (rule_policy rule) rest,
            br_vulnerabilities = rest\<rparr>
      in if \<not> exceeds (rule_policy rule) rest then Allowed
         else case rule_mode rule of
                Enforce \<Rightarrow> Blocked report
              | ReportOnly \<Rightarrow> ReportOnlyOutcome report)"
  using filter_evaluated_kept [of tlib ps "select_policy ps c" c t now "[]" "[]" vs]
  by (auto simp: evaluate_at_def remaining_def Let_def policy_violations_Nil_iff
      split: prod.splits)

section \<open>Correctness of the evaluator\<close>

text \<open>
  C5. A download is blocked exactly when the rule selected for its context enforces and the findings
  that are neither under an active matching exception nor on that rule's allow list exceed the total
  limit or the effective limit of some severity; the block report then names the target, the rule,
  exactly those findings and the exceeded limits.
\<close>

theorem evaluate_at_blocked_iff:
  "pe_outcome (evaluate_at tlib ps c t vs now) = Blocked r \<longleftrightarrow>
     rule_mode (select_policy ps c) = Enforce \<and>
     exceeds (rule_policy (select_policy ps c)) (remaining ps c t now vs) \<and>
     r = \<lparr>br_target = t, br_reason = ''vulnerability policy was violated'',
          br_policy_id = Some (rule_id (select_policy ps c)),
          br_policy_violations =
            policy_violations (rule_policy (select_policy ps c)) (remaining ps c t now vs),
          br_vulnerabilities = remaining ps c t now vs\<rparr>"
  by (auto simp: evaluate_at_outcome Let_def split: enforcement_mode.splits)

lemma blocked_iff:
  "evaluation_is_blocked (evaluate_at tlib ps c t vs now) \<longleftrightarrow>
     rule_mode (select_policy ps c) = Enforce \<and>
     exceeds (rule_policy (select_policy ps c)) (remaining ps c t now vs)"
  by (auto simp: evaluation_is_blocked_def evaluate_at_outcome Let_def
      split: enforcement_mode.splits)

lemma subseq_remaining: "subseq vs ws \<Longrightarrow> subseq (remaining ps c t now vs) (remaining ps c t now ws)"
  by (simp add: remaining_def)

lemma suppressed_antimono:
  "\<not> odt_less later now \<Longrightarrow> suppressed ps c t later v \<Longrightarrow> suppressed ps c t now v"
  by (auto simp: suppressed_def is_active_at_def odt_less_def intro: order.strict_trans1)

lemma subseq_filter_imp:
  "(\<And>x. P x \<Longrightarrow> Q x) \<Longrightarrow> subseq (filter P xs) (filter Q xs)"
  by (induction xs) auto

lemma subseq_remaining_later:
  "\<not> odt_less later now \<Longrightarrow> subseq (remaining ps c t now vs) (remaining ps c t later vs)"
  unfolding remaining_def by (rule subseq_filter_imp) (auto dest: suppressed_antimono)

text \<open>
  C6. Blocking is monotone: a target that is blocked stays blocked when more findings are
  reported for it and as time passes, since exceptions can only expire.
\<close>

theorem evaluate_at_blocked_mono:
  assumes "evaluation_is_blocked (evaluate_at tlib ps c t vs now)"
    and "subseq vs ws" and "\<not> odt_less later now"
  shows "evaluation_is_blocked (evaluate_at tlib ps c t ws later)"
proof -
  have "subseq (remaining ps c t now vs) (remaining ps c t later ws)"
    using subseq_order.trans [OF subseq_remaining [OF assms(2)] subseq_remaining_later [OF assms(3)]] .
  with assms(1) show ?thesis by (auto simp: blocked_iff intro: exceeds_mono)
qed

definition sample_vulnerability :: "string \<Rightarrow> severity option \<Rightarrow> vulnerability" where
  "sample_vulnerability i s =
     \<lparr>v_id = i, v_aliases = [], v_summary = None, v_details = None, v_severity = s,
      v_references = [], v_component_name = None, v_component_version = None,
      v_fixed_versions = []\<rparr>"

definition sample_time_lib :: time_lib where
  "sample_time_lib =
     \<lparr>rfc3339_format = (\<lambda>_. None), rfc3339_parse = (\<lambda>s. Inl s), odt_to_string = (\<lambda>_. ''-''),
      odt_unix_timestamp = (\<lambda>_. ''0'')\<rparr>"

definition sample_instant :: "int \<Rightarrow> offset_date_time" where
  "sample_instant n = \<lparr>odt_nanos = n, odt_offset = 0\<rparr>"

definition sample_exception :: "string \<Rightarrow> int \<Rightarrow> string list \<Rightarrow> policy_exception" where
  "sample_exception i expiry ids =
     \<lparr>ex_id = i, ex_owner = ''o'', ex_ticket = ''t'', ex_reason = ''r'',
      ex_expires_at = sample_instant expiry, ex_vulnerability_ids = ids,
      ex_scope = exception_scope_new [] [] [] [] []\<rparr>"

definition sample_target :: scan_target where
  "sample_target = Package (from_osv ''npm'' ''left-pad'' ''1.0.0'')"

definition sample_policies :: policy_set where
  "sample_policies = default_policy_set
     \<lparr>ps_exceptions := [sample_exception ''A'' 10 [''CVE-1''], sample_exception ''B'' 20 [''CVE-2'']]\<rparr>"

theorem evaluate_at_blocked_mono_witness:
  "evaluation_is_blocked (evaluate_at sample_time_lib sample_policies
     (policy_set_context sample_policies ''npm-proxy'' ''npm'') sample_target
     [sample_vulnerability ''CVE-2'' (Some Critical), sample_vulnerability ''CVE-1'' (Some High)]
     (sample_instant 15))"
proof (rule evaluate_at_blocked_mono [where now = "sample_instant 10"])
  show "evaluation_is_blocked (evaluate_at sample_time_lib sample_policies
      (policy_set_context sample_policies ''npm-proxy'' ''npm'') sample_target
      [sample_vulnerability ''CVE-1'' (Some High)] (sample_instant 10))"
    by code_simp
qed (simp_all add: odt_less_def sample_instant_def)

text \<open>
  An expired exception has no influence on the outcome: evaluating with the exceptions that are
  active at the evaluation time, and no others, gives the same outcome.
\<close>

theorem expired_exceptions_irrelevant:
  "pe_outcome (evaluate_at tlib
     (ps\<lparr>ps_exceptions := filter (\<lambda>e. is_active_at e now) (ps_exceptions ps)\<rparr>) c t vs now) =
   pe_outcome (evaluate_at tlib ps c t vs now)"
proof -
  let ?ps = "ps\<lparr>ps_exceptions := filter (\<lambda>e. is_active_at e now) (ps_exceptions ps)\<rparr>"
  have "select_policy ?ps c = select_policy ps c" by (simp add: select_policy_def)
  moreover have "suppressed ?ps c t now v = suppressed ps c t now v" for v
    by (auto simp: suppressed_def)
  ultimately show ?thesis by (simp add: evaluate_at_outcome remaining_def)
qed

text \<open>
  C29. When exception identifiers differ up to case and white space, the evaluation lists
  exactly the active exceptions that cover some finding as applied, and exactly the expired
  ones that cover some finding as expired.
\<close>

theorem evaluate_at_exceptions:
  assumes "inj_on exception_key (set (ps_exceptions ps))"
  shows "set (pe_applied_exceptions (evaluate_at tlib ps c t vs now)) =
      metadata_from_exception tlib ` {e \<in> set (ps_exceptions ps). is_active_at e now \<and>
        (\<exists>v \<in> set vs. exception_covers c t e v)} \<and>
    set (pe_expired_exceptions (evaluate_at tlib ps c t vs now)) =
      metadata_from_exception tlib ` {e \<in> set (ps_exceptions ps). \<not> is_active_at e now \<and>
        (\<exists>v \<in> set vs. exception_covers c t e v)}"
proof -
  let ?f = "\<lambda>es. foldl (\<lambda>m e. btm_or_insert (exception_key e) (metadata_from_exception tlib e) m) [] es"
  have val: "set (btm_values (?f (covering ps c t P vs))) =
      metadata_from_exception tlib ` set (covering ps c t P vs)" for P
    using assms by (intro values_fold_or_insert) (auto simp: set_covering intro: inj_on_subset)
  have "pe_applied_exceptions (evaluate_at tlib ps c t vs now) =
      btm_values (?f (covering ps c t (\<lambda>e. is_active_at e now) vs))"
    "pe_expired_exceptions (evaluate_at tlib ps c t vs now) =
      btm_values (?f (covering ps c t (\<lambda>e. \<not> is_active_at e now) vs))"
    using filter_evaluated_logs [of tlib ps "select_policy ps c" c t now "[]" "[]" vs]
    by (simp_all add: evaluate_at_def Let_def split_beta)
  with val show ?thesis by (simp add: set_covering)
qed

theorem evaluate_at_exceptions_witness:
  "set (pe_applied_exceptions (evaluate_at sample_time_lib sample_policies
      (policy_set_context sample_policies ''npm-proxy'' ''npm'') sample_target
      [sample_vulnerability ''CVE-2'' (Some High), sample_vulnerability ''cve-1'' (Some High)]
      (sample_instant 15))) =
   metadata_from_exception sample_time_lib ` {sample_exception ''B'' 20 [''CVE-2'']}"
proof -
  let ?vs = "[sample_vulnerability ''CVE-2'' (Some High), sample_vulnerability ''cve-1'' (Some High)]"
  let ?c = "policy_set_context sample_policies ''npm-proxy'' ''npm''"
  have "map exception_key (ps_exceptions sample_policies) = [''a'', ''b'']" by code_simp
  then have "inj_on exception_key (set (ps_exceptions sample_policies))"
    using distinct_map [of exception_key "ps_exceptions sample_policies"] by simp
  note main = evaluate_at_exceptions [OF this, of sample_time_lib ?c sample_target ?vs "sample_instant 15"]
  have "filter (\<lambda>e. is_active_at e (sample_instant 15) \<and>
      (\<exists>v \<in> set ?vs. exception_covers ?c sample_target e v)) (ps_exceptions sample_policies) =
      [sample_exception ''B'' 20 [''CVE-2'']]"
    by code_simp
  then have "set (filter (\<lambda>e. is_active_at e (sample_instant 15) \<and>
      (\<exists>v \<in> set ?vs. exception_covers ?c sample_target e v)) (ps_exceptions sample_policies)) =
      {sample_exception ''B'' 20 [''CVE-2'']}"
    by simp
  with conjunct1 [OF main] show ?thesis by (simp only: set_filter)
qed

lemma exceeds_no_limits:
  assumes "limits p = no_limits"
  shows "exceeds p vs \<longleftrightarrow> (\<exists>v \<in> set vs. \<exists>s. v_severity v = Some s \<and> minimum_blocking_severity p \<le> s)"
proof -
  have "effective_limit p s = then_some (minimum_blocking_severity p \<le> s) 0" for s
    by (cases s) (simp_all add: effective_limit_def assms no_limits_def)
  then have "exceeds p vs \<longleftrightarrow> (\<exists>s. minimum_blocking_severity p \<le> s \<and> 0 < severity_count vs s)"
    by (auto simp: exceeds_def assms no_limits_def)
  also have "\<dots> \<longleftrightarrow> (\<exists>v \<in> set vs. \<exists>s. v_severity v = Some s \<and> minimum_blocking_severity p \<le> s)"
    by (auto simp: severity_count_def filter_empty_conv)
  finally show ?thesis .
qed

lemma exists_same_normal_id:
  "trim i \<noteq> [] \<and> (\<exists>a \<in> set (List.map_filter normalize_vulnerability_id ids). same_text a i) \<longleftrightarrow>
     trim i \<noteq> [] \<and> (\<exists>a \<in> set ids. same_text a i)"
proof (cases "normalize_vulnerability_id i")
  case None
  then show ?thesis using vid.norm_None_iff [of i] by simp
next
  case (Some n)
  have "(\<exists>a \<in> set (List.map_filter normalize_vulnerability_id ids). same_text a i) \<longleftrightarrow>
      n \<in> set (List.map_filter normalize_vulnerability_id ids)"
    using vid.map_filter_fixed [of _ ids] Some by (force simp flip: vid.norm_eq_iff)
  then show ?thesis using vid.mem_map_filter_iff [OF Some, of ids] by blast
qed

text \<open>
  The policy without a policy file (a minimum severity and an allow list): a
  target is blocked exactly when some finding has a known severity of at least the minimum and
  none of its identifiers is on the allow list, up to case and white space; a
  finding of unknown severity never blocks.
\<close>

theorem legacy_policy_blocks_iff:
  "(\<exists>r. evaluate tlib (from_legacy_policy (security_policy_new m ids no_limits)) t vs now = ScanBlocked r) \<longleftrightarrow>
     (\<exists>v \<in> set vs. \<exists>s. v_severity v = Some s \<and> m \<le> s \<and>
        \<not> (\<exists>i \<in> set (identifiers v). trim i \<noteq> [] \<and> (\<exists>a \<in> set ids. same_text a i)))"
proof -
  let ?p = "security_policy_new m ids no_limits"
  let ?ps = "from_legacy_policy ?p"
  let ?c = "policy_context_new ''default'' (cache_namespace t) None"
  have sel: "rule_policy (select_policy ?ps ?c) = ?p" "rule_mode (select_policy ?ps ?c) = Enforce"
    by (simp_all add: select_policy_def from_legacy_policy_def)
  have "(\<exists>r. evaluate tlib ?ps t vs now = ScanBlocked r) \<longleftrightarrow>
      evaluation_is_blocked (evaluate_at tlib ?ps ?c t vs now)"
    by (auto simp: evaluate_def evaluation_is_blocked_def Let_def split: policy_outcome.splits)
  also have "\<dots> \<longleftrightarrow> exceeds ?p (remaining ?ps ?c t now vs)" by (simp add: blocked_iff sel)
  also have "\<dots> \<longleftrightarrow> (\<exists>v \<in> set (remaining ?ps ?c t now vs). \<exists>s. v_severity v = Some s \<and> m \<le> s)"
    by (simp add: exceeds_no_limits security_policy_new_def)
  also have "set (remaining ?ps ?c t now vs) = {v \<in> set vs. \<not> allows_vulnerability ?p v}"
    by (simp add: remaining_def suppressed_def sel) (simp add: from_legacy_policy_def)
  also have "\<dots> = {v \<in> set vs. \<not> (\<exists>i \<in> set (identifiers v). trim i \<noteq> [] \<and>
      (\<exists>a \<in> set ids. same_text a i))}"
    by (simp only: allows_vulnerability_iff set_security_policy_new exists_same_normal_id)
  finally show ?thesis by blast
qed

end
