(* ===== verification/Policy_Parse.thy ===== *)
theory Policy_Parse
  imports Policy_Eval
begin

text \<open>
  Reading a policy file (\<^verbatim>\<open>crates/security/src/policy/parse.rs\<close>): the raw TOML structures, their
  conversion and validation. The TOML deserialiser is the parameter \<open>toml_from_str\<close>, the RFC 3339
  parser a field of \<open>time_lib\<close>. \<open>raw_valid\<close> says which raw files are accepted and \<open>wf_policy_set\<close>
  what every accepted policy set satisfies.
\<close>

section \<open>Raw structures\<close>

record raw_repository_policy =
  rawr_team :: string

record raw_policy_rule =
  raw_id :: "string option"
  raw_mode :: enforcement_mode
  raw_minimum_blocking_severity :: severity
  raw_allowed_vulnerability_ids :: "string list"
  raw_max_total_vulnerabilities :: "u32 option"
  raw_max_low_vulnerabilities :: "u32 option"
  raw_max_medium_vulnerabilities :: "u32 option"
  raw_max_high_vulnerabilities :: "u32 option"
  raw_max_critical_vulnerabilities :: "u32 option"
  raw_repositories :: "string list"
  raw_formats :: "string list"
  raw_teams :: "string list"

record raw_policy_exception =
  rawe_id :: string
  rawe_owner :: string
  rawe_ticket :: string
  rawe_reason :: string
  rawe_expires_at :: string
  rawe_vulnerability_ids :: "string list"
  rawe_repositories :: "string list"
  rawe_formats :: "string list"
  rawe_teams :: "string list"
  rawe_packages :: "string list"
  rawe_versions :: "string list"

record raw_policy_set =
  raws_default_policy :: raw_policy_rule
  raws_repositories :: "(string, raw_repository_policy) btree_map"
  raws_policies :: "raw_policy_rule list"
  raws_exceptions :: "raw_policy_exception list"

section \<open>Conversion\<close>

definition trim_required :: "string \<Rightarrow> string \<Rightarrow> string \<Rightarrow> policy_set_error + string" where
  "trim_required value entity field =
     (let trimmed = trim value in if trimmed = [] then Inl (EmptyField entity field) else Inr trimmed)"

definition raw_policy_rule_to_policy_rule ::
  "raw_policy_rule \<Rightarrow> string option \<Rightarrow> nat \<Rightarrow> policy_set_error + policy_rule" where
  "raw_policy_rule_to_policy_rule raw default_id index =
     res_bind
       (case (raw_id raw, default_id) of
          (Some i, _) \<Rightarrow> trim_required i ''policy'' ''id''
        | (None, Some d) \<Rightarrow> Inr d
        | (None, None) \<Rightarrow> Inl (MissingPolicyId index))
       (\<lambda>i.
          let lims = \<lparr>lim_total = raw_max_total_vulnerabilities raw,
                lim_low = raw_max_low_vulnerabilities raw,
                lim_medium = raw_max_medium_vulnerabilities raw,
                lim_high = raw_max_high_vulnerabilities raw,
                lim_critical = raw_max_critical_vulnerabilities raw\<rparr>
          in Inr \<lparr>rule_id = i, rule_mode = raw_mode raw,
               rule_scope = policy_scope_new (raw_repositories raw) (raw_formats raw) (raw_teams raw),
               rule_policy = security_policy_new (raw_minimum_blocking_severity raw)
                 (raw_allowed_vulnerability_ids raw) lims\<rparr>)"

fun raw_policies_to_policies ::
  "raw_policy_rule list \<Rightarrow> nat \<Rightarrow> policy_set_error + policy_rule list" where
  "raw_policies_to_policies [] index = Inr []"
| "raw_policies_to_policies (raw # raws) index =
     res_bind (raw_policy_rule_to_policy_rule raw None index) (\<lambda>p.
     res_bind (raw_policies_to_policies raws (Suc index)) (\<lambda>ps. Inr (p # ps)))"

definition raw_repository_to_entry ::
  "string \<times> raw_repository_policy \<Rightarrow> policy_set_error + string \<times> repository_policy" where
  "raw_repository_to_entry = (\<lambda>(name, repository).
     res_bind (trim_required name ''repository'' ''name'') (\<lambda>n.
     res_bind (trim_required (rawr_team repository) ''repository'' ''team'') (\<lambda>team.
       Inr (n, \<lparr>rp_team = team\<rparr>))))"

definition raw_exception_to_exception ::
  "time_lib \<Rightarrow> raw_policy_exception \<Rightarrow> policy_set_error + policy_exception" where
  "raw_exception_to_exception tlib raw =
     res_bind (trim_required (rawe_id raw) ''exception'' ''id'') (\<lambda>i.
     res_bind (trim_required (rawe_expires_at raw) ''exception'' ''expires_at'') (\<lambda>expiry.
     res_bind (map_err (InvalidExceptionExpiry i expiry) (rfc3339_parse tlib expiry)) (\<lambda>expires_at.
       let vulnerability_ids =
             bts_collect (List.map_filter normalize_vulnerability_id (rawe_vulnerability_ids raw))
       in if vulnerability_ids = [] then Inl (EmptyExceptionVulnerabilityIds i)
          else
            res_bind (trim_required (rawe_owner raw) ''exception'' ''owner'') (\<lambda>owner.
            res_bind (trim_required (rawe_ticket raw) ''exception'' ''ticket'') (\<lambda>ticket.
            res_bind (trim_required (rawe_reason raw) ''exception'' ''reason'') (\<lambda>reason.
              Inr \<lparr>ex_id = i, ex_owner = owner, ex_ticket = ticket, ex_reason = reason,
                ex_expires_at = expires_at, ex_vulnerability_ids = vulnerability_ids,
                ex_scope = exception_scope_new (rawe_repositories raw) (rawe_formats raw)
                  (rawe_teams raw) (rawe_packages raw) (rawe_versions raw)\<rparr>))))))"

definition insert_policy_id ::
  "string btree_set \<Rightarrow> string \<Rightarrow> policy_set_error + string btree_set" where
  "insert_policy_id policy_ids i =
     res_bind (ok_or (EmptyField ''policy'' ''id'') (normalize_match_value i)) (\<lambda>normalized.
       let (ids, fresh) = bts_insert normalized policy_ids
       in if \<not> fresh then Inl (DuplicatePolicyId i) else Inr ids)"

fun insert_policy_ids ::
  "string btree_set \<Rightarrow> policy_rule list \<Rightarrow> policy_set_error + string btree_set" where
  "insert_policy_ids ids [] = Inr ids"
| "insert_policy_ids ids (p # ps) =
     res_bind (insert_policy_id ids (rule_id p)) (\<lambda>ids'. insert_policy_ids ids' ps)"

fun insert_exception_ids ::
  "string btree_set \<Rightarrow> policy_exception list \<Rightarrow> policy_set_error + string btree_set" where
  "insert_exception_ids ids [] = Inr ids"
| "insert_exception_ids ids (e # es) =
     res_bind (ok_or (EmptyField ''exception'' ''id'') (normalize_match_value (ex_id e))) (\<lambda>i.
       let (ids', fresh) = bts_insert i ids
       in if \<not> fresh then Inl (DuplicateExceptionId (ex_id e)) else insert_exception_ids ids' es)"

definition validate_unique_ids ::
  "policy_rule \<Rightarrow> policy_rule list \<Rightarrow> policy_exception list \<Rightarrow> policy_set_error + unit" where
  "validate_unique_ids default_policy policies exceptions =
     res_bind (insert_policy_id [] (rule_id default_policy)) (\<lambda>ids.
     res_bind (insert_policy_ids ids policies) (\<lambda>_.
     res_bind (insert_exception_ids [] exceptions) (\<lambda>_. Inr ())))"

definition from_raw :: "time_lib \<Rightarrow> raw_policy_set \<Rightarrow> policy_set_error + policy_set" where
  "from_raw tlib raw =
     res_bind (raw_policy_rule_to_policy_rule (raws_default_policy raw) (Some ''default'') 0)
       (\<lambda>default_policy.
     res_bind (raw_policies_to_policies (raws_policies raw) 0) (\<lambda>policies.
     res_bind (collect_results raw_repository_to_entry (raws_repositories raw)) (\<lambda>entries.
     res_bind (collect_results (raw_exception_to_exception tlib) (raws_exceptions raw)) (\<lambda>exceptions.
     res_bind (validate_unique_ids default_policy policies exceptions) (\<lambda>_.
       Inr \<lparr>ps_default_policy = default_policy, ps_repositories = btm_collect entries,
         ps_policies = policies, ps_exceptions = exceptions\<rparr>)))))"

definition from_toml_str ::
  "time_lib \<Rightarrow> (string \<Rightarrow> string + raw_policy_set) \<Rightarrow> string \<Rightarrow> policy_set_error + policy_set" where
  "from_toml_str tlib toml_from_str input =
     res_bind (map_err PolicyParse (toml_from_str input)) (from_raw tlib)"

section \<open>Accepted files and well-formed sets\<close>

abbreviation filled :: "string \<Rightarrow> bool" where
  "filled s \<equiv> trim s \<noteq> []"

definition rule_ids :: "raw_policy_set \<Rightarrow> string list" where
  "rule_ids raw =
     unwrap_or (raw_id (raws_default_policy raw)) ''default''
       # map (\<lambda>p. unwrap_or (raw_id p) []) (raws_policies raw)"

definition raw_exception_valid :: "time_lib \<Rightarrow> raw_policy_exception \<Rightarrow> bool" where
  "raw_exception_valid tlib e \<longleftrightarrow>
     filled (rawe_id e) \<and> filled (rawe_owner e) \<and> filled (rawe_ticket e) \<and> filled (rawe_reason e) \<and>
     filled (rawe_expires_at e) \<and> (\<exists>i \<in> set (rawe_vulnerability_ids e). filled i) \<and>
     (\<exists>x. rfc3339_parse tlib (trim (rawe_expires_at e)) = Inr x)"

definition raw_valid :: "time_lib \<Rightarrow> raw_policy_set \<Rightarrow> bool" where
  "raw_valid tlib raw \<longleftrightarrow>
     (\<forall>i \<in> set (rule_ids raw). filled i) \<and> distinct (map normalize_match_value (rule_ids raw)) \<and>
     (\<forall>(name, r) \<in> set (raws_repositories raw). filled name \<and> filled (rawr_team r)) \<and>
     (\<forall>e \<in> set (raws_exceptions raw). raw_exception_valid tlib e) \<and>
     distinct (map (normalize_match_value \<circ> rawe_id) (raws_exceptions raw))"

abbreviation trimmed :: "string \<Rightarrow> bool" where
  "trimmed s \<equiv> s \<noteq> [] \<and> trim s = s"

abbreviation normal_selectors :: "string list \<Rightarrow> bool" where
  "normal_selectors xs \<equiv> normalized_selector_list xs = xs"

definition wf_rule :: "policy_rule \<Rightarrow> bool" where
  "wf_rule r \<longleftrightarrow>
     trimmed (rule_id r) \<and> normal_selectors (sc_repositories (rule_scope r)) \<and>
     normal_selectors (sc_formats (rule_scope r)) \<and> normal_selectors (sc_teams (rule_scope r)) \<and>
     (\<forall>i \<in> set (allowed_vulnerability_ids (rule_policy r)). normalize_vulnerability_id i = Some i)"

definition wf_exception :: "policy_exception \<Rightarrow> bool" where
  "wf_exception e \<longleftrightarrow>
     trimmed (ex_id e) \<and> trimmed (ex_owner e) \<and> trimmed (ex_ticket e) \<and> trimmed (ex_reason e) \<and>
     ex_vulnerability_ids e \<noteq> [] \<and>
     (\<forall>i \<in> set (ex_vulnerability_ids e). normalize_vulnerability_id i = Some i) \<and>
     normal_selectors (es_repositories (ex_scope e)) \<and> normal_selectors (es_formats (ex_scope e)) \<and>
     normal_selectors (es_teams (ex_scope e)) \<and> normal_selectors (es_packages (ex_scope e)) \<and>
     normal_selectors (es_versions (ex_scope e))"

definition wf_policy_set :: "policy_set \<Rightarrow> bool" where
  "wf_policy_set ps \<longleftrightarrow>
     (\<forall>r \<in> set (ps_default_policy ps # ps_policies ps). wf_rule r) \<and>
     distinct (map (normalize_match_value \<circ> rule_id) (ps_default_policy ps # ps_policies ps)) \<and>
     btm_invar (ps_repositories ps) \<and>
     (\<forall>(name, r) \<in> set (ps_repositories ps). trimmed name \<and> trimmed (rp_team r)) \<and>
     (\<forall>e \<in> set (ps_exceptions ps). wf_exception e) \<and>
     distinct (map exception_key (ps_exceptions ps))"

section \<open>Lemmas\<close>

lemma trim_required_Inr_iff: "trim_required s a b = Inr t \<longleftrightarrow> t = trim s \<and> trim s \<noteq> []"
  by (auto simp: trim_required_def Let_def)

lemma insert_policy_id_Inr_iff:
  "insert_policy_id ids i = Inr ids' \<longleftrightarrow>
     (\<exists>n. normalize_match_value i = Some n \<and> n \<notin> set ids \<and> ids' = fst (bts_insert n ids))"
  by (cases "normalize_match_value i") (auto simp: insert_policy_id_def bts_insert_def)

lemma insert_policy_ids_ok_iff:
  "(\<exists>ids'. insert_policy_ids ids ps = Inr ids') \<longleftrightarrow>
     (\<forall>p \<in> set ps. filled (rule_id p) \<and> normalize_match_value (rule_id p) \<notin> Some ` set ids) \<and>
     distinct (map (normalize_match_value \<circ> rule_id) ps)"
proof (induction ps arbitrary: ids)
  case Nil
  then show ?case by simp
next
  case (Cons p ps)
  show ?case
  proof (cases "normalize_match_value (rule_id p)")
    case None
    then show ?thesis
      using mv.norm_None_iff [of "rule_id p"] by (simp add: res_bind_Inr_iff insert_policy_id_Inr_iff)
  next
    case (Some n)
    then show ?thesis
      using mv.norm_None_iff [of "rule_id p"]
      by (auto simp: res_bind_Inr_iff insert_policy_id_Inr_iff Cons.IH set_bts_insert)
        (metis image_iff option.inject)+
  qed
qed

lemma insert_exception_ids_ok_iff:
  "(\<exists>ids'. insert_exception_ids ids es = Inr ids') \<longleftrightarrow>
     (\<forall>e \<in> set es. filled (ex_id e) \<and> normalize_match_value (ex_id e) \<notin> Some ` set ids) \<and>
     distinct (map (normalize_match_value \<circ> ex_id) es)"
proof (induction es arbitrary: ids)
  case Nil
  then show ?case by simp
next
  case (Cons e es)
  show ?case
  proof (cases "normalize_match_value (ex_id e)")
    case None
    then show ?thesis
      using mv.norm_None_iff [of "ex_id e"] by (simp add: res_bind_Inr_iff)
  next
    case (Some n)
    then show ?thesis
      using mv.norm_None_iff [of "ex_id e"] Cons.IH [of "insort n ids"]
      by (auto simp: bts_insert_def set_insort_key) (metis image_iff option.inject)+
  qed
qed

lemma validate_unique_ids_Inr_iff:
  "validate_unique_ids d ps es = Inr () \<longleftrightarrow>
     (\<forall>r \<in> set (d # ps). filled (rule_id r)) \<and>
     distinct (map (normalize_match_value \<circ> rule_id) (d # ps)) \<and>
     (\<forall>e \<in> set es. filled (ex_id e)) \<and> distinct (map (normalize_match_value \<circ> ex_id) es)"
proof -
  have "validate_unique_ids d ps es = Inr () \<longleftrightarrow>
      (\<exists>ids. insert_policy_ids [] (d # ps) = Inr ids) \<and> (\<exists>ids. insert_exception_ids [] es = Inr ids)"
    by (auto simp: validate_unique_ids_def res_bind_Inr_iff)
  then show ?thesis unfolding insert_policy_ids_ok_iff insert_exception_ids_ok_iff by simp
qed

text \<open>The rule a raw rule stands for, once its identifier is known.\<close>

definition rule_of_raw :: "raw_policy_rule \<Rightarrow> string \<Rightarrow> policy_rule" where
  "rule_of_raw raw i =
     \<lparr>rule_id = i, rule_mode = raw_mode raw,
      rule_scope = policy_scope_new (raw_repositories raw) (raw_formats raw) (raw_teams raw),
      rule_policy = security_policy_new (raw_minimum_blocking_severity raw)
        (raw_allowed_vulnerability_ids raw)
        \<lparr>lim_total = raw_max_total_vulnerabilities raw, lim_low = raw_max_low_vulnerabilities raw,
         lim_medium = raw_max_medium_vulnerabilities raw, lim_high = raw_max_high_vulnerabilities raw,
         lim_critical = raw_max_critical_vulnerabilities raw\<rparr>\<rparr>"

lemma rule_id_rule_of_raw [simp]: "rule_id (rule_of_raw raw i) = i"
  by (simp add: rule_of_raw_def)

lemma raw_rule_Inr_iff:
  "raw_policy_rule_to_policy_rule raw (Some ''default'') n = Inr r \<longleftrightarrow>
     filled (unwrap_or (raw_id raw) ''default'') \<and>
     r = rule_of_raw raw (trim (unwrap_or (raw_id raw) ''default''))"
  "raw_policy_rule_to_policy_rule raw None n = Inr r \<longleftrightarrow>
     filled (unwrap_or (raw_id raw) []) \<and> r = rule_of_raw raw (trim (unwrap_or (raw_id raw) []))"
proof -
  have "trim ''default'' = ''default''" "trim [] = []" by code_simp+
  then show
    "raw_policy_rule_to_policy_rule raw (Some ''default'') n = Inr r \<longleftrightarrow>
       filled (unwrap_or (raw_id raw) ''default'') \<and>
       r = rule_of_raw raw (trim (unwrap_or (raw_id raw) ''default''))"
    "raw_policy_rule_to_policy_rule raw None n = Inr r \<longleftrightarrow>
       filled (unwrap_or (raw_id raw) []) \<and> r = rule_of_raw raw (trim (unwrap_or (raw_id raw) []))"
    by (auto simp: raw_policy_rule_to_policy_rule_def rule_of_raw_def res_bind_Inr_iff
        trim_required_Inr_iff Let_def split: option.splits)
qed

lemma raw_policies_Inr_iff:
  "raw_policies_to_policies raws n = Inr ps \<longleftrightarrow>
     (\<forall>raw \<in> set raws. filled (unwrap_or (raw_id raw) [])) \<and>
     ps = map (\<lambda>raw. rule_of_raw raw (trim (unwrap_or (raw_id raw) []))) raws"
  by (induction raws arbitrary: n ps) (auto simp: res_bind_Inr_iff raw_rule_Inr_iff)

definition exception_of_raw :: "time_lib \<Rightarrow> raw_policy_exception \<Rightarrow> policy_exception" where
  "exception_of_raw tlib raw =
     \<lparr>ex_id = trim (rawe_id raw), ex_owner = trim (rawe_owner raw), ex_ticket = trim (rawe_ticket raw),
      ex_reason = trim (rawe_reason raw),
      ex_expires_at = projr (rfc3339_parse tlib (trim (rawe_expires_at raw))),
      ex_vulnerability_ids =
        bts_collect (List.map_filter normalize_vulnerability_id (rawe_vulnerability_ids raw)),
      ex_scope = exception_scope_new (rawe_repositories raw) (rawe_formats raw)
        (rawe_teams raw) (rawe_packages raw) (rawe_versions raw)\<rparr>"

lemma raw_exception_Inr_iff:
  "raw_exception_to_exception tlib raw = Inr e \<longleftrightarrow>
     raw_exception_valid tlib raw \<and> e = exception_of_raw tlib raw"
proof -
  have "(\<exists>i \<in> set (rawe_vulnerability_ids raw). filled i) \<longleftrightarrow>
      List.map_filter normalize_vulnerability_id (rawe_vulnerability_ids raw) \<noteq> []"
    by (simp add: vid.map_filter_Nil_iff)
  then show ?thesis
    by (auto simp: raw_exception_to_exception_def raw_exception_valid_def exception_of_raw_def
        res_bind_Inr_iff trim_required_Inr_iff Let_def)
qed

lemma raw_exceptions_Inr_iff:
  "collect_results (raw_exception_to_exception tlib) raws = Inr es \<longleftrightarrow>
     (\<forall>raw \<in> set raws. raw_exception_valid tlib raw) \<and> es = map (exception_of_raw tlib) raws"
  by (induction raws arbitrary: es) (auto simp: res_bind_Inr_iff raw_exception_Inr_iff)

definition repository_of_raw :: "string \<times> raw_repository_policy \<Rightarrow> string \<times> repository_policy" where
  "repository_of_raw x = (trim (fst x), \<lparr>rp_team = trim (rawr_team (snd x))\<rparr>)"

lemma raw_repositories_Inr_iff:
  "collect_results raw_repository_to_entry raws = Inr rs \<longleftrightarrow>
     (\<forall>(name, r) \<in> set raws. filled name \<and> filled (rawr_team r)) \<and> rs = map repository_of_raw raws"
  by (induction raws arbitrary: rs)
    (auto simp: res_bind_Inr_iff raw_repository_to_entry_def trim_required_Inr_iff
      repository_of_raw_def)

lemma normalize_match_value_trim [simp]: "normalize_match_value (trim s) = normalize_match_value s"
  by (simp add: normalize_match_value_def trim_idem)

definition set_of_raw :: "time_lib \<Rightarrow> raw_policy_set \<Rightarrow> policy_set" where
  "set_of_raw tlib raw =
     \<lparr>ps_default_policy = rule_of_raw (raws_default_policy raw)
        (trim (unwrap_or (raw_id (raws_default_policy raw)) ''default'')),
      ps_repositories = btm_collect (map repository_of_raw (raws_repositories raw)),
      ps_policies = map (\<lambda>r. rule_of_raw r (trim (unwrap_or (raw_id r) []))) (raws_policies raw),
      ps_exceptions = map (exception_of_raw tlib) (raws_exceptions raw)\<rparr>"

lemma from_raw_Inr_iff: "from_raw tlib raw = Inr ps \<longleftrightarrow> raw_valid tlib raw \<and> ps = set_of_raw tlib raw"
proof -
  let ?d = "rule_of_raw (raws_default_policy raw)
    (trim (unwrap_or (raw_id (raws_default_policy raw)) ''default''))"
  let ?ps = "map (\<lambda>r. rule_of_raw r (trim (unwrap_or (raw_id r) []))) (raws_policies raw)"
  let ?es = "map (exception_of_raw tlib) (raws_exceptions raw)"
  have "validate_unique_ids ?d ?ps ?es = Inr () \<longleftrightarrow>
      (\<forall>i \<in> set (rule_ids raw). filled i) \<and> distinct (map normalize_match_value (rule_ids raw)) \<and>
      (\<forall>e \<in> set (raws_exceptions raw). filled (rawe_id e)) \<and>
      distinct (map (normalize_match_value \<circ> rawe_id) (raws_exceptions raw))"
    by (simp add: validate_unique_ids_Inr_iff rule_ids_def exception_of_raw_def o_def trim_idem image_image)
  then show ?thesis
    by (auto simp: from_raw_def res_bind_Inr_iff raw_rule_Inr_iff raw_policies_Inr_iff
        raw_exceptions_Inr_iff raw_repositories_Inr_iff raw_valid_def set_of_raw_def rule_ids_def
        raw_exception_valid_def)
qed


lemma wf_rule_of_raw: "trimmed i \<Longrightarrow> wf_rule (rule_of_raw raw i)"
  by (auto simp: wf_rule_def rule_of_raw_def policy_scope_new_def normalized_selector_list_idem
      set_security_policy_new dest: vid.map_filter_fixed)

lemma wf_exception_of_raw: "raw_exception_valid tlib raw \<Longrightarrow> wf_exception (exception_of_raw tlib raw)"
  using vid.map_filter_Nil_iff [of "rawe_vulnerability_ids raw"]
  by (auto simp: wf_exception_def exception_of_raw_def raw_exception_valid_def exception_scope_new_def
      normalized_selector_list_idem trim_idem dest: vid.map_filter_fixed)

lemma exception_key_of_raw:
  "raw_exception_valid tlib raw \<Longrightarrow>
   Some (exception_key (exception_of_raw tlib raw)) = normalize_match_value (rawe_id raw)"
  using mv.norm_None_iff [of "rawe_id raw"]
  by (auto simp: exception_key_def exception_of_raw_def raw_exception_valid_def)

lemma map_of_rev_btm_collect: "(k, v) \<in> set (btm_collect kvs) \<Longrightarrow> (k, v) \<in> set kvs"
  by (metis btm_get_collect btm_get_eq_Some_iff btm_invar_collect map_of_SomeD set_rev)

lemma wf_set_of_raw: "raw_valid tlib raw \<Longrightarrow> wf_policy_set (set_of_raw tlib raw)"
proof -
  assume v: "raw_valid tlib raw"
  have "map Some (map exception_key (ps_exceptions (set_of_raw tlib raw))) =
      map (normalize_match_value \<circ> rawe_id) (raws_exceptions raw)"
    using v by (simp add: set_of_raw_def raw_valid_def exception_key_of_raw)
  then have "distinct (map exception_key (ps_exceptions (set_of_raw tlib raw)))"
    using v unfolding raw_valid_def by (metis distinct_map)
  moreover have "\<forall>(name, r) \<in> set (ps_repositories (set_of_raw tlib raw)). trimmed name \<and> trimmed (rp_team r)"
    using v by (fastforce simp: set_of_raw_def raw_valid_def repository_of_raw_def trim_idem
        dest: map_of_rev_btm_collect)
  ultimately show ?thesis
    using v
    by (auto simp: wf_policy_set_def set_of_raw_def raw_valid_def rule_ids_def o_def trim_idem
        btm_invar_collect image_image intro!: wf_rule_of_raw wf_exception_of_raw)
qed

text \<open>
  Every policy set read from a file is well formed: rule identifiers are trimmed, non-empty and
  unique, selectors and vulnerability identifiers are in normal form, every exception has an owner, a
  ticket, a reason and some vulnerability identifier, and the keys under which the evaluator logs
  exceptions are unique.
\<close>

theorem from_toml_str_wf:
  assumes "from_toml_str tlib toml_from_str input = Inr ps"
  shows "wf_policy_set ps"
  using assms by (auto simp: from_toml_str_def res_bind_Inr_iff from_raw_Inr_iff intro: wf_set_of_raw)

definition sample_raw_rule :: "string option \<Rightarrow> raw_policy_rule" where
  "sample_raw_rule i =
     \<lparr>raw_id = i, raw_mode = Enforce, raw_minimum_blocking_severity = High,
      raw_allowed_vulnerability_ids = ['' cve-1 ''], raw_max_total_vulnerabilities = Some 3,
      raw_max_low_vulnerabilities = None, raw_max_medium_vulnerabilities = None,
      raw_max_high_vulnerabilities = None, raw_max_critical_vulnerabilities = None,
      raw_repositories = ['' NPM ''], raw_formats = [], raw_teams = []\<rparr>"

definition sample_raw_set :: raw_policy_set where
  "sample_raw_set =
     \<lparr>raws_default_policy = sample_raw_rule None, raws_repositories = [],
      raws_policies = [sample_raw_rule (Some '' strict '')], raws_exceptions = []\<rparr>"

theorem from_toml_str_wf_witness:
  "\<exists>ps. from_toml_str sample_time_lib (\<lambda>_. Inr sample_raw_set) ''...'' = Inr ps \<and> wf_policy_set ps"
proof -
  have "from_toml_str sample_time_lib (\<lambda>_. Inr sample_raw_set) ''...'' =
      Inr (projr (from_toml_str sample_time_lib (\<lambda>_. Inr sample_raw_set) ''...''))"
    by code_simp
  from from_toml_str_wf [OF this] this show ?thesis by blast
qed

end
