(* ===== verification/Io.thy ===== *)
theory Io
  imports Prelude
begin

text \<open>
  Asynchronous code. A computation takes the shared state to a result, the list of observable
  events it performed itself, in order, and the shared state afterwards. \<^const>\<open>None\<close> is a
  computation that never completes. An external operation may change the shared
  state in any way, because other tasks run while the computation awaits it; the event list
  holds the computation's own actions only.
\<close>

type_synonym ('s, 'ev, 'a) io = "'s \<Rightarrow> ('a \<times> 'ev list \<times> 's) option"

definition io_return :: "'a \<Rightarrow> ('s, 'ev, 'a) io" where
  "io_return a = (\<lambda>s. Some (a, [], s))"

definition io_bind :: "('s, 'ev, 'a) io \<Rightarrow> ('a \<Rightarrow> ('s, 'ev, 'b) io) \<Rightarrow> ('s, 'ev, 'b) io" where
  "io_bind m f = (\<lambda>s. Option.bind (m s) (\<lambda>(a, evs, s').
     Option.bind (f a s') (\<lambda>(b, evs', s''). Some (b, evs @ evs', s''))))"

text \<open>\<open>io_try m f\<close> is \<^verbatim>\<open>f(m.await?)\<close>.\<close>

definition io_try :: "('s, 'ev, 'e + 'a) io \<Rightarrow> ('a \<Rightarrow> ('s, 'ev, 'e + 'b) io) \<Rightarrow> ('s, 'ev, 'e + 'b) io"
where
  "io_try m f = io_bind m (\<lambda>r. case r of Inl e \<Rightarrow> io_return (Inl e) | Inr a \<Rightarrow> f a)"

definition io_emit :: "'ev \<Rightarrow> ('s, 'ev, unit) io" where
  "io_emit ev = (\<lambda>s. Some ((), [ev], s))"

definition io_emits :: "'ev list \<Rightarrow> ('s, 'ev, unit) io" where
  "io_emits evs = (\<lambda>s. Some ((), evs, s))"

definition io_ext :: "('s \<Rightarrow> 'a \<times> 's) \<Rightarrow> ('s, 'ev, 'a) io" where
  "io_ext f = (\<lambda>s. case f s of (a, s') \<Rightarrow> Some (a, [], s'))"

definition io_get :: "('s \<Rightarrow> 'a) \<Rightarrow> ('s, 'ev, 'a) io" where
  "io_get f = (\<lambda>s. Some (f s, [], s))"

definition io_modify :: "('s \<Rightarrow> 's) \<Rightarrow> ('s, 'ev, unit) io" where
  "io_modify f = (\<lambda>s. Some ((), [], f s))"

definition io_then :: "('s, 'ev, unit) io \<Rightarrow> ('s, 'ev, 'b) io \<Rightarrow> ('s, 'ev, 'b) io" where
  "io_then m n = io_bind m (\<lambda>_. n)"

text \<open>An external operation recorded as an event.\<close>

definition io_call :: "'ev \<Rightarrow> ('s \<Rightarrow> 'a \<times> 's) \<Rightarrow> ('s, 'ev, 'a) io" where
  "io_call ev f = io_then (io_emit ev) (io_ext f)"

section \<open>Rules\<close>

text \<open>\<open>io_post m Q\<close>: whatever \<open>m\<close> returns satisfies \<open>Q\<close>; \<open>io_total m\<close>: it always returns.\<close>

definition io_post :: "('s, 'ev, 'a) io \<Rightarrow> ('a \<Rightarrow> 'ev list \<Rightarrow> bool) \<Rightarrow> bool" where
  "io_post m Q \<longleftrightarrow> (\<forall>s a evs s'. m s = Some (a, evs, s') \<longrightarrow> Q a evs)"

definition io_total :: "('s, 'ev, 'a) io \<Rightarrow> bool" where
  "io_total m \<longleftrightarrow> (\<forall>s. m s \<noteq> None)"

named_theorems io_simps "execution rules of computations"
named_theorems io_intros "composition rules for postconditions and totality"

lemma io_bind_Some_iff:
  "io_bind m f s = Some (b, evs, s'') \<longleftrightarrow>
     (\<exists>a evs1 s' evs2. m s = Some (a, evs1, s') \<and> f a s' = Some (b, evs2, s'') \<and> evs = evs1 @ evs2)"
  by (force simp: io_bind_def bind_eq_Some_conv)

lemma io_run_simps [io_simps]:
  "io_return a s = Some (a, [], s)"
  "io_emit ev s = Some ((), [ev], s)"
  "io_emits evs s = Some ((), evs, s)"
  "io_get g s = Some (g s, [], s)"
  "io_modify h s = Some ((), [], h s)"
  "io_ext f s = Some (fst (f s), [], snd (f s))"
  by (simp_all add: io_return_def io_emit_def io_emits_def io_get_def io_modify_def io_ext_def split_beta)

lemma io_bind_run [io_simps]:
  "m s = Some (a, evs, s') \<Longrightarrow>
   io_bind m f s = (case f a s' of None \<Rightarrow> None | Some (b, evs', s'') \<Rightarrow> Some (b, evs @ evs', s''))"
  by (simp add: io_bind_def split: option.splits)

lemma io_call_run [io_simps]: "io_call ev f s = Some (fst (f s), [ev], snd (f s))"
  by (simp add: io_call_def io_then_def io_bind_def io_emit_def io_ext_def split_beta)

lemma io_post_return [io_intros]: "Q a [] \<Longrightarrow> io_post (io_return a) Q"
  by (simp add: io_post_def io_return_def)

lemma io_post_emit [io_intros]: "Q () [ev] \<Longrightarrow> io_post (io_emit ev) Q"
  by (simp add: io_post_def io_emit_def)

lemma io_post_emits [io_intros]: "Q () evs \<Longrightarrow> io_post (io_emits evs) Q"
  by (simp add: io_post_def io_emits_def)

lemma io_post_get [io_intros]: "(\<And>s. Q (g s) []) \<Longrightarrow> io_post (io_get g) Q"
  by (simp add: io_post_def io_get_def)

lemma io_post_modify [io_intros]: "Q () [] \<Longrightarrow> io_post (io_modify h) Q"
  by (simp add: io_post_def io_modify_def)

lemma io_post_ext [io_intros]: "(\<And>a. Q a []) \<Longrightarrow> io_post (io_ext f) Q"
  by (auto simp: io_post_def io_ext_def split: prod.splits)

lemma io_post_call [io_intros]: "(\<And>a. Q a [ev]) \<Longrightarrow> io_post (io_call ev f) Q"
  by (auto simp: io_post_def io_call_run)

lemma io_post_bind:
  "io_post m R \<Longrightarrow> (\<And>a evs. R a evs \<Longrightarrow> io_post (f a) (\<lambda>b evs'. Q b (evs @ evs'))) \<Longrightarrow>
   io_post (io_bind m f) Q"
  unfolding io_post_def io_bind_Some_iff by blast

lemma io_post_then:
  "io_post m R \<Longrightarrow> (\<And>a evs. R a evs \<Longrightarrow> io_post n (\<lambda>b evs'. Q b (evs @ evs'))) \<Longrightarrow>
   io_post (io_then m n) Q"
  unfolding io_then_def by (rule io_post_bind)

lemma io_post_try:
  "io_post m R \<Longrightarrow> (\<And>e evs. R (Inl e) evs \<Longrightarrow> Q (Inl e) evs) \<Longrightarrow>
   (\<And>a evs. R (Inr a) evs \<Longrightarrow> io_post (f a) (\<lambda>b evs'. Q b (evs @ evs'))) \<Longrightarrow>
   io_post (io_try m f) Q"
  unfolding io_try_def
  by (erule io_post_bind) (fastforce simp: io_post_def io_return_def split: sum.splits)

lemma io_post_weaken: "io_post m R \<Longrightarrow> (\<And>a evs. R a evs \<Longrightarrow> Q a evs) \<Longrightarrow> io_post m Q"
  by (auto simp: io_post_def)

lemma io_postD: "io_post m Q \<Longrightarrow> m s = Some (a, evs, s') \<Longrightarrow> Q a evs"
  by (auto simp: io_post_def)

lemma io_total_basic [io_intros]:
  "io_total (io_return a)" "io_total (io_emit ev)" "io_total (io_emits evs)" "io_total (io_get g)" "io_total (io_modify h)"
  "io_total (io_ext f)" "io_total (io_call ev f)"
  by (simp_all add: io_total_def io_run_simps io_call_run)

lemma io_total_bind [io_intros]:
  "io_total m \<Longrightarrow> (\<And>a. io_total (f a)) \<Longrightarrow> io_total (io_bind m f)"
  unfolding io_total_def by (metis io_bind_Some_iff not_None_eq prod_cases3)

lemma io_total_then [io_intros]: "io_total m \<Longrightarrow> io_total n \<Longrightarrow> io_total (io_then m n)"
  unfolding io_then_def by (rule io_total_bind)

lemma io_total_try [io_intros]:
  "io_total m \<Longrightarrow> (\<And>a. io_total (f a)) \<Longrightarrow> io_total (io_try m f)"
  unfolding io_try_def by (rule io_total_bind) (auto simp: io_total_basic split: sum.splits)

text \<open>What a computation returns, whatever the part before it did.\<close>

lemma io_result_bind: "(\<And>a. io_post (f a) (\<lambda>b evs. Q b)) \<Longrightarrow> io_post (io_bind m f) (\<lambda>b evs. Q b)"
  by (rule io_post_bind [where R = "\<lambda>_ _. True"]) (auto simp: io_post_def)

lemma io_result_then: "io_post n (\<lambda>b evs. Q b) \<Longrightarrow> io_post (io_then m n) (\<lambda>b evs. Q b)"
  unfolding io_then_def by (rule io_result_bind)

lemma io_result_try:
  "(\<And>e. Q (Inl e)) \<Longrightarrow> (\<And>a. io_post (f a) (\<lambda>b evs. Q b)) \<Longrightarrow> io_post (io_try m f) (\<lambda>b evs. Q b)"
  unfolding io_try_def by (rule io_result_bind) (auto intro: io_post_return split: sum.split)

text \<open>Only events of a given class.\<close>

abbreviation io_only :: "('ev \<Rightarrow> bool) \<Rightarrow> ('s, 'ev, 'a) io \<Rightarrow> bool" where
  "io_only P m \<equiv> io_post m (\<lambda>_ evs. list_all P evs)"

lemma io_only_bind [io_intros]:
  "io_only P m \<Longrightarrow> (\<And>a. io_only P (f a)) \<Longrightarrow> io_only P (io_bind m f)"
  by (erule io_post_bind) (auto intro: io_post_weaken)

lemma io_only_then [io_intros]: "io_only P m \<Longrightarrow> io_only P n \<Longrightarrow> io_only P (io_then m n)"
  unfolding io_then_def by (rule io_only_bind)

lemma io_only_try [io_intros]:
  "io_only P m \<Longrightarrow> (\<And>a. io_only P (f a)) \<Longrightarrow> io_only P (io_try m f)"
  by (erule io_post_try) (auto intro: io_post_weaken)

text \<open>
  What an observer sees who projects the events with \<open>h\<close>; a silent computation is one whose events
  the projection drops.
\<close>

abbreviation io_sees ::
  "('ev \<Rightarrow> 'o option) \<Rightarrow> ('s, 'ev, 'a) io \<Rightarrow> ('a \<Rightarrow> 'o list \<Rightarrow> bool) \<Rightarrow> bool" where
  "io_sees h m Q \<equiv> io_post m (\<lambda>a evs. Q a (List.map_filter h evs))"

abbreviation io_silent :: "('ev \<Rightarrow> 'o option) \<Rightarrow> ('s, 'ev, 'a) io \<Rightarrow> bool" where
  "io_silent h m \<equiv> io_only (\<lambda>ev. h ev = None) m"

lemma map_filter_append [simp]: "List.map_filter h (xs @ ys) = List.map_filter h xs @ List.map_filter h ys"
  by (simp add: List.map_filter_def)

lemma map_filter_silent: "list_all (\<lambda>ev. h ev = None) evs \<Longrightarrow> List.map_filter h evs = []"
  by (induction evs) (auto simp: List.map_filter_def)

lemma io_sees_bind:
  "io_silent h m \<Longrightarrow> (\<And>a. io_sees h (f a) Q) \<Longrightarrow> io_sees h (io_bind m f) Q"
  by (erule io_post_bind) (auto simp: map_filter_silent intro: io_post_weaken)

lemma io_sees_then: "io_silent h m \<Longrightarrow> io_sees h n Q \<Longrightarrow> io_sees h (io_then m n) Q"
  unfolding io_then_def by (rule io_sees_bind)

lemma io_sees_try:
  "io_silent h m \<Longrightarrow> (\<And>e. Q (Inl e) []) \<Longrightarrow> (\<And>a. io_sees h (f a) Q) \<Longrightarrow> io_sees h (io_try m f) Q"
  unfolding io_try_def
  by (erule io_sees_bind) (auto intro!: io_post_return simp: List.map_filter_def split: sum.split)

lemma io_sees_silent: "io_silent h m \<Longrightarrow> io_post m (\<lambda>a evs. Q a []) \<Longrightarrow> io_sees h m Q"
  by (fastforce simp: io_post_def dest: map_filter_silent)

lemma io_silent_sees: "io_silent h m \<Longrightarrow> io_post m (\<lambda>_ evs. List.map_filter h evs = [])"
  by (erule io_post_weaken) (rule map_filter_silent)

lemma io_sees_emit:
  "h ev = Some ob \<Longrightarrow> io_sees h m (\<lambda>r obs. Q r (ob # obs)) \<Longrightarrow> io_sees h (io_then (io_emit ev) m) Q"
  unfolding io_then_def
  by (rule io_post_bind [where R = "\<lambda>_ evs. evs = [ev]"])
    (auto intro: io_post_emit simp: List.map_filter_def)

lemma io_post_conj: "io_post m Q \<Longrightarrow> io_post m R \<Longrightarrow> io_post m (\<lambda>a evs. Q a evs \<and> R a evs)"
  by (auto simp: io_post_def)

end
