(* ===== verification/Http.thy ===== *)
theory Http
  imports Io Severity
begin

text \<open>
  The values that cross the HTTP boundary. Requests are what the code builds with the client
  library, responses what the library hands back: status, headers, an announced length and the body
  as a stream of chunks, any of which may be a read error. Header names are lower case and the
  header map is the list of its entries in iteration order. A parsed URL is its serialisation, a
  JSON number keeps \<^verbatim>\<open>serde_json\<close>'s three representations, and JSON objects are in key order, as the
  library's \<^verbatim>\<open>BTreeMap\<close> has them.

  The libraries themselves are the parameters \<open>url_lib\<close> and \<open>http_lib\<close>.
\<close>

datatype json_number = PosInt u64 | NegInt int | Float f64

datatype json =
    JNull
  | JBool bool
  | JNumber json_number
  | JString string
  | JArray "json list"
  | JObject "(string \<times> json) list"

fun as_f64 :: "json_number \<Rightarrow> f64 option" where
  "as_f64 (PosInt n) = Some (round_f64 False (uint n, 1))"
| "as_f64 (NegInt i) = Some (round_f64 (i < 0) (\<bar>i\<bar>, 1))"
| "as_f64 (Float x) = Some x"

type_synonym headers = "(string \<times> string) list"
type_synonym bytes = string
type_synonym url = string

definition header_get :: "headers \<Rightarrow> string \<Rightarrow> string option" where
  "header_get hs name = map_of hs name"

definition header_contains :: "headers \<Rightarrow> string \<Rightarrow> bool" where
  "header_contains hs name \<longleftrightarrow> name \<in> fst ` set hs"

definition header_values :: "headers \<Rightarrow> string \<Rightarrow> string list" where
  "header_values hs name = map snd (filter (\<lambda>h. fst h = name) hs)"

text \<open>A part of a multipart form: a text, or a file with its bytes, name and media type.\<close>

datatype form_part = TextPart string | FilePart bytes string string

datatype request_body =
    NoBody
  | JsonBody json
  | StreamBody "(string + bytes) list"
  | MultipartBody "(string \<times> form_part) list"

record http_request =
  hr_method :: string
  hr_url :: url
  hr_headers :: headers
  hr_basic_auth :: "(string \<times> string option) option"
  hr_body :: request_body

definition request_to :: "string \<Rightarrow> url \<Rightarrow> http_request" where
  "request_to method u =
     \<lparr>hr_method = method, hr_url = u, hr_headers = [], hr_basic_auth = None, hr_body = NoBody\<rparr>"

record http_response =
  hs_status :: nat
  hs_headers :: headers
  hs_content_length :: "u64 option"
  hs_chunks :: "(string + bytes) list"

definition is_success :: "nat \<Rightarrow> bool" where
  "is_success status \<longleftrightarrow> 200 \<le> status \<and> status < 300"

record url_lib =
  url_path :: "url \<Rightarrow> string"
  url_set_path :: "string \<Rightarrow> url \<Rightarrow> url"
  url_set_query :: "string option \<Rightarrow> url \<Rightarrow> url"
  url_append_pair :: "string \<Rightarrow> string \<Rightarrow> url \<Rightarrow> url"

record http_lib =
  status_text :: "nat \<Rightarrow> string"
  valid_status :: "nat \<Rightarrow> bool"
  header_insert :: "string \<Rightarrow> string \<Rightarrow> headers \<Rightarrow> headers"
  header_to_str :: "string \<Rightarrow> string option"
  header_from_str :: "string \<Rightarrow> string option"
  response_text :: "http_response \<Rightarrow> string + string"

text \<open>
  What \<^verbatim>\<open>HeaderMap::insert\<close> documents: the new value is the only one of its name, other names keep
  theirs, and no name appears that was not there.
\<close>

definition header_insert_law :: "http_lib \<Rightarrow> bool" where
  "header_insert_law lib \<longleftrightarrow>
     (\<forall>n v hs m. header_values (header_insert lib n v hs) m =
        (if m = n then [v] else header_values hs m))"

end
