(* ===== verification/Policy_Schema.thy ===== *)
theory Policy_Schema
  imports Policy_Parse Http
begin

text \<open>
  The JSON schema of policy files (the feature \<^verbatim>\<open>policy-schema\<close> of \<^verbatim>\<open>crates/security/src/policy/parse.rs\<close>). The schema that
  \<^verbatim>\<open>schemars\<close> derives from the raw structures is refined so that it says what the parser demands: the spellings of the two
  enumerations, texts that are not blank, at least one vulnerability of an exception. The derived schema is an argument.
  The patterns are read as regular expressions of JSON Schema, as far as they are used here, and compared with the parser.
\<close>

section \<open>Places in a JSON value\<close>

text \<open>
  \<^verbatim>\<open>serde_json::Value::pointer\<close>: a key of an object or an index of an array, which is written without a sign and
  without leading zeros. A place is the list of the tokens of its pointer; no token here needs the escapes of pointers.
\<close>

definition parse_index :: "string \<Rightarrow> nat option" where
  "parse_index s =
     (if prefix ''+'' s \<or> (prefix ''0'' s \<and> length s \<noteq> 1) then None else parse_uint 64 s)"

fun json_get :: "string list \<Rightarrow> json \<Rightarrow> json option" where
  "json_get [] v = Some v"
| "json_get (t # ts) (JObject m) =
     (case btm_get m t of None \<Rightarrow> None | Some v \<Rightarrow> json_get ts v)"
| "json_get (t # ts) (JArray xs) =
     (case parse_index t of
        None \<Rightarrow> None
      | Some i \<Rightarrow> if i < length xs then json_get ts (xs ! i) else None)"
| "json_get (t # ts) v = None"

text \<open>A change through \<^verbatim>\<open>pointer_mut\<close>; \<^const>\<open>None\<close> is the panic of \<^verbatim>\<open>expect\<close> where the place does not exist or the change is not possible.\<close>

fun json_update :: "string list \<Rightarrow> (json \<Rightarrow> json option) \<Rightarrow> json \<Rightarrow> json option" where
  "json_update [] f v = f v"
| "json_update (t # ts) f (JObject m) =
     (case btm_get m t of
        None \<Rightarrow> None
      | Some v \<Rightarrow> map_option (\<lambda>v'. JObject (btm_insert t v' m)) (json_update ts f v))"
| "json_update (t # ts) f (JArray xs) =
     (case parse_index t of
        None \<Rightarrow> None
      | Some i \<Rightarrow>
          if i < length xs then map_option (\<lambda>v'. JArray (xs[i := v'])) (json_update ts f (xs ! i)) else None)"
| "json_update (t # ts) f v = None"

text \<open>\<^verbatim>\<open>as_object_mut().expect(..).insert(key, value)\<close>\<close>

fun object_insert :: "string \<Rightarrow> json \<Rightarrow> json \<Rightarrow> json option" where
  "object_insert k x (JObject m) = Some (JObject (btm_insert k x m))"
| "object_insert k x v = None"

section \<open>The refinement\<close>

definition replace_def :: "string \<Rightarrow> json \<Rightarrow> json \<Rightarrow> json option" where
  "replace_def name value schema = json_update [''$defs''] (object_insert name value) schema"

definition set_property_schema :: "string \<Rightarrow> string \<Rightarrow> json \<Rightarrow> json \<Rightarrow> json option" where
  "set_property_schema definition property value schema =
     json_update [''$defs'', definition, ''properties'', property] (\<lambda>_. Some value) schema"

definition set_array_items_schema :: "string \<Rightarrow> string \<Rightarrow> json \<Rightarrow> json \<Rightarrow> json option" where
  "set_array_items_schema definition property value schema =
     json_update [''$defs'', definition, ''properties'', property, ''items''] (\<lambda>_. Some value) schema"

text \<open>The patterns are raw strings.\<close>

abbreviation backslash :: char where
  "backslash \<equiv> CHR 0x5C"

definition non_blank_string :: json where
  "non_blank_string = JObject [(''pattern'', JString (backslash # ''S'')), (''type'', JString ''string'')]"

definition severity_pattern :: string where
  "severity_pattern =
     ''^'' @ backslash # ''s*([Ll][Oo][Ww]|[Mm][Ee][Dd][Ii][Uu][Mm]|[Mm][Oo][Dd][Ee][Rr][Aa][Tt][Ee]|[Hh][Ii][Gg][Hh]|[Cc][Rr][Ii][Tt][Ii][Cc][Aa][Ll])'' @ backslash # ''s*$''"

definition mode_pattern :: string where
  "mode_pattern =
     ''^'' @ backslash # ''s*([Ee][Nn][Ff][Oo][Rr][Cc][Ee]|[Ee][Nn][Ff][Oo][Rr][Cc][Ee][Dd]|[Bb][Ll][Oo][Cc][Kk]|[Bb][Ll][Oo][Cc][Kk][Ii][Nn][Gg]|[Rr][Ee][Pp][Oo][Rr][Tt]_[Oo][Nn][Ll][Yy]|[Rr][Ee][Pp][Oo][Rr][Tt]-[Oo][Nn][Ll][Yy]|[Rr][Ee][Pp][Oo][Rr][Tt][Oo][Nn][Ll][Yy]|[Aa][Uu][Dd][Ii][Tt])'' @ backslash # ''s*$''"

definition severity_schema :: json where
  "severity_schema = JObject
     [(''description'', JString ''Case-insensitive severity accepted by the TOML parser: LOW, MEDIUM/MODERATE, HIGH, or CRITICAL.''),
      (''pattern'', JString severity_pattern), (''type'', JString ''string'')]"

definition mode_schema :: json where
  "mode_schema = JObject
     [(''description'', JString ''Case-insensitive enforcement mode accepted by the TOML parser.''),
      (''pattern'', JString mode_pattern), (''type'', JString ''string'')]"

definition date_time_schema :: json where
  "date_time_schema = JObject
     [(''format'', JString ''date-time''), (''pattern'', JString (backslash # ''S'')), (''type'', JString ''string'')]"

text \<open>A loop over texts whose body may panic.\<close>

fun try_each :: "('a \<Rightarrow> 'b \<Rightarrow> 'b option) \<Rightarrow> 'a list \<Rightarrow> 'b \<Rightarrow> 'b option" where
  "try_each f [] v = Some v"
| "try_each f (x # xs) v = Option.bind (f x v) (try_each f xs)"

definition refine_policy_toml_schema :: "json \<Rightarrow> json option" where
  "refine_policy_toml_schema schema =
     Option.bind (object_insert ''required'' (JArray [JString ''default_policy'']) schema) (\<lambda>schema.
     Option.bind (replace_def ''Severity'' severity_schema schema) (\<lambda>schema.
     Option.bind (replace_def ''EnforcementMode'' mode_schema schema) (\<lambda>schema.
     Option.bind (set_property_schema ''RawPolicyRule'' ''id'' non_blank_string schema) (\<lambda>schema.
     Option.bind (set_property_schema ''RawRepositoryPolicy'' ''team'' non_blank_string schema) (\<lambda>schema.
     Option.bind (try_each (\<lambda>property. set_property_schema ''RawPolicyException'' property non_blank_string)
       [''id'', ''owner'', ''ticket'', ''reason''] schema) (\<lambda>schema.
     Option.bind (set_property_schema ''RawPolicyException'' ''expires_at'' date_time_schema schema) (\<lambda>schema.
     Option.bind (set_array_items_schema ''RawPolicyException'' ''vulnerability_ids'' non_blank_string schema) (\<lambda>schema.
     Option.bind (json_update [''$defs'', ''RawPolicyException'', ''properties'', ''vulnerability_ids'']
       (object_insert ''minItems'' (JNumber (PosInt 1))) schema) (\<lambda>schema.
     Option.bind (json_update [''properties'', ''policies'', ''items'']
       (object_insert ''required'' (JArray [JString ''id''])) schema) (\<lambda>schema.
     json_update [''properties'', ''repositories'']
       (object_insert ''propertyNames'' non_blank_string) schema))))))))))"

text \<open>\<open>generated\<close> is \<^verbatim>\<open>serde_json::to_value(schemars::schema_for!(RawPolicySet))\<close>.\<close>

definition policy_toml_schema :: "json option \<Rightarrow> json option" where
  "policy_toml_schema generated = Option.bind generated refine_policy_toml_schema"

section \<open>The deserialisers of the enumerations\<close>

text \<open>
  What the visitors of \<^verbatim>\<open>Severity\<close> and \<^verbatim>\<open>EnforcementMode\<close> make of a text; the error is the message of \<^verbatim>\<open>E::custom\<close>.
\<close>

definition severity_visit_str :: "string \<Rightarrow> string + severity" where
  "severity_visit_str v = map_err (\<lambda>e. ''invalid severity: '' @ spe_input e) (severity_from_str v)"

definition mode_visit_str :: "string \<Rightarrow> string + enforcement_mode" where
  "mode_visit_str v = ok_or (''invalid enforcement mode: '' @ v) (mode_from_str v)"

section \<open>Changes and what they leave\<close>

lemma btm_get_insert [simp]: "btm_get (btm_insert k v m) j = (if j = k then Some v else btm_get m j)"
  by (induction m) (auto simp: btm_get_def)

text \<open>Whether a change at one place leaves another alone: they part at a key that is no index.\<close>

fun diverges :: "string list \<Rightarrow> string list \<Rightarrow> bool" where
  "diverges (a # ts) (b # q) = (if a = b then diverges ts q else parse_index a = None)"
| "diverges ts q = False"

lemma json_update_same:
  "json_update ts f v = Some v' \<Longrightarrow> \<exists>x x'. json_get ts v = Some x \<and> f x = Some x' \<and> json_get (ts @ q) v' = json_get q x'"
  by (induction ts f v arbitrary: v' rule: json_update.induct) (auto split: option.splits if_splits)

lemma json_update_other:
  "json_update ts f v = Some v' \<Longrightarrow> diverges ts q \<Longrightarrow> json_get q v' = json_get q v"
proof (induction ts f v arbitrary: v' q rule: json_update.induct)
  case (2 t ts f m)
  then show ?case by (cases q) (auto split: option.splits if_splits)
next
  case (3 t ts f xs)
  then show ?case by (cases q) (auto split: option.splits if_splits)
qed auto

text \<open>Every step of the refinement writes a value at a place.\<close>

datatype schema_edit = Assign "string list" json | Insert "string list" string json

fun apply_edit :: "schema_edit \<Rightarrow> json \<Rightarrow> json option" where
  "apply_edit (Assign ts x) = json_update ts (\<lambda>_. Some x)"
| "apply_edit (Insert ts k x) = json_update ts (object_insert k x)"

fun edit_place :: "schema_edit \<Rightarrow> string list" where
  "edit_place (Assign ts x) = ts"
| "edit_place (Insert ts k x) = ts @ [k]"

fun edit_value :: "schema_edit \<Rightarrow> json" where
  "edit_value (Assign ts x) = x"
| "edit_value (Insert ts k x) = x"

lemma apply_edit_place: "apply_edit e v = Some v' \<Longrightarrow> json_get (edit_place e) v' = Some (edit_value e)"
proof (cases e)
  case (Assign ts x)
  then show "apply_edit e v = Some v' \<Longrightarrow> ?thesis" using json_update_same [of ts _ v v' "[]"] by auto
next
  case (Insert ts k x)
  then show "apply_edit e v = Some v' \<Longrightarrow> ?thesis"
    using json_update_same [of ts _ v v' "[k]"] by (fastforce elim: object_insert.elims)
qed

lemma diverges_snoc: "diverges (ts @ [k]) q \<Longrightarrow> diverges ts q \<or> (\<exists>b r. q = ts @ b # r \<and> b \<noteq> k)"
  by (induction ts q rule: diverges.induct) (auto split: if_splits elim: diverges.elims)

lemma json_get_append: "json_get (ts @ q) v = Option.bind (json_get ts v) (json_get q)"
  by (induction ts v rule: json_get.induct) (auto split: option.splits)

lemma apply_edit_other:
  "apply_edit e v = Some v' \<Longrightarrow> diverges (edit_place e) q \<Longrightarrow> json_get q v' = json_get q v"
proof (cases e)
  case (Assign ts x)
  then show "apply_edit e v = Some v' \<Longrightarrow> diverges (edit_place e) q \<Longrightarrow> ?thesis" by (simp add: json_update_other)
next
  case (Insert ts k x)
  show "apply_edit e v = Some v' \<Longrightarrow> diverges (edit_place e) q \<Longrightarrow> ?thesis"
  proof -
    assume "apply_edit e v = Some v'" "diverges (edit_place e) q"
    with Insert have upd: "json_update ts (object_insert k x) v = Some v'" and "diverges (ts @ [k]) q" by simp_all
    from diverges_snoc [OF this(2)] show ?thesis
    proof (elim disjE exE conjE)
      fix b r
      assume q: "q = ts @ b # r" "b \<noteq> k"
      obtain y y' where "json_get ts v = Some y" "object_insert k x y = Some y'" "json_get q v' = json_get (b # r) y'"
        using json_update_same [OF upd, of "b # r"] q by auto
      with q show ?thesis by (auto simp: json_get_append elim!: object_insert.elims)
    qed (rule json_update_other [OF upd])
  qed
qed

fun apply_edits :: "schema_edit list \<Rightarrow> json \<Rightarrow> json option" where
  "apply_edits [] v = Some v"
| "apply_edits (e # es) v = Option.bind (apply_edit e v) (apply_edits es)"

text \<open>The value that the last change at a place leaves there, if no later one touches it.\<close>

fun settled :: "schema_edit list \<Rightarrow> string list \<Rightarrow> json option" where
  "settled [] p = None"
| "settled (e # es) p =
     (case settled es p of
        Some x \<Rightarrow> Some x
      | None \<Rightarrow>
          if edit_place e = p \<and> list_all (\<lambda>e. diverges (edit_place e) p) es then Some (edit_value e) else None)"

lemma apply_edits_other:
  "apply_edits es v = Some v' \<Longrightarrow> list_all (\<lambda>e. diverges (edit_place e) q) es \<Longrightarrow> json_get q v' = json_get q v"
  by (induction es arbitrary: v) (auto simp: bind_eq_Some_conv apply_edit_other)

lemma apply_edits_settled:
  "apply_edits es v = Some v' \<Longrightarrow> settled es p = Some x \<Longrightarrow> json_get p v' = Some x"
proof (induction es arbitrary: v)
  case (Cons e es)
  then obtain w where "apply_edit e v = Some w" "apply_edits es w = Some v'" by (auto simp: bind_eq_Some_conv)
  with Cons show ?case
    by (auto split: option.splits if_splits simp: apply_edit_place apply_edits_other)
qed simp

definition policy_schema_edits :: "schema_edit list" where
  "policy_schema_edits =
     [Insert [] ''required'' (JArray [JString ''default_policy'']),
      Insert [''$defs''] ''Severity'' severity_schema,
      Insert [''$defs''] ''EnforcementMode'' mode_schema,
      Assign [''$defs'', ''RawPolicyRule'', ''properties'', ''id''] non_blank_string,
      Assign [''$defs'', ''RawRepositoryPolicy'', ''properties'', ''team''] non_blank_string,
      Assign [''$defs'', ''RawPolicyException'', ''properties'', ''id''] non_blank_string,
      Assign [''$defs'', ''RawPolicyException'', ''properties'', ''owner''] non_blank_string,
      Assign [''$defs'', ''RawPolicyException'', ''properties'', ''ticket''] non_blank_string,
      Assign [''$defs'', ''RawPolicyException'', ''properties'', ''reason''] non_blank_string,
      Assign [''$defs'', ''RawPolicyException'', ''properties'', ''expires_at''] date_time_schema,
      Assign [''$defs'', ''RawPolicyException'', ''properties'', ''vulnerability_ids'', ''items''] non_blank_string,
      Insert [''$defs'', ''RawPolicyException'', ''properties'', ''vulnerability_ids''] ''minItems'' (JNumber (PosInt 1)),
      Insert [''properties'', ''policies'', ''items''] ''required'' (JArray [JString ''id'']),
      Insert [''properties'', ''repositories''] ''propertyNames'' non_blank_string]"

lemma apply_edits_funs:
  "apply_edits [] = Some" "apply_edits (e # es) = (\<lambda>v. Option.bind (apply_edit e v) (apply_edits es))"
  by (simp_all add: fun_eq_iff)

lemma refine_edits: "refine_policy_toml_schema schema = apply_edits policy_schema_edits schema"
  by (simp add: refine_policy_toml_schema_def policy_schema_edits_def replace_def_def set_property_schema_def
      set_array_items_schema_def apply_edits_funs del: apply_edits.simps)

section \<open>Patterns\<close>

text \<open>
  The regular expressions of JSON Schema, which are those of ECMAScript, as far as the schema uses them: anchors, classes of one character, which
  may be repeated, and a choice between sequences of classes. Only ASCII texts are considered, so that a character is a byte.
\<close>

datatype char_class = SpaceClass | NonSpaceClass | OneOf string

datatype pattern_item = AtStart | AtEnd | One char_class | Many char_class | Choice "char_class list list"

definition is_space :: "char \<Rightarrow> bool" where
  "is_space c \<longleftrightarrow> 9 \<le> code c \<and> code c \<le> 13 \<or> code c = 32"

fun class_matches :: "char_class \<Rightarrow> char \<Rightarrow> bool" where
  "class_matches SpaceClass c = is_space c"
| "class_matches NonSpaceClass c = (\<not> is_space c)"
| "class_matches (OneOf cs) c = (c \<in> set cs)"

subsection \<open>Reading a pattern\<close>

definition reserved :: string where
  "reserved = ''^$.*+?()]{}|''"

definition parse_set :: "string \<Rightarrow> (char_class \<times> string) option" where
  "parse_set r =
     (case dropWhile (\<lambda>d. d \<noteq> CHR '']'') r of
        [] \<Rightarrow> None
      | _ # r' \<Rightarrow> Some (OneOf (takeWhile (\<lambda>d. d \<noteq> CHR '']'') r), r'))"

definition parse_escape :: "string \<Rightarrow> (char_class \<times> string) option" where
  "parse_escape r =
     (case r of
        [] \<Rightarrow> None
      | d # r' \<Rightarrow>
          if d = CHR ''s'' then Some (SpaceClass, r')
          else if d = CHR ''S'' then Some (NonSpaceClass, r')
          else None)"

definition parse_class :: "string \<Rightarrow> (char_class \<times> string) option" where
  "parse_class s =
     (case s of
        [] \<Rightarrow> None
      | c # r \<Rightarrow>
          if c = backslash then parse_escape r
          else if c = CHR ''['' then parse_set r
          else if c \<in> set reserved then None
          else Some (OneOf [c], r))"

lemma dropWhile_shorter: "dropWhile P t = d # r \<Longrightarrow> length r < length t"
  using length_dropWhile_le [of P t] by simp

lemma parse_set_shorter: "parse_set s = Some (k, r) \<Longrightarrow> length r < length s"
  unfolding parse_set_def using dropWhile_shorter by (simp split: list.split_asm)

lemma parse_escape_shorter: "parse_escape s = Some (k, r) \<Longrightarrow> length r < length s"
  by (simp add: parse_escape_def split: list.split_asm if_split_asm)

lemma parse_class_shorter: "parse_class s = Some (k, r) \<Longrightarrow> length r < length s"
  by (auto simp: parse_class_def split: list.split_asm if_split_asm dest: parse_set_shorter parse_escape_shorter)

function parse_classes :: "string \<Rightarrow> char_class list option" where
  "parse_classes s =
     (if s = [] then Some []
      else case parse_class s of
        None \<Rightarrow> None
      | Some (k, r) \<Rightarrow> map_option ((#) k) (parse_classes r))"
  by pat_completeness auto
termination
  by (relation "measure length") (auto dest: parse_class_shorter)

declare parse_classes.simps [simp del]

function parse_pattern :: "string \<Rightarrow> pattern_item list option" where
  "parse_pattern s =
     (case s of
        [] \<Rightarrow> Some []
      | c # r \<Rightarrow>
          if c = CHR ''^'' then map_option ((#) AtStart) (parse_pattern r)
          else if c = CHR ''$'' then map_option ((#) AtEnd) (parse_pattern r)
          else if c = CHR ''('' then
            (case dropWhile (\<lambda>d. d \<noteq> CHR '')'') r of
               [] \<Rightarrow> None
             | _ # r' \<Rightarrow>
                 (case those (map parse_classes (split_on (CHR ''|'') (takeWhile (\<lambda>d. d \<noteq> CHR '')'') r))) of
                    None \<Rightarrow> None
                  | Some alternatives \<Rightarrow> map_option ((#) (Choice alternatives)) (parse_pattern r')))
          else case parse_class s of
              None \<Rightarrow> None
            | Some (k, r') \<Rightarrow>
                if prefix ''*'' r' then map_option ((#) (Many k)) (parse_pattern (drop 1 r'))
                else map_option ((#) (One k)) (parse_pattern r'))"
  by pat_completeness auto
termination
  by (relation "measure length") (auto dest: parse_class_shorter dest!: dropWhile_shorter)

declare parse_pattern.simps [simp del]

subsection \<open>Matching\<close>

text \<open>
  The texts that may remain after an item, with a flag that says whether nothing has been read so far. A pattern is searched, that is,
  it may match anywhere in a text.
\<close>

fun after_classes :: "char_class list \<Rightarrow> string \<Rightarrow> string option" where
  "after_classes [] s = Some s"
| "after_classes (k # ks) [] = None"
| "after_classes (k # ks) (c # s) = (if class_matches k c then after_classes ks s else None)"

fun after_many :: "char_class \<Rightarrow> bool \<Rightarrow> string \<Rightarrow> (bool \<times> string) list" where
  "after_many k b [] = [(b, [])]"
| "after_many k b (c # s) = (b, c # s) # (if class_matches k c then after_many k False s else [])"

fun after_item :: "pattern_item \<Rightarrow> bool \<times> string \<Rightarrow> (bool \<times> string) list" where
  "after_item AtStart (b, s) = (if b then [(b, s)] else [])"
| "after_item AtEnd (b, s) = (if s = [] then [(b, s)] else [])"
| "after_item (One k) (b, s) = (case after_classes [k] s of None \<Rightarrow> [] | Some r \<Rightarrow> [(False, r)])"
| "after_item (Many k) (b, s) = after_many k b s"
| "after_item (Choice alts) (b, s) =
     List.map_filter (\<lambda>ks. map_option (Pair (b \<and> ks = [])) (after_classes ks s)) alts"

fun matches_here :: "pattern_item list \<Rightarrow> bool \<times> string \<Rightarrow> bool" where
  "matches_here [] st = True"
| "matches_here (i # is) st = list_ex (matches_here is) (after_item i st)"

definition pattern_search :: "pattern_item list \<Rightarrow> string \<Rightarrow> bool" where
  "pattern_search p s \<longleftrightarrow> list_ex (\<lambda>n. matches_here p (n = 0, drop n s)) [0..<Suc (length s)]"

lemma after_classes_Some_iff:
  "after_classes ks s = Some r \<longleftrightarrow> (\<exists>x. s = x @ r \<and> list_all2 class_matches ks x)"
  by (induction ks s rule: after_classes.induct) (auto simp: list_all2_Cons1 Cons_eq_append_conv)

lemma ex_append_Cons: "(\<exists>x r. c # s = x @ r \<and> Q x r) \<longleftrightarrow> Q [] (c # s) \<or> (\<exists>x r. s = x @ r \<and> Q (c # x) r)"
  unfolding Cons_eq_append_conv by blast

lemma ex_after_many:
  "(\<exists>st \<in> set (after_many k b s). P (snd st)) \<longleftrightarrow> (\<exists>x r. s = x @ r \<and> list_all (class_matches k) x \<and> P r)"
proof (induction k b s rule: after_many.induct)
  case (2 k b c s)
  then show ?case by (cases "class_matches k c") (simp_all add: ex_append_Cons)
qed simp

lemma ex_after_choice:
  "(\<exists>st \<in> set (after_item (Choice alts) (b, s)). P (snd st)) \<longleftrightarrow>
     (\<exists>x r. s = x @ r \<and> (\<exists>ks \<in> set alts. list_all2 class_matches ks x) \<and> P r)"
proof -
  have "st \<in> set (after_item (Choice alts) (b, s)) \<longleftrightarrow>
      (\<exists>ks \<in> set alts. after_classes ks s = Some (snd st) \<and> fst st = (b \<and> ks = []))" for st
    by (cases st) (force simp: List.map_filter_def)
  then have "(\<exists>st \<in> set (after_item (Choice alts) (b, s)). P (snd st)) \<longleftrightarrow>
      (\<exists>ks \<in> set alts. \<exists>r. after_classes ks s = Some r \<and> P r)"
    by (metis fst_conv snd_conv)
  then show ?thesis unfolding after_classes_Some_iff by blast
qed

definition framed :: "char_class list list \<Rightarrow> pattern_item list" where
  "framed alts = [AtStart, Many SpaceClass, Choice alts, Many SpaceClass, AtEnd]"

lemma matches_framed_rest:
  "matches_here [AtEnd] st \<longleftrightarrow> snd st = []"
  "matches_here [Many SpaceClass, AtEnd] st \<longleftrightarrow> list_all is_space (snd st)"
  "matches_here [Choice alts, Many SpaceClass, AtEnd] st \<longleftrightarrow>
     (\<exists>x w. snd st = x @ w \<and> (\<exists>ks \<in> set alts. list_all2 class_matches ks x) \<and> list_all is_space w)"
proof -
  have cm: "class_matches SpaceClass = is_space" by (simp add: fun_eq_iff)
  show at_end: "matches_here [AtEnd] st \<longleftrightarrow> snd st = []" for st by (cases st) auto
  show spaces: "matches_here [Many SpaceClass, AtEnd] st \<longleftrightarrow> list_all is_space (snd st)" for st
    unfolding matches_here.simps(2) [of "Many SpaceClass"] list_ex_iff at_end
    using ex_after_many [where P = "\<lambda>r. r = []"] by (cases st) (simp add: cm)
  show "matches_here [Choice alts, Many SpaceClass, AtEnd] st \<longleftrightarrow>
     (\<exists>x w. snd st = x @ w \<and> (\<exists>ks \<in> set alts. list_all2 class_matches ks x) \<and> list_all is_space w)"
    unfolding matches_here.simps(2) [of "Choice alts"] list_ex_iff spaces
    using ex_after_choice [where P = "list_all is_space"] by (cases st) (simp del: after_item.simps)
qed

lemma pattern_search_framed:
  "pattern_search (framed alts) s \<longleftrightarrow>
     (\<exists>u r. s = u @ r \<and> list_all is_space u \<and>
       (\<exists>x w. r = x @ w \<and> (\<exists>ks \<in> set alts. list_all2 class_matches ks x) \<and> list_all is_space w))"
proof -
  have cm: "class_matches SpaceClass = is_space" by (simp add: fun_eq_iff)
  have "pattern_search (framed alts) s \<longleftrightarrow>
      (\<exists>st \<in> set (after_many SpaceClass True s). matches_here [Choice alts, Many SpaceClass, AtEnd] st)"
    by (auto simp: pattern_search_def framed_def list_ex_iff simp del: upt_Suc split: if_splits)
  then show ?thesis
    unfolding matches_framed_rest
      ex_after_many [where P = "\<lambda>r. \<exists>x w. r = x @ w \<and> (\<exists>ks \<in> set alts. list_all2 class_matches ks x) \<and> list_all is_space w"] cm .
qed

lemma pattern_search_non_space: "pattern_search [One NonSpaceClass] s \<longleftrightarrow> \<not> list_all is_space s"
proof -
  have "matches_here [One NonSpaceClass] (b, t) \<longleftrightarrow> t \<noteq> [] \<and> \<not> is_space (hd t)" for b t
    by (cases t) simp_all
  then have "pattern_search [One NonSpaceClass] s \<longleftrightarrow> (\<exists>n < Suc (length s). drop n s \<noteq> [] \<and> \<not> is_space (hd (drop n s)))"
    by (simp add: pattern_search_def list_ex_iff Bex_def del: upt_Suc matches_here.simps)
  also have "\<dots> \<longleftrightarrow> (\<exists>n < length s. \<not> is_space (s ! n))"
    by (rule ex_cong1) (auto simp: hd_drop_conv_nth)
  finally show ?thesis by (auto simp: list_all_length)
qed

section \<open>The patterns of the schema\<close>

text \<open>Letters in either case, everything else as it is.\<close>

definition either_case :: "string \<Rightarrow> char_class list" where
  "either_case word = map (\<lambda>c. OneOf (if is_ascii_upper c then [c, ascii_lower c] else [c])) word"

lemma pattern_values:
  "parse_pattern (backslash # ''S'') = Some [One NonSpaceClass]"
  "parse_pattern severity_pattern = Some (framed (map either_case [''LOW'', ''MEDIUM'', ''MODERATE'', ''HIGH'', ''CRITICAL'']))"
  "parse_pattern mode_pattern = Some (framed (map either_case
     [''ENFORCE'', ''ENFORCED'', ''BLOCK'', ''BLOCKING'', ''REPORT_ONLY'', ''REPORT-ONLY'', ''REPORTONLY'', ''AUDIT'']))"
  by code_simp+

definition is_ascii :: "string \<Rightarrow> bool" where
  "is_ascii s \<longleftrightarrow> list_all (\<lambda>c. code c < 128) s"

lemma strip_all_ascii:
  assumes "\<And>w. w \<in> set ws \<Longrightarrow> w \<noteq> [] \<and> (length w = 1 \<or> 128 \<le> code (hd w))"
    and "\<And>c. code c < 128 \<Longrightarrow> [c] \<in> set ws \<longleftrightarrow> is_space c" and "is_ascii s"
  shows "strip_all ws s = dropWhile is_space s"
  using assms(3)
proof (induction s)
  case Nil
  have "strip_all ws [] = []" using assms(1) by (intro strip_all_stop) auto
  then show ?case by simp
next
  case (Cons c s)
  then have c: "code c < 128" and s: "is_ascii s" by (simp_all add: is_ascii_def)
  have at: "prefix w (c # s) \<longleftrightarrow> w = [c]" if "w \<in> set ws" for w
    using assms(1) [OF that] c by (cases w) auto
  show ?case
  proof (cases "is_space c")
    case True
    have "find (\<lambda>w. w \<noteq> [] \<and> prefix w (c # s)) ws = Some [c]"
    proof (cases "find (\<lambda>w. w \<noteq> [] \<and> prefix w (c # s)) ws")
      case None
      then show ?thesis using assms(2) [OF c] True by (auto simp: find_None_iff_Ball)
    next
      case (Some w)
      then show ?thesis using at by (auto dest!: find_SomeD)
    qed
    with True Cons.IH [OF s] show ?thesis by (simp add: strip_all.simps [of ws "c # s"])
  next
    case False
    then show ?thesis using at assms(2) [OF c] by (subst strip_all_stop) auto
  qed
qed

lemma white_space_ascii:
  assumes "ws = white_space \<or> ws = map rev white_space"
  shows "w \<in> set ws \<Longrightarrow> w \<noteq> [] \<and> (length w = 1 \<or> 128 \<le> code (hd w))"
    and "code c < 128 \<Longrightarrow> [c] \<in> set ws \<longleftrightarrow> is_space c"
proof -
  show "w \<in> set ws \<Longrightarrow> w \<noteq> [] \<and> (length w = 1 \<or> 128 \<le> code (hd w))"
    using assms by (auto simp: white_space_def code_def)
  have "code c = 9 \<or> code c = 10 \<or> code c = 11 \<or> code c = 12 \<or> code c = 13 \<or> code c = 32 \<longleftrightarrow> is_space c"
    unfolding is_space_def by linarith
  moreover have "[c] \<in> set ws \<longleftrightarrow> code c = 9 \<or> code c = 10 \<or> code c = 11 \<or> code c = 12 \<or> code c = 13 \<or> code c = 32"
    using assms by (auto simp: white_space_def simp flip: code_inject) (simp_all add: code_def)
  ultimately show "[c] \<in> set ws \<longleftrightarrow> is_space c" by simp
qed

lemma trim_ascii: "is_ascii s \<Longrightarrow> trim s = rev (dropWhile is_space (rev (dropWhile is_space s)))"
proof -
  assume "is_ascii s"
  then have d: "is_ascii (dropWhile is_space s)" "is_ascii (rev (dropWhile is_space s))"
    by (auto simp: is_ascii_def list_all_iff dest: set_dropWhileD)
  have "strip_all ws t = dropWhile is_space t" if "ws = white_space \<or> ws = map rev white_space" "is_ascii t" for ws t
    by (rule strip_all_ascii [OF white_space_ascii(1) [OF that(1)] white_space_ascii(2) [OF that(1)] that(2)])
  with d \<open>is_ascii s\<close> show ?thesis by (simp add: trim_def trim_start_def trim_end_def)
qed

lemma trim_ascii_parts:
  assumes "is_ascii s"
  obtains u w where "s = u @ trim s @ w" "list_all is_space u" "list_all is_space w"
proof -
  let ?d = "dropWhile is_space s"
  have "trim s @ rev (takeWhile is_space (rev ?d)) = rev (takeWhile is_space (rev ?d) @ dropWhile is_space (rev ?d))"
    by (simp only: trim_ascii [OF assms] rev_append)
  then have "?d = trim s @ rev (takeWhile is_space (rev ?d))"
    unfolding takeWhile_dropWhile_id rev_rev_ident by (rule sym)
  then have "takeWhile is_space s @ ?d = takeWhile is_space s @ trim s @ rev (takeWhile is_space (rev ?d))"
    by (rule arg_cong)
  then have parts: "s = takeWhile is_space s @ trim s @ rev (takeWhile is_space (rev ?d))"
    unfolding takeWhile_dropWhile_id .
  show ?thesis by (rule that [OF parts]) (auto simp: list_all_iff dest: set_takeWhileD)
qed

lemma dropWhile_all: "(\<forall>x \<in> set (dropWhile P xs). P x) \<longleftrightarrow> (\<forall>x \<in> set xs. P x)"
  by (induction xs) auto

lemma trim_ascii_unique:
  assumes "is_ascii (u @ x @ w)" "list_all is_space u" "list_all is_space w"
    and "x \<noteq> [] \<Longrightarrow> \<not> is_space (hd x) \<and> \<not> is_space (last x)"
  shows "trim (u @ x @ w) = x"
proof -
  have spaces: "dropWhile is_space (t @ v) = dropWhile is_space v" if "list_all is_space t" for t v
    using that by (simp add: dropWhile_append2 list_all_iff)
  show ?thesis
  proof (cases "x = []")
    case True
    have "is_ascii (u @ w)" using assms(1) True by simp
    with True assms(3) show ?thesis by (simp add: trim_ascii spaces [OF assms(2)] dropWhile_all list_all_iff)
  next
    case False
    then obtain c y where "x = c # y" "\<not> is_space c" using assms(4) by (cases x) auto
    then have left: "dropWhile is_space (u @ x @ w) = x @ w" by (simp add: spaces [OF assms(2)])
    obtain z d where "x = z @ [d]" "\<not> is_space d" using assms(4) False by (cases x rule: rev_cases) auto
    then have "dropWhile is_space (rev w @ rev x) = rev x" using assms(3) by (simp add: spaces)
    with left show ?thesis by (simp add: trim_ascii [OF assms(1)])
  qed
qed

lemma either_case_matches:
  "list_all (\<lambda>c. \<not> is_ascii_lower c) word \<Longrightarrow>
     list_all2 class_matches (either_case word) x \<longleftrightarrow> to_ascii_uppercase x = word"
proof (induction word arbitrary: x)
  case Nil
  then show ?case by (simp add: either_case_def)
next
  case (Cons c word)
  have "class_matches (OneOf (if is_ascii_upper c then [c, ascii_lower c] else [c])) d \<longleftrightarrow> ascii_upper d = c" for d
    using Cons.prems
    by (auto simp: code_inject [symmetric] code_ascii_upper code_ascii_lower is_ascii_upper_def is_ascii_lower_def)
  with Cons show ?case
    by (cases x) (simp_all add: either_case_def to_ascii_uppercase_def)
qed

lemma is_space_upper [simp]: "is_space (ascii_upper c) = is_space c"
  by (auto simp: is_space_def code_ascii_upper)

lemma search_words:
  assumes "is_ascii s" "\<And>word. word \<in> set ws \<Longrightarrow> word \<noteq> [] \<and> list_all (\<lambda>c. \<not> is_ascii_lower c \<and> \<not> is_space c) word"
  shows "pattern_search (framed (map either_case ws)) s \<longleftrightarrow> to_ascii_uppercase (trim s) \<in> set ws"
proof -
  have m: "list_all2 class_matches (either_case word) x \<longleftrightarrow> to_ascii_uppercase x = word" if "word \<in> set ws" for word x
    using assms(2) [OF that] by (intro either_case_matches) (simp add: list_all_iff)
  show ?thesis
  proof
    assume "pattern_search (framed (map either_case ws)) s"
    then obtain u x w word where s: "s = u @ x @ w" and sp: "list_all is_space u" "list_all is_space w"
      and word: "word \<in> set ws" "to_ascii_uppercase x = word"
      by (auto simp: pattern_search_framed m)
    have "list_all (\<lambda>c. \<not> is_space c) x"
      using assms(2) [OF word(1)] word(2) by (auto simp: list_all_iff to_ascii_uppercase_def)
    with assms(1) s sp have "trim s = x" by (auto intro!: trim_ascii_unique simp: list_all_iff)
    with word show "to_ascii_uppercase (trim s) \<in> set ws" by simp
  next
    assume "to_ascii_uppercase (trim s) \<in> set ws"
    moreover obtain u w where "s = u @ trim s @ w" "list_all is_space u" "list_all is_space w"
      by (rule trim_ascii_parts [OF assms(1)])
    ultimately show "pattern_search (framed (map either_case ws)) s"
      unfolding pattern_search_framed by (metis (mono_tags, lifting) image_eqI list.set_map m)
  qed
qed

lemma search_non_blank: "is_ascii s \<Longrightarrow> pattern_search [One NonSpaceClass] s \<longleftrightarrow> filled s"
  unfolding pattern_search_non_space by (simp add: trim_ascii list_all_iff dropWhile_all)

section \<open>Files that follow the schema\<close>

text \<open>What a schema demands of a text, of the number of entries of an array, and of the presence of a key at a place.\<close>

definition string_valid :: "json \<Rightarrow> string list \<Rightarrow> string \<Rightarrow> bool" where
  "string_valid schema p v \<longleftrightarrow>
     (case json_get (p @ [''pattern'']) schema of
        None \<Rightarrow> True
      | Some (JString t) \<Rightarrow> (case parse_pattern t of None \<Rightarrow> False | Some items \<Rightarrow> pattern_search items v)
      | Some _ \<Rightarrow> False)"

definition count_valid :: "json \<Rightarrow> string list \<Rightarrow> nat \<Rightarrow> bool" where
  "count_valid schema p n \<longleftrightarrow>
     (case json_get (p @ [''minItems'']) schema of
        None \<Rightarrow> True
      | Some (JNumber (PosInt m)) \<Rightarrow> unat m \<le> n
      | Some _ \<Rightarrow> False)"

definition key_required :: "json \<Rightarrow> string list \<Rightarrow> string \<Rightarrow> bool" where
  "key_required schema p key \<longleftrightarrow>
     (case json_get (p @ [''required'']) schema of Some (JArray ks) \<Rightarrow> JString key \<in> set ks | _ \<Rightarrow> False)"

abbreviation rule_place :: "string \<Rightarrow> string list" where
  "rule_place field \<equiv> [''$defs'', ''RawPolicyRule'', ''properties'', field]"

abbreviation exception_place :: "string \<Rightarrow> string list" where
  "exception_place field \<equiv> [''$defs'', ''RawPolicyException'', ''properties'', field]"

definition rule_follows :: "json \<Rightarrow> raw_policy_rule \<Rightarrow> bool" where
  "rule_follows schema r \<longleftrightarrow>
     (case raw_id r of None \<Rightarrow> True | Some i \<Rightarrow> string_valid schema (rule_place ''id'') i)"

definition exception_follows :: "json \<Rightarrow> raw_policy_exception \<Rightarrow> bool" where
  "exception_follows schema e \<longleftrightarrow>
     string_valid schema (exception_place ''id'') (rawe_id e) \<and>
     string_valid schema (exception_place ''owner'') (rawe_owner e) \<and>
     string_valid schema (exception_place ''ticket'') (rawe_ticket e) \<and>
     string_valid schema (exception_place ''reason'') (rawe_reason e) \<and>
     string_valid schema (exception_place ''expires_at'') (rawe_expires_at e) \<and>
     count_valid schema (exception_place ''vulnerability_ids'') (length (rawe_vulnerability_ids e)) \<and>
     list_all (string_valid schema (exception_place ''vulnerability_ids'' @ [''items''])) (rawe_vulnerability_ids e)"

definition file_follows :: "json \<Rightarrow> raw_policy_set \<Rightarrow> bool" where
  "file_follows schema raw \<longleftrightarrow>
     rule_follows schema (raws_default_policy raw) \<and>
     list_all (\<lambda>r. rule_follows schema r \<and>
       (key_required schema [''properties'', ''policies'', ''items''] ''id'' \<longrightarrow> raw_id r \<noteq> None)) (raws_policies raw) \<and>
     list_all (\<lambda>(name, r). string_valid schema [''properties'', ''repositories'', ''propertyNames''] name \<and>
       string_valid schema [''$defs'', ''RawRepositoryPolicy'', ''properties'', ''team''] (rawr_team r)) (raws_repositories raw) \<and>
     list_all (exception_follows schema) (raws_exceptions raw)"

text \<open>The texts of a file that are compared are ASCII.\<close>

definition file_ascii :: "raw_policy_set \<Rightarrow> bool" where
  "file_ascii raw \<longleftrightarrow>
     list_all (\<lambda>r. case raw_id r of None \<Rightarrow> True | Some i \<Rightarrow> is_ascii i) (raws_default_policy raw # raws_policies raw) \<and>
     list_all (\<lambda>(name, r). is_ascii name \<and> is_ascii (rawr_team r)) (raws_repositories raw) \<and>
     list_all (\<lambda>e. list_all is_ascii ([rawe_id e, rawe_owner e, rawe_ticket e, rawe_reason e, rawe_expires_at e] @
       rawe_vulnerability_ids e)) (raws_exceptions raw)"

lemma settled_values:
  "settled policy_schema_edits [''$defs'', ''Severity''] = Some severity_schema"
  "settled policy_schema_edits [''$defs'', ''EnforcementMode''] = Some mode_schema"
  "settled policy_schema_edits (rule_place ''id'') = Some non_blank_string"
  "settled policy_schema_edits [''$defs'', ''RawRepositoryPolicy'', ''properties'', ''team''] = Some non_blank_string"
  "settled policy_schema_edits (exception_place ''id'') = Some non_blank_string"
  "settled policy_schema_edits (exception_place ''owner'') = Some non_blank_string"
  "settled policy_schema_edits (exception_place ''ticket'') = Some non_blank_string"
  "settled policy_schema_edits (exception_place ''reason'') = Some non_blank_string"
  "settled policy_schema_edits (exception_place ''expires_at'') = Some date_time_schema"
  "settled policy_schema_edits (exception_place ''vulnerability_ids'' @ [''items'']) = Some non_blank_string"
  "settled policy_schema_edits (exception_place ''vulnerability_ids'' @ [''minItems'']) = Some (JNumber (PosInt 1))"
  "settled policy_schema_edits [''properties'', ''policies'', ''items'', ''required''] = Some (JArray [JString ''id''])"
  "settled policy_schema_edits [''properties'', ''repositories'', ''propertyNames''] = Some non_blank_string"
  by code_simp+

lemma refined_settled:
  "refine_policy_toml_schema schema = Some schema' \<Longrightarrow> settled policy_schema_edits p = Some x \<Longrightarrow> json_get p schema' = Some x"
  by (simp add: refine_edits apply_edits_settled)

lemma pattern_of_values:
  "json_get [''pattern''] severity_schema = Some (JString severity_pattern)"
  "json_get [''pattern''] mode_schema = Some (JString mode_pattern)"
  "json_get [''pattern''] non_blank_string = Some (JString (backslash # ''S''))"
  "json_get [''pattern''] date_time_schema = Some (JString (backslash # ''S''))"
  by code_simp+

lemma string_valid_value:
  assumes "json_get p schema = Some x" "json_get [''pattern''] x = Some (JString t)" "parse_pattern t = Some items"
  shows "string_valid schema p v \<longleftrightarrow> pattern_search items v"
  using assms by (simp add: string_valid_def json_get_append)

lemma string_valid_non_blank:
  assumes "json_get p schema = Some non_blank_string \<or> json_get p schema = Some date_time_schema" "is_ascii v"
  shows "string_valid schema p v \<longleftrightarrow> filled v"
  using assms string_valid_value [OF _ pattern_of_values(3) pattern_values(1)] string_valid_value [OF _ pattern_of_values(4) pattern_values(1)]
  by (auto simp: search_non_blank)

lemma severity_accepted_iff:
  "(\<exists>x. severity_visit_str v = Inr x) \<longleftrightarrow> to_ascii_uppercase (trim v) \<in> set [''LOW'', ''MEDIUM'', ''MODERATE'', ''HIGH'', ''CRITICAL'']"
  by (auto simp: severity_visit_str_def severity_from_str_def Let_def)

lemma mode_accepted_iff:
  "(\<exists>x. mode_visit_str v = Inr x) \<longleftrightarrow> to_ascii_uppercase (trim v) \<in> set
     [''ENFORCE'', ''ENFORCED'', ''BLOCK'', ''BLOCKING'', ''REPORT_ONLY'', ''REPORT-ONLY'', ''REPORTONLY'', ''AUDIT'']"
    (is "_ \<longleftrightarrow> _ \<in> set ?upper")
proof -
  let ?lower = "[''enforce'', ''enforced'', ''block'', ''blocking'', ''report_only'', ''report-only'', ''reportonly'', ''audit'']"
  have words: "?upper = map to_ascii_uppercase ?lower" "map to_ascii_lowercase ?lower = ?lower" by code_simp+
  have "(\<exists>x. mode_visit_str v = Inr x) \<longleftrightarrow> to_ascii_lowercase (trim v) \<in> set ?lower"
    by (simp add: mode_visit_str_def mode_from_str_def Let_def)
  also have "\<dots> \<longleftrightarrow> to_ascii_lowercase (trim v) \<in> set (map to_ascii_lowercase ?lower)" by (simp only: words(2))
  also have "\<dots> \<longleftrightarrow> to_ascii_uppercase (trim v) \<in> set (map to_ascii_uppercase ?lower)"
    unfolding set_map image_iff to_ascii_uppercase_eq_iff ..
  finally show ?thesis unfolding words(1) .
qed

text \<open>The demands of the refined schema, place by place.\<close>

lemma refined_texts:
  assumes refined: "refine_policy_toml_schema schema = Some schema'" and ascii: "is_ascii v"
  shows "string_valid schema' (rule_place ''id'') v \<longleftrightarrow> filled v"
    and "string_valid schema' [''$defs'', ''RawRepositoryPolicy'', ''properties'', ''team''] v \<longleftrightarrow> filled v"
    and "string_valid schema' [''properties'', ''repositories'', ''propertyNames''] v \<longleftrightarrow> filled v"
    and "string_valid schema' (exception_place ''id'') v \<longleftrightarrow> filled v"
    and "string_valid schema' (exception_place ''owner'') v \<longleftrightarrow> filled v"
    and "string_valid schema' (exception_place ''ticket'') v \<longleftrightarrow> filled v"
    and "string_valid schema' (exception_place ''reason'') v \<longleftrightarrow> filled v"
    and "string_valid schema' (exception_place ''expires_at'') v \<longleftrightarrow> filled v"
    and "string_valid schema' (exception_place ''vulnerability_ids'' @ [''items'']) v \<longleftrightarrow> filled v"
  by (rule string_valid_non_blank [OF _ ascii], use settled_values [THEN refined_settled [OF refined]] in blast)+

lemma refined_count: "refine_policy_toml_schema schema = Some schema' \<Longrightarrow>
    count_valid schema' (exception_place ''vulnerability_ids'') n \<longleftrightarrow> 1 \<le> n"
  and refined_required: "refine_policy_toml_schema schema = Some schema' \<Longrightarrow>
    key_required schema' [''properties'', ''policies'', ''items''] ''id''"
  using settled_values(11,12) [THEN refined_settled [of schema schema', rotated]]
  by (simp_all add: count_valid_def key_required_def)

lemma rules_follow_iff:
  assumes refined: "refine_policy_toml_schema schema = Some schema'" and ascii: "file_ascii raw"
  shows "rule_follows schema' (raws_default_policy raw) \<and>
      list_all (\<lambda>r. rule_follows schema' r \<and> raw_id r \<noteq> None) (raws_policies raw) \<longleftrightarrow> (\<forall>i \<in> set (rule_ids raw). filled i)"
proof -
  have "filled ''default''" "\<not> filled []" by code_simp+
  then have default: "rule_follows schema' r \<longleftrightarrow> filled (unwrap_or (raw_id r) ''default'')"
    and policy: "rule_follows schema' r \<and> raw_id r \<noteq> None \<longleftrightarrow> filled (unwrap_or (raw_id r) [])"
    if "case raw_id r of None \<Rightarrow> True | Some i \<Rightarrow> is_ascii i" for r
    using that by (cases "raw_id r"; simp add: rule_follows_def refined_texts(1) [OF refined])+
  have "list_all (\<lambda>r. rule_follows schema' r \<and> raw_id r \<noteq> None) (raws_policies raw) \<longleftrightarrow>
      (\<forall>r \<in> set (raws_policies raw). filled (unwrap_or (raw_id r) []))"
    unfolding list_all_iff by (rule ball_cong [OF refl policy]) (use ascii in \<open>simp add: file_ascii_def list_all_iff\<close>)
  then show ?thesis
    using ascii default [of "raws_default_policy raw"] by (simp add: file_ascii_def rule_ids_def)
qed

lemma exception_follows_iff:
  assumes refined: "refine_policy_toml_schema schema = Some schema'"
    and ascii: "list_all is_ascii ([rawe_id e, rawe_owner e, rawe_ticket e, rawe_reason e, rawe_expires_at e] @ rawe_vulnerability_ids e)"
  shows "exception_follows schema' e \<longleftrightarrow>
      filled (rawe_id e) \<and> filled (rawe_owner e) \<and> filled (rawe_ticket e) \<and> filled (rawe_reason e) \<and>
      filled (rawe_expires_at e) \<and> rawe_vulnerability_ids e \<noteq> [] \<and> (\<forall>i \<in> set (rawe_vulnerability_ids e). filled i)"
proof -
  have "list_all (string_valid schema' (exception_place ''vulnerability_ids'' @ [''items''])) (rawe_vulnerability_ids e) \<longleftrightarrow>
      (\<forall>i \<in> set (rawe_vulnerability_ids e). filled i)"
    unfolding list_all_iff by (rule ball_cong [OF refl refined_texts(9) [OF refined]]) (use ascii in \<open>simp add: list_all_iff\<close>)
  with ascii show ?thesis
    unfolding exception_follows_def
    by (simp add: refined_texts(4-8) [OF refined] refined_count [OF refined] Suc_le_eq del: append.simps)
qed

lemma file_follows_iff:
  assumes refined: "refine_policy_toml_schema schema = Some schema'" and ascii: "file_ascii raw"
  shows "file_follows schema' raw \<longleftrightarrow>
    (\<forall>i \<in> set (rule_ids raw). filled i) \<and>
    (\<forall>(name, r) \<in> set (raws_repositories raw). filled name \<and> filled (rawr_team r)) \<and>
    (\<forall>e \<in> set (raws_exceptions raw). filled (rawe_id e) \<and> filled (rawe_owner e) \<and> filled (rawe_ticket e) \<and>
       filled (rawe_reason e) \<and> filled (rawe_expires_at e) \<and> rawe_vulnerability_ids e \<noteq> [] \<and>
       (\<forall>i \<in> set (rawe_vulnerability_ids e). filled i))"
proof -
  have "list_all (\<lambda>(name, r). string_valid schema' [''properties'', ''repositories'', ''propertyNames''] name \<and>
       string_valid schema' [''$defs'', ''RawRepositoryPolicy'', ''properties'', ''team''] (rawr_team r)) (raws_repositories raw) \<longleftrightarrow>
      (\<forall>(name, r) \<in> set (raws_repositories raw). filled name \<and> filled (rawr_team r))"
    unfolding list_all_iff using ascii
    by (intro ball_cong) (auto simp: file_ascii_def list_all_iff refined_texts(2,3) [OF refined])
  moreover have "list_all (exception_follows schema') (raws_exceptions raw) \<longleftrightarrow>
      (\<forall>e \<in> set (raws_exceptions raw). filled (rawe_id e) \<and> filled (rawe_owner e) \<and> filled (rawe_ticket e) \<and>
       filled (rawe_reason e) \<and> filled (rawe_expires_at e) \<and> rawe_vulnerability_ids e \<noteq> [] \<and>
       (\<forall>i \<in> set (rawe_vulnerability_ids e). filled i))"
    unfolding list_all_iff [of "exception_follows schema'"]
    by (rule ball_cong [OF refl exception_follows_iff [OF refined]]) (use ascii in \<open>simp add: file_ascii_def list_all_iff\<close>)
  ultimately show ?thesis
    using refined_required [OF refined] by (simp add: file_follows_def conj_assoc flip: rules_follow_iff [OF assms])
qed

lemma refined_enumerations:
  assumes refined: "refine_policy_toml_schema schema = Some schema'" and ascii: "is_ascii v"
  shows "string_valid schema' [''$defs'', ''Severity''] v \<longleftrightarrow> (\<exists>x. severity_visit_str v = Inr x)"
    and "string_valid schema' [''$defs'', ''EnforcementMode''] v \<longleftrightarrow> (\<exists>x. mode_visit_str v = Inr x)"
proof -
  note settled = settled_values(1,2) [THEN refined_settled [OF refined]]
  note search = string_valid_value [OF settled(1) pattern_of_values(1) pattern_values(2)]
    string_valid_value [OF settled(2) pattern_of_values(2) pattern_values(3)]
  have plain: "word \<noteq> [] \<and> list_all (\<lambda>c. \<not> is_ascii_lower c \<and> \<not> is_space c) word"
    if "word \<in> set [''LOW'', ''MEDIUM'', ''MODERATE'', ''HIGH'', ''CRITICAL''] \<union> set
     [''ENFORCE'', ''ENFORCED'', ''BLOCK'', ''BLOCKING'', ''REPORT_ONLY'', ''REPORT-ONLY'', ''REPORTONLY'', ''AUDIT'']" for word
    using that by (auto simp: is_ascii_lower_def is_space_def code_def)
  show "string_valid schema' [''$defs'', ''Severity''] v \<longleftrightarrow> (\<exists>x. severity_visit_str v = Inr x)"
    unfolding search severity_accepted_iff by (rule search_words [OF ascii plain]) blast
  show "string_valid schema' [''$defs'', ''EnforcementMode''] v \<longleftrightarrow> (\<exists>x. mode_visit_str v = Inr x)"
    unfolding search mode_accepted_iff by (rule search_words [OF ascii plain]) blast
qed


section \<open>The published schema\<close>

text \<open>\<^verbatim>\<open>schemas/policy.schema.json\<close>. Refining it changes nothing, so it is what the code generates as far as the refinement goes.\<close>

definition published_schema :: json where
  "published_schema = JObject
     [(''$defs'', JObject
       [(''EnforcementMode'', JObject
         [(''description'', JString ''Case-insensitive enforcement mode accepted by the TOML parser.''),
          (''pattern'', JString mode_pattern),
          (''type'', JString ''string'')]),
        (''RawPolicyException'', JObject
         [(''additionalProperties'', JBool False),
          (''properties'', JObject
           [(''expires_at'', JObject
             [(''format'', JString ''date-time''),
              (''pattern'', JString (backslash # ''S'')),
              (''type'', JString ''string'')]),
            (''formats'', JObject
             [(''default'', JArray []),
              (''items'', JObject
               [(''type'', JString ''string'')]),
              (''type'', JString ''array'')]),
            (''id'', non_blank_string),
            (''owner'', non_blank_string),
            (''packages'', JObject
             [(''default'', JArray []),
              (''items'', JObject
               [(''type'', JString ''string'')]),
              (''type'', JString ''array'')]),
            (''reason'', non_blank_string),
            (''repositories'', JObject
             [(''default'', JArray []),
              (''items'', JObject
               [(''type'', JString ''string'')]),
              (''type'', JString ''array'')]),
            (''teams'', JObject
             [(''default'', JArray []),
              (''items'', JObject
               [(''type'', JString ''string'')]),
              (''type'', JString ''array'')]),
            (''ticket'', non_blank_string),
            (''versions'', JObject
             [(''default'', JArray []),
              (''items'', JObject
               [(''type'', JString ''string'')]),
              (''type'', JString ''array'')]),
            (''vulnerability_ids'', JObject
             [(''items'', non_blank_string),
              (''minItems'', JNumber (PosInt 1)),
              (''type'', JString ''array'')])]),
          (''required'', JArray [JString ''id'', JString ''owner'', JString ''ticket'', JString ''reason'', JString ''expires_at'', JString ''vulnerability_ids'']),
          (''type'', JString ''object'')]),
        (''RawPolicyRule'', JObject
         [(''additionalProperties'', JBool False),
          (''properties'', JObject
           [(''allowed_vulnerability_ids'', JObject
             [(''default'', JArray []),
              (''items'', JObject
               [(''type'', JString ''string'')]),
              (''type'', JString ''array'')]),
            (''formats'', JObject
             [(''default'', JArray []),
              (''items'', JObject
               [(''type'', JString ''string'')]),
              (''type'', JString ''array'')]),
            (''id'', non_blank_string),
            (''max_critical_vulnerabilities'', JObject
             [(''format'', JString ''uint32''),
              (''minimum'', JNumber (PosInt 0)),
              (''type'', JArray [JString ''integer'', JString ''null''])]),
            (''max_high_vulnerabilities'', JObject
             [(''format'', JString ''uint32''),
              (''minimum'', JNumber (PosInt 0)),
              (''type'', JArray [JString ''integer'', JString ''null''])]),
            (''max_low_vulnerabilities'', JObject
             [(''format'', JString ''uint32''),
              (''minimum'', JNumber (PosInt 0)),
              (''type'', JArray [JString ''integer'', JString ''null''])]),
            (''max_medium_vulnerabilities'', JObject
             [(''format'', JString ''uint32''),
              (''minimum'', JNumber (PosInt 0)),
              (''type'', JArray [JString ''integer'', JString ''null''])]),
            (''max_total_vulnerabilities'', JObject
             [(''format'', JString ''uint32''),
              (''minimum'', JNumber (PosInt 0)),
              (''type'', JArray [JString ''integer'', JString ''null''])]),
            (''minimum_blocking_severity'', JObject
             [(''$ref'', JString ''#/$defs/Severity''),
              (''default'', JString ''HIGH'')]),
            (''mode'', JObject
             [(''$ref'', JString ''#/$defs/EnforcementMode''),
              (''default'', JString ''enforce'')]),
            (''repositories'', JObject
             [(''default'', JArray []),
              (''items'', JObject
               [(''type'', JString ''string'')]),
              (''type'', JString ''array'')]),
            (''teams'', JObject
             [(''default'', JArray []),
              (''items'', JObject
               [(''type'', JString ''string'')]),
              (''type'', JString ''array'')])]),
          (''type'', JString ''object'')]),
        (''RawRepositoryPolicy'', JObject
         [(''additionalProperties'', JBool False),
          (''properties'', JObject
           [(''team'', non_blank_string)]),
          (''required'', JArray [JString ''team'']),
          (''type'', JString ''object'')]),
        (''Severity'', JObject
         [(''description'', JString ''Case-insensitive severity accepted by the TOML parser: LOW, MEDIUM/MODERATE, HIGH, or CRITICAL.''),
          (''pattern'', JString severity_pattern),
          (''type'', JString ''string'')])]),
      (''$schema'', JString ''https://json-schema.org/draft/2020-12/schema''),
      (''additionalProperties'', JBool False),
      (''properties'', JObject
       [(''default_policy'', JObject
         [(''$ref'', JString ''#/$defs/RawPolicyRule'')]),
        (''exceptions'', JObject
         [(''items'', JObject
           [(''$ref'', JString ''#/$defs/RawPolicyException'')]),
          (''type'', JString ''array'')]),
        (''policies'', JObject
         [(''items'', JObject
           [(''$ref'', JString ''#/$defs/RawPolicyRule''),
            (''required'', JArray [JString ''id''])]),
          (''type'', JString ''array'')]),
        (''repositories'', JObject
         [(''additionalProperties'', JObject
           [(''$ref'', JString ''#/$defs/RawRepositoryPolicy'')]),
          (''propertyNames'', non_blank_string),
          (''type'', JString ''object'')])]),
      (''required'', JArray [JString ''default_policy'']),
      (''title'', JString ''RawPolicySet''),
      (''type'', JString ''object'')]"

lemma published_schema_refined: "refine_policy_toml_schema published_schema = Some published_schema"
  by code_simp

definition sample_raw_exception :: "string list \<Rightarrow> raw_policy_exception" where
  "sample_raw_exception ids =
     \<lparr>rawe_id = ''E-1'', rawe_owner = ''security'', rawe_ticket = ''SEC-1'', rawe_reason = ''no fix yet'',
      rawe_expires_at = ''2030-01-01T00:00:00Z'', rawe_vulnerability_ids = ids, rawe_repositories = [],
      rawe_formats = [], rawe_teams = [], rawe_packages = [], rawe_versions = []\<rparr>"

definition sample_policy_file :: "string list \<Rightarrow> raw_policy_set" where
  "sample_policy_file ids = sample_raw_set\<lparr>raws_exceptions := [sample_raw_exception ids]\<rparr>"

definition any_time :: time_lib where
  "any_time = sample_time_lib\<lparr>rfc3339_parse := \<lambda>_. Inr (sample_instant 0)\<rparr>"


text \<open>The schema refuses an exception with a blank vulnerability identifier beside others; the parser drops the blank one and accepts the file.\<close>

lemma blank_vulnerability_ids:
  "\<not> file_follows published_schema (sample_policy_file [''CVE-1'', '' ''])"
  "\<exists>ps. from_raw any_time (sample_policy_file [''CVE-1'', '' '']) = Inr ps"
proof -
  show "\<not> file_follows published_schema (sample_policy_file [''CVE-1'', '' ''])" by code_simp
  have "from_raw any_time (sample_policy_file [''CVE-1'', '' '']) = Inr (projr (from_raw any_time (sample_policy_file [''CVE-1'', '' ''])))"
    by code_simp
  then show "\<exists>ps. from_raw any_time (sample_policy_file [''CVE-1'', '' '']) = Inr ps" by blast
qed

end
