(* ===== verification/Trust_Report.thy ===== *)
theory Trust_Report
  imports Policy_Eval
begin

text \<open>
  Trust reports (\<^verbatim>\<open>crates/security/src/trust_report.rs\<close>) and scanner errors
  (\<^verbatim>\<open>crates/security/src/error.rs\<close>). The clock reading and the random identifier that
  \<^verbatim>\<open>TrustReport::new\<close> draws are arguments. Counters are \<^typ>\<open>nat\<close>: they never exceed a vector's length.
\<close>

section \<open>Reports\<close>

type_synonym uuid = "128 word"

text \<open>
  The \<^verbatim>\<open>uuid\<close> library: the text of an identifier, parsing in any of the accepted notations, whether an
  identifier is of the random version, and the name-based identifier of a byte string in the URL name space.
  Documented are that the text is one of the accepted notations, and that it consists of hexadecimal digits and hyphens.
\<close>

record uuid_lib =
  uuid_text :: "uuid \<Rightarrow> string"
  uuid_parse_str :: "string \<Rightarrow> uuid option"
  uuid_is_random :: "uuid \<Rightarrow> bool"
  uuid_v5_url :: "string \<Rightarrow> uuid"

definition uuid_law :: "uuid_lib \<Rightarrow> bool" where
  "uuid_law lib \<longleftrightarrow>
     (\<forall>i. uuid_parse_str lib (uuid_text lib i) = Some i \<and>
        list_all (\<lambda>c. is_ascii_digit c \<or> is_ascii_lower c \<or> c = CHR ''-'') (uuid_text lib i))"

record severity_counts =
  cnt_total :: nat
  cnt_critical :: nat
  cnt_high :: nat
  cnt_medium :: nat
  cnt_low :: nat
  cnt_unknown :: nat

definition count_vulnerability :: "severity_counts \<Rightarrow> vulnerability \<Rightarrow> severity_counts" where
  "count_vulnerability counts v =
     (case v_severity v of
        Some Critical \<Rightarrow> counts\<lparr>cnt_critical := cnt_critical counts + 1\<rparr>
      | Some High \<Rightarrow> counts\<lparr>cnt_high := cnt_high counts + 1\<rparr>
      | Some Medium \<Rightarrow> counts\<lparr>cnt_medium := cnt_medium counts + 1\<rparr>
      | Some Low \<Rightarrow> counts\<lparr>cnt_low := cnt_low counts + 1\<rparr>
      | None \<Rightarrow> counts\<lparr>cnt_unknown := cnt_unknown counts + 1\<rparr>)"

definition from_vulnerabilities :: "vulnerability list \<Rightarrow> severity_counts" where
  "from_vulnerabilities vs =
     foldl count_vulnerability
       \<lparr>cnt_total = length vs, cnt_critical = 0, cnt_high = 0, cnt_medium = 0, cnt_low = 0,
        cnt_unknown = 0\<rparr> vs"

record trust_report =
  tr_id :: uuid
  tr_created_at :: string
  tr_requester :: "string option"
  tr_context :: policy_context
  tr_block :: block_report
  tr_severity_counts :: severity_counts

definition trust_report_new ::
  "time_lib \<Rightarrow> offset_date_time \<Rightarrow> uuid \<Rightarrow> policy_context \<Rightarrow> block_report \<Rightarrow> trust_report" where
  "trust_report_new tlib now i context block =
     \<lparr>tr_id = i,
      tr_created_at = unwrap_or (rfc3339_format tlib now) (odt_unix_timestamp tlib now),
      tr_requester = None, tr_context = context, tr_block = block,
      tr_severity_counts = from_vulnerabilities (br_vulnerabilities block)\<rparr>"

definition with_requester :: "trust_report \<Rightarrow> string \<Rightarrow> trust_report" where
  "with_requester r requester = r\<lparr>tr_requester := Some requester\<rparr>"

lemma foldl_count_vulnerability:
  "cnt_total (foldl count_vulnerability c vs) = cnt_total c"
  "cnt_critical (foldl count_vulnerability c vs) = cnt_critical c + severity_count vs Critical"
  "cnt_high (foldl count_vulnerability c vs) = cnt_high c + severity_count vs High"
  "cnt_medium (foldl count_vulnerability c vs) = cnt_medium c + severity_count vs Medium"
  "cnt_low (foldl count_vulnerability c vs) = cnt_low c + severity_count vs Low"
  "cnt_unknown (foldl count_vulnerability c vs) =
     cnt_unknown c + length (filter (\<lambda>v. v_severity v = None) vs)"
proof -
  have step: "cnt_total (count_vulnerability c v) = cnt_total c"
    "cnt_critical (count_vulnerability c v) = cnt_critical c + severity_count [v] Critical"
    "cnt_high (count_vulnerability c v) = cnt_high c + severity_count [v] High"
    "cnt_medium (count_vulnerability c v) = cnt_medium c + severity_count [v] Medium"
    "cnt_low (count_vulnerability c v) = cnt_low c + severity_count [v] Low"
    "cnt_unknown (count_vulnerability c v) = cnt_unknown c + (if v_severity v = None then 1 else 0)" for c v
    by (cases "v_severity v"; cases "the (v_severity v)";
        simp add: count_vulnerability_def severity_count_def)+
  show "cnt_total (foldl count_vulnerability c vs) = cnt_total c"
    by (induction vs arbitrary: c) (simp_all add: step)
  show "cnt_critical (foldl count_vulnerability c vs) = cnt_critical c + severity_count vs Critical"
    by (induction vs arbitrary: c) (simp_all add: step(2) severity_count_def)
  show "cnt_high (foldl count_vulnerability c vs) = cnt_high c + severity_count vs High"
    by (induction vs arbitrary: c) (simp_all add: step(3) severity_count_def)
  show "cnt_medium (foldl count_vulnerability c vs) = cnt_medium c + severity_count vs Medium"
    by (induction vs arbitrary: c) (simp_all add: step(4) severity_count_def)
  show "cnt_low (foldl count_vulnerability c vs) = cnt_low c + severity_count vs Low"
    by (induction vs arbitrary: c) (simp_all add: step(5) severity_count_def)
  show "cnt_unknown (foldl count_vulnerability c vs) =
     cnt_unknown c + length (filter (\<lambda>v. v_severity v = None) vs)"
    by (induction vs arbitrary: c) (simp_all add: step(6))
qed

lemma length_by_severity:
  "length vs = severity_count vs Critical + severity_count vs High + severity_count vs Medium +
     severity_count vs Low + length (filter (\<lambda>v. v_severity v = None) vs)"
proof (induction vs)
  case Nil
  then show ?case by (simp add: severity_count_def)
next
  case (Cons v vs)
  then show ?case
    by (cases "v_severity v"; cases "the (v_severity v)"; simp add: severity_count_def)
qed

text \<open>
  The counts of a report agree with the findings it lists: each severity's count is the number
  of findings with that severity, and the counts, with the unknown ones, add up to the total.
\<close>

theorem severity_counts_sum:
  "let c = from_vulnerabilities vs
   in cnt_total c = length vs \<and> cnt_critical c = severity_count vs Critical \<and>
      cnt_high c = severity_count vs High \<and> cnt_medium c = severity_count vs Medium \<and>
      cnt_low c = severity_count vs Low \<and>
      cnt_total c = cnt_critical c + cnt_high c + cnt_medium c + cnt_low c + cnt_unknown c"
  using length_by_severity [of vs]
  by (simp add: Let_def from_vulnerabilities_def foldl_count_vulnerability)

section \<open>Scanner errors\<close>

text \<open>
  A \<^verbatim>\<open>Duration\<close> is its number of nanoseconds; \<open>duration_debug\<close> is its \<^verbatim>\<open>Debug\<close> text: the largest
  unit with a non-zero integer part, and the fraction without trailing zeros.
\<close>

type_synonym duration = nat

definition from_secs :: "u64 \<Rightarrow> duration" where
  "from_secs n = unat n * 1000000000"

definition pad_left :: "nat \<Rightarrow> string \<Rightarrow> string" where
  "pad_left n s = replicate (n - length s) (CHR ''0'') @ s"

definition decimal_text :: "nat \<Rightarrow> nat \<Rightarrow> nat \<Rightarrow> string" where
  "decimal_text n unit_nanos digits =
     (let fraction = rev (dropWhile (\<lambda>c. c = CHR ''0'') (rev (pad_left digits (show_nat (n mod unit_nanos)))))
      in show_nat (n div unit_nanos) @ (if fraction = [] then [] else ''.'' @ fraction))"

definition duration_debug :: "duration \<Rightarrow> string" where
  "duration_debug n =
     (if n \<ge> 1000000000 then decimal_text n 1000000000 9 @ ''s''
      else if n \<ge> 1000000 then decimal_text n 1000000 6 @ ''ms''
      else if n \<ge> 1000 then decimal_text n 1000 3 @ [CHR 0xC2, CHR 0xB5] @ ''s''
      else show_nat n @ ''ns'')"

datatype security_error =
    Request string
  | UnexpectedStatus nat string
  | InvalidResponse string
  | InvalidPackageReference string
  | UnsupportedTarget string
  | ScannerTimeout duration
  | ScannerFailed string string

text \<open>\<open>show_status\<close> is the \<^verbatim>\<open>Display\<close> of the HTTP library's status code.\<close>

fun security_error_display :: "(nat \<Rightarrow> string) \<Rightarrow> security_error \<Rightarrow> string" where
  "security_error_display show_status (Request e) = ''scanner request failed: '' @ e"
| "security_error_display show_status (UnexpectedStatus st body) =
     ''scanner returned '' @ show_status st @ '': '' @ body"
| "security_error_display show_status (InvalidResponse e) = ''invalid scanner response: '' @ e"
| "security_error_display show_status (InvalidPackageReference e) = ''invalid package reference: '' @ e"
| "security_error_display show_status (UnsupportedTarget e) = ''unsupported scan target: '' @ e"
| "security_error_display show_status (ScannerTimeout d) =
     ''external scanner timed out after '' @ duration_debug d"
| "security_error_display show_status (ScannerFailed st err) =
     ''external scanner exited with '' @ st @ '': '' @ err"

end
