(* ===== verification/Osv.thy ===== *)
theory Osv
  imports Http Trust_Report
begin

text \<open>
  The OSV client (\<^verbatim>\<open>crates/security/src/osv.rs\<close>): the query, the paging loop and the conversion of
  OSV records. Sending a request is the parameter \<open>send\<close>, reading a body as OSV's response structure
  the parameter \<open>osv_json\<close>. The paging loop ends only if the service stops
  handing out page tokens, so it is a \<open>partial_function\<close>; \<open>osv_pages\<close> describes a service that does.
\<close>

section \<open>Queries\<close>

record osv_package =
  op_name :: "string option"
  op_ecosystem :: "string option"
  op_purl :: "string option"

record osv_query =
  oq_commit :: "string option"
  oq_version :: "string option"
  oq_package :: "osv_package option"
  oq_page_token :: "string option"

definition purl_contains_version :: "string \<Rightarrow> bool" where
  "purl_contains_version p = (CHR ''@'' \<in> set (last (split_on (CHR ''/'') p)))"

definition osv_query_from_package ::
  "package_coordinate \<Rightarrow> string option \<Rightarrow> security_error + osv_query" where
  "osv_query_from_package package page_token =
     (case pc_identity package of
        Osv ecosystem name \<Rightarrow>
          Inr \<lparr>oq_commit = None, oq_version = pc_version package,
               oq_package = Some \<lparr>op_name = Some name, op_ecosystem = Some ecosystem, op_purl = None\<rparr>,
               oq_page_token = page_token\<rparr>
      | Purl p \<Rightarrow>
          Inr \<lparr>oq_commit = None,
               oq_version = opt_filter (\<lambda>_. \<not> purl_contains_version p) (pc_version package),
               oq_package = Some \<lparr>op_name = None, op_ecosystem = None, op_purl = Some p\<rparr>,
               oq_page_token = page_token\<rparr>
      | GitCommit c \<Rightarrow>
          Inr \<lparr>oq_commit = Some c, oq_version = None, oq_package = None, oq_page_token = page_token\<rparr>)"

text \<open>The \<^verbatim>\<open>Serialize\<close> instances: absent fields are left out; objects in key order.\<close>

definition json_field :: "string \<Rightarrow> string option \<Rightarrow> (string \<times> json) list" where
  "json_field key value = (case value of None \<Rightarrow> [] | Some v \<Rightarrow> [(key, JString v)])"

definition osv_package_json :: "osv_package \<Rightarrow> json" where
  "osv_package_json p =
     JObject (json_field ''ecosystem'' (op_ecosystem p) @ json_field ''name'' (op_name p)
       @ json_field ''purl'' (op_purl p))"

definition osv_query_json :: "osv_query \<Rightarrow> json" where
  "osv_query_json q =
     JObject (json_field ''commit'' (oq_commit q)
       @ (case oq_package q of None \<Rightarrow> [] | Some p \<Rightarrow> [(''package'', osv_package_json p)])
       @ json_field ''page_token'' (oq_page_token q) @ json_field ''version'' (oq_version q))"

section \<open>Responses\<close>

record osv_severity =
  os_kind :: "string option"
  os_score :: "string option"

record osv_affected_package =
  oap_name :: "string option"
  oap_ecosystem :: "string option"
  oap_purl :: "string option"

type_synonym osv_event = "string option"
type_synonym osv_range = "osv_event list"

record osv_affected =
  oa_package :: "osv_affected_package option"
  oa_ranges :: "osv_range list"
  oa_ecosystem_specific :: json
  oa_database_specific :: json

record osv_vulnerability =
  ov_id :: string
  ov_aliases :: "string list"
  ov_summary :: "string option"
  ov_details :: "string option"
  ov_severity :: "osv_severity list"
  ov_references :: "reference list"
  ov_affected :: "osv_affected list"
  ov_database_specific :: json

record osv_response =
  or_vulns :: "osv_vulnerability list"
  or_next_page_token :: "string option"

definition affected_matches :: "osv_affected \<Rightarrow> package_coordinate \<Rightarrow> bool" where
  "affected_matches affected target =
     (case oa_package affected of
        None \<Rightarrow> False
      | Some p \<Rightarrow>
          (case pc_identity target of
             Osv ecosystem name \<Rightarrow> oap_name p = Some name \<and> oap_ecosystem p = Some ecosystem
           | Purl u \<Rightarrow> oap_purl p = Some u
           | GitCommit _ \<Rightarrow> False))"

lemma size_snd_less: "kv \<in> set kvs \<Longrightarrow> size (snd kv) < Suc (size_list (size_prod (\<lambda>_. 0) size) kvs)"
  by (induction kvs) (auto simp: less_Suc_eq_le split: prod.splits intro: le_SucI trans_le_add2)

function severity_from_json :: "json \<Rightarrow> severity option" where
  "severity_from_json (JString s) = severity_from_text_or_score s"
| "severity_from_json (JNumber n) = Option.bind (as_f64 n) severity_from_cvss"
| "severity_from_json (JArray vs) = find_map severity_from_json vs"
| "severity_from_json (JObject kvs) =
     find_map (\<lambda>kv.
       or_else
         (if eq_ignore_ascii_case (fst kv) ''severity'' then severity_from_json (snd kv) else None)
         (severity_from_json (snd kv))) kvs"
| "severity_from_json JNull = None"
| "severity_from_json (JBool b) = None"
  by pat_completeness auto
termination
  by (relation "measure size") (auto simp: less_Suc_eq_le intro: size_list_estimation' dest: size_snd_less)

definition severity_from_osv :: "osv_vulnerability \<Rightarrow> severity option" where
  "severity_from_osv v =
     or_else (or_else (severity_from_json (ov_database_specific v))
       (find_map (\<lambda>a. or_else (severity_from_json (oa_ecosystem_specific a))
                    (severity_from_json (oa_database_specific a))) (ov_affected v)))
       (find_map (\<lambda>sev. or_else (Option.bind (os_score sev) severity_from_text_or_score)
                    (Option.bind (os_kind sev) severity_from_text_or_score)) (ov_severity v))"

definition into_vulnerability :: "package_coordinate \<Rightarrow> osv_vulnerability \<Rightarrow> vulnerability" where
  "into_vulnerability package v =
     (let affected = find (\<lambda>a. affected_matches a package) (ov_affected v)
      in \<lparr>v_id = ov_id v, v_aliases = ov_aliases v, v_summary = ov_summary v,
          v_details = ov_details v, v_severity = severity_from_osv v,
          v_references = ov_references v,
          v_component_name = Option.bind (Option.bind affected oa_package) oap_name,
          v_component_version = pc_version package,
          v_fixed_versions = normalized_fixed_versions
            (case affected of
               None \<Rightarrow> []
             | Some a \<Rightarrow> List.map_filter id (concat (oa_ranges a)))\<rparr>)"

section \<open>The client\<close>

definition osv_request :: "url \<Rightarrow> osv_query \<Rightarrow> http_request" where
  "osv_request endpoint q = (request_to ''POST'' endpoint)\<lparr>hr_body := JsonBody (osv_query_json q)\<rparr>"

text \<open>One turn of the loop after \<^verbatim>\<open>send\<close>: the page's findings and the token of the next page.\<close>

definition osv_page ::
  "http_lib \<Rightarrow> (http_response \<Rightarrow> string + osv_response) \<Rightarrow> package_coordinate \<Rightarrow>
   string + http_response \<Rightarrow> security_error + vulnerability list \<times> string option"
where
  "osv_page lib osv_json package reply =
     res_bind (map_err Request reply) (\<lambda>response.
       if \<not> is_success (hs_status response) then
         Inl (UnexpectedStatus (hs_status response)
           (case response_text lib response of
              Inl e \<Rightarrow> ''failed to read OSV error body: '' @ e
            | Inr body \<Rightarrow> body))
       else
         res_bind (map_err InvalidResponse (osv_json response)) (\<lambda>page.
           Inr (map (into_vulnerability package) (or_vulns page),
                opt_filter (\<lambda>t. t \<noteq> []) (or_next_page_token page))))"

partial_function (option) query_loop ::
  "http_lib \<Rightarrow> (http_response \<Rightarrow> string + osv_response) \<Rightarrow>
   (http_request \<Rightarrow> ('s, 'ev, string + http_response) io) \<Rightarrow> url \<Rightarrow> package_coordinate \<Rightarrow>
   string option \<Rightarrow> vulnerability list \<Rightarrow> ('s, 'ev, security_error + vulnerability list) io"
where
  "query_loop lib osv_json send endpoint package page_token acc s =
     (case osv_query_from_package package page_token of
        Inl e \<Rightarrow> Some (Inl e, [], s)
      | Inr q \<Rightarrow>
          Option.bind (send (osv_request endpoint q) s) (\<lambda>r.
            case osv_page lib osv_json package (fst r) of
              Inl e \<Rightarrow> Some (Inl e, fst (snd r), snd (snd r))
            | Inr page \<Rightarrow>
                (case snd page of
                   None \<Rightarrow> Some (Inr (acc @ fst page), fst (snd r), snd (snd r))
                 | Some t \<Rightarrow>
                     Option.bind
                       (query_loop lib osv_json send endpoint package (Some t) (acc @ fst page)
                          (snd (snd r)))
                       (\<lambda>x. Some (fst x, fst (snd r) @ fst (snd x), snd (snd x))))))"

definition query_package ::
  "http_lib \<Rightarrow> (http_response \<Rightarrow> string + osv_response) \<Rightarrow>
   (http_request \<Rightarrow> ('s, 'ev, string + http_response) io) \<Rightarrow> url \<Rightarrow> package_coordinate \<Rightarrow>
   ('s, 'ev, security_error + vulnerability list) io" where
  "query_package lib osv_json send endpoint package =
     query_loop lib osv_json send endpoint package None []"

definition osv_vulnerabilities ::
  "http_lib \<Rightarrow> (http_response \<Rightarrow> string + osv_response) \<Rightarrow>
   (http_request \<Rightarrow> ('s, 'ev, string + http_response) io) \<Rightarrow> url \<Rightarrow> scan_target \<Rightarrow>
   ('s, 'ev, security_error + vulnerability list) io" where
  "osv_vulnerabilities lib osv_json send endpoint target =
     (case target of
        Package package \<Rightarrow> query_package lib osv_json send endpoint package
      | Artifact artifact \<Rightarrow>
          io_return (Inl (UnsupportedTarget
            (''OSV cannot scan '' @ at_source_format artifact @ '' artifacts by URL or bytes''))))"

section \<open>Severities in records\<close>

text \<open>The scalars of a JSON value in document order, and the severity each one reads as.\<close>

function json_scalars :: "json \<Rightarrow> json list" where
  "json_scalars (JArray vs) = concat (map json_scalars vs)"
| "json_scalars (JObject kvs) = concat (map (\<lambda>kv. json_scalars (snd kv)) kvs)"
| "json_scalars (JString s) = [JString s]"
| "json_scalars (JNumber n) = [JNumber n]"
| "json_scalars (JBool b) = [JBool b]"
| "json_scalars JNull = [JNull]"
  by pat_completeness auto
termination
  by (relation "measure size") (auto simp: less_Suc_eq_le intro: size_list_estimation' dest: size_snd_less)

fun scalar_severity :: "json \<Rightarrow> severity option" where
  "scalar_severity (JString s) = severity_from_text_or_score s"
| "scalar_severity (JNumber n) = Option.bind (as_f64 n) severity_from_cvss"
| "scalar_severity v = None"

lemma find_map_append: "find_map f (xs @ ys) = or_else (find_map f xs) (find_map f ys)"
  by (induction xs) (auto split: option.splits)

lemma find_map_concat: "find_map f (concat xss) = find_map (find_map f) xss"
  by (induction xss) (auto simp: find_map_append or_else_def split: option.splits)

lemma find_map_map: "find_map f (map g xs) = find_map (\<lambda>x. f (g x)) xs"
  by (induction xs) (auto split: option.splits)

lemma or_else_same [simp]: "or_else (if b then x else None) x = x"
  by (cases x) auto

text \<open>
  The severity of a record's free-form JSON is that of the first scalar, in document order, that
  reads as a severity name or as a CVSS score; in particular a key named \<open>severity\<close> has
  no precedence over the keys before it.
\<close>

theorem severity_from_json_first_scalar:
  "severity_from_json v = find_map scalar_severity (json_scalars v)"
proof (induction v rule: severity_from_json.induct)
  case (3 vs)
  then show ?case by (simp add: find_map_concat find_map_map cong: find_map_cong)
next
  case (4 kvs)
  then have "severity_from_json (snd kv) = find_map scalar_severity (json_scalars (snd kv))"
    if "kv \<in> set kvs" for kv using that by blast
  moreover have "severity_from_json (JObject kvs) = find_map (\<lambda>kv. severity_from_json (snd kv)) kvs"
    by simp
  ultimately show ?case by (simp add: find_map_concat find_map_map cong: find_map_cong)
qed (auto split: option.splits)

text \<open>
  The preference for a \<open>severity\<close> key that the code spells out has no effect: a record marked
  critical is read as low when a small number precedes the mark in key order.
\<close>

theorem severity_key_not_preferred:
  "severity_from_json
     (JObject [(''epss'', JNumber (Float (f64_lit 1 2))), (''severity'', JString ''CRITICAL'')]) = Some Low"
  by code_simp

section \<open>Paging\<close>

text \<open>A service that answers every page and ends: the findings of the pages, in order.\<close>

inductive osv_pages ::
  "http_lib \<Rightarrow> (http_response \<Rightarrow> string + osv_response) \<Rightarrow>
   (http_request \<Rightarrow> ('s, 'ev, string + http_response) io) \<Rightarrow> url \<Rightarrow> package_coordinate \<Rightarrow>
   string option \<Rightarrow> 's \<Rightarrow> vulnerability list list \<Rightarrow> 'ev list \<Rightarrow> 's \<Rightarrow> bool"
  for lib osv_json send endpoint package
where
  last_page:
    "osv_query_from_package package tok = Inr q \<Longrightarrow>
     send (osv_request endpoint q) s = Some (reply, evs, s') \<Longrightarrow>
     osv_page lib osv_json package reply = Inr (vs, None) \<Longrightarrow>
     osv_pages lib osv_json send endpoint package tok s [vs] evs s'"
| next_page:
    "osv_query_from_package package tok = Inr q \<Longrightarrow>
     send (osv_request endpoint q) s = Some (reply, evs, s') \<Longrightarrow>
     osv_page lib osv_json package reply = Inr (vs, Some t) \<Longrightarrow>
     osv_pages lib osv_json send endpoint package (Some t) s' pages evs' s'' \<Longrightarrow>
     osv_pages lib osv_json send endpoint package tok s (vs # pages) (evs @ evs') s''"

lemma query_loop_complete:
  "osv_pages lib osv_json send endpoint package tok s pages evs s' \<Longrightarrow>
   query_loop lib osv_json send endpoint package tok acc s = Some (Inr (acc @ concat pages), evs, s')"
proof (induction arbitrary: acc rule: osv_pages.induct)
  case last_page
  then show ?case by (subst query_loop.simps) simp
next
  case next_page
  then show ?case by (subst query_loop.simps) simp
qed


lemma query_loop_sound:
  "query_loop lib osv_json send endpoint package tok acc s = Some y \<Longrightarrow> fst y = Inr vs \<Longrightarrow>
   \<exists>pages. osv_pages lib osv_json send endpoint package tok s pages (fst (snd y)) (snd (snd y)) \<and>
     vs = acc @ concat pages"
proof (induction arbitrary: vs rule: query_loop.raw_induct [rotated, consumes 1, case_names step])
  case (step ql lib osv_json send endpoint package tok acc s y)
  obtain q where q: "osv_query_from_package package tok = Inr q"
    by (cases "pc_identity package") (auto simp: osv_query_from_package_def)
  with step.hyps obtain reply evs s1 where r: "send (osv_request endpoint q) s = Some (reply, evs, s1)"
    by (auto simp: bind_eq_Some_conv)
  with q step.hyps step.prems obtain page where page: "osv_page lib osv_json package reply = Inr page"
    by (cases "osv_page lib osv_json package reply") auto
  obtain pvs nxt where p: "page = (pvs, nxt)" by (cases page)
  show ?case
  proof (cases nxt)
    case None
    with q r page p step.hyps step.prems show ?thesis
      by (auto intro!: exI [of _ "[pvs]"] osv_pages.last_page)
  next
    case (Some t)
    with q r page p step.hyps obtain x where x: "ql lib osv_json send endpoint package (Some t) (acc @ pvs) s1 = Some x"
      and y: "y = (fst x, evs @ fst (snd x), snd (snd x))"
      by (auto simp: bind_eq_Some_conv)
    from step.IH [OF x, of vs] step.prems y obtain pages where
      "osv_pages lib osv_json send endpoint package (Some t) s1 pages (fst (snd x)) (snd (snd x))"
      "vs = (acc @ pvs) @ concat pages" by auto
    with q r page p Some y show ?thesis
      by (auto intro!: exI [of _ "pvs # pages"] osv_pages.next_page)
  qed
qed

lemma query_loop_only:
  "query_loop lib osv_json send endpoint package tok acc s = Some y \<Longrightarrow> (\<And>req. io_only P (send req)) \<Longrightarrow>
   list_all P (fst (snd y))"
proof (induction rule: query_loop.raw_induct [rotated, consumes 1, case_names step])
  case (step ql lib osv_json send endpoint package tok acc s y)
  obtain q where q: "osv_query_from_package package tok = Inr q"
    by (cases "pc_identity package") (auto simp: osv_query_from_package_def)
  with step.hyps obtain reply evs s1 where r: "send (osv_request endpoint q) s = Some (reply, evs, s1)"
    by (auto simp: bind_eq_Some_conv)
  have evs: "list_all P evs" by (rule io_postD [OF step.prems r])
  show ?case
    using step.hyps q r evs step.IH [OF _ step.prems]
    by (auto simp: bind_eq_Some_conv split: sum.splits option.splits)
qed

lemma osv_vulnerabilities_only [io_intros]:
  "(\<And>req. io_only P (send req)) \<Longrightarrow> io_only P (osv_vulnerabilities lib osv_json send endpoint target)"
  unfolding osv_vulnerabilities_def query_package_def
  by (cases target) (auto simp: io_post_def io_return_def dest!: query_loop_only)

text \<open>
  C28. The client reports the findings of all the pages of the service's answer, in order, and
  returns a list of findings in no other case: a failed page is never silently left out. In
  particular it returns whenever the service ends its sequence of pages.
\<close>

theorem query_package_pages:
  "query_package lib osv_json send endpoint package s = Some (Inr vs, evs, s') \<longleftrightarrow>
     (\<exists>pages. osv_pages lib osv_json send endpoint package None s pages evs s' \<and> vs = concat pages)"
  using query_loop_sound [of lib osv_json send endpoint package None "[]" s "(Inr vs, evs, s')" vs]
    query_loop_complete [of lib osv_json send endpoint package None s _ evs s' "[]"]
  by (auto simp: query_package_def)

end
