(* ===== verification/Utf8.thy ===== *)
theory Utf8
  imports Prelude
begin

text \<open>
  UTF-8 as Rust's standard library reads it: \<^verbatim>\<open>String::from_utf8\<close> accepts exactly the well-formed byte
  sequences, and \<^verbatim>\<open>String::from_utf8_lossy\<close> replaces each maximal ill-formed part by U+FFFD.
\<close>

definition is_continuation :: "char \<Rightarrow> bool" where
  "is_continuation c \<longleftrightarrow> 0x80 \<le> code c \<and> code c \<le> 0xBF"

definition seq_len :: "char \<Rightarrow> nat" where
  "seq_len c =
     (if code c < 0x80 then 1
      else if 0xC2 \<le> code c \<and> code c \<le> 0xDF then 2
      else if 0xE0 \<le> code c \<and> code c \<le> 0xEF then 3
      else if 0xF0 \<le> code c \<and> code c \<le> 0xF4 then 4
      else 0)"

text \<open>The second byte excludes overlong forms, surrogates and code points above U+10FFFF.\<close>

definition second_ok :: "char \<Rightarrow> char \<Rightarrow> bool" where
  "second_ok c d \<longleftrightarrow>
     (if code c = 0xE0 then 0xA0 else if code c = 0xF0 then 0x90 else 0x80) \<le> code d \<and>
     code d \<le> (if code c = 0xED then 0x9F else if code c = 0xF4 then 0x8F else 0xBF)"

text \<open>Whether the string starts with a well-formed sequence, and the length of the sequence or of the
  maximal ill-formed part.\<close>

fun utf8_chunk :: "string \<Rightarrow> bool \<times> nat" where
  "utf8_chunk [] = (True, 0)"
| "utf8_chunk (c # cs) =
     (if seq_len c = 0 then (False, 1)
      else if seq_len c = 1 then (True, 1)
      else case cs of
        [] \<Rightarrow> (False, 1)
      | d # ds \<Rightarrow>
          if \<not> second_ok c d then (False, 1)
          else if seq_len c = 2 then (True, 2)
          else case ds of
            [] \<Rightarrow> (False, 2)
          | e # es \<Rightarrow>
              if \<not> is_continuation e then (False, 2)
              else if seq_len c = 3 then (True, 3)
              else case es of
                [] \<Rightarrow> (False, 3)
              | f # _ \<Rightarrow> if is_continuation f then (True, 4) else (False, 3))"

lemma utf8_chunk_pos: "s \<noteq> [] \<Longrightarrow> 0 < snd (utf8_chunk s)"
  by (cases s) (auto split: list.splits)

function utf8_valid :: "string \<Rightarrow> bool" where
  "utf8_valid s =
     (if s = [] then True
      else fst (utf8_chunk s) \<and> utf8_valid (drop (snd (utf8_chunk s)) s))"
  by pat_completeness auto
termination
  by (relation "measure length") (auto simp: utf8_chunk_pos)

function from_utf8_lossy :: "string \<Rightarrow> string" where
  "from_utf8_lossy s =
     (if s = [] then []
      else (if fst (utf8_chunk s) then take (snd (utf8_chunk s)) s else [CHR 0xEF, CHR 0xBF, CHR 0xBD])
           @ from_utf8_lossy (drop (snd (utf8_chunk s)) s))"
  by pat_completeness auto
termination
  by (relation "measure length") (auto simp: utf8_chunk_pos)

declare utf8_valid.simps [simp del] from_utf8_lossy.simps [simp del]

definition from_utf8 :: "string \<Rightarrow> string option" where
  "from_utf8 s = then_some (utf8_valid s) s"

lemma utf8_chunk_take:
  "s \<noteq> [] \<Longrightarrow> fst (utf8_chunk s) \<Longrightarrow>
   utf8_chunk (take (snd (utf8_chunk s)) s @ r) = utf8_chunk s \<and> snd (utf8_chunk s) \<le> length s"
proof -
  assume "s \<noteq> []" "fst (utf8_chunk s)"
  then obtain c cs where s: "s = c # cs" and ok: "fst (utf8_chunk (c # cs))" by (cases s) auto
  consider "seq_len c = 1" | d ds where "cs = d # ds" "seq_len c = 2" "second_ok c d"
    | d e es where "cs = d # e # es" "seq_len c = 3" "second_ok c d" "is_continuation e"
    | d e f fs where "cs = d # e # f # fs" "seq_len c = 4" "second_ok c d" "is_continuation e"
        "is_continuation f"
    using ok by (auto split: list.splits if_splits simp: seq_len_def)
  then show ?thesis by cases (simp_all add: s)
qed

lemma utf8_chunk_replacement: "utf8_chunk ([CHR 0xEF, CHR 0xBF, CHR 0xBD] @ r) = (True, 3)"
proof -
  have "seq_len (CHR 0xEF) = 3" "second_ok (CHR 0xEF) (CHR 0xBF)" "is_continuation (CHR 0xBD)"
    by code_simp+
  then show ?thesis by simp
qed

lemma utf8_valid_lossy: "utf8_valid (from_utf8_lossy s)"
proof (induction s rule: from_utf8_lossy.induct)
  case (1 s)
  show ?case
  proof (cases "s = []")
    case True
    then show ?thesis by (simp add: from_utf8_lossy.simps utf8_valid.simps)
  next
    case False
    let ?n = "snd (utf8_chunk s)"
    let ?r = "from_utf8_lossy (drop ?n s)"
    show ?thesis
    proof (cases "fst (utf8_chunk s)")
      case True
      with False have "from_utf8_lossy s = take ?n s @ ?r" by (subst from_utf8_lossy.simps) simp
      moreover have "utf8_chunk (take ?n s @ ?r) = utf8_chunk s" "?n \<le> length s"
        using utf8_chunk_take [OF False True] by auto
      ultimately show ?thesis
        using True 1 [OF False] by (subst utf8_valid.simps) simp
    next
      case bad: False
      with False have "from_utf8_lossy s = [CHR 0xEF, CHR 0xBF, CHR 0xBD] @ ?r"
        by (subst from_utf8_lossy.simps) simp
      then show ?thesis
        using 1 [OF False] utf8_chunk_replacement [of ?r] by (subst utf8_valid.simps) simp
    qed
  qed
qed

lemma from_utf8_lossy_valid: "utf8_valid s \<Longrightarrow> from_utf8_lossy s = s"
proof (induction s rule: from_utf8_lossy.induct)
  case (1 s)
  show ?case
  proof (cases "s = []")
    case True
    then show ?thesis by (simp add: from_utf8_lossy.simps)
  next
    case False
    with 1 show ?thesis by (subst from_utf8_lossy.simps) (simp add: utf8_valid.simps [of s])
  qed
qed


lemma utf8_valid_append: "utf8_valid s \<Longrightarrow> utf8_valid t \<Longrightarrow> utf8_valid (s @ t)"
proof (induction s rule: utf8_valid.induct)
  case (1 s)
  show ?case
  proof (cases "s = []")
    case True
    with 1 show ?thesis by simp
  next
    case False
    let ?n = "snd (utf8_chunk s)"
    from 1 False have ok: "fst (utf8_chunk s)" "utf8_valid (drop ?n s)"
      by (simp_all add: utf8_valid.simps [of s])
    note take = utf8_chunk_take [OF False ok(1), of "drop ?n s @ t"]
    then have "utf8_chunk (s @ t) = utf8_chunk s" by (metis append_assoc append_take_drop_id)
    moreover have "drop ?n (s @ t) = drop ?n s @ t" using take by simp
    ultimately show ?thesis
      using False ok 1 by (subst utf8_valid.simps) simp
  qed
qed

section \<open>Characters\<close>

text \<open>\<^verbatim>\<open>str::chars\<close>: the sequences of a string, whose number is \<^verbatim>\<open>chars().count()\<close>.\<close>

function utf8_chars :: "string \<Rightarrow> string list" where
  "utf8_chars s =
     (if s = [] then [] else take (snd (utf8_chunk s)) s # utf8_chars (drop (snd (utf8_chunk s)) s))"
  by pat_completeness auto
termination
  by (relation "measure length") (auto simp: utf8_chunk_pos)

declare utf8_chars.simps [simp del]

definition chars_count :: "string \<Rightarrow> nat" where
  "chars_count s = length (utf8_chars s)"

definition chars_take :: "nat \<Rightarrow> string \<Rightarrow> string" where
  "chars_take n s = concat (take n (utf8_chars s))"

lemma concat_utf8_chars: "concat (utf8_chars s) = s"
proof (induction s rule: utf8_chars.induct)
  case (1 s)
  show ?case
  proof (cases "s = []")
    case True
    then show ?thesis by (simp add: utf8_chars.simps [of "[]"])
  next
    case False
    with 1 show ?thesis by (simp add: utf8_chars.simps [of s])
  qed
qed

lemma utf8_chars_append: "utf8_valid s \<Longrightarrow> utf8_chars (s @ t) = utf8_chars s @ utf8_chars t"
proof (induction s rule: utf8_valid.induct)
  case (1 s)
  show ?case
  proof (cases "s = []")
    case True
    then show ?thesis by (simp add: utf8_chars.simps [of "[]"])
  next
    case False
    let ?n = "snd (utf8_chunk s)"
    from 1 False have ok: "fst (utf8_chunk s)" "utf8_valid (drop ?n s)"
      by (simp_all add: utf8_valid.simps [of s])
    note take = utf8_chunk_take [OF False ok(1), of "drop ?n s @ t"]
    then have "utf8_chunk (s @ t) = utf8_chunk s" by (metis append_assoc append_take_drop_id)
    moreover have "drop ?n (s @ t) = drop ?n s @ t" "take ?n (s @ t) = take ?n s" using take by simp_all
    ultimately show ?thesis
      using False ok 1 by (simp add: utf8_chars.simps [of "s @ t"] utf8_chars.simps [of s])
  qed
qed

lemma chars_take_valid:
  "utf8_valid s \<Longrightarrow> utf8_chars (chars_take n s) = take n (utf8_chars s) \<and> utf8_valid (chars_take n s)"
proof (induction s arbitrary: n rule: utf8_valid.induct)
  case (1 s)
  show ?case
  proof (cases "s = [] \<or> n = 0")
    case True
    then show ?thesis by (auto simp: chars_take_def utf8_chars.simps [of "[]"] utf8_valid.simps [of "[]"])
  next
    case False
    let ?k = "snd (utf8_chunk s)"
    from False obtain m where n: "n = Suc m" and s: "s \<noteq> []" by (cases n) auto
    from 1 s have ok: "fst (utf8_chunk s)" "utf8_valid (drop ?k s)"
      by (simp_all add: utf8_valid.simps [of s])
    let ?r = "chars_take m (drop ?k s)"
    note take = utf8_chunk_take [OF s ok(1), of ?r]
    have split: "chars_take n s = take ?k s @ ?r"
      using s by (simp add: chars_take_def n utf8_chars.simps [of s])
    moreover have "take ?k s \<noteq> []" using utf8_chunk_pos [OF s] s by simp
    moreover have "take ?k (take ?k s @ ?r) = take ?k s" "drop ?k (take ?k s @ ?r) = ?r" using take by simp_all
    ultimately show ?thesis
      using 1(1) [OF s ok(2)] s ok take
      by (simp add: n utf8_chars.simps [of "take ?k s @ ?r"] utf8_valid.simps [of "take ?k s @ ?r"] utf8_chars.simps [of s])
  qed
qed

lemma chars_count_append: "utf8_valid s \<Longrightarrow> chars_count (s @ t) = chars_count s + chars_count t"
  by (simp add: chars_count_def utf8_chars_append)

lemma chars_count_take: "utf8_valid s \<Longrightarrow> chars_count (chars_take n s) = min n (chars_count s)"
  by (simp add: chars_count_def chars_take_valid)

end
