(* ===== verification/Trivy.thy ===== *)
theory Trivy
  imports Osv Utf8
begin

text \<open>
  The external scanner (\<^verbatim>\<open>crates/security/src/external.rs\<close>). Running a process under a timeout is the
  parameter \<open>run\<close>; reading its output as Trivy's report structure is the parameter \<open>trivy_json\<close>.
\<close>

section \<open>Running the scanner\<close>

datatype external_scanner_kind = TrivyKind

record external_scanner =
  xs_kind :: external_scanner_kind
  xs_command :: string
  xs_timeout :: duration
  xs_skip_db_update :: bool
  xs_offline :: bool

record command_line =
  cmd_program :: string
  cmd_args :: "string list"
  cmd_env :: "(string \<times> string) list"
  cmd_timeout :: "duration option"

datatype command_outcome =
    TimedOut
  | SpawnFailed string
  | Exited (exit_success: bool) (exit_status: string) (exit_stdout: bytes) (exit_stderr: bytes)

definition scanner_switches :: "external_scanner \<Rightarrow> string list" where
  "scanner_switches x =
     (if xs_skip_db_update x then [''--skip-db-update'', ''--skip-java-db-update''] else [])
     @ (if xs_offline x then [''--offline-scan''] else [])"

definition scan_path_command :: "external_scanner \<Rightarrow> string \<Rightarrow> command_line" where
  "scan_path_command x path =
     \<lparr>cmd_program = xs_command x,
      cmd_args =
        (case xs_kind x of TrivyKind \<Rightarrow>
           [''filesystem'', ''--format'', ''json'', ''--quiet'', ''--scanners'', ''vuln'',
            ''--exit-code'', ''0''] @ scanner_switches x @ [path]),
      cmd_env = [], cmd_timeout = Some (xs_timeout x)\<rparr>"

definition scan_image_command ::
  "external_scanner \<Rightarrow> string \<Rightarrow> string option \<Rightarrow> bool \<Rightarrow> command_line" where
  "scan_image_command x img docker_config insecure_registry =
     \<lparr>cmd_program = xs_command x,
      cmd_args =
        (case xs_kind x of TrivyKind \<Rightarrow>
           [''image'', ''--format'', ''json'', ''--quiet'', ''--scanners'', ''vuln'',
            ''--exit-code'', ''0'', ''--image-src'', ''remote'']
           @ (if insecure_registry then [''--insecure''] else []) @ scanner_switches x @ [img]),
      cmd_env = (case docker_config of None \<Rightarrow> [] | Some d \<Rightarrow> [(''DOCKER_CONFIG'', d)]),
      cmd_timeout = Some (xs_timeout x)\<rparr>"

section \<open>Reports\<close>

record trivy_vulnerability =
  tv_vulnerability_id :: string
  tv_pkg_name :: string
  tv_installed_version :: "string option"
  tv_fixed_version :: "string option"
  tv_title :: "string option"
  tv_description :: "string option"
  tv_severity :: "string option"
  tv_primary_url :: "string option"
  tv_references :: "string list"
  tv_cve_ids :: "string list"

type_synonym trivy_result = "trivy_vulnerability list"
type_synonym trivy_report = "trivy_result list"

definition is_vulnerability_segment :: "string \<Rightarrow> bool" where
  "is_vulnerability_segment segment \<longleftrightarrow>
     starts_with segment ''CVE-'' \<or> starts_with segment ''GHSA-'' \<or> starts_with segment ''OSV-''"

definition vulnerability_id_from_url :: "string \<Rightarrow> string option" where
  "vulnerability_id_from_url u =
     find is_vulnerability_segment
       (rev (split_by (\<lambda>c. c = CHR ''/'' \<or> c = CHR ''#'' \<or> c = CHR ''?'') u))"

definition push_alias :: "string \<Rightarrow> string list \<Rightarrow> string \<Rightarrow> string list" where
  "push_alias own aliases i = (if i \<noteq> own \<and> i \<notin> set aliases then aliases @ [i] else aliases)"

definition trivy_to_vulnerability :: "scan_target \<Rightarrow> trivy_vulnerability \<Rightarrow> vulnerability" where
  "trivy_to_vulnerability target v =
     (let component_name = then_some (trim (tv_pkg_name v) \<noteq> []) (tv_pkg_name v);
          aliases = foldl (push_alias (tv_vulnerability_id v)) (tv_cve_ids v)
            (List.map_filter vulnerability_id_from_url (tv_references v));
          references = map (\<lambda>u. \<lparr>ref_url = u, ref_kind = Some ''WEB''\<rparr>) (tv_references v);
          references' =
            (case tv_primary_url v of
               Some primary \<Rightarrow>
                 if primary \<notin> ref_url ` set references
                 then \<lparr>ref_url = primary, ref_kind = Some ''WEB''\<rparr> # references else references
             | None \<Rightarrow> references)
      in \<lparr>v_id = tv_vulnerability_id v, v_aliases = aliases,
          v_summary = or_else (tv_title v)
            (Some (tv_pkg_name v @ '' in '' @ display_name target)),
          v_details = tv_description v,
          v_severity = Option.bind (tv_severity v) severity_from_text_or_score,
          v_references = references', v_component_name = component_name,
          v_component_version = tv_installed_version v,
          v_fixed_versions = normalized_fixed_versions
            (case tv_fixed_version v of None \<Rightarrow> [] | Some f \<Rightarrow> [f])\<rparr>)"

definition parse_trivy_output ::
  "(bytes \<Rightarrow> string + trivy_report) \<Rightarrow> scan_target \<Rightarrow> bytes \<Rightarrow> security_error + vulnerability list" where
  "parse_trivy_output trivy_json target output =
     res_bind (map_err InvalidResponse (trivy_json output)) (\<lambda>report.
       Inr (concat (map (map (trivy_to_vulnerability target)) report)))"

definition scanner_findings ::
  "(bytes \<Rightarrow> string + trivy_report) \<Rightarrow> external_scanner \<Rightarrow> scan_target \<Rightarrow> command_outcome \<Rightarrow>
   security_error + vulnerability list" where
  "scanner_findings trivy_json x target outcome =
     (case outcome of
        TimedOut \<Rightarrow> Inl (ScannerTimeout (xs_timeout x))
      | SpawnFailed e \<Rightarrow> Inl (Request e)
      | Exited success status stdout stderr \<Rightarrow>
          if \<not> success then Inl (ScannerFailed status (from_utf8_lossy stderr))
          else (case xs_kind x of TrivyKind \<Rightarrow> parse_trivy_output trivy_json target stdout))"

definition scan_path ::
  "(bytes \<Rightarrow> string + trivy_report) \<Rightarrow> (command_line \<Rightarrow> ('s, 'ev, command_outcome) io) \<Rightarrow>
   external_scanner \<Rightarrow> scan_target \<Rightarrow> string \<Rightarrow> ('s, 'ev, security_error + vulnerability list) io" where
  "scan_path trivy_json run x target path =
     io_bind (run (scan_path_command x path)) (\<lambda>outcome.
       io_return (scanner_findings trivy_json x target outcome))"

definition scan_image ::
  "(bytes \<Rightarrow> string + trivy_report) \<Rightarrow> (command_line \<Rightarrow> ('s, 'ev, command_outcome) io) \<Rightarrow>
   external_scanner \<Rightarrow> scan_target \<Rightarrow> string \<Rightarrow> string option \<Rightarrow> bool \<Rightarrow>
   ('s, 'ev, security_error + vulnerability list) io" where
  "scan_image trivy_json run x target img docker_config insecure_registry =
     io_bind (run (scan_image_command x img docker_config insecure_registry)) (\<lambda>outcome.
       io_return (scanner_findings trivy_json x target outcome))"

section \<open>Lemmas\<close>

lemma set_foldl_push_alias:
  "set (foldl (push_alias own) aliases is) \<union> {own} = set aliases \<union> set is \<union> {own}"
proof (induction "is" arbitrary: aliases)
  case Nil
  then show ?case by simp
next
  case (Cons i "is")
  have "set (push_alias own aliases i) \<union> {own} = insert i (set aliases) \<union> {own}"
    by (auto simp: push_alias_def)
  with Cons [of "push_alias own aliases i"] show ?case by auto
qed

text \<open>
  A finding of the external scanner can be named, in an allow list or an exception, by its own
  identifier, by each CVE identifier the scanner lists, and by each CVE, GHSA or OSV identifier that
  ends a reference URL, and by nothing else.
\<close>

theorem trivy_identifiers:
  "set (identifiers (trivy_to_vulnerability target v)) =
     {tv_vulnerability_id v} \<union> set (tv_cve_ids v) \<union>
     {i. \<exists>u \<in> set (tv_references v). vulnerability_id_from_url u = Some i}"
proof -
  have "set (List.map_filter vulnerability_id_from_url (tv_references v)) =
      {i. \<exists>u \<in> set (tv_references v). vulnerability_id_from_url u = Some i}"
    by (force simp: map_filter_def)
  then show ?thesis
    using set_foldl_push_alias [of "tv_vulnerability_id v" "tv_cve_ids v"
        "List.map_filter vulnerability_id_from_url (tv_references v)"]
    by (simp add: trivy_to_vulnerability_def identifiers_def Let_def Un_ac)
qed

text \<open>
  The scanner's verdict is only ever taken from a process that ended successfully with readable
  output; a timeout, a failure to start, a failing exit or unreadable output is an error, never an
  empty list of findings.
\<close>

theorem scanner_findings_Inr_iff:
  "scanner_findings trivy_json x target outcome = Inr vs \<longleftrightarrow>
     (\<exists>status stdout stderr report.
        outcome = Exited True status stdout stderr \<and> trivy_json stdout = Inr report \<and>
        vs = concat (map (map (trivy_to_vulnerability target)) report))"
  by (auto simp: scanner_findings_def parse_trivy_output_def res_bind_Inr_iff
      split: command_outcome.splits external_scanner_kind.splits if_splits)

end
