(* ===== verification/Scan_Cache.thy ===== *)
theory Scan_Cache
  imports Trust_Report
begin

text \<open>
  The scan cache (\<^verbatim>\<open>crates/cache/src/{key,scan,moka}.rs\<close>). The Moka cache library is the parameter
  \<open>moka_lib\<close>, of which \<open>moka_laws\<close> states what its documentation promises: entries may vanish at any
  time (capacity, time to live), a lookup returns the entry that is there or nothing, and
  no entry appears that was not inserted. The contract of the \<^verbatim>\<open>ScanCache\<close> trait is the locale \<open>scan_cache\<close>;
  it is interpreted on \<^verbatim>\<open>MokaScanCache\<close> over every lawful library (\<open>sc\<close>).
\<close>

section \<open>Keys and scans\<close>

record cache_key =
  ck_namespace :: string
  ck_identifier :: string
  ck_version :: "string option"

definition from_parts :: "string \<Rightarrow> string \<Rightarrow> string option \<Rightarrow> cache_key" where
  "from_parts namespace identifier version =
     \<lparr>ck_namespace = namespace, ck_identifier = identifier, ck_version = version\<rparr>"

definition cache_key_new :: "string \<Rightarrow> string \<Rightarrow> string \<Rightarrow> cache_key" where
  "cache_key_new namespace identifier version = from_parts namespace identifier (Some version)"

record cached_scan =
  cs_vulnerabilities :: "vulnerability list"

definition cached_scan_new :: "vulnerability list \<Rightarrow> cached_scan" where
  "cached_scan_new vs = \<lparr>cs_vulnerabilities = vs\<rparr>"

definition cached_scan_empty :: cached_scan where
  "cached_scan_empty = \<lparr>cs_vulnerabilities = []\<rparr>"

definition has_vulnerabilities :: "cached_scan \<Rightarrow> bool" where
  "has_vulnerabilities scan \<longleftrightarrow> cs_vulnerabilities scan \<noteq> []"

record cache_stats =
  cst_clean_entry_count :: u64
  cst_vulnerable_entry_count :: u64
  cst_total_entry_count :: u64

datatype cache_error = Backend string

section \<open>The Moka-backed cache\<close>

record 'c moka_lib =
  mk_get :: "cache_key \<Rightarrow> 'c \<Rightarrow> cached_scan option \<times> 'c"
  mk_insert :: "cache_key \<Rightarrow> cached_scan \<Rightarrow> 'c \<Rightarrow> 'c"
  mk_invalidate :: "cache_key \<Rightarrow> 'c \<Rightarrow> 'c"
  mk_entry_count :: "'c \<Rightarrow> u64"
  mk_run_pending_tasks :: "'c \<Rightarrow> 'c"

record 'c moka_scan_cache =
  clean :: 'c
  vulnerable :: 'c

definition moka_scan_cache_new :: "(u64 \<Rightarrow> duration \<Rightarrow> 'c) \<Rightarrow> u64 \<Rightarrow> duration \<Rightarrow> duration \<Rightarrow> 'c moka_scan_cache"
where
  "moka_scan_cache_new build max_capacity allowed_ttl blocked_ttl =
     \<lparr>clean = build max_capacity allowed_ttl, vulnerable = build max_capacity blocked_ttl\<rparr>"

definition cache_len :: "'c moka_lib \<Rightarrow> 'c moka_scan_cache \<Rightarrow> u64" where
  "cache_len lib m = mk_entry_count lib (clean m) + mk_entry_count lib (vulnerable m)"

definition cache_is_empty :: "'c moka_lib \<Rightarrow> 'c moka_scan_cache \<Rightarrow> bool" where
  "cache_is_empty lib m \<longleftrightarrow> cache_len lib m = 0"

definition stats :: "'c moka_lib \<Rightarrow> 'c moka_scan_cache \<Rightarrow> cache_stats \<times> 'c moka_scan_cache" where
  "stats lib m =
     (let m' = \<lparr>clean = mk_run_pending_tasks lib (clean m),
                vulnerable = mk_run_pending_tasks lib (vulnerable m)\<rparr>;
          c = mk_entry_count lib (clean m'); v = mk_entry_count lib (vulnerable m')
      in (\<lparr>cst_clean_entry_count = c, cst_vulnerable_entry_count = v, cst_total_entry_count = c + v\<rparr>, m'))"

definition cache_get ::
  "'c moka_lib \<Rightarrow> cache_key \<Rightarrow> 'c moka_scan_cache \<Rightarrow> (cache_error + cached_scan option) \<times> 'c moka_scan_cache"
where
  "cache_get lib key m =
     (case mk_get lib key (vulnerable m) of
        (Some scan, v) \<Rightarrow> (Inr (Some scan), m\<lparr>vulnerable := v\<rparr>)
      | (None, v) \<Rightarrow>
          (case mk_get lib key (clean m) of
             (r, c) \<Rightarrow> (Inr r, \<lparr>clean = c, vulnerable = v\<rparr>)))"

text \<open>The two operations a \<^verbatim>\<open>put\<close> performs, one after the other; other tasks may run between them.\<close>

datatype cache_step =
    CleanInsert cache_key cached_scan
  | CleanInvalidate cache_key
  | VulnerableInsert cache_key cached_scan
  | VulnerableInvalidate cache_key

fun cache_step_run :: "'c moka_lib \<Rightarrow> cache_step \<Rightarrow> 'c moka_scan_cache \<Rightarrow> 'c moka_scan_cache" where
  "cache_step_run lib (CleanInsert k v) m = m\<lparr>clean := mk_insert lib k v (clean m)\<rparr>"
| "cache_step_run lib (CleanInvalidate k) m = m\<lparr>clean := mk_invalidate lib k (clean m)\<rparr>"
| "cache_step_run lib (VulnerableInsert k v) m = m\<lparr>vulnerable := mk_insert lib k v (vulnerable m)\<rparr>"
| "cache_step_run lib (VulnerableInvalidate k) m = m\<lparr>vulnerable := mk_invalidate lib k (vulnerable m)\<rparr>"

definition put_steps :: "cache_key \<Rightarrow> cached_scan \<Rightarrow> cache_step list" where
  "put_steps key scan =
     (if has_vulnerabilities scan then [CleanInvalidate key, VulnerableInsert key scan]
      else [VulnerableInvalidate key, CleanInsert key scan])"

definition cache_put ::
  "'c moka_lib \<Rightarrow> cache_key \<Rightarrow> cached_scan \<Rightarrow> 'c moka_scan_cache \<Rightarrow> (cache_error + unit) \<times> 'c moka_scan_cache"
where
  "cache_put lib key scan m = (Inr (), fold (cache_step_run lib) (put_steps key scan) m)"

definition cache_invalidate ::
  "'c moka_lib \<Rightarrow> cache_key \<Rightarrow> 'c moka_scan_cache \<Rightarrow> (cache_error + unit) \<times> 'c moka_scan_cache" where
  "cache_invalidate lib key m =
     (Inr (), fold (cache_step_run lib) [CleanInvalidate key, VulnerableInvalidate key] m)"

section \<open>Contracts\<close>

definition moka_laws :: "'c moka_lib \<Rightarrow> ('c \<Rightarrow> cache_key \<rightharpoonup> cached_scan) \<Rightarrow> bool" where
  "moka_laws lib contents \<longleftrightarrow>
     (\<forall>k c. (fst (mk_get lib k c) = None \<or> fst (mk_get lib k c) = contents c k) \<and>
        contents (snd (mk_get lib k c)) \<subseteq>\<^sub>m contents c) \<and>
     (\<forall>k v c. contents (mk_insert lib k v c) \<subseteq>\<^sub>m (contents c)(k \<mapsto> v)) \<and>
     (\<forall>k c. contents (mk_invalidate lib k c) \<subseteq>\<^sub>m (contents c)(k := None)) \<and>
     (\<forall>c. contents (mk_run_pending_tasks lib c) \<subseteq>\<^sub>m contents c)"

datatype cache_op = OpGet cache_key | OpPut cache_key cached_scan | OpInvalidate cache_key

fun write_op :: "cache_op \<Rightarrow> (cache_key \<rightharpoonup> cached_scan) \<Rightarrow> (cache_key \<rightharpoonup> cached_scan)" where
  "write_op (OpGet k) m = m"
| "write_op (OpPut k v) m = m(k \<mapsto> v)"
| "write_op (OpInvalidate k) m = m(k := None)"

text \<open>The last scan a history of operations wrote for a key and did not invalidate.\<close>

definition written :: "cache_op list \<Rightarrow> cache_key \<rightharpoonup> cached_scan" where
  "written ops = fold write_op ops Map.empty"

lemma map_le_upd_mono: "m \<subseteq>\<^sub>m m' \<Longrightarrow> m(k := x) \<subseteq>\<^sub>m m'(k := x)"
  by (auto simp: map_le_def)

lemma write_op_mono: "m \<subseteq>\<^sub>m m' \<Longrightarrow> write_op op m \<subseteq>\<^sub>m write_op op m'"
  by (cases op) (auto intro: map_le_upd_mono)

text \<open>
  A cache of scans: \<open>view\<close> is what the cache could still return. Every operation only forgets, except
  that a write may add the entry it writes.
\<close>

locale scan_cache =
  fixes get :: "cache_key \<Rightarrow> 'm \<Rightarrow> (cache_error + cached_scan option) \<times> 'm"
    and put :: "cache_key \<Rightarrow> cached_scan \<Rightarrow> 'm \<Rightarrow> (cache_error + unit) \<times> 'm"
    and invalidate :: "cache_key \<Rightarrow> 'm \<Rightarrow> (cache_error + unit) \<times> 'm"
    and view :: "'m \<Rightarrow> cache_key \<rightharpoonup> cached_scan"
    and invar :: "'m \<Rightarrow> bool"
  assumes get_view: "invar m \<Longrightarrow> fst (get k m) = Inr (Some v) \<Longrightarrow> view m k = Some v"
    and view_get: "invar m \<Longrightarrow> view (snd (get k m)) \<subseteq>\<^sub>m view m"
    and view_put: "invar m \<Longrightarrow> view (snd (put k v m)) \<subseteq>\<^sub>m (view m)(k \<mapsto> v)"
    and view_invalidate: "invar m \<Longrightarrow> view (snd (invalidate k m)) \<subseteq>\<^sub>m (view m)(k := None)"
    and invar_get: "invar m \<Longrightarrow> invar (snd (get k m))"
    and invar_put: "invar m \<Longrightarrow> invar (snd (put k v m))"
    and invar_invalidate: "invar m \<Longrightarrow> invar (snd (invalidate k m))"
begin

fun run_op :: "cache_op \<Rightarrow> 'm \<Rightarrow> 'm" where
  "run_op (OpGet k) m = snd (get k m)"
| "run_op (OpPut k v) m = snd (put k v m)"
| "run_op (OpInvalidate k) m = snd (invalidate k m)"

lemma run_op_step: "invar m \<Longrightarrow> invar (run_op op m) \<and> view (run_op op m) \<subseteq>\<^sub>m write_op op (view m)"
  by (cases op)
    (auto simp: invar_get invar_put invar_invalidate view_get view_put view_invalidate)

lemma run_view:
  "invar m \<Longrightarrow> view m \<subseteq>\<^sub>m w \<Longrightarrow> invar (fold run_op ops m) \<and> view (fold run_op ops m) \<subseteq>\<^sub>m fold write_op ops w"
proof (induction ops arbitrary: m w)
  case Nil
  then show ?case by simp
next
  case (Cons op ops)
  from Cons.prems have "invar (run_op op m)" "view (run_op op m) \<subseteq>\<^sub>m write_op op w"
    using run_op_step [of m op] map_le_trans [OF _ write_op_mono [of "view m" w op]] by auto
  from Cons.IH [OF this] show ?case by simp
qed

text \<open>A hit is the last scan written for the key.\<close>

lemma hit_is_written:
  assumes "invar m" "view m = Map.empty" "fst (get k (fold run_op ops m)) = Inr (Some v)"
  shows "written ops k = Some v"
proof -
  have "invar (fold run_op ops m)" "view (fold run_op ops m) \<subseteq>\<^sub>m written ops"
    using run_view [OF assms(1), of Map.empty ops] assms(2) by (auto simp: written_def)
  with get_view [OF _ assms(3)] show ?thesis by (auto simp: map_le_def dom_def)
qed

end

section \<open>The implementation meets the contract\<close>

definition moka_view :: "('c \<Rightarrow> cache_key \<rightharpoonup> cached_scan) \<Rightarrow> 'c moka_scan_cache \<Rightarrow> cache_key \<rightharpoonup> cached_scan" where
  "moka_view contents m = contents (clean m) ++ contents (vulnerable m)"

text \<open>A key is in one of the two caches at most, findings only in one and clean results only in the other.\<close>

definition moka_invar :: "('c \<Rightarrow> cache_key \<rightharpoonup> cached_scan) \<Rightarrow> 'c moka_scan_cache \<Rightarrow> bool" where
  "moka_invar contents m \<longleftrightarrow>
     (\<forall>k v w. contents (clean m) k = Some v \<longrightarrow> contents (vulnerable m) k \<noteq> Some w) \<and>
     (\<forall>k v. contents (clean m) k = Some v \<longrightarrow> \<not> has_vulnerabilities v) \<and>
     (\<forall>k v. contents (vulnerable m) k = Some v \<longrightarrow> has_vulnerabilities v)"

typedef 'c lawful_moka =
  "{p :: 'c moka_lib \<times> ('c \<Rightarrow> cache_key \<rightharpoonup> cached_scan). moka_laws (fst p) (snd p)}"
proof -
  have "moka_laws \<lparr>mk_get = (\<lambda>k c. (None, c)), mk_insert = (\<lambda>k v c. c), mk_invalidate = (\<lambda>k c. c),
      mk_entry_count = (\<lambda>c. 0), mk_run_pending_tasks = (\<lambda>c. c)\<rparr> (\<lambda>c. Map.empty)"
    by (simp add: moka_laws_def)
  then show ?thesis by force
qed

definition moka_of :: "'c lawful_moka \<Rightarrow> 'c moka_lib" where
  "moka_of l = fst (Rep_lawful_moka l)"

definition contents_of :: "'c lawful_moka \<Rightarrow> 'c \<Rightarrow> cache_key \<rightharpoonup> cached_scan" where
  "contents_of l = snd (Rep_lawful_moka l)"

lemma moka_laws_of: "moka_laws (moka_of l) (contents_of l)"
  using Rep_lawful_moka [of l] by (auto simp: moka_of_def contents_of_def)

lemma lawful_moka_cases:
  assumes "moka_laws lib contents"
  obtains l where "lib = moka_of l" "contents = contents_of l"
  using Abs_lawful_moka_inverse [of "(lib, contents)"] assms that [of "Abs_lawful_moka (lib, contents)"]
  by (simp add: moka_of_def contents_of_def)

lemma map_le_iff: "m \<subseteq>\<^sub>m m' \<longleftrightarrow> (\<forall>k v. m k = Some v \<longrightarrow> m' k = Some v)"
  by (force simp: map_le_def dom_def)

lemma moka_lawsD:
  assumes "moka_laws lib contents"
  shows "fst (mk_get lib k c) = Some v \<Longrightarrow> contents c k = Some v"
    and "contents (snd (mk_get lib k c)) j = Some v \<Longrightarrow> contents c j = Some v"
    and "contents (mk_insert lib k x c) j = Some v \<Longrightarrow> j = k \<and> v = x \<or> j \<noteq> k \<and> contents c j = Some v"
    and "contents (mk_invalidate lib k c) j = Some v \<Longrightarrow> j \<noteq> k \<and> contents c j = Some v"
proof -
  have get: "fst (mk_get lib k c) = None \<or> fst (mk_get lib k c) = contents c k"
    and upd: "contents (snd (mk_get lib k c)) \<subseteq>\<^sub>m contents c"
      "contents (mk_insert lib k x c) \<subseteq>\<^sub>m (contents c)(k \<mapsto> x)"
      "contents (mk_invalidate lib k c) \<subseteq>\<^sub>m (contents c)(k := None)"
    using assms unfolding moka_laws_def by blast+
  show "fst (mk_get lib k c) = Some v \<Longrightarrow> contents c k = Some v" using get by auto
  show "contents (snd (mk_get lib k c)) j = Some v \<Longrightarrow> contents c j = Some v"
    using upd(1) by (auto simp: map_le_iff)
  show "contents (mk_insert lib k x c) j = Some v \<Longrightarrow> j = k \<and> v = x \<or> j \<noteq> k \<and> contents c j = Some v"
    using upd(2) by (fastforce simp: map_le_iff split: if_splits)
  show "contents (mk_invalidate lib k c) j = Some v \<Longrightarrow> j \<noteq> k \<and> contents c j = Some v"
    using upd(3) unfolding map_le_iff fun_upd_apply by (metis option.distinct(1))
qed

lemma moka_view_iff:
  "moka_invar contents m \<Longrightarrow>
   moka_view contents m k = Some v \<longleftrightarrow> contents (clean m) k = Some v \<or> contents (vulnerable m) k = Some v"
  by (cases "contents (vulnerable m) k") (auto simp: moka_invar_def moka_view_def map_add_def)

text \<open>
  An operation that leaves each cache within what it held, up to the entry \<open>w\<close> for the key \<open>k\<close>
  in the cache where it belongs, keeps the invariant and changes the view accordingly.
\<close>

lemma moka_step:
  assumes inv: "moka_invar contents m"
    and c: "\<And>j x. contents (clean m') j = Some x \<Longrightarrow>
      j = k \<and> w = Some x \<and> \<not> has_vulnerabilities x \<or> j \<noteq> k \<and> contents (clean m) j = Some x"
    and v: "\<And>j x. contents (vulnerable m') j = Some x \<Longrightarrow>
      j = k \<and> w = Some x \<and> has_vulnerabilities x \<or> j \<noteq> k \<and> contents (vulnerable m) j = Some x"
  shows "moka_invar contents m'" and "moka_view contents m' \<subseteq>\<^sub>m (moka_view contents m)(k := w)"
proof -
  show inv': "moka_invar contents m'"
    using inv c v unfolding moka_invar_def by (metis option.inject)
  show "moka_view contents m' \<subseteq>\<^sub>m (moka_view contents m)(k := w)"
    unfolding map_le_iff moka_view_iff [OF inv'] fun_upd_apply
    using c v moka_view_iff [OF inv] by metis
qed

lemma moka_put:
  assumes "moka_laws lib contents" "moka_invar contents m"
  shows "moka_invar contents (snd (cache_put lib k v m))"
    and "moka_view contents (snd (cache_put lib k v m)) \<subseteq>\<^sub>m (moka_view contents m)(k \<mapsto> v)"
proof -
  note law = moka_lawsD(3,4) [OF assms(1)]
  have step: "contents (clean (snd (cache_put lib k v m))) j = Some x \<Longrightarrow>
      j = k \<and> Some v = Some x \<and> \<not> has_vulnerabilities x \<or> j \<noteq> k \<and> contents (clean m) j = Some x"
    "contents (vulnerable (snd (cache_put lib k v m))) j = Some x \<Longrightarrow>
      j = k \<and> Some v = Some x \<and> has_vulnerabilities x \<or> j \<noteq> k \<and> contents (vulnerable m) j = Some x" for j x
    by (auto simp: cache_put_def put_steps_def split: if_splits dest!: law)
  show "moka_invar contents (snd (cache_put lib k v m))"
    and "moka_view contents (snd (cache_put lib k v m)) \<subseteq>\<^sub>m (moka_view contents m)(k \<mapsto> v)"
    using moka_step [OF assms(2) step] by blast+
qed

lemma moka_invalidate:
  assumes "moka_laws lib contents" "moka_invar contents m"
  shows "moka_invar contents (snd (cache_invalidate lib k m))"
    and "moka_view contents (snd (cache_invalidate lib k m)) \<subseteq>\<^sub>m (moka_view contents m)(k := None)"
proof -
  have step: "contents (clean (snd (cache_invalidate lib k m))) j = Some x \<Longrightarrow>
      j = k \<and> None = Some x \<and> \<not> has_vulnerabilities x \<or> j \<noteq> k \<and> contents (clean m) j = Some x"
    "contents (vulnerable (snd (cache_invalidate lib k m))) j = Some x \<Longrightarrow>
      j = k \<and> None = Some x \<and> has_vulnerabilities x \<or> j \<noteq> k \<and> contents (vulnerable m) j = Some x" for j x
    by (auto simp: cache_invalidate_def dest!: moka_lawsD(4) [OF assms(1)])
  show "moka_invar contents (snd (cache_invalidate lib k m))"
    and "moka_view contents (snd (cache_invalidate lib k m)) \<subseteq>\<^sub>m (moka_view contents m)(k := None)"
    using moka_step [OF assms(2) step] by blast+
qed

lemma moka_get:
  assumes "moka_laws lib contents" "moka_invar contents m"
  shows "moka_invar contents (snd (cache_get lib k m))"
    and "moka_view contents (snd (cache_get lib k m)) \<subseteq>\<^sub>m moka_view contents m"
    and "fst (cache_get lib k m) = Inr (Some v) \<Longrightarrow> moka_view contents m k = Some v"
proof -
  obtain rv v' rc c' where g: "mk_get lib k (vulnerable m) = (rv, v')" "mk_get lib k (clean m) = (rc, c')"
    by fastforce
  note law = moka_lawsD(1,2) [OF assms(1), of k "vulnerable m"] moka_lawsD(1,2) [OF assms(1), of k "clean m"]
  have step: "contents (clean (snd (cache_get lib k m))) j = Some x \<Longrightarrow> contents (clean m) j = Some x"
    "contents (vulnerable (snd (cache_get lib k m))) j = Some x \<Longrightarrow> contents (vulnerable m) j = Some x" for j x
    using law(2,4) by (auto simp: cache_get_def g split: option.splits)
  show inv': "moka_invar contents (snd (cache_get lib k m))"
    using assms(2) step unfolding moka_invar_def by metis
  show "moka_view contents (snd (cache_get lib k m)) \<subseteq>\<^sub>m moka_view contents m"
    unfolding map_le_iff moka_view_iff [OF inv'] moka_view_iff [OF assms(2)] using step by metis
  show "fst (cache_get lib k m) = Inr (Some v) \<Longrightarrow> moka_view contents m k = Some v"
    using law(1,3) by (auto simp: cache_get_def g moka_view_iff [OF assms(2)] split: option.splits)
qed

interpretation sc: scan_cache "cache_get (moka_of l)" "cache_put (moka_of l)" "cache_invalidate (moka_of l)"
  "moka_view (contents_of l)" "moka_invar (contents_of l)" for l
  by unfold_locales
    (auto intro: moka_get [OF moka_laws_of] moka_put [OF moka_laws_of] moka_invalidate [OF moka_laws_of])

text \<open>A history of operations on the cache, executed one after the other.\<close>

fun cache_op_run :: "'c moka_lib \<Rightarrow> cache_op \<Rightarrow> 'c moka_scan_cache \<Rightarrow> 'c moka_scan_cache" where
  "cache_op_run lib (OpGet k) m = snd (cache_get lib k m)"
| "cache_op_run lib (OpPut k v) m = snd (cache_put lib k v m)"
| "cache_op_run lib (OpInvalidate k) m = snd (cache_invalidate lib k m)"

text \<open>
  C23. A cache hit is the last scan that was stored for exactly that key and not invalidated since,
  whatever entries the library dropped in between, and a hit with findings is never masked by a
  clean result: no history of operations makes the cache return anything else.
\<close>

theorem cache_hit_is_last_put:
  assumes "moka_laws lib contents" "contents (clean m) = Map.empty" "contents (vulnerable m) = Map.empty"
    and "fst (cache_get lib k (fold (cache_op_run lib) ops m)) = Inr (Some v)"
  shows "written ops k = Some v"
proof -
  from assms(1) obtain l where l: "lib = moka_of l" "contents = contents_of l" by (rule lawful_moka_cases)
  have "sc.run_op l op m' = cache_op_run lib op m'" for op m'
    by (cases op) (simp_all add: l)
  then have "sc.run_op l = cache_op_run lib" by (intro ext)
  moreover have "moka_invar (contents_of l) m" "moka_view (contents_of l) m = Map.empty"
    using assms(2,3) by (auto simp: l moka_invar_def moka_view_def)
  ultimately show ?thesis using sc.hit_is_written [of l m k ops v] assms(4) by (simp add: l)
qed

text \<open>A lawful library: a list of at most two entries, the oldest dropped first.\<close>

definition list_moka :: "(cache_key \<times> cached_scan) list moka_lib" where
  "list_moka =
     \<lparr>mk_get = (\<lambda>k c. (map_of c k, c)),
      mk_insert = (\<lambda>k v c. take 2 ((k, v) # filter (\<lambda>e. fst e \<noteq> k) c)),
      mk_invalidate = (\<lambda>k c. filter (\<lambda>e. fst e \<noteq> k) c),
      mk_entry_count = (\<lambda>c. of_nat (length c)),
      mk_run_pending_tasks = (\<lambda>c. c)\<rparr>"

lemma map_of_take_le: "map_of (take n xs) \<subseteq>\<^sub>m map_of xs"
proof -
  have "map_of xs = map_of (drop n xs) ++ map_of (take n xs)"
    by (metis append_take_drop_id map_of_append)
  then show ?thesis by simp
qed

lemma map_of_filter_ne: "map_of (filter (\<lambda>e. fst e \<noteq> k) c) = (map_of c)(k := None)"
  by (induction c) (auto simp: fun_eq_iff)

lemma list_moka_laws: "moka_laws list_moka map_of"
proof -
  have "map_of (take 2 ((k, v) # filter (\<lambda>e. fst e \<noteq> k) c)) \<subseteq>\<^sub>m (map_of c)(k \<mapsto> v)" for k v c
    using map_of_take_le [of 2 "(k, v) # filter (\<lambda>e. fst e \<noteq> k) c"] by (simp add: map_of_filter_ne)
  then show ?thesis by (auto simp: moka_laws_def list_moka_def map_of_filter_ne)
qed

definition sample_key :: cache_key where
  "sample_key = cache_key_new ''npm'' ''npm/left-pad'' ''1.0.0''"

definition sample_scan :: cached_scan where
  "sample_scan = cached_scan_new [sample_vulnerability ''CVE-1'' (Some High)]"

theorem cache_hit_is_last_put_witness:
  "written [OpPut sample_key cached_scan_empty, OpGet sample_key, OpPut sample_key sample_scan] sample_key =
     Some sample_scan"
proof (rule cache_hit_is_last_put [OF list_moka_laws, of "\<lparr>clean = [], vulnerable = []\<rparr>"])
  show "fst (cache_get list_moka sample_key (fold (cache_op_run list_moka)
      [OpPut sample_key cached_scan_empty, OpGet sample_key, OpPut sample_key sample_scan]
      \<lparr>clean = [], vulnerable = []\<rparr>)) = Inr (Some sample_scan)"
    by code_simp
qed simp_all

section \<open>Racing writers\<close>

text \<open>The interleavings of several sequences of steps.\<close>

inductive interleaving :: "'a list list \<Rightarrow> 'a list \<Rightarrow> bool" where
  finished: "\<forall>p \<in> set ps. p = [] \<Longrightarrow> interleaving ps []"
| step: "i < length ps \<Longrightarrow> ps ! i = x # p \<Longrightarrow> interleaving (ps[i := p]) xs \<Longrightarrow> interleaving ps (x # xs)"

lemma interleaving_set: "interleaving ps xs \<Longrightarrow> x \<in> set xs \<Longrightarrow> \<exists>p \<in> set ps. x \<in> set p"
proof (induction rule: interleaving.induct)
  case (step i ps y p xs)
  show ?case
  proof (cases "x = y")
    case True
    with step show ?thesis by (metis list.set_intros(1) nth_mem)
  next
    case False
    with step obtain q where "q \<in> set (ps[i := p])" "x \<in> set q" by auto
    with step(1,2) show ?thesis
      by (metis list.set_intros(2) nth_mem set_update_subset_insert insertE subsetD)
  qed
qed simp

lemma steps_contents:
  assumes "moka_laws lib contents"
  shows "contents (clean (fold (cache_step_run lib) steps m)) k = Some v \<Longrightarrow>
      CleanInsert k v \<in> set steps \<or> contents (clean m) k = Some v"
    and "contents (vulnerable (fold (cache_step_run lib) steps m)) k = Some v \<Longrightarrow>
      VulnerableInsert k v \<in> set steps \<or> contents (vulnerable m) k = Some v"
proof (induction steps arbitrary: m)
  case (Cons st steps)
  note law = moka_lawsD(3,4) [OF assms]
  {
    case 1
    with Cons(1) [of "cache_step_run lib st m"] show ?case by (cases st) (auto dest!: law)
  next
    case 2
    with Cons(2) [of "cache_step_run lib st m"] show ?case by (cases st) (auto dest!: law)
  }
qed simp_all

text \<open>
  However the two halves of concurrent stores interleave, a hit is a scan that some task stored
  for that very key.
\<close>

theorem racing_puts_hit:
  assumes "moka_laws lib contents" "contents (clean m) = Map.empty" "contents (vulnerable m) = Map.empty"
    and "interleaving (map (\<lambda>(k, v). put_steps k v) puts) steps"
    and "fst (cache_get lib k (fold (cache_step_run lib) steps m)) = Inr (Some v)"
  shows "(k, v) \<in> set puts"
proof -
  let ?m = "fold (cache_step_run lib) steps m"
  have put: "st \<in> set steps \<Longrightarrow> \<exists>(j, x) \<in> set puts. st \<in> set (put_steps j x)" for st
    using interleaving_set [OF assms(4)] by fastforce
  have "contents (vulnerable ?m) k = Some v \<or> contents (clean ?m) k = Some v"
    using assms(5) moka_lawsD(1) [OF assms(1)]
    by (auto simp: cache_get_def split: prod.splits option.splits)
  then have "VulnerableInsert k v \<in> set steps \<or> CleanInsert k v \<in> set steps"
    using steps_contents [OF assms(1), of steps m k v] assms(2,3) by auto
  then show ?thesis by (auto dest!: put simp: put_steps_def split: if_splits)
qed

theorem racing_puts_hit_witness:
  "(sample_key, sample_scan) \<in> set [(sample_key, cached_scan_empty), (sample_key, sample_scan)]"
proof (rule racing_puts_hit [OF list_moka_laws, of "\<lparr>clean = [], vulnerable = []\<rparr>"])
  let ?steps = "[VulnerableInvalidate sample_key, CleanInvalidate sample_key,
    VulnerableInsert sample_key sample_scan, CleanInsert sample_key cached_scan_empty]"
  have puts: "map (\<lambda>(k, v). put_steps k v) [(sample_key, cached_scan_empty), (sample_key, sample_scan)] =
      [[VulnerableInvalidate sample_key, CleanInsert sample_key cached_scan_empty],
       [CleanInvalidate sample_key, VulnerableInsert sample_key sample_scan]]"
    by (simp add: put_steps_def has_vulnerabilities_def cached_scan_empty_def sample_scan_def
        cached_scan_new_def)
  show "interleaving (map (\<lambda>(k, v). put_steps k v)
      [(sample_key, cached_scan_empty), (sample_key, sample_scan)]) ?steps"
    unfolding puts
    by (rule interleaving.step [where i = 0], simp, simp, simp,
        rule interleaving.step [where i = 1], simp, simp, simp,
        rule interleaving.step [where i = 1], simp, simp, simp,
        rule interleaving.step [where i = 0], simp, simp, simp,
        rule interleaving.finished, simp)
  show "fst (cache_get list_moka sample_key (fold (cache_step_run list_moka) ?steps
      \<lparr>clean = [], vulnerable = []\<rparr>)) = Inr (Some sample_scan)"
    by code_simp
qed simp_all

end
