(* ===== verification/Config.thy ===== *)
theory Config
  imports Policy_Parse
begin

text \<open>
  Configuration (\<^verbatim>\<open>crates/config/src/{env,types,error,policy_file,model}.rs\<close>). The environment is a
  function from names to values. What comes from outside the sources is the parameter record
  \<open>config_lib\<close>: the URL parser, the socket address parser, reading a file and the TOML deserialiser. Errors carry
  the variable's name and the offending text; the nested error of a standard parser is not kept.
\<close>

section \<open>Types and errors\<close>

datatype unsupported_target_policy = AllowUnsupported | BlockUnsupported

definition unsupported_target_policy_from_str :: "string \<Rightarrow> unsupported_target_policy option" where
  "unsupported_target_policy_from_str value =
     (let l = to_ascii_lowercase (trim value)
      in if l \<in> {''allow'', ''pass'', ''pass-through'', ''passthrough''} then Some AllowUnsupported
         else if l \<in> {''block'', ''deny''} then Some BlockUnsupported
         else None)"

datatype artifact_scanner_kind = TrivyScanner

definition artifact_scanner_kind_from_str :: "string \<Rightarrow> artifact_scanner_kind option" where
  "artifact_scanner_kind_from_str value =
     (if to_ascii_lowercase (trim value) = ''trivy'' then Some TrivyScanner else None)"

fun scanner_command :: "artifact_scanner_kind \<Rightarrow> string" where
  "scanner_command TrivyScanner = ''trivy''"

datatype config_error =
    InvalidSocketAddr string string
  | InvalidBool string string
  | InvalidSeverity string string severity_parse_error
  | InvalidUnsignedInt string string
  | InvalidUnsupportedTargetPolicy string string
  | InvalidArtifactScannerFormatMap string string string
  | InvalidOsvEcosystemOverride string string
  | InvalidTrustBaseUrl string string string
  | InvalidDefectDojoBaseUrl string string string
  | InvalidDockerRegistryBaseUrl string string string
  | ValueBelowMinimum string u64 u64
  | MissingRequired string
  | ConflictingSecretSources string string
  | SecretFileRead string string string
  | PolicyFileRead string string
  | PolicyFileParse string policy_set_error

text \<open>The message of an error, without the nested error.\<close>

fun config_error_display :: "config_error \<Rightarrow> string" where
  "config_error_display (InvalidSocketAddr name val) = ''invalid socket address in '' @ name @ '': '' @ val"
| "config_error_display (InvalidBool name val) = ''invalid boolean in '' @ name @ '': '' @ val"
| "config_error_display (InvalidSeverity name val _) = ''invalid severity in '' @ name @ '': '' @ val"
| "config_error_display (InvalidUnsignedInt name val) = ''invalid unsigned integer in '' @ name @ '': '' @ val"
| "config_error_display (InvalidUnsupportedTargetPolicy name val) =
     ''invalid unsupported target policy in '' @ name @ '': '' @ val"
| "config_error_display (InvalidArtifactScannerFormatMap name val reason) =
     ''invalid artifact scanner format map in '' @ name @ '': '' @ val @ '' ('' @ reason @ '')''"
| "config_error_display (InvalidOsvEcosystemOverride name val) =
     ''invalid OSV ecosystem override in '' @ name @ '': '' @ val"
| "config_error_display (InvalidTrustBaseUrl name val reason) =
     ''invalid Trust base URL in '' @ name @ '': '' @ val @ '' ('' @ reason @ '')''"
| "config_error_display (InvalidDefectDojoBaseUrl name val reason) =
     ''invalid DefectDojo base URL in '' @ name @ '': '' @ val @ '' ('' @ reason @ '')''"
| "config_error_display (InvalidDockerRegistryBaseUrl name val reason) =
     ''invalid Docker registry base URL in '' @ name @ '': '' @ val @ '' ('' @ reason @ '')''"
| "config_error_display (ValueBelowMinimum name val minimum) =
     name @ '' must be at least '' @ show_u64 minimum @ '', got '' @ show_u64 val"
| "config_error_display (MissingRequired name) = ''missing required environment variable: '' @ name"
| "config_error_display (ConflictingSecretSources value_name file_name) =
     value_name @ '' and '' @ file_name @ '' cannot both be set''"
| "config_error_display (SecretFileRead name path _) = ''failed to read secret file from '' @ name @ '': '' @ path"
| "config_error_display (PolicyFileRead path _) = ''failed to read policy file '' @ path"
| "config_error_display (PolicyFileParse path _) = ''invalid policy file '' @ path"

datatype url_host = Domain string | Ipv4 u32 | Ipv6 "128 word"

record parsed_url =
  pu_scheme :: string
  pu_host :: "url_host option"
  pu_cannot_be_a_base :: bool
  pu_path :: string
  pu_query :: "string option"
  pu_fragment :: "string option"
  pu_username :: string
  pu_password :: "string option"

record config_lib =
  url_parse :: "string \<Rightarrow> string + parsed_url"
  parse_socket_addr :: "string \<Rightarrow> string option"
  read_to_string :: "string \<Rightarrow> string + string"
  toml_policy :: "string \<Rightarrow> string + raw_policy_set"
  cfg_time :: time_lib

type_synonym lookup = "string \<Rightarrow> string option"

section \<open>Defaults\<close>

definition default_repository_refresh_interval_secs :: u64 where
  "default_repository_refresh_interval_secs = word_of_int (60)"

definition default_cache_allowed_ttl_secs :: u64 where
  "default_cache_allowed_ttl_secs = word_of_int (24 * 60 * 60)"

definition default_cache_blocked_ttl_secs :: u64 where
  "default_cache_blocked_ttl_secs = word_of_int (60 * 60)"

definition default_cache_max_capacity :: u64 where
  "default_cache_max_capacity = word_of_int (100000)"

definition default_request_timeout_secs :: u64 where
  "default_request_timeout_secs = word_of_int (30)"

definition default_artifact_scanner_timeout_secs :: u64 where
  "default_artifact_scanner_timeout_secs = word_of_int (5 * 60)"

definition default_artifact_scan_max_bytes :: u64 where
  "default_artifact_scan_max_bytes = word_of_int (512 * 1024 * 1024)"

definition default_artifact_scanner_concurrency :: u64 where
  "default_artifact_scanner_concurrency = word_of_int (2)"

definition default_trust_report_retention_days :: u64 where
  "default_trust_report_retention_days = word_of_int (30)"

definition default_bind_addr :: string where
  "default_bind_addr = ''127.0.0.1:3000''"

definition default_osv_api_url :: string where
  "default_osv_api_url = ''https://api.osv.dev/v1/query''"

definition default_yandex_messenger_api_url :: string where
  "default_yandex_messenger_api_url = ''https://botapi.messenger.yandex.net''"

definition default_repository_name :: string where
  "default_repository_name = ''default''"

definition default_repository_format :: string where
  "default_repository_format = ''generic''"

definition default_helm_binary :: string where
  "default_helm_binary = ''helm''"

definition default_trust_report_dir :: string where
  "default_trust_report_dir = ''/var/lib/nexus-sec-proxy/trust-reports''"

section \<open>Reading variables\<close>

definition optional_string_env :: "lookup \<Rightarrow> string \<Rightarrow> string option" where
  "optional_string_env lookup name =
     Option.bind (lookup name) (\<lambda>value. let trimmed = trim value in then_some (trimmed \<noteq> []) trimmed)"

definition string_env :: "lookup \<Rightarrow> string \<Rightarrow> string \<Rightarrow> string" where
  "string_env lookup name dflt = unwrap_or (optional_string_env lookup name) dflt"

definition required_string_env_with_fallbacks ::
  "lookup \<Rightarrow> string \<Rightarrow> string list \<Rightarrow> config_error + string" where
  "required_string_env_with_fallbacks lookup name legacy_names =
     ok_or (MissingRequired name)
       (or_else (optional_string_env lookup name)
          (find_map (optional_string_env lookup) legacy_names))"

text \<open>The contents of a secret file without one line end.\<close>

definition strip_line_end :: "string \<Rightarrow> string" where
  "strip_line_end value =
     (if value \<noteq> [] \<and> last value = CHR 0x0A
      then let v = butlast value in if v \<noteq> [] \<and> last v = CHR 0x0D then butlast v else v
      else value)"

definition secret_env ::
  "config_lib \<Rightarrow> lookup \<Rightarrow> string \<Rightarrow> string \<Rightarrow> config_error + string option" where
  "secret_env lib lookup value_name file_name =
     (case (optional_string_env lookup value_name, optional_string_env lookup file_name) of
        (Some _, Some _) \<Rightarrow> Inl (ConflictingSecretSources value_name file_name)
      | (Some value, None) \<Rightarrow> Inr (Some value)
      | (None, Some path) \<Rightarrow>
          res_bind (map_err (SecretFileRead file_name path) (read_to_string lib path)) (\<lambda>content.
            let value = strip_line_end content in Inr (then_some (value \<noteq> []) value))
      | (None, None) \<Rightarrow> Inr None)"

definition parse_bool :: "string \<Rightarrow> bool option" where
  "parse_bool s = (if s = ''true'' then Some True else if s = ''false'' then Some False else None)"

text \<open>An optional variable with a parser.\<close>

definition parsed_env ::
  "lookup \<Rightarrow> string \<Rightarrow> (string \<Rightarrow> 'a option) \<Rightarrow> (string \<Rightarrow> config_error) \<Rightarrow> config_error + 'a option" where
  "parsed_env lookup name parse err =
     (case optional_string_env lookup name of
        None \<Rightarrow> Inr None
      | Some value \<Rightarrow>
          (case parse value of None \<Rightarrow> Inl (err value) | Some a \<Rightarrow> Inr (Some a)))"

definition optional_bool_env :: "lookup \<Rightarrow> string \<Rightarrow> config_error + bool option" where
  "optional_bool_env lookup name = parsed_env lookup name parse_bool (InvalidBool name)"

definition bool_env :: "lookup \<Rightarrow> string \<Rightarrow> bool \<Rightarrow> config_error + bool" where
  "bool_env lookup name dflt =
     res_bind (optional_bool_env lookup name) (\<lambda>b. Inr (unwrap_or b dflt))"

definition socket_addr_env :: "config_lib \<Rightarrow> lookup \<Rightarrow> string \<Rightarrow> string \<Rightarrow> config_error + string" where
  "socket_addr_env lib lookup name dflt =
     (let value = string_env lookup name dflt
      in ok_or (InvalidSocketAddr name value) (parse_socket_addr lib value))"

definition severity_env ::
  "lookup \<Rightarrow> string \<Rightarrow> string option \<Rightarrow> severity \<Rightarrow> config_error + severity" where
  "severity_env lookup name legacy_name dflt =
     (let (source_name, value) =
            (case optional_string_env lookup name of
               Some value \<Rightarrow> (name, value)
             | None \<Rightarrow>
                 (case legacy_name of
                    Some legacy \<Rightarrow>
                      (case optional_string_env lookup legacy of
                         Some value \<Rightarrow> (legacy, value)
                       | None \<Rightarrow> (name, severity_as_str dflt))
                  | None \<Rightarrow> (name, severity_as_str dflt)))
      in map_err (InvalidSeverity source_name value) (severity_from_str value))"

definition parse_u32 :: "string \<Rightarrow> u32 option" where
  "parse_u32 s = map_option of_nat (parse_uint 32 s)"

definition parse_u64 :: "string \<Rightarrow> u64 option" where
  "parse_u64 s = map_option of_nat (parse_uint 64 s)"

definition optional_u32_env :: "lookup \<Rightarrow> string \<Rightarrow> config_error + u32 option" where
  "optional_u32_env lookup name = parsed_env lookup name parse_u32 (InvalidUnsignedInt name)"

definition optional_u64_env :: "lookup \<Rightarrow> string \<Rightarrow> config_error + u64 option" where
  "optional_u64_env lookup name = parsed_env lookup name parse_u64 (InvalidUnsignedInt name)"

definition u64_env :: "lookup \<Rightarrow> string \<Rightarrow> u64 \<Rightarrow> config_error + u64" where
  "u64_env lookup name dflt =
     res_bind (parsed_env lookup name parse_u64 (InvalidUnsignedInt name)) (\<lambda>v. Inr (unwrap_or v dflt))"

definition unsupported_target_policy_env ::
  "lookup \<Rightarrow> string \<Rightarrow> unsupported_target_policy \<Rightarrow> config_error + unsupported_target_policy" where
  "unsupported_target_policy_env lookup name dflt =
     res_bind (parsed_env lookup name unsupported_target_policy_from_str
                 (InvalidUnsupportedTargetPolicy name)) (\<lambda>v. Inr (unwrap_or v dflt))"

definition list_env :: "lookup \<Rightarrow> string \<Rightarrow> string list" where
  "list_env lookup name =
     (case optional_string_env lookup name of
        None \<Rightarrow> []
      | Some value \<Rightarrow> filter (\<lambda>s. s \<noteq> []) (map trim (split_on (CHR '','') value)))"

text \<open>One entry of the override list; \<^const>\<open>None\<close> is a blank entry, which is skipped.\<close>

definition osv_override_entry :: "string \<Rightarrow> string \<Rightarrow> config_error + (string \<times> string) option" where
  "osv_override_entry name text =
     (if text = [] then Inr None
      else case split_once (CHR ''='') text of
        None \<Rightarrow> Inl (InvalidOsvEcosystemOverride name text)
      | Some entry \<Rightarrow>
          if trim (fst entry) = [] \<or> trim (snd entry) = []
          then Inl (InvalidOsvEcosystemOverride name text)
          else Inr (Some (trim (fst entry), trim (snd entry))))"

fun osv_overrides :: "string \<Rightarrow> string list \<Rightarrow> (string, string) btree_map \<Rightarrow>
  config_error + (string, string) btree_map" where
  "osv_overrides name [] overrides = Inr overrides"
| "osv_overrides name (item # items) overrides =
     (case osv_override_entry name (trim item) of
        Inl e \<Rightarrow> Inl e
      | Inr None \<Rightarrow> osv_overrides name items overrides
      | Inr (Some (repository, ecosystem)) \<Rightarrow>
          osv_overrides name items (btm_insert repository ecosystem overrides))"

definition osv_ecosystem_overrides_env ::
  "lookup \<Rightarrow> string \<Rightarrow> config_error + (string, string) btree_map" where
  "osv_ecosystem_overrides_env lookup name =
     (case optional_string_env lookup name of
        None \<Rightarrow> Inr []
      | Some value \<Rightarrow> osv_overrides name (split_on (CHR '','') value) [])"

definition normalize_artifact_format :: "string \<Rightarrow> string" where
  "normalize_artifact_format fmt = alnum_lower fmt"

definition scanner_entry :: "string \<Rightarrow> string \<Rightarrow> config_error + string \<times> artifact_scanner_kind" where
  "scanner_entry name text =
     (if text = [] then Inl (InvalidArtifactScannerFormatMap name text ''empty entry'')
      else case split_once (CHR ''='') text of
        None \<Rightarrow> Inl (InvalidArtifactScannerFormatMap name text ''expected format=scanner'')
      | Some entry \<Rightarrow>
          if normalize_artifact_format (fst entry) = []
          then Inl (InvalidArtifactScannerFormatMap name text ''empty format'')
          else case artifact_scanner_kind_from_str (trim (snd entry)) of
            None \<Rightarrow> Inl (InvalidArtifactScannerFormatMap name text ''scanner must be trivy'')
          | Some kind \<Rightarrow> Inr (normalize_artifact_format (fst entry), kind))"

fun scanner_routes :: "string \<Rightarrow> string list \<Rightarrow> (string, artifact_scanner_kind) btree_map \<Rightarrow>
  config_error + (string, artifact_scanner_kind) btree_map" where
  "scanner_routes name [] routes = Inr routes"
| "scanner_routes name (item # items) routes =
     (case scanner_entry name (trim item) of
        Inl e \<Rightarrow> Inl e
      | Inr (fmt, kind) \<Rightarrow>
          if btm_get routes fmt \<noteq> None
          then Inl (InvalidArtifactScannerFormatMap name (trim item) ''duplicate normalized format'')
          else scanner_routes name items (btm_insert fmt kind routes))"

definition artifact_scanner_formats_env ::
  "lookup \<Rightarrow> string \<Rightarrow> config_error + (string, artifact_scanner_kind) btree_map" where
  "artifact_scanner_formats_env lookup name =
     (case optional_string_env lookup name of
        None \<Rightarrow> Inr []
      | Some value \<Rightarrow> scanner_routes name (split_on (CHR '','') value) [])"

definition security_policy_env :: "lookup \<Rightarrow> config_error + security_policy" where
  "security_policy_env lookup =
     res_bind (severity_env lookup ''NEXUS_SEC_PROXY_MINIMUM_BLOCKING_SEVERITY''
         (Some ''NEXUS_SEC_PROXY_MINIMUM_SEVERITY'') High) (\<lambda>minimum.
     let ids = list_env lookup ''NEXUS_SEC_PROXY_ALLOWED_VULNERABILITY_IDS''
     in res_bind (optional_u32_env lookup ''NEXUS_SEC_PROXY_MAX_TOTAL_VULNERABILITIES'') (\<lambda>total.
     res_bind (optional_u32_env lookup ''NEXUS_SEC_PROXY_MAX_LOW_VULNERABILITIES'') (\<lambda>low.
     res_bind (optional_u32_env lookup ''NEXUS_SEC_PROXY_MAX_MEDIUM_VULNERABILITIES'') (\<lambda>medium.
     res_bind (optional_u32_env lookup ''NEXUS_SEC_PROXY_MAX_HIGH_VULNERABILITIES'') (\<lambda>high.
     res_bind (optional_u32_env lookup ''NEXUS_SEC_PROXY_MAX_CRITICAL_VULNERABILITIES'') (\<lambda>critical.
       Inr (security_policy_new minimum ids
         \<lparr>lim_total = total, lim_low = low, lim_medium = medium, lim_high = high,
          lim_critical = critical\<rparr>)))))))"

section \<open>Policy loading\<close>

definition parse_policy_toml :: "config_lib \<Rightarrow> string \<Rightarrow> policy_set_error + policy_set" where
  "parse_policy_toml lib input = from_toml_str (cfg_time lib) (toml_policy lib) input"

definition load_policy_file :: "config_lib \<Rightarrow> string \<Rightarrow> config_error + policy_set" where
  "load_policy_file lib path =
     res_bind (map_err (PolicyFileRead path) (read_to_string lib path)) (\<lambda>content.
       map_err (PolicyFileParse path) (parse_policy_toml lib content))"

definition load_policy ::
  "config_lib \<Rightarrow> lookup \<Rightarrow> string option \<Rightarrow> config_error + security_policy \<times> policy_set" where
  "load_policy lib lookup policy_file =
     (case policy_file of
        Some path \<Rightarrow>
          res_bind (load_policy_file lib path) (\<lambda>ps. Inr (rule_policy (ps_default_policy ps), ps))
      | None \<Rightarrow>
          res_bind (security_policy_env lookup) (\<lambda>p. Inr (p, from_legacy_policy p)))"

section \<open>Base URLs\<close>

definition url_loopback :: "url_host \<Rightarrow> bool" where
  "url_loopback host =
     (case host of
        Domain d \<Rightarrow> eq_ignore_ascii_case d ''localhost''
      | Ipv4 a \<Rightarrow> drop_bit 24 a = 127
      | Ipv6 a \<Rightarrow> a = 1)"

definition docker_registry_base_url :: "config_lib \<Rightarrow> lookup \<Rightarrow> string \<Rightarrow> config_error + string option" where
  "docker_registry_base_url lib lookup name =
     (case optional_string_env lookup name of
        None \<Rightarrow> Inr None
      | Some value \<Rightarrow>
          res_bind (map_err (InvalidDockerRegistryBaseUrl name value) (url_parse lib value)) (\<lambda>parsed.
            if pu_scheme parsed \<noteq> ''http'' \<and> pu_scheme parsed \<noteq> ''https''
            then Inl (InvalidDockerRegistryBaseUrl name value ''scheme must be http or https'')
            else if pu_host parsed = None \<or> pu_cannot_be_a_base parsed
            then Inl (InvalidDockerRegistryBaseUrl name value ''URL must include a host'')
            else if pu_query parsed \<noteq> None \<or> pu_fragment parsed \<noteq> None
            then Inl (InvalidDockerRegistryBaseUrl name value ''query and fragment are not allowed'')
            else if pu_path parsed \<noteq> ''/'' \<and> pu_path parsed \<noteq> []
            then Inl (InvalidDockerRegistryBaseUrl name value ''path must be empty or /'')
            else Inr (Some value)))"

definition trust_base_url :: "config_lib \<Rightarrow> lookup \<Rightarrow> string \<Rightarrow> config_error + string" where
  "trust_base_url lib lookup name =
     res_bind (ok_or (MissingRequired name) (optional_string_env lookup name)) (\<lambda>value.
     res_bind (map_err (InvalidTrustBaseUrl name value) (url_parse lib value)) (\<lambda>parsed.
       if pu_scheme parsed \<noteq> ''http'' \<and> pu_scheme parsed \<noteq> ''https''
       then Inl (InvalidTrustBaseUrl name value ''scheme must be http or https'')
       else if pu_host parsed = None \<or> pu_cannot_be_a_base parsed
       then Inl (InvalidTrustBaseUrl name value ''URL must include a host'')
       else if pu_query parsed \<noteq> None \<or> pu_fragment parsed \<noteq> None
       then Inl (InvalidTrustBaseUrl name value ''query and fragment are not allowed'')
       else Inr (trim_end_matches (CHR ''/'') value)))"

definition defectdojo_base_url ::
  "config_lib \<Rightarrow> lookup \<Rightarrow> string \<Rightarrow> bool \<Rightarrow> config_error + string option" where
  "defectdojo_base_url lib lookup name enabled =
     (case optional_string_env lookup name of
        None \<Rightarrow> Inr None
      | Some value \<Rightarrow>
          if \<not> enabled then Inr (Some value)
          else res_bind (map_err (InvalidDefectDojoBaseUrl name value) (url_parse lib value)) (\<lambda>parsed.
            let loopback = is_some_and (pu_host parsed) url_loopback
            in if pu_scheme parsed \<noteq> ''https'' \<and> \<not> (pu_scheme parsed = ''http'' \<and> loopback)
               then Inl (InvalidDefectDojoBaseUrl name value ''scheme must be https except for loopback HTTP'')
               else if pu_host parsed = None \<or> pu_cannot_be_a_base parsed
               then Inl (InvalidDefectDojoBaseUrl name value ''URL must include a host'')
               else if pu_query parsed \<noteq> None \<or> pu_fragment parsed \<noteq> None
               then Inl (InvalidDefectDojoBaseUrl name value ''query and fragment are not allowed'')
               else if pu_username parsed \<noteq> [] \<or> pu_password parsed \<noteq> None
               then Inl (InvalidDefectDojoBaseUrl name value ''credentials are not allowed'')
               else Inr (Some (trim_end_matches (CHR ''/'') value))))"

section \<open>The configuration\<close>

text \<open>
  \<^verbatim>\<open>AppConfig::from_env_vars\<close> reads about fifty variables one after the other; the model reads them
  in the same order in four groups, each with its own record.
\<close>

record nexus_settings =
  ns_bind_addr :: string
  ns_nexus_base_url :: string
  ns_repository_name :: string
  ns_repository_format :: string
  ns_docker_registry_base_url :: "string option"
  ns_docker_repository_name :: "string option"
  ns_osv_ecosystem :: "string option"
  ns_osv_ecosystem_overrides :: "(string, string) btree_map"
  ns_nexus_username :: "string option"
  ns_nexus_password :: "string option"
  ns_repository_refresh_interval_secs :: u64
  ns_osv_api_url :: string
  ns_policy_file :: "string option"
  ns_admin_token :: "string option"

record messenger_settings =
  ms_token :: "string option"
  ms_template_file :: "string option"
  ms_api_url :: string
  ms_enabled :: bool

record report_settings =
  rs_defectdojo_enabled :: bool
  rs_defectdojo_url :: "string option"
  rs_defectdojo_token :: "string option"
  rs_defectdojo_engagement_id :: "u64 option"
  rs_trust_base_url :: "string option"
  rs_trust_report_dir :: string
  rs_trust_report_retention_days :: u64

record scan_settings =
  ss_log_json :: bool
  ss_fail_open :: bool
  ss_unsupported_target_policy :: unsupported_target_policy
  ss_cache_allowed_ttl_secs :: u64
  ss_cache_blocked_ttl_secs :: u64
  ss_cache_max_capacity :: u64
  ss_request_timeout_secs :: u64
  ss_artifact_scanner_formats :: "(string, artifact_scanner_kind) btree_map"
  ss_artifact_scanner_skip_db_update :: bool
  ss_artifact_scanner_offline :: bool
  ss_artifact_scanner_timeout_secs :: u64
  ss_artifact_scan_max_bytes :: u64
  ss_artifact_scanner_concurrency :: u64
  ss_artifact_tmp_dir :: "string option"
  ss_helm_binary :: string

record app_config =
  cf_nexus :: nexus_settings
  cf_messenger :: messenger_settings
  cf_report :: report_settings
  cf_scan :: scan_settings
  cf_security_policy :: security_policy
  cf_policy_set :: policy_set

definition nexus_settings_env :: "config_lib \<Rightarrow> lookup \<Rightarrow> config_error + nexus_settings" where
  "nexus_settings_env lib lookup =
     res_bind (socket_addr_env lib lookup ''NEXUS_SEC_PROXY_BIND_ADDR'' default_bind_addr) (\<lambda>bind_addr.
     res_bind (required_string_env_with_fallbacks lookup ''NEXUS_SEC_PROXY_NEXUS_BASE_URL''
       [''NEXUS_SEC_PROXY_UPSTREAM_BASE_URL'', ''NEXUS_SEC_PROXY_UPSTREAM_REGISTRY'']) (\<lambda>nexus_base_url.
     let repository_name = string_env lookup ''NEXUS_SEC_PROXY_REPOSITORY_NAME'' default_repository_name;
         repository_format = string_env lookup ''NEXUS_SEC_PROXY_REPOSITORY_FORMAT'' default_repository_format
     in res_bind (docker_registry_base_url lib lookup ''NEXUS_SEC_PROXY_DOCKER_REGISTRY_BASE_URL'') (\<lambda>docker_url.
     let docker_name = optional_string_env lookup ''NEXUS_SEC_PROXY_DOCKER_REPOSITORY_NAME''
     in if docker_url \<noteq> None \<and> docker_name = None
        then Inl (MissingRequired ''NEXUS_SEC_PROXY_DOCKER_REPOSITORY_NAME'')
        else
          let osv_ecosystem = or_else (optional_string_env lookup ''NEXUS_SEC_PROXY_OSV_ECOSYSTEM'')
                (default_osv_ecosystem_for_format repository_format)
          in res_bind (osv_ecosystem_overrides_env lookup ''NEXUS_SEC_PROXY_OSV_ECOSYSTEM_OVERRIDES'') (\<lambda>overrides.
          let username = optional_string_env lookup ''NEXUS_SEC_PROXY_NEXUS_USERNAME''
          in res_bind (secret_env lib lookup ''NEXUS_SEC_PROXY_NEXUS_PASSWORD''
               ''NEXUS_SEC_PROXY_NEXUS_PASSWORD_FILE'') (\<lambda>password.
             res_bind (u64_env lookup ''NEXUS_SEC_PROXY_REPOSITORY_REFRESH_INTERVAL_SECS'' default_repository_refresh_interval_secs) (\<lambda>refresh.
               Inr \<lparr>ns_bind_addr = bind_addr, ns_nexus_base_url = nexus_base_url,
                 ns_repository_name = repository_name, ns_repository_format = repository_format,
                 ns_docker_registry_base_url = docker_url, ns_docker_repository_name = docker_name,
                 ns_osv_ecosystem = osv_ecosystem, ns_osv_ecosystem_overrides = overrides,
                 ns_nexus_username = username, ns_nexus_password = password,
                 ns_repository_refresh_interval_secs = refresh,
                 ns_osv_api_url = string_env lookup ''NEXUS_SEC_PROXY_OSV_API_URL'' default_osv_api_url,
                 ns_policy_file = optional_string_env lookup ''NEXUS_SEC_PROXY_POLICY_FILE'',
                 ns_admin_token = optional_string_env lookup ''NEXUS_SEC_PROXY_ADMIN_TOKEN''\<rparr>))))))"

text \<open>The checks \<^verbatim>\<open>for (name, present) in [..] { if !present { return Err(..) } }\<close>.\<close>

fun require_all :: "(string \<times> bool) list \<Rightarrow> config_error + unit" where
  "require_all [] = Inr ()"
| "require_all ((name, present) # rest) =
     (if \<not> present then Inl (MissingRequired name) else require_all rest)"

definition messenger_settings_env ::
  "config_lib \<Rightarrow> lookup \<Rightarrow> nexus_settings \<Rightarrow> config_error + messenger_settings" where
  "messenger_settings_env lib lookup ns =
     res_bind (secret_env lib lookup ''NEXUS_SEC_PROXY_YANDEX_MESSENGER_TOKEN''
       ''NEXUS_SEC_PROXY_YANDEX_MESSENGER_TOKEN_FILE'') (\<lambda>token.
     let template_file = optional_string_env lookup ''NEXUS_SEC_PROXY_YANDEX_MESSENGER_TEMPLATE_FILE'';
         api_url = string_env lookup ''NEXUS_SEC_PROXY_YANDEX_MESSENGER_API_URL'' default_yandex_messenger_api_url
     in res_bind (bool_env lookup ''NEXUS_SEC_PROXY_YANDEX_MESSENGER_ENABLED'' False) (\<lambda>enabled.
        res_bind
          (if enabled
           then require_all
             [(''NEXUS_SEC_PROXY_YANDEX_MESSENGER_TOKEN'', token \<noteq> None),
              (''NEXUS_SEC_PROXY_YANDEX_MESSENGER_TEMPLATE_FILE'', template_file \<noteq> None),
              (''NEXUS_SEC_PROXY_NEXUS_USERNAME'', ns_nexus_username ns \<noteq> None),
              (''NEXUS_SEC_PROXY_NEXUS_PASSWORD'', ns_nexus_password ns \<noteq> None)]
           else Inr ()) (\<lambda>_.
          Inr \<lparr>ms_token = token, ms_template_file = template_file, ms_api_url = api_url,
            ms_enabled = enabled\<rparr>)))"

definition report_settings_env :: "config_lib \<Rightarrow> lookup \<Rightarrow> config_error + report_settings" where
  "report_settings_env lib lookup =
     res_bind (bool_env lookup ''NEXUS_SEC_PROXY_DEFECTDOJO_ENABLED'' False) (\<lambda>enabled.
     res_bind (secret_env lib lookup ''NEXUS_SEC_PROXY_DEFECTDOJO_TOKEN''
       ''NEXUS_SEC_PROXY_DEFECTDOJO_TOKEN_FILE'') (\<lambda>token.
     res_bind (optional_u64_env lookup ''NEXUS_SEC_PROXY_DEFECTDOJO_ENGAGEMENT_ID'') (\<lambda>engagement_id.
     res_bind (defectdojo_base_url lib lookup ''NEXUS_SEC_PROXY_DEFECTDOJO_URL'' enabled) (\<lambda>url.
     res_bind
       (if enabled
        then require_all
          [(''NEXUS_SEC_PROXY_DEFECTDOJO_URL'', url \<noteq> None),
           (''NEXUS_SEC_PROXY_DEFECTDOJO_TOKEN'', token \<noteq> None),
           (''NEXUS_SEC_PROXY_DEFECTDOJO_ENGAGEMENT_ID'', engagement_id \<noteq> None)]
        else Inr ()) (\<lambda>_.
     if enabled \<and> engagement_id = Some 0
     then Inl (ValueBelowMinimum ''NEXUS_SEC_PROXY_DEFECTDOJO_ENGAGEMENT_ID'' 0 1)
     else
       res_bind
         (if enabled then Inr (optional_string_env lookup ''NEXUS_SEC_PROXY_TRUST_BASE_URL'')
          else res_bind (trust_base_url lib lookup ''NEXUS_SEC_PROXY_TRUST_BASE_URL'') (\<lambda>u. Inr (Some u)))
         (\<lambda>trust_url.
       let dir = string_env lookup ''NEXUS_SEC_PROXY_TRUST_REPORT_DIR'' default_trust_report_dir
       in res_bind (u64_env lookup ''NEXUS_SEC_PROXY_TRUST_REPORT_RETENTION_DAYS'' default_trust_report_retention_days) (\<lambda>days.
          if \<not> enabled \<and> days < 1
          then Inl (ValueBelowMinimum ''NEXUS_SEC_PROXY_TRUST_REPORT_RETENTION_DAYS'' days 1)
          else Inr \<lparr>rs_defectdojo_enabled = enabled, rs_defectdojo_url = url,
            rs_defectdojo_token = token, rs_defectdojo_engagement_id = engagement_id,
            rs_trust_base_url = trust_url, rs_trust_report_dir = dir,
            rs_trust_report_retention_days = days\<rparr>)))))))"

definition scan_settings_env :: "lookup \<Rightarrow> config_error + scan_settings" where
  "scan_settings_env lookup =
     res_bind (bool_env lookup ''NEXUS_SEC_PROXY_LOG_JSON'' False) (\<lambda>log_json.
     res_bind (bool_env lookup ''NEXUS_SEC_PROXY_FAIL_OPEN'' True) (\<lambda>fail_open.
     res_bind (unsupported_target_policy_env lookup ''NEXUS_SEC_PROXY_UNSUPPORTED_TARGET_POLICY''
       AllowUnsupported) (\<lambda>unsupported.
     res_bind (u64_env lookup ''NEXUS_SEC_PROXY_CACHE_ALLOWED_TTL_SECS'' default_cache_allowed_ttl_secs) (\<lambda>allowed_ttl.
     res_bind (u64_env lookup ''NEXUS_SEC_PROXY_CACHE_BLOCKED_TTL_SECS'' default_cache_blocked_ttl_secs) (\<lambda>blocked_ttl.
     res_bind (u64_env lookup ''NEXUS_SEC_PROXY_CACHE_MAX_CAPACITY'' default_cache_max_capacity) (\<lambda>capacity.
     res_bind (u64_env lookup ''NEXUS_SEC_PROXY_REQUEST_TIMEOUT_SECS'' default_request_timeout_secs) (\<lambda>request_timeout.
     res_bind (artifact_scanner_formats_env lookup ''NEXUS_SEC_PROXY_ARTIFACT_SCANNER_FORMATS'') (\<lambda>formats.
     res_bind (bool_env lookup ''NEXUS_SEC_PROXY_ARTIFACT_SCANNER_SKIP_DB_UPDATE'' True) (\<lambda>skip_db.
     res_bind (bool_env lookup ''NEXUS_SEC_PROXY_ARTIFACT_SCANNER_OFFLINE'' True) (\<lambda>offline.
     res_bind (u64_env lookup ''NEXUS_SEC_PROXY_ARTIFACT_SCANNER_TIMEOUT_SECS'' default_artifact_scanner_timeout_secs) (\<lambda>scan_timeout.
     res_bind (u64_env lookup ''NEXUS_SEC_PROXY_ARTIFACT_SCAN_MAX_BYTES'' default_artifact_scan_max_bytes) (\<lambda>max_bytes.
     res_bind (u64_env lookup ''NEXUS_SEC_PROXY_ARTIFACT_SCANNER_CONCURRENCY'' default_artifact_scanner_concurrency) (\<lambda>concurrency.
       Inr \<lparr>ss_log_json = log_json, ss_fail_open = fail_open,
         ss_unsupported_target_policy = unsupported, ss_cache_allowed_ttl_secs = allowed_ttl,
         ss_cache_blocked_ttl_secs = blocked_ttl, ss_cache_max_capacity = capacity,
         ss_request_timeout_secs = request_timeout, ss_artifact_scanner_formats = formats,
         ss_artifact_scanner_skip_db_update = skip_db, ss_artifact_scanner_offline = offline,
         ss_artifact_scanner_timeout_secs = scan_timeout, ss_artifact_scan_max_bytes = max_bytes,
         ss_artifact_scanner_concurrency = concurrency,
         ss_artifact_tmp_dir = optional_string_env lookup ''NEXUS_SEC_PROXY_ARTIFACT_TMP_DIR'',
         ss_helm_binary = string_env lookup ''NEXUS_SEC_PROXY_HELM_BINARY'' default_helm_binary\<rparr>)))))))))))))"

definition from_env_vars :: "config_lib \<Rightarrow> lookup \<Rightarrow> config_error + app_config" where
  "from_env_vars lib lookup =
     res_bind (nexus_settings_env lib lookup) (\<lambda>ns.
     res_bind (messenger_settings_env lib lookup ns) (\<lambda>ms.
     res_bind (report_settings_env lib lookup) (\<lambda>rs.
     res_bind (scan_settings_env lookup) (\<lambda>ss.
     res_bind (load_policy lib lookup (ns_policy_file ns)) (\<lambda>(policy, set).
       Inr \<lparr>cf_nexus = ns, cf_messenger = ms, cf_report = rs, cf_scan = ss,
         cf_security_policy = policy, cf_policy_set = set\<rparr>)))))"

definition artifact_scanner_for_format :: "app_config \<Rightarrow> string \<Rightarrow> artifact_scanner_kind option" where
  "artifact_scanner_for_format config fmt =
     btm_get (ss_artifact_scanner_formats (cf_scan config)) (normalize_artifact_format fmt)"

definition docker_registry_configured :: "app_config \<Rightarrow> bool" where
  "docker_registry_configured config \<longleftrightarrow>
     ns_docker_registry_base_url (cf_nexus config) \<noteq> None \<and>
     ns_docker_repository_name (cf_nexus config) \<noteq> None"

section \<open>Accepted configurations\<close>

lemma require_all_Inr_iff: "require_all xs = Inr () \<longleftrightarrow> (\<forall>(name, present) \<in> set xs. present)"
  by (induction xs rule: require_all.induct) auto

lemma nexus_settings_docker:
  "nexus_settings_env lib lookup = Inr ns \<Longrightarrow>
   ns_docker_registry_base_url ns \<noteq> None \<Longrightarrow> ns_docker_repository_name ns \<noteq> None"
  by (auto simp: nexus_settings_env_def res_bind_Inr_iff Let_def split: if_splits)

lemma messenger_settings_complete:
  "messenger_settings_env lib lookup ns = Inr ms \<Longrightarrow> ms_enabled ms \<Longrightarrow>
   ms_token ms \<noteq> None \<and> ms_template_file ms \<noteq> None \<and> ns_nexus_username ns \<noteq> None \<and>
   ns_nexus_password ns \<noteq> None"
  by (auto simp: messenger_settings_env_def res_bind_Inr_iff Let_def split: if_splits)

lemma trust_base_url_no_slash:
  "trust_base_url lib lookup name = Inr u \<Longrightarrow> u = [] \<or> last u \<noteq> CHR ''/''"
proof -
  assume "trust_base_url lib lookup name = Inr u"
  then obtain v where u: "u = trim_end_matches (CHR ''/'') v"
    by (auto simp: trust_base_url_def res_bind_Inr_iff split: if_splits)
  have "trim_end_matches c xs = [] \<or> last (trim_end_matches c xs) \<noteq> c" for c xs
    unfolding trim_end_matches_def by (metis (mono_tags, lifting) hd_dropWhile last_rev rev_is_Nil_conv)
  then show ?thesis by (simp add: u)
qed

definition report_settings_ok :: "report_settings \<Rightarrow> bool" where
  "report_settings_ok rs \<longleftrightarrow>
     (if rs_defectdojo_enabled rs
      then rs_defectdojo_url rs \<noteq> None \<and> rs_defectdojo_token rs \<noteq> None \<and>
        (\<exists>i. rs_defectdojo_engagement_id rs = Some i \<and> i \<noteq> 0)
      else (\<exists>u. rs_trust_base_url rs = Some u \<and> (u = [] \<or> last u \<noteq> CHR ''/'')) \<and>
        rs_trust_report_retention_days rs \<noteq> 0)"

lemma report_settings_env_ok: "report_settings_env lib lookup = Inr rs \<Longrightarrow> report_settings_ok rs"
  by (auto simp: report_settings_env_def report_settings_ok_def res_bind_Inr_iff Let_def
      split: if_splits dest: trust_base_url_no_slash)

lemma load_policy_ok:
  assumes "load_policy lib lookup file = Inr (p, ps)"
  shows "p = rule_policy (ps_default_policy ps)"
    and "file = None \<Longrightarrow> ps = from_legacy_policy p" and "file \<noteq> None \<Longrightarrow> wf_policy_set ps"
  using assms
  by (auto simp: load_policy_def load_policy_file_def parse_policy_toml_def from_toml_str_def
      res_bind_Inr_iff from_raw_Inr_iff from_legacy_policy_def split: option.splits intro: wf_set_of_raw)

text \<open>
  A configuration that is accepted at start-up is complete: a Docker registry comes with its
  repository name, enabled notifications with a token, a template and Nexus credentials, an enabled
  report service with its URL, token and a positive engagement id, and otherwise the local report
  store with a base URL without trailing slash and a positive retention; a policy file yields a
  well-formed policy set, and without one the set is the single default rule built from the variables.
\<close>

theorem from_env_vars_complete:
  assumes "from_env_vars lib lookup = Inr c"
  shows "(ns_docker_registry_base_url (cf_nexus c) \<noteq> None \<longrightarrow> docker_registry_configured c) \<and>
    (ms_enabled (cf_messenger c) \<longrightarrow> ms_token (cf_messenger c) \<noteq> None \<and>
      ms_template_file (cf_messenger c) \<noteq> None \<and> ns_nexus_username (cf_nexus c) \<noteq> None \<and>
      ns_nexus_password (cf_nexus c) \<noteq> None) \<and>
    report_settings_ok (cf_report c) \<and>
    cf_security_policy c = rule_policy (ps_default_policy (cf_policy_set c)) \<and>
    (if ns_policy_file (cf_nexus c) = None then cf_policy_set c = from_legacy_policy (cf_security_policy c)
     else wf_policy_set (cf_policy_set c))"
proof -
  from assms obtain ns ms rs ss p ps where
    s: "nexus_settings_env lib lookup = Inr ns" "messenger_settings_env lib lookup ns = Inr ms"
      "report_settings_env lib lookup = Inr rs" "load_policy lib lookup (ns_policy_file ns) = Inr (p, ps)"
    and c: "c = \<lparr>cf_nexus = ns, cf_messenger = ms, cf_report = rs, cf_scan = ss,
      cf_security_policy = p, cf_policy_set = ps\<rparr>"
    by (auto simp: from_env_vars_def res_bind_Inr_iff)
  show ?thesis
    using nexus_settings_docker [OF s(1)] messenger_settings_complete [OF s(2)]
      report_settings_env_ok [OF s(3)] load_policy_ok [OF s(4)]
    by (auto simp: c docker_registry_configured_def)
qed

definition sample_config_lib :: config_lib where
  "sample_config_lib =
     \<lparr>url_parse = (\<lambda>s. Inr \<lparr>pu_scheme = ''https'', pu_host = Some (Domain ''proxy.example''),
        pu_cannot_be_a_base = False, pu_path = ''/'', pu_query = None, pu_fragment = None,
        pu_username = [], pu_password = None\<rparr>),
      parse_socket_addr = Some, read_to_string = (\<lambda>p. Inl ''not found''),
      toml_policy = (\<lambda>_. Inr sample_raw_set), cfg_time = sample_time_lib\<rparr>"

definition sample_lookup :: lookup where
  "sample_lookup = map_of
     [(''NEXUS_SEC_PROXY_NEXUS_BASE_URL'', ''https://nexus.example/''),
      (''NEXUS_SEC_PROXY_TRUST_BASE_URL'', ''https://proxy.example/'')]"

definition scan_variables :: "string list" where
  "scan_variables = map ((@) ''NEXUS_SEC_PROXY_'')
     [''LOG_JSON'', ''FAIL_OPEN'', ''UNSUPPORTED_TARGET_POLICY'', ''CACHE_ALLOWED_TTL_SECS'',
      ''CACHE_BLOCKED_TTL_SECS'', ''CACHE_MAX_CAPACITY'', ''REQUEST_TIMEOUT_SECS'',
      ''ARTIFACT_SCANNER_FORMATS'', ''ARTIFACT_SCANNER_SKIP_DB_UPDATE'', ''ARTIFACT_SCANNER_OFFLINE'',
      ''ARTIFACT_SCANNER_TIMEOUT_SECS'', ''ARTIFACT_SCAN_MAX_BYTES'', ''ARTIFACT_SCANNER_CONCURRENCY'']"

lemma scan_settings_default:
  "\<forall>n \<in> set scan_variables. optional_string_env lookup n = None \<Longrightarrow> \<exists>ss. scan_settings_env lookup = Inr ss"
  by (simp add: scan_variables_def scan_settings_env_def bool_env_def optional_bool_env_def u64_env_def
      unsupported_target_policy_env_def artifact_scanner_formats_env_def parsed_env_def)

theorem from_env_vars_complete_witness:
  "\<exists>c. from_env_vars sample_config_lib sample_lookup = Inr c \<and> report_settings_ok (cf_report c)"
proof -
  have "\<forall>n \<in> set scan_variables. optional_string_env sample_lookup n = None" by code_simp
  then obtain ss where ss: "scan_settings_env sample_lookup = Inr ss"
    using scan_settings_default by blast
  have inr: "\<not> isl r \<Longrightarrow> \<exists>a. r = Inr a" for r :: "'a + 'b"
    by (cases r) auto
  have "\<not> isl (nexus_settings_env sample_config_lib sample_lookup)"
    "\<not> isl (messenger_settings_env sample_config_lib sample_lookup ns)"
    "\<not> isl (report_settings_env sample_config_lib sample_lookup)"
    "\<not> isl (load_policy sample_config_lib sample_lookup (ns_policy_file (projr (nexus_settings_env
        sample_config_lib sample_lookup))))" for ns
    by code_simp+
  note ok = this [THEN inr]
  from ok(1) obtain ns where ns: "nexus_settings_env sample_config_lib sample_lookup = Inr ns" by blast
  obtain ms rs where "messenger_settings_env sample_config_lib sample_lookup ns = Inr ms"
    "report_settings_env sample_config_lib sample_lookup = Inr rs" using ok(2,3) by blast
  moreover from ok(4) obtain p ps where
    "load_policy sample_config_lib sample_lookup (ns_policy_file ns) = Inr (p, ps)" by (auto simp: ns)
  ultimately obtain c where "from_env_vars sample_config_lib sample_lookup = Inr c"
    using ns ss by (simp add: from_env_vars_def)
  with from_env_vars_complete [OF this] show ?thesis by blast
qed

section \<open>The scanner map\<close>

text \<open>The format and scanner that an entry of the map names.\<close>

definition route_of :: "string \<Rightarrow> (string \<times> artifact_scanner_kind) option" where
  "route_of item =
     (case split_once (CHR ''='') (trim item) of
        None \<Rightarrow> None
      | Some entry \<Rightarrow>
          (case artifact_scanner_kind_from_str (trim (snd entry)) of
             None \<Rightarrow> None
           | Some kind \<Rightarrow> Some (normalize_artifact_format (fst entry), kind)))"

lemma scanner_routes_sound:
  "scanner_routes name items m = Inr m' \<Longrightarrow> btm_invar m \<Longrightarrow>
   btm_invar m' \<and> (\<forall>k s. btm_get m' k = Some s \<longleftrightarrow> btm_get m k = Some s \<or> (\<exists>i \<in> set items. route_of i = Some (k, s)))"
proof (induction name items m rule: scanner_routes.induct)
  case (2 name item items routes)
  from "2.prems"(1) obtain fmt kind where
    e: "scanner_entry name (trim item) = Inr (fmt, kind)" "btm_get routes fmt = None"
      "scanner_routes name items (btm_insert fmt kind routes) = Inr m'"
    by (auto split: if_splits sum.splits)
  have "route_of item = Some (fmt, kind)"
    using e(1) by (auto simp: scanner_entry_def route_of_def split: if_splits option.splits)
  moreover have "btm_invar (btm_insert fmt kind routes)" using "2.prems"(2) by (rule btm.invar_insert)
  moreover have "btm_get (btm_insert fmt kind routes) k = Some s \<longleftrightarrow> btm_get routes k = Some s \<or> (fmt, kind) = (k, s)" for k s
    using e(2) by (auto simp: btm.get_insert [OF "2.prems"(2)])
  ultimately show ?case using "2.IH" [OF e(1) refl] e by auto
qed simp

text \<open>
  An accepted scanner map routes a repository format to a scanner exactly when one of its entries
  names that format, up to case and punctuation.
\<close>

theorem scanner_for_format_iff:
  assumes "optional_string_env lookup name = Some value"
    and "artifact_scanner_formats_env lookup name = Inr (ss_artifact_scanner_formats (cf_scan config))"
  shows "artifact_scanner_for_format config fmt = Some s \<longleftrightarrow>
    (\<exists>item \<in> set (split_on (CHR '','') value). route_of item = Some (alnum_lower fmt, s))"
proof -
  have "scanner_routes name (split_on (CHR '','') value) [] = Inr (ss_artifact_scanner_formats (cf_scan config))"
    using assms by (simp add: artifact_scanner_formats_env_def)
  from scanner_routes_sound [OF this btm.invar_empty] show ?thesis
    by (simp add: artifact_scanner_for_format_def normalize_artifact_format_def btm.get_empty)
qed

definition sample_scan_settings :: "(string, artifact_scanner_kind) btree_map \<Rightarrow> scan_settings" where
  "sample_scan_settings formats =
     \<lparr>ss_log_json = False, ss_fail_open = False, ss_unsupported_target_policy = BlockUnsupported,
      ss_cache_allowed_ttl_secs = 0, ss_cache_blocked_ttl_secs = 0, ss_cache_max_capacity = 0,
      ss_request_timeout_secs = 0, ss_artifact_scanner_formats = formats,
      ss_artifact_scanner_skip_db_update = True, ss_artifact_scanner_offline = True,
      ss_artifact_scanner_timeout_secs = 1, ss_artifact_scan_max_bytes = 4,
      ss_artifact_scanner_concurrency = 1, ss_artifact_tmp_dir = None, ss_helm_binary = ''helm''\<rparr>"

definition sample_config :: "nexus_settings \<Rightarrow> (string, artifact_scanner_kind) btree_map \<Rightarrow> app_config" where
  "sample_config ns formats =
     \<lparr>cf_nexus = ns,
      cf_messenger = \<lparr>ms_token = None, ms_template_file = None, ms_api_url = [], ms_enabled = False\<rparr>,
      cf_report = \<lparr>rs_defectdojo_enabled = False, rs_defectdojo_url = None, rs_defectdojo_token = None,
        rs_defectdojo_engagement_id = None, rs_trust_base_url = Some ''https://proxy.example'',
        rs_trust_report_dir = ''/reports'', rs_trust_report_retention_days = 30\<rparr>,
      cf_scan = sample_scan_settings formats, cf_security_policy = default_security_policy,
      cf_policy_set = default_policy_set\<rparr>"

theorem scanner_for_format_iff_witness:
  "\<exists>ns. artifact_scanner_for_format (sample_config ns [(''docker'', TrivyScanner), (''helm'', TrivyScanner)]) ''Helm''
     = Some TrivyScanner"
proof -
  let ?lookup = "map_of [(''FORMATS'', '' HELM=Trivy , docker=trivy'')]"
  have v: "optional_string_env ?lookup ''FORMATS'' = Some ''HELM=Trivy , docker=trivy''" by code_simp
  have "artifact_scanner_formats_env ?lookup ''FORMATS'' =
      Inr [(''docker'', TrivyScanner), (''helm'', TrivyScanner)]" by code_simp
  then have m: "artifact_scanner_formats_env ?lookup ''FORMATS'' = Inr (ss_artifact_scanner_formats (cf_scan
      (sample_config ns [(''docker'', TrivyScanner), (''helm'', TrivyScanner)])))" for ns
    by (simp add: sample_config_def sample_scan_settings_def)
  have "\<exists>item \<in> set (split_on (CHR '','') ''HELM=Trivy , docker=trivy'').
      route_of item = Some (alnum_lower ''Helm'', TrivyScanner)" by code_simp
  then show ?thesis by (intro exI) (rule iffD2 [OF scanner_for_format_iff [OF v m]])
qed

end
