(* ===== verification/Classifier.thy ===== *)
theory Classifier
  imports Target Utf8
begin

text \<open>
  Request classification (\<^verbatim>\<open>crates/proxy/src/classifier/{mod,formats}.rs\<close>): which downloads name a
  package version or an artifact that has to be scanned. Percent decoding is the parameter \<open>pdec\<close>
  (\<^verbatim>\<open>percent_decode_str\<close>, from a string to bytes); \<open>percent_decode_law\<close> is what the theorems use of it.
\<close>

section \<open>Definitions\<close>

datatype request_classification = ProxyOnly | Scan scan_target

record classification_context =
  cc_repository_format :: string
  cc_osv_ecosystem :: "string option"

definition percent_decode_law :: "(string \<Rightarrow> string) \<Rightarrow> bool" where
  "percent_decode_law pdec \<longleftrightarrow> (\<forall>s. CHR ''%'' \<notin> set s \<longrightarrow> pdec s = s)"

definition package_target ::
  "classification_context \<Rightarrow> string \<Rightarrow> string \<Rightarrow> string \<Rightarrow> scan_target" where
  "package_target context default_ecosystem name version =
     Package (from_osv
       (unwrap_or (or_else (cc_osv_ecosystem context)
          (default_osv_ecosystem_for_format (cc_repository_format context))) default_ecosystem)
       name version)"

definition decoded_segments :: "(string \<Rightarrow> string) \<Rightarrow> string \<Rightarrow> string list" where
  "decoded_segments pdec path =
     map (\<lambda>segment. from_utf8_lossy (pdec segment))
       (filter (\<lambda>segment. segment \<noteq> []) (split_on (CHR ''/'') (trim_start_matches (CHR ''/'') path)))"

definition normalize_format :: "string \<Rightarrow> string" where
  "normalize_format fmt = alnum_lower fmt"

definition strip_archive_suffix :: "string \<Rightarrow> string list \<Rightarrow> string option" where
  "strip_archive_suffix file sufs = find_map (\<lambda>suf. strip_suffix suf file) sufs"

definition is_sidecar :: "string \<Rightarrow> bool" where
  "is_sidecar file \<longleftrightarrow>
     (\<exists>suf \<in> set [''.asc'', ''.md5'', ''.sha1'', ''.sha256'', ''.sha512'', ''.sig'']. ends_with file suf)"

definition normalize_pypi_name :: "string \<Rightarrow> string" where
  "normalize_pypi_name name =
     to_ascii_lowercase (map (\<lambda>c. if c = CHR ''_'' \<or> c = CHR ''.'' then CHR ''-'' else c) name)"

text \<open>\<^verbatim>\<open>slice::get\<close> and \<^verbatim>\<open>slice::last\<close>\<close>

definition seg :: "string list \<Rightarrow> nat \<Rightarrow> string option" where
  "seg segments i = (if i < length segments then Some (segments ! i) else None)"

definition last_seg :: "string list \<Rightarrow> string option" where
  "last_seg segments = (if segments = [] then None else Some (last segments))"

definition classify_maven :: "classification_context \<Rightarrow> string list \<Rightarrow> scan_target option" where
  "classify_maven context segments =
     (if length segments < 4 then None
      else Option.bind (last_seg segments) (\<lambda>file.
        if is_sidecar file \<or> file = ''maven-metadata.xml'' then None
        else Option.bind (seg segments (length segments - 2)) (\<lambda>version.
             Option.bind (seg segments (length segments - 3)) (\<lambda>artifact_id.
               let grp = join ''.'' (take (length segments - 3) segments)
               in if grp = [] \<or> \<not> contains_str file version then None
                  else Some (package_target context ''Maven'' (grp @ '':'' @ artifact_id) version)))))"

definition npm_names :: "string list \<Rightarrow> (string \<times> string) option" where
  "npm_names segments =
     (if length segments \<ge> 4 \<and> is_some_and (seg segments 0) (\<lambda>s. starts_with s ''@'') \<and>
         is_some_and (seg segments 2) (\<lambda>s. s = ''-'')
      then Option.bind (seg segments 0) (\<lambda>scope. Option.bind (seg segments 1) (\<lambda>name.
             Some (scope @ ''/'' @ name, name)))
      else if length segments \<ge> 3 \<and> is_some_and (seg segments 1) (\<lambda>s. s = ''-'')
      then Option.bind (seg segments 0) (\<lambda>name. Some (name, name))
      else None)"

definition classify_npm :: "classification_context \<Rightarrow> string list \<Rightarrow> scan_target option" where
  "classify_npm context segments =
     Option.bind (last_seg segments) (\<lambda>file.
       if \<not> ends_with file ''.tgz'' then None
       else Option.bind (npm_names segments) (\<lambda>(package_name, tarball_name).
         Option.bind
           (or_else
             (Option.bind (strip_archive_suffix file [''.tgz'']) (strip_prefix (tarball_name @ ''-'')))
             (Option.bind (strip_archive_suffix file [''.tgz'']) (\<lambda>stem.
                map_option snd (rsplit_once ''-'' stem))))
           (\<lambda>version. Some (package_target context ''npm'' package_name version))))"

definition classify_pypi :: "classification_context \<Rightarrow> string list \<Rightarrow> scan_target option" where
  "classify_pypi context segments =
     Option.bind (last_seg segments) (\<lambda>file.
       case strip_suffix ''.whl'' file of
         Some stem \<Rightarrow>
           (let parts = split_on (CHR ''-'') stem
            in Option.bind (seg parts 0) (\<lambda>name. Option.bind (seg parts 1) (\<lambda>version.
                 Some (package_target context ''PyPI'' (normalize_pypi_name name) version))))
       | None \<Rightarrow>
           Option.bind (strip_archive_suffix file [''.tar.gz'', ''.zip'', ''.tgz'']) (\<lambda>stem.
           Option.bind (rsplit_once ''-'' stem) (\<lambda>(name, version).
             Some (package_target context ''PyPI'' (normalize_pypi_name name) version))))"

text \<open>\<^verbatim>\<open>segments.windows(3).position(..)\<close>\<close>

fun crates_position :: "string list \<Rightarrow> nat option" where
  "crates_position (a # b # c # rest) =
     (if [a, b, c] = [''api'', ''v1'', ''crates''] then Some 0
      else map_option Suc (crates_position (b # c # rest)))"
| "crates_position _ = None"

definition classify_cargo :: "classification_context \<Rightarrow> string list \<Rightarrow> scan_target option" where
  "classify_cargo context segments =
     Option.bind (crates_position segments) (\<lambda>i.
     Option.bind (seg segments (i + 3)) (\<lambda>name.
     Option.bind (seg segments (i + 4)) (\<lambda>version.
       if seg segments (i + 5) \<noteq> Some ''download'' then None
       else Some (package_target context ''crates.io'' name version))))"

fun position :: "('a \<Rightarrow> bool) \<Rightarrow> 'a list \<Rightarrow> nat option" where
  "position p [] = None"
| "position p (x # xs) = (if p x then Some 0 else map_option Suc (position p xs))"

definition classify_go :: "classification_context \<Rightarrow> string list \<Rightarrow> scan_target option" where
  "classify_go context segments =
     Option.bind (position (\<lambda>s. s = ''@v'') segments) (\<lambda>marker.
       let module = join ''/'' (take marker segments)
       in Option.bind (seg segments (marker + 1)) (\<lambda>file.
          Option.bind (or_else (or_else (strip_suffix ''.zip'' file) (strip_suffix ''.mod'' file))
                         (strip_suffix ''.info'' file)) (\<lambda>version.
            if module = [] then None
            else Some (package_target context ''Go'' module version))))"

definition classify_docker ::
  "classification_context \<Rightarrow> string \<Rightarrow> string list \<Rightarrow> scan_target option" where
  "classify_docker context path segments = None"

definition classify_helm ::
  "classification_context \<Rightarrow> string \<Rightarrow> string list \<Rightarrow> scan_target option" where
  "classify_helm context path segments =
     Option.bind (last_seg segments) (\<lambda>file.
       if \<not> ends_with file ''.tgz'' \<and> \<not> ends_with file ''.tar.gz'' then None
       else Some (Artifact (artifact_new (cc_repository_format context) path)))"

definition classify_path ::
  "(string \<Rightarrow> string) \<Rightarrow> classification_context \<Rightarrow> string \<Rightarrow> string \<Rightarrow> request_classification" where
  "classify_path pdec context method path =
     (if method \<noteq> ''GET'' \<and> method \<noteq> ''HEAD'' then ProxyOnly
      else
        let segments = decoded_segments pdec path;
            fmt = normalize_format (cc_repository_format context);
            target =
              (if fmt \<in> {''maven'', ''maven2''} then classify_maven context segments
               else if fmt = ''npm'' then classify_npm context segments
               else if fmt \<in> {''pypi'', ''python''} then classify_pypi context segments
               else if fmt \<in> {''cargo'', ''rust'', ''rustcargo''} then classify_cargo context segments
               else if fmt \<in> {''go'', ''golang''} then classify_go context segments
               else if fmt = ''docker'' then classify_docker context path segments
               else if fmt = ''helm'' then classify_helm context path segments
               else None)
        in case target of None \<Rightarrow> ProxyOnly | Some t \<Rightarrow> Scan t)"

section \<open>Download paths\<close>

text \<open>A path segment that needs no encoding.\<close>

definition plain_segment :: "string \<Rightarrow> bool" where
  "plain_segment s \<longleftrightarrow> s \<noteq> [] \<and> CHR ''/'' \<notin> set s \<and> CHR ''%'' \<notin> set s \<and> utf8_valid s"

definition path_of :: "string list \<Rightarrow> string" where
  "path_of segments = ''/'' @ join ''/'' segments"

lemma split_on_single: "c \<notin> set s \<Longrightarrow> split_on c s = [s]"
  by (rule split_by_single) auto

lemma split_on_append: "c \<notin> set s \<Longrightarrow> split_on c (s @ c # t) = s # split_on c t"
  by (rule split_by_append_sep) auto

lemma split_on_join:
  "segs \<noteq> [] \<Longrightarrow> \<forall>s \<in> set segs. c \<notin> set s \<Longrightarrow> split_on c (join [c] segs) = segs"
proof (induction segs)
  case (Cons s ss)
  then show ?case by (cases ss) (auto simp: split_on_single split_on_append)
qed simp

lemma decoded_segments_path_of:
  assumes "percent_decode_law pdec" "segs \<noteq> []" "\<forall>s \<in> set segs. plain_segment s"
  shows "decoded_segments pdec (path_of segs) = segs"
proof -
  obtain s ss where s: "segs = s # ss" using assms(2) by (cases segs) auto
  have "hd (join ''/'' segs) \<noteq> CHR ''/''" "join ''/'' segs \<noteq> []"
    using assms(3) by (cases ss; force simp: s plain_segment_def neq_Nil_conv)+
  then have "trim_start_matches (CHR ''/'') (path_of segs) = join ''/'' segs"
    by (cases "join ''/'' segs") (auto simp: trim_start_matches_def path_of_def)
  moreover have "split_on (CHR ''/'') (join ''/'' segs) = segs"
    using assms(2,3) by (intro split_on_join) (auto simp: plain_segment_def)
  moreover have "filter (\<lambda>x. x \<noteq> []) segs = segs"
    using assms(3) by (auto simp: plain_segment_def filter_id_conv)
  moreover have "map (\<lambda>x. from_utf8_lossy (pdec x)) segs = segs"
    using assms(1,3) by (intro map_idI) (auto simp: percent_decode_law_def plain_segment_def from_utf8_lossy_valid)
  ultimately show ?thesis by (simp add: decoded_segments_def)
qed


lemma plain_segment_append:
  "plain_segment s \<Longrightarrow> plain_segment t \<Longrightarrow> plain_segment (s @ t)"
  by (auto simp: plain_segment_def utf8_valid_append)

lemma plain_literals:
  "plain_segment ''-''" "plain_segment ''.tgz''" "plain_segment ''@''" "plain_segment ''.zip''"
  "plain_segment ''@v''" "plain_segment ''.whl''" "plain_segment ''api''" "plain_segment ''v1''"
  "plain_segment ''crates''" "plain_segment ''download''" "plain_segment ''.''"
  by code_simp+

lemmas plain_rules = plain_segment_append plain_literals

lemma last_seg_append [simp]: "last_seg (xs @ [x]) = Some x" "last_seg (x # xs) = Some (last (x # xs))"
  by (simp_all add: last_seg_def)

lemma strip_suffix_append [simp]: "strip_suffix p (s @ p) = Some s"
  by simp

lemma strip_prefix_append [simp]: "strip_prefix p (p @ s) = Some s"
  by simp

lemma strip_prefix_sep [simp]: "strip_prefix (a @ [c]) (a @ c # b) = Some b"
  by simp

lemma classify_path_get:
  assumes "method \<in> {''GET'', ''HEAD''}" "decoded_segments pdec path = segs"
  shows "normalize_format (cc_repository_format ctx) = ''npm'' \<Longrightarrow> classify_npm ctx segs = Some t \<Longrightarrow>
      classify_path pdec ctx method path = Scan t"
    and "normalize_format (cc_repository_format ctx) \<in> {''maven'', ''maven2''} \<Longrightarrow>
      classify_maven ctx segs = Some t \<Longrightarrow> classify_path pdec ctx method path = Scan t"
    and "normalize_format (cc_repository_format ctx) \<in> {''pypi'', ''python''} \<Longrightarrow>
      classify_pypi ctx segs = Some t \<Longrightarrow> classify_path pdec ctx method path = Scan t"
    and "normalize_format (cc_repository_format ctx) \<in> {''cargo'', ''rust'', ''rustcargo''} \<Longrightarrow>
      classify_cargo ctx segs = Some t \<Longrightarrow> classify_path pdec ctx method path = Scan t"
    and "normalize_format (cc_repository_format ctx) \<in> {''go'', ''golang''} \<Longrightarrow>
      classify_go ctx segs = Some t \<Longrightarrow> classify_path pdec ctx method path = Scan t"
  using assms by (auto simp: classify_path_def Let_def)

lemma default_ecosystems:
  "normalize_format fmt = ''npm'' \<Longrightarrow> default_osv_ecosystem_for_format fmt = Some ''npm''"
  "normalize_format fmt \<in> {''maven'', ''maven2''} \<Longrightarrow> default_osv_ecosystem_for_format fmt = Some ''Maven''"
  "normalize_format fmt \<in> {''pypi'', ''python''} \<Longrightarrow> default_osv_ecosystem_for_format fmt = Some ''PyPI''"
  "normalize_format fmt \<in> {''cargo'', ''rust'', ''rustcargo''} \<Longrightarrow>
     default_osv_ecosystem_for_format fmt = Some ''crates.io''"
  "normalize_format fmt \<in> {''go'', ''golang''} \<Longrightarrow> default_osv_ecosystem_for_format fmt = Some ''Go''"
  by (auto simp: normalize_format_def default_osv_ecosystem_for_format_def
      normalize_repository_format_def Let_def)

lemma package_target_default:
  "default_osv_ecosystem_for_format (cc_repository_format ctx) = Some eco \<Longrightarrow>
   package_target ctx eco n v = Package (from_osv (unwrap_or (cc_osv_ecosystem ctx) eco) n v)"
  by (cases "cc_osv_ecosystem ctx") (simp_all add: package_target_def)


definition sample_pdec :: "string \<Rightarrow> string" where
  "sample_pdec s = s"



text \<open>
  Downloading a file of a Maven artifact from its conventional path is recognised as exactly that
  group, artifact and version, unless the file is a checksum, a signature or the repository metadata.
\<close>

theorem maven_download_classified:
  assumes "percent_decode_law pdec" "method \<in> {''GET'', ''HEAD''}"
    and "normalize_format (cc_repository_format ctx) \<in> {''maven'', ''maven2''}"
    and "grp \<noteq> []" "\<forall>s \<in> set grp. plain_segment s" "plain_segment artifact" "plain_segment v"
    and "plain_segment rest" "\<not> is_sidecar (artifact @ ''-'' @ v @ rest)"
    and "artifact @ ''-'' @ v @ rest \<noteq> ''maven-metadata.xml''"
  shows "classify_path pdec ctx method (path_of (grp @ [artifact, v, artifact @ ''-'' @ v @ rest])) =
    Scan (Package (from_osv (unwrap_or (cc_osv_ecosystem ctx) ''Maven'') (join ''.'' grp @ '':'' @ artifact) v))"
proof -
  let ?file = "artifact @ ''-'' @ v @ rest"
  let ?segs = "grp @ [artifact, v, ?file]"
  have plain: "plain_segment ?file" using assms by (blast intro: plain_rules)
  have "join ''.'' grp \<noteq> []"
    using assms(4,5) by (cases grp; cases "tl grp") (auto simp: plain_segment_def)
  moreover have "contains_str ?file v" 
    unfolding contains_str_iff sublist_def by (rule exI [of _ "artifact @ ''-''"]) simp
  moreover have "last_seg ?segs = Some ?file" by (simp add: last_seg_def)
  moreover have "length ?segs \<ge> 4" using assms(4) by (cases grp) auto
  moreover have "seg ?segs (length ?segs - 2) = Some v" "seg ?segs (length ?segs - 3) = Some artifact"
    by (simp_all add: seg_def nth_append)
  moreover have "take (length ?segs - 3) ?segs = grp" by simp
  ultimately have "classify_maven ctx ?segs = Some (package_target ctx ''Maven'' (join ''.'' grp @ '':'' @ artifact) v)"
    using assms(4,9,10) unfolding classify_maven_def by simp
  moreover have "decoded_segments pdec (path_of ?segs) = ?segs"
    using assms plain by (intro decoded_segments_path_of) auto
  ultimately show ?thesis
    using classify_path_get(2) [OF assms(2) _ assms(3)] package_target_default [OF default_ecosystems(2) [OF assms(3)]]
    by simp
qed

theorem maven_download_classified_witness:
  "classify_path sample_pdec \<lparr>cc_repository_format = ''maven2'', cc_osv_ecosystem = None\<rparr> ''HEAD''
     (path_of ([''com'', ''example''] @ [''demo'', ''1.2.3'', ''demo'' @ ''-'' @ ''1.2.3'' @ ''.jar''])) =
   Scan (Package (from_osv ''Maven'' ''com.example:demo'' ''1.2.3''))"
proof -
  have l: "percent_decode_law sample_pdec" by (simp add: percent_decode_law_def sample_pdec_def)
  have f: "normalize_format (cc_repository_format
      \<lparr>cc_repository_format = ''maven2'', cc_osv_ecosystem = None\<rparr>) \<in> {''maven'', ''maven2''}" by code_simp
  have p: "\<forall>s \<in> set [''com'', ''example'']. plain_segment s" "plain_segment ''demo''" "plain_segment ''1.2.3''"
    "plain_segment ''.jar''" "\<not> is_sidecar (''demo'' @ ''-'' @ ''1.2.3'' @ ''.jar'')"
    by code_simp+
  show ?thesis
    using maven_download_classified [OF l _ f _ p] by simp
qed

text \<open>
  Downloading a Python wheel is recognised as the package, by its normalised name, and the
  version that the wheel's file name carries.
\<close>

theorem pypi_wheel_classified:
  assumes "percent_decode_law pdec" "method \<in> {''GET'', ''HEAD''}"
    and "normalize_format (cc_repository_format ctx) \<in> {''pypi'', ''python''}"
    and "\<forall>s \<in> set dirs. plain_segment s" "plain_segment name" "plain_segment v" "plain_segment tags"
    and "CHR ''-'' \<notin> set name" "CHR ''-'' \<notin> set v"
  shows "classify_path pdec ctx method (path_of (dirs @ [name @ ''-'' @ v @ ''-'' @ tags @ ''.whl''])) =
    Scan (Package (from_osv (unwrap_or (cc_osv_ecosystem ctx) ''PyPI'') (normalize_pypi_name name) v))"
proof -
  let ?file = "name @ ''-'' @ v @ ''-'' @ tags @ ''.whl''"
  have plain: "plain_segment ?file" using assms by (blast intro: plain_rules)
  have strip: "strip_suffix ''.whl'' ?file = Some (name @ ''-'' @ v @ ''-'' @ tags)" by simp
  have "split_on (CHR ''-'') (name @ ''-'' @ v @ ''-'' @ tags) = name # v # split_on (CHR ''-'') tags"
    using assms(8,9) by (simp add: split_on_append)
  then have "classify_pypi ctx (dirs @ [?file]) =
      Some (package_target ctx ''PyPI'' (normalize_pypi_name name) v)"
    by (simp only: classify_pypi_def last_seg_append strip option.case Let_def seg_def bind.bind_lunit) simp
  moreover have "decoded_segments pdec (path_of (dirs @ [?file])) = dirs @ [?file]"
    using assms plain by (intro decoded_segments_path_of) auto
  ultimately show ?thesis
    using classify_path_get(3) [OF assms(2) _ assms(3)] package_target_default [OF default_ecosystems(3) [OF assms(3)]]
    by simp
qed

theorem pypi_wheel_classified_witness:
  "classify_path sample_pdec \<lparr>cc_repository_format = ''pypi'', cc_osv_ecosystem = None\<rparr> ''GET''
     (path_of ([''packages''] @ [''My_Pkg'' @ ''-'' @ ''1.2.3'' @ ''-'' @ ''py3-none-any'' @ ''.whl''])) =
   Scan (Package (from_osv ''PyPI'' ''my-pkg'' ''1.2.3''))"
proof -
  have l: "percent_decode_law sample_pdec" by (simp add: percent_decode_law_def sample_pdec_def)
  have f: "normalize_format (cc_repository_format
      \<lparr>cc_repository_format = ''pypi'', cc_osv_ecosystem = None\<rparr>) \<in> {''pypi'', ''python''}" by code_simp
  have p: "\<forall>s \<in> set [''packages'']. plain_segment s" "plain_segment ''My_Pkg''" "plain_segment ''1.2.3''"
    "plain_segment ''py3-none-any''" "CHR ''-'' \<notin> set ''My_Pkg''" "CHR ''-'' \<notin> set ''1.2.3''"
    by code_simp+
  have "normalize_pypi_name ''My_Pkg'' = ''my-pkg''" by code_simp
  then show ?thesis using pypi_wheel_classified [OF l _ f p, of "''GET''"] by simp
qed

text \<open>
  Crate downloads and Go module archives are recognised as the package and version their
  conventional paths name.
\<close>

theorem cargo_go_downloads_classified:
  assumes "percent_decode_law pdec" "method \<in> {''GET'', ''HEAD''}"
    and "dirs \<noteq> []" "\<forall>s \<in> set dirs. plain_segment s" "''@v'' \<notin> set dirs"
    and "plain_segment name" "plain_segment v"
  shows "(normalize_format (cc_repository_format ctx) \<in> {''cargo'', ''rust'', ''rustcargo''} \<longrightarrow>
      classify_path pdec ctx method (path_of [''api'', ''v1'', ''crates'', name, v, ''download'']) =
        Scan (Package (from_osv (unwrap_or (cc_osv_ecosystem ctx) ''crates.io'') name v))) \<and>
    (normalize_format (cc_repository_format ctx) \<in> {''go'', ''golang''} \<longrightarrow>
      classify_path pdec ctx method (path_of (dirs @ [''@v'', v @ ''.zip''])) =
        Scan (Package (from_osv (unwrap_or (cc_osv_ecosystem ctx) ''Go'') (join ''/'' dirs) v)))"
proof (intro conjI impI)
  let ?crate = "[''api'', ''v1'', ''crates'', name, v, ''download'']"
  assume f: "normalize_format (cc_repository_format ctx) \<in> {''cargo'', ''rust'', ''rustcargo''}"
  have "decoded_segments pdec (path_of ?crate) = ?crate"
    using assms plain_literals by (intro decoded_segments_path_of) auto
  moreover have "classify_cargo ctx ?crate = Some (package_target ctx ''crates.io'' name v)"
    by (simp add: classify_cargo_def seg_def)
  ultimately show "classify_path pdec ctx method (path_of ?crate) =
      Scan (Package (from_osv (unwrap_or (cc_osv_ecosystem ctx) ''crates.io'') name v))"
    using classify_path_get(4) [OF assms(2) _ f] package_target_default [OF default_ecosystems(4) [OF f]] by simp
next
  let ?segs = "dirs @ [''@v'', v @ ''.zip'']"
  assume f: "normalize_format (cc_repository_format ctx) \<in> {''go'', ''golang''}"
  have "plain_segment (v @ ''.zip'')" using assms(7) by (blast intro: plain_rules)
  then have "decoded_segments pdec (path_of ?segs) = ?segs"
    using assms plain_literals by (intro decoded_segments_path_of) auto
  moreover have "position (\<lambda>s. s = ''@v'') ?segs = Some (length dirs)"
    using assms(5) by (induction dirs) auto
  moreover have "join ''/'' dirs \<noteq> []"
    using assms(3,4) by (cases dirs; cases "tl dirs") (auto simp: plain_segment_def)
  ultimately have "classify_go ctx ?segs = Some (package_target ctx ''Go'' (join ''/'' dirs) v)"
    "decoded_segments pdec (path_of ?segs) = ?segs"
    by (simp_all add: classify_go_def seg_def nth_append)
  then show "classify_path pdec ctx method (path_of ?segs) =
      Scan (Package (from_osv (unwrap_or (cc_osv_ecosystem ctx) ''Go'') (join ''/'' dirs) v))"
    using classify_path_get(5) [OF assms(2) _ f] package_target_default [OF default_ecosystems(5) [OF f]] by simp
qed

theorem cargo_go_downloads_classified_witness:
  "classify_path sample_pdec \<lparr>cc_repository_format = ''Go'', cc_osv_ecosystem = None\<rparr> ''GET''
     (path_of ([''example.com'', ''mod''] @ [''@v'', ''v1.2.3'' @ ''.zip''])) =
   Scan (Package (from_osv ''Go'' ''example.com/mod'' ''v1.2.3''))"
proof -
  have l: "percent_decode_law sample_pdec" by (simp add: percent_decode_law_def sample_pdec_def)
  have f: "normalize_format (cc_repository_format
      \<lparr>cc_repository_format = ''Go'', cc_osv_ecosystem = None\<rparr>) \<in> {''go'', ''golang''}" by code_simp
  have p: "\<forall>s \<in> set [''example.com'', ''mod'']. plain_segment s" "''@v'' \<notin> set [''example.com'', ''mod'']"
    "plain_segment ''serde''" "plain_segment ''v1.2.3''" by code_simp+
  show ?thesis
    using cargo_go_downloads_classified [OF l _ _ p, of "''GET''"
        "\<lparr>cc_repository_format = ''Go'', cc_osv_ecosystem = None\<rparr>"] f by auto
qed

section \<open>Gaps\<close>

text \<open>
  A deployed Maven snapshot is stored under a time-stamped file name that does not contain the
  \<open>-SNAPSHOT\<close> version of its directory, so downloading it is not recognised as a package download: it
  is passed through unscanned.
\<close>

theorem maven_snapshot_not_classified:
  "classify_path sample_pdec \<lparr>cc_repository_format = ''maven2'', cc_osv_ecosystem = None\<rparr> ''GET''
     ''/com/example/demo/1.0-SNAPSHOT/demo-1.0-20240101.120000-1.jar'' = ProxyOnly"
  by code_simp

text \<open>
  When the scope separator of a scoped npm package is percent-encoded, the version is taken from
  the text after the last hyphen of the file name: a pre-release \<open>1.0.0-beta\<close> is looked up as
  version \<open>beta\<close>.
\<close>

theorem npm_encoded_scope_version:
  assumes "pdec ''@scope%2fpkg'' = ''@scope/pkg''" "pdec ''-'' = ''-''"
    and "pdec ''pkg-1.0.0-beta.tgz'' = ''pkg-1.0.0-beta.tgz''"
  shows "classify_path pdec \<lparr>cc_repository_format = ''npm'', cc_osv_ecosystem = None\<rparr> ''GET''
     ''/@scope%2fpkg/-/pkg-1.0.0-beta.tgz'' = Scan (Package (from_osv ''npm'' ''@scope/pkg'' ''beta''))"
proof -
  have "filter (\<lambda>segment. segment \<noteq> []) (split_on (CHR ''/'')
      (trim_start_matches (CHR ''/'') ''/@scope%2fpkg/-/pkg-1.0.0-beta.tgz'')) =
      [''@scope%2fpkg'', ''-'', ''pkg-1.0.0-beta.tgz'']" by code_simp
  moreover have "from_utf8_lossy ''@scope/pkg'' = ''@scope/pkg''" "from_utf8_lossy ''-'' = ''-''"
    "from_utf8_lossy ''pkg-1.0.0-beta.tgz'' = ''pkg-1.0.0-beta.tgz''" by code_simp+
  ultimately have "decoded_segments pdec ''/@scope%2fpkg/-/pkg-1.0.0-beta.tgz'' =
      [''@scope/pkg'', ''-'', ''pkg-1.0.0-beta.tgz'']"
    by (simp only: decoded_segments_def list.map assms)
  moreover have "classify_npm \<lparr>cc_repository_format = ''npm'', cc_osv_ecosystem = None\<rparr>
      [''@scope/pkg'', ''-'', ''pkg-1.0.0-beta.tgz''] = Some (Package (from_osv ''npm'' ''@scope/pkg'' ''beta''))"
    by code_simp
  moreover have "normalize_format (cc_repository_format
      \<lparr>cc_repository_format = ''npm'', cc_osv_ecosystem = None\<rparr>) = ''npm''" by code_simp
  ultimately show ?thesis using classify_path_get(1) by simp
qed

fun sample_percent_decode :: "string \<Rightarrow> string" where
  "sample_percent_decode (a # b # c # s) =
     (if [a, b, c] = ''%2f'' then CHR ''/'' # sample_percent_decode s
      else a # sample_percent_decode (b # c # s))"
| "sample_percent_decode s = s"

theorem npm_encoded_scope_version_witness:
  "classify_path sample_percent_decode \<lparr>cc_repository_format = ''npm'', cc_osv_ecosystem = None\<rparr> ''GET''
     ''/@scope%2fpkg/-/pkg-1.0.0-beta.tgz'' = Scan (Package (from_osv ''npm'' ''@scope/pkg'' ''beta''))"
  by (rule npm_encoded_scope_version) (code_simp+)

end
