(* ===== verification/App_State.thy ===== *)
theory App_State
  imports Trivy Scan_Cache Config Classifier
begin

text \<open>
  The proxy's shared state (\<^verbatim>\<open>crates/proxy/src/{catalog,decisions,state,time_utils}.rs\<close>): the
  repository catalog, the bounded log of recent decisions and the active policy, each behind a lock.
  A poisoned lock is entered as well (\<^verbatim>\<open>into_inner\<close>), so both branches of the code do the same.
  The clock reading that a constructor takes is an argument.
\<close>

section \<open>Time stamps\<close>

definition format_offset_datetime :: "time_lib \<Rightarrow> offset_date_time \<Rightarrow> string" where
  "format_offset_datetime tlib t = unwrap_or (rfc3339_format tlib t) (odt_unix_timestamp tlib t)"

section \<open>The repository catalog\<close>

record nexus_repository =
  nr_name :: string
  nr_format :: string
  nr_repository_type :: "string option"
  nr_url :: "string option"
  nr_online :: "bool option"
  nr_osv_ecosystem :: "string option"

record repository_catalog =
  rc_repositories :: "(string, nexus_repository) btree_map"
  rc_loaded_at :: string
  rc_generation :: u64

fun index_repositories ::
  "nexus_repository list \<Rightarrow> (string, nexus_repository) btree_map \<Rightarrow>
   string + (string, nexus_repository) btree_map" where
  "index_repositories [] by_name = Inr by_name"
| "index_repositories (r # rs) by_name =
     (if trim (nr_name r) = []
      then Inl ''Nexus repository catalog contains an empty repository name''
      else if trim (nr_format r) = []
      then Inl (''Nexus repository catalog contains an empty format for repository '' @ nr_name r)
      else index_repositories rs (btm_insert (nr_name r) r by_name))"

definition catalog_new ::
  "time_lib \<Rightarrow> offset_date_time \<Rightarrow> nexus_repository list \<Rightarrow> u64 \<Rightarrow> string + repository_catalog" where
  "catalog_new tlib now repositories generation =
     (if repositories = [] then Inl ''Nexus repository catalog is empty''
      else res_bind (index_repositories repositories []) (\<lambda>by_name.
        Inr \<lparr>rc_repositories = by_name, rc_loaded_at = format_offset_datetime tlib now,
          rc_generation = generation\<rparr>))"

definition catalog_get :: "repository_catalog \<Rightarrow> string \<Rightarrow> nexus_repository option" where
  "catalog_get c name = btm_get (rc_repositories c) name"

record repository_catalog_summary =
  rcs_generation :: u64
  rcs_loaded_at :: string
  rcs_repository_count :: nat

definition catalog_summary :: "repository_catalog \<Rightarrow> repository_catalog_summary" where
  "catalog_summary c =
     \<lparr>rcs_generation = rc_generation c, rcs_loaded_at = rc_loaded_at c,
      rcs_repository_count = length (rc_repositories c)\<rparr>"

record repositories_response =
  rr_generation :: u64
  rr_loaded_at :: string
  rr_repositories :: "nexus_repository list"

definition catalog_response :: "repository_catalog \<Rightarrow> repositories_response" where
  "catalog_response c =
     \<lparr>rr_generation = rc_generation c, rr_loaded_at = rc_loaded_at c,
      rr_repositories = btm_values (rc_repositories c)\<rparr>"

record nexus_repository_response_item =
  ri_name :: string
  ri_format :: string
  ri_repository_type :: "string option"
  ri_url :: "string option"
  ri_online :: "bool option"

definition repository_of_item :: "app_config \<Rightarrow> nexus_repository_response_item \<Rightarrow> nexus_repository" where
  "repository_of_item config item =
     \<lparr>nr_name = ri_name item, nr_format = ri_format item,
      nr_repository_type = ri_repository_type item, nr_url = ri_url item, nr_online = ri_online item,
      nr_osv_ecosystem = btm_get (ns_osv_ecosystem_overrides (cf_nexus config)) (ri_name item)\<rparr>"

definition validate_configured_repositories :: "repository_catalog \<Rightarrow> app_config \<Rightarrow> string + unit" where
  "validate_configured_repositories c config =
     (case ns_docker_repository_name (cf_nexus config) of
        None \<Rightarrow> Inr ()
      | Some name \<Rightarrow>
          if \<not> docker_registry_configured config then Inr ()
          else case catalog_get c name of
            None \<Rightarrow> Inl (''configured Docker repository '' @ name @ '' was not found in Nexus catalog'')
          | Some r \<Rightarrow>
              if alnum_lower (nr_format r) \<noteq> ''docker''
              then Inl (''configured Docker repository '' @ name @ '' has format '' @ nr_format r
                        @ '', expected docker'')
              else Inr ())"

record repository_path =
  rpath_repository :: string
  rpath_stripped_path :: string

definition parse_repository_path :: "(string \<Rightarrow> string) \<Rightarrow> string \<Rightarrow> repository_path option" where
  "parse_repository_path pdec path =
     (case strip_prefix ''/repository/'' path of
        None \<Rightarrow> None
      | Some rest \<Rightarrow>
          (let parts = unwrap_or (split_once (CHR ''/'') rest) (rest, [])
           in if fst parts = [] then None
              else Some \<lparr>rpath_repository = from_utf8_lossy (pdec (fst parts)),
                rpath_stripped_path = (if snd parts = [] then ''/'' else ''/'' @ snd parts)\<rparr>))"

section \<open>Recent decisions\<close>

datatype decision_outcome = BlockedDecision | ReportOnlyDecision

record recent_decision =
  rd_timestamp :: string
  rd_repository :: string
  rd_format :: string
  rd_team :: "string option"
  rd_target :: string
  rd_outcome :: decision_outcome
  rd_policy_id :: "string option"
  rd_reason :: string
  rd_vulnerability_ids :: "string list"
  rd_report_url :: "string option"

record decision_log =
  dl_inner :: "recent_decision list"
  dl_capacity :: nat

definition decision_log_new :: "nat \<Rightarrow> decision_log" where
  "decision_log_new capacity = \<lparr>dl_inner = [], dl_capacity = capacity\<rparr>"

text \<open>\<^verbatim>\<open>while decisions.len() > capacity { decisions.pop_back(); }\<close>\<close>

function pop_back_to :: "nat \<Rightarrow> 'a list \<Rightarrow> 'a list" where
  "pop_back_to capacity xs =
     (if length xs > capacity then pop_back_to capacity (butlast xs) else xs)"
  by pat_completeness auto
termination
  by (relation "measure (\<lambda>(capacity, xs). length xs)") auto

declare pop_back_to.simps [simp del]

definition decision_log_push :: "recent_decision \<Rightarrow> decision_log \<Rightarrow> decision_log" where
  "decision_log_push d dlog = dlog\<lparr>dl_inner := pop_back_to (dl_capacity dlog) (d # dl_inner dlog)\<rparr>"

definition decision_log_list :: "decision_log \<Rightarrow> nat \<Rightarrow> recent_decision list" where
  "decision_log_list dlog limit = take limit (dl_inner dlog)"

section \<open>The active policy\<close>

record active_policy =
  ap_policy_set :: policy_set
  ap_source_path :: "string option"
  ap_loaded_at :: string
  ap_generation :: u64

definition active_policy_new ::
  "time_lib \<Rightarrow> offset_date_time \<Rightarrow> policy_set \<Rightarrow> string option \<Rightarrow> u64 \<Rightarrow> active_policy" where
  "active_policy_new tlib now ps source_path generation =
     \<lparr>ap_policy_set = ps, ap_source_path = source_path,
      ap_loaded_at = format_offset_datetime tlib now, ap_generation = generation\<rparr>"

definition context_for :: "active_policy \<Rightarrow> string \<Rightarrow> string \<Rightarrow> policy_context" where
  "context_for p name fmt = policy_set_context (ap_policy_set p) name fmt"

record active_policy_summary =
  aps_generation :: u64
  aps_source_path :: "string option"
  aps_loaded_at :: string

definition active_policy_summary_of :: "active_policy \<Rightarrow> active_policy_summary" where
  "active_policy_summary_of p =
     \<lparr>aps_generation = ap_generation p, aps_source_path = ap_source_path p,
      aps_loaded_at = ap_loaded_at p\<rparr>"

section \<open>The shared state\<close>

text \<open>
  What every task sees: the scan cache (of type \<open>'c\<close> for each half), the policy, the catalog, the decision
  log, and the world outside the process (\<open>'w\<close>).
\<close>

record ('c, 'w) shared =
  sh_cache :: "'c moka_scan_cache"
  sh_active_policy :: active_policy
  sh_catalog :: repository_catalog
  sh_decisions :: decision_log
  sh_world :: 'w

definition reload_active_policy ::
  "time_lib \<Rightarrow> offset_date_time \<Rightarrow> policy_set \<Rightarrow> string option \<Rightarrow> ('c, 'w) shared \<Rightarrow>
   active_policy \<times> ('c, 'w) shared" where
  "reload_active_policy tlib now ps source_path s =
     (let generation = ap_generation (sh_active_policy s) + 1;
          next = active_policy_new tlib now ps source_path generation
      in (next, s\<lparr>sh_active_policy := next\<rparr>))"

definition replace_repository_catalog ::
  "repository_catalog \<Rightarrow> ('c, 'w) shared \<Rightarrow> repository_catalog \<times> ('c, 'w) shared" where
  "replace_repository_catalog c s = (c, s\<lparr>sh_catalog := c\<rparr>)"

section \<open>Lemmas\<close>

lemma pop_back_to_take: "pop_back_to n xs = take n xs"
proof (induction n xs rule: pop_back_to.induct)
  case (1 n xs)
  then show ?case
    by (subst pop_back_to.simps) (auto simp: butlast_conv_take min_def not_less)
qed

lemma pushes_take:
  "length (dl_inner l) \<le> dl_capacity l \<Longrightarrow>
   dl_inner (fold decision_log_push ds l) = take (dl_capacity l) (rev ds @ dl_inner l)"
proof (induction ds arbitrary: l)
  case (Cons d ds)
  have "take n (xs @ take n ys) = take n (xs @ ys)" for n and xs ys :: "recent_decision list"
    by (simp add: min_def)
  with Cons.IH [of "decision_log_push d l"] show ?case
    by (simp add: decision_log_push_def pop_back_to_take)
qed simp

text \<open>
  The decision log keeps exactly the most recent decisions, newest first, and never more than its
  capacity; listing with a limit returns a prefix of them.
\<close>

theorem decision_log_recent:
  "decision_log_list (fold decision_log_push ds (decision_log_new capacity)) limit =
     take (min limit capacity) (rev ds)"
proof -
  have "dl_inner (fold decision_log_push ds (decision_log_new capacity)) = take capacity (rev ds)"
    using pushes_take [of "decision_log_new capacity" ds] by (simp add: decision_log_new_def)
  then show ?thesis by (simp add: decision_log_list_def)
qed

lemma index_repositories_Inr_iff:
  "index_repositories rs m = Inr m' \<longleftrightarrow>
     (\<forall>r \<in> set rs. filled (nr_name r) \<and> filled (nr_format r)) \<and>
     m' = foldl (\<lambda>m (k, v). btm_insert k v m) m (map (\<lambda>r. (nr_name r, r)) rs)"
  by (induction rs m rule: index_repositories.induct) auto

text \<open>
  A catalog is built exactly from a non-empty list of repositories with non-blank names and
  formats, and it then finds, for every name, the last repository of the list with that name and
  nothing for any other name.
\<close>

theorem catalog_new_spec:
  "(\<exists>c. catalog_new tlib now rs generation = Inr c \<and> rc_generation c = generation \<and>
      (\<forall>name. catalog_get c name = find (\<lambda>r. nr_name r = name) (rev rs))) \<longleftrightarrow>
   rs \<noteq> [] \<and> (\<forall>r \<in> set rs. filled (nr_name r) \<and> filled (nr_format r))"
proof -
  have find: "map_of (rev (map (\<lambda>r. (nr_name r, r)) rs)) name = find (\<lambda>r. nr_name r = name) (rev rs)" for name
  proof -
    have "map_of (map (\<lambda>r. (nr_name r, r)) xs) name = find (\<lambda>r. nr_name r = name) xs" for xs
      by (induction xs) auto
    then show ?thesis by (simp add: rev_map)
  qed
  show ?thesis
    using btm.get_collect [of "map (\<lambda>r. (nr_name r, r)) rs"]
    by (auto simp: catalog_new_def res_bind_Inr_iff index_repositories_Inr_iff catalog_get_def find)
qed

theorem catalog_new_spec_witness:
  "\<exists>c. catalog_new sample_time_lib (sample_instant 0)
      [\<lparr>nr_name = ''npm-proxy'', nr_format = ''npm'', nr_repository_type = None, nr_url = None,
        nr_online = None, nr_osv_ecosystem = None\<rparr>] 1 = Inr c \<and> rc_generation c = 1 \<and>
      (\<forall>name. catalog_get c name = find (\<lambda>r. nr_name r = name)
        (rev [\<lparr>nr_name = ''npm-proxy'', nr_format = ''npm'', nr_repository_type = None, nr_url = None,
           nr_online = None, nr_osv_ecosystem = None\<rparr>]))"
proof -
  have "filled ''npm-proxy''" "filled ''npm''" by code_simp+
  then show ?thesis by (subst catalog_new_spec) simp
qed

text \<open>The path of a download from a repository determines the repository and the path below it.\<close>

lemma parse_repository_path_download:
  assumes "percent_decode_law pdec" "plain_segment name"
  shows "parse_repository_path pdec (''/repository/'' @ name @ ''/'' @ rest) =
    Some \<lparr>rpath_repository = name, rpath_stripped_path = ''/'' @ rest\<rparr>"
proof -
  have "split_once (CHR ''/'') (name @ CHR ''/'' # rest) = Some (name, rest)"
    using assms(2) by (intro split_once_append) (simp add: plain_segment_def)
  then show ?thesis
    using assms by (simp add: parse_repository_path_def strip_prefix_def percent_decode_law_def plain_segment_def
        from_utf8_lossy_valid Let_def)
qed

end
