(* ===== verification/Effects.thy ===== *)
theory Effects
  imports App_State
begin

text \<open>
  The boundary of the request handlers: what they can observe and do, as events; the libraries and
  services they use, as the parameter record \<open>env\<close>; and the response they give. Every external
  operation of \<open>env\<close> takes the whole shared state, so that other tasks may change the policy, the catalog, the
  caches and the decision log while a handler waits; \<open>env_other_tasks\<close> does so where a handler waits for the cache.

  The purpose of a request and the \<open>Evaluated\<close>, \<open>ScanFailed\<close> and \<open>Unsupported\<close> events
  are annotations: they name the place in the code where the request is sent or the decision is taken.
\<close>

section \<open>Events\<close>

datatype request_purpose =
    OsvLookup | CatalogLoad | VerifyRequester | RecipientLookup | ArtifactPrefetch | DockerManifestFetch
  | ForwardRequest

record audit_base =
  au_repository :: string
  au_format :: string
  au_team :: string
  au_policy_id :: string
  au_mode :: string
  au_target :: string

datatype audit_record =
    PolicyExceptionApplied audit_base policy_exception_metadata
  | PolicyExceptionExpiredMatch audit_base policy_exception_metadata
  | PolicyReportOnlyViolation audit_base "string list" "policy_exception_metadata list"
      "policy_exception_metadata list"
  | PolicyBlocked audit_base "string list" "policy_exception_metadata list"
      "policy_exception_metadata list" string
  | UnsupportedBlocked audit_base "string list" string string

record block_notification =
  bn_login :: string
  bn_repository :: string
  bn_format :: string
  bn_target :: string
  bn_reason :: string
  bn_policy_id :: "string option"
  bn_vulnerability_ids :: "string list"
  bn_report_url :: string

datatype event =
    HttpSent request_purpose http_request
  | CommandRan command_line
  | CacheLookup cache_key
  | CacheStore cache_key cached_scan
  | ReportCreation trust_report
  | Audited audit_record
  | DecisionRecorded recent_decision
  | NotificationQueued block_notification
  | NotificationSkipped string
  | PermitAcquired
  | PermitReleased
  | FileWritten string bytes
  | Evaluated scan_target policy_evaluation
  | ScanFailed scan_target
  | Unsupported scan_target

section \<open>The environment\<close>

record created_report =
  cr_url :: string

record nexus_user =
  nu_user_id :: string
  nu_email_address :: string
  nu_status :: string

text \<open>
  Decoders of response bodies, of base64 in its three alphabets, and of the claims of a bearer token;
  the encoders of base64 and JSON.
\<close>

record decoders =
  osv_json :: "http_response \<Rightarrow> string + osv_response"
  trivy_json :: "bytes \<Rightarrow> string + trivy_report"
  catalog_json :: "http_response \<Rightarrow> string + nexus_repository_response_item list"
  users_json :: "http_response \<Rightarrow> string + nexus_user list"
  claims_sub :: "bytes \<Rightarrow> string option"
  manifest_layers :: "bytes \<Rightarrow> string option list option"
  b64_standard :: "string \<Rightarrow> bytes option"
  b64_url_safe_no_pad :: "string \<Rightarrow> bytes option"
  b64_url_safe :: "string \<Rightarrow> bytes option"
  b64_encode :: "bytes \<Rightarrow> string"
  json_bytes :: "json \<Rightarrow> bytes"

record ('c, 'w) env =
  env_config :: app_config
  env_nexus_base_url :: url
  env_yandex_messenger :: bool
  env_time :: time_lib
  env_url :: url_lib
  env_http :: http_lib
  env_moka :: "'c moka_lib"
  env_percent_decode :: "string \<Rightarrow> string"
  env_decoders :: decoders
  env_url_parse :: "string \<Rightarrow> string + parsed_url"
  env_url_port :: "parsed_url \<Rightarrow> string option"
  env_host_str :: "url_host \<Rightarrow> string"
  env_url_join :: "url \<Rightarrow> string \<Rightarrow> string option"
  env_now :: "('c, 'w) shared \<Rightarrow> offset_date_time \<times> ('c, 'w) shared"
  env_uuid :: "('c, 'w) shared \<Rightarrow> uuid \<times> ('c, 'w) shared"
  env_send :: "http_request \<Rightarrow> ('c, 'w) shared \<Rightarrow> (string + http_response) \<times> ('c, 'w) shared"
  env_run :: "command_line \<Rightarrow> ('c, 'w) shared \<Rightarrow> command_outcome \<times> ('c, 'w) shared"
  env_other_tasks :: "('c, 'w) shared \<Rightarrow> ('c, 'w) shared"
  env_acquire_permit :: "('c, 'w) shared \<Rightarrow> (string + unit) \<times> ('c, 'w) shared"
  env_temp_file :: "string option \<Rightarrow> string \<Rightarrow> string \<Rightarrow> ('c, 'w) shared \<Rightarrow> (string + string) \<times> ('c, 'w) shared"
  env_temp_dir :: "('c, 'w) shared \<Rightarrow> (string + string) \<times> ('c, 'w) shared"
  env_file_op :: "string \<Rightarrow> string \<Rightarrow> bytes \<Rightarrow> ('c, 'w) shared \<Rightarrow> (string + unit) \<times> ('c, 'w) shared"
  env_create_report :: "trust_report \<Rightarrow> ('c, 'w) shared \<Rightarrow> (string + created_report) \<times> ('c, 'w) shared"

type_synonym ('c, 'w, 'a) action = "(('c, 'w) shared, event, 'a) io"

section \<open>Operations\<close>

definition send :: "('c, 'w) env \<Rightarrow> request_purpose \<Rightarrow> http_request \<Rightarrow> ('c, 'w, string + http_response) action" where
  "send env purpose req = io_call (HttpSent purpose req) (env_send env req)"

definition run_command :: "('c, 'w) env \<Rightarrow> command_line \<Rightarrow> ('c, 'w, command_outcome) action" where
  "run_command env cmd = io_call (CommandRan cmd) (env_run env cmd)"

definition get_cache ::
  "('c, 'w) env \<Rightarrow> cache_key \<Rightarrow> ('c, 'w, cache_error + cached_scan option) action" where
  "get_cache env key = io_call (CacheLookup key) (\<lambda>s.
     let s = env_other_tasks env s; (r, c) = cache_get (env_moka env) key (sh_cache s)
     in (r, s\<lparr>sh_cache := c\<rparr>))"

definition store_cache ::
  "('c, 'w) env \<Rightarrow> cache_key \<Rightarrow> cached_scan \<Rightarrow> ('c, 'w, cache_error + unit) action" where
  "store_cache env key scan = io_call (CacheStore key scan) (\<lambda>s.
     let s = env_other_tasks env s; (r, c) = cache_put (env_moka env) key scan (sh_cache s)
     in (r, s\<lparr>sh_cache := c\<rparr>))"

definition clock :: "('c, 'w) env \<Rightarrow> ('c, 'w, offset_date_time) action" where
  "clock env = io_ext (env_now env)"

definition now_rfc3339 :: "('c, 'w) env \<Rightarrow> ('c, 'w, string) action" where
  "now_rfc3339 env = io_bind (clock env) (\<lambda>t. io_return (format_offset_datetime (env_time env) t))"

text \<open>\<^verbatim>\<open>u64::checked_add\<close>\<close>

definition checked_add :: "u64 \<Rightarrow> u64 \<Rightarrow> u64 option" where
  "checked_add a b = (if unat a + unat b < 2 ^ 64 then Some (a + b) else None)"

section \<open>Responses\<close>

text \<open>The body the client receives: bytes of the proxy's own, or the stream that Nexus sends.\<close>

datatype response_body = Bytes bytes | NexusStream "(string + bytes) list"

record response =
  rsp_status :: nat
  rsp_headers :: headers
  rsp_body :: response_body

definition response_with_text :: "nat \<Rightarrow> string \<Rightarrow> response" where
  "response_with_text status body =
     \<lparr>rsp_status = status, rsp_headers = [(''content-type'', ''text/plain; charset=utf-8'')],
      rsp_body = Bytes body\<rparr>"

definition unknown_repository_response :: "string \<Rightarrow> response" where
  "unknown_repository_response repository =
     response_with_text 403
       (''Repository blocked by nexus-sec-proxy'' @ newline @ newline @ ''Repository: '' @ repository
        @ newline @ ''Reason: repository is not present in the Nexus catalog'' @ newline)"

section \<open>Forwarding helpers\<close>

record request_uri =
  uri_path :: string
  uri_query :: "string option"

definition path_and_query :: "request_uri \<Rightarrow> string" where
  "path_and_query u = uri_path u @ (case uri_query u of None \<Rightarrow> [] | Some q \<Rightarrow> ''?'' @ q)"

definition is_hop_by_hop_header :: "string \<Rightarrow> bool" where
  "is_hop_by_hop_header name \<longleftrightarrow>
     list_ex (eq_ignore_ascii_case name)
       [''connection'', ''host'', ''transfer-encoding'', ''keep-alive'', ''proxy-authenticate'',
        ''proxy-authorization'', ''te'', ''trailer'', ''upgrade'']"

definition is_conditional_header :: "string \<Rightarrow> bool" where
  "is_conditional_header name \<longleftrightarrow>
     list_ex (eq_ignore_ascii_case name)
       [''if-match'', ''if-none-match'', ''if-modified-since'', ''if-unmodified-since'', ''if-range'']"

text \<open>\<^verbatim>\<open>RequestBuilder::header\<close> appends; so the copied headers keep their order and multiplicity.\<close>

definition copy_request_headers :: "http_request \<Rightarrow> headers \<Rightarrow> bool \<Rightarrow> http_request" where
  "copy_request_headers req hs strip_conditionals =
     req\<lparr>hr_headers := hr_headers req @ filter (\<lambda>(name, value).
        \<not> (is_hop_by_hop_header name \<or> (strip_conditionals \<and> is_conditional_header name))) hs\<rparr>"

definition response_headers :: "http_lib \<Rightarrow> headers \<Rightarrow> headers" where
  "response_headers lib hs =
     foldl (\<lambda>acc (name, value). if is_hop_by_hop_header name then acc else header_insert lib name value acc)
       [] hs"

definition response_from_nexus :: "http_lib \<Rightarrow> http_response \<Rightarrow> string + response" where
  "response_from_nexus lib r =
     (if \<not> valid_status lib (hs_status r) then Inl ''invalid Nexus status code''
      else Inr \<lparr>rsp_status = hs_status r, rsp_headers = response_headers lib (hs_headers r),
             rsp_body = NexusStream (hs_chunks r)\<rparr>)"

definition build_nexus_url :: "url_lib \<Rightarrow> url \<Rightarrow> request_uri \<Rightarrow> url" where
  "build_nexus_url lib base u =
     (let base_path = trim_end_matches (CHR ''/'') (url_path lib base);
          path = (if base_path = [] \<or> base_path = ''/'' then uri_path u
                  else if uri_path u = ''/'' then base_path
                  else base_path @ uri_path u)
      in url_set_query lib (uri_query u) (url_set_path lib path base))"

section \<open>Lemmas\<close>

lemma checked_add_Some_iff: "checked_add a b = Some c \<longleftrightarrow> unat a + unat b = unat c"
proof -
  have c: "unat c < 2 ^ 64" by (rule order_less_le_trans [OF unsigned_less]) simp
  have "unat (a + b) = (unat a + unat b) mod 2 ^ 64" by (simp add: unat_word_ariths)
  with c show ?thesis
    by (auto simp: checked_add_def word_eq_iff_unsigned [where ?'a = nat])
qed

lemma run_send [io_simps]:
  "send env p req s = Some (fst (env_send env req s), [HttpSent p req], snd (env_send env req s))"
  by (simp add: send_def io_call_run)

lemma header_values_filter:
  "header_values (filter (\<lambda>(n, v). P n) hs) m = (if P m then header_values hs m else [])"
  by (induction hs) (auto simp: header_values_def)

lemma response_headers_values:
  assumes "header_insert_law lib"
  shows "header_values (response_headers lib hs) m =
    (if is_hop_by_hop_header m \<or> header_values hs m = [] then [] else [last (header_values hs m)])"
proof -
  have "header_values (foldl (\<lambda>acc (name, value). if is_hop_by_hop_header name then acc
      else header_insert lib name value acc) acc hs) m =
      (if is_hop_by_hop_header m \<or> header_values hs m = [] then header_values acc m
       else [last (header_values hs m)])" for acc
  proof (induction hs arbitrary: acc)
    case Nil
    then show ?case by (simp add: header_values_def)
  next
    case (Cons h hs)
    then show ?case
      using assms by (cases h) (auto simp: header_values_def header_insert_law_def)
  qed
  then show ?thesis by (simp add: response_headers_def header_values_def)
qed

text \<open>
  Of a header that Nexus sends several times only the last value reaches the client: an
  answer with two cookies loses the first.
\<close>

theorem response_headers_drop_repeats:
  assumes "header_insert_law lib"
  shows "header_values (response_headers lib [(''set-cookie'', ''a=1''), (''set-cookie'', ''b=2'')]) ''set-cookie'' =
    [''b=2'']"
proof -
  have "\<not> is_hop_by_hop_header ''set-cookie''" by code_simp
  moreover have "header_values [(''set-cookie'', ''a=1''), (''set-cookie'', ''b=2'')] ''set-cookie'' =
      [''a=1'', ''b=2'']"
    by (simp add: header_values_def)
  ultimately show ?thesis by (simp add: response_headers_values [OF assms])
qed

definition sample_http_lib :: http_lib where
  "sample_http_lib =
     \<lparr>status_text = show_nat, valid_status = (\<lambda>n. 100 \<le> n \<and> n \<le> 999),
      header_insert = (\<lambda>n v hs. filter (\<lambda>h. fst h \<noteq> n) hs @ [(n, v)]), header_to_str = Some, header_from_str = Some,
      response_text = (\<lambda>_. Inr [])\<rparr>"

lemma sample_header_insert_law: "header_insert_law sample_http_lib"
proof -
  have "filter (\<lambda>h. fst h = m) (filter (\<lambda>h. fst h \<noteq> n) hs) = (if m = n then [] else filter (\<lambda>h. fst h = m) hs)"
    for m n and hs :: headers
    by (induction hs) auto
  then show ?thesis by (auto simp: header_insert_law_def sample_http_lib_def header_values_def)
qed

theorem response_headers_drop_repeats_witness:
  "header_values (response_headers sample_http_lib
     [(''set-cookie'', ''a=1''), (''set-cookie'', ''b=2'')]) ''set-cookie'' = [''b=2'']"
  by (rule response_headers_drop_repeats [OF sample_header_insert_law])



end
