(* ===== verification/Requester.thy ===== *)
theory Requester
  imports Effects
begin

text \<open>
  Who asked for a download (\<^verbatim>\<open>crates/proxy/src/requester.rs\<close>): the credentials of a request, their
  verification by Nexus, and the messenger recipient that belongs to a Nexus user.
\<close>

section \<open>Credentials\<close>

datatype requester =
    Basic (basic_user_id: "string option") (basic_authorization: string) (basic_uri: request_uri)
  | DockerBearer (bearer_user_id: string)

definition split_ascii_whitespace :: "string \<Rightarrow> string list" where
  "split_ascii_whitespace s =
     filter (\<lambda>w. w \<noteq> [])
       (split_by (\<lambda>c. c \<in> set [CHR '' '', CHR 0x09, CHR 0x0A, CHR 0x0C, CHR 0x0D]) s)"

text \<open>\<^verbatim>\<open>headers.get(AUTHORIZATION)?.to_str().ok()?.trim()\<close>, split into words.\<close>

definition authorization_words :: "http_lib \<Rightarrow> headers \<Rightarrow> string list option" where
  "authorization_words lib hs =
     (case header_get hs ''authorization'' of
        None \<Rightarrow> None
      | Some value \<Rightarrow>
          (case header_to_str lib value of
             None \<Rightarrow> None
           | Some header \<Rightarrow> Some (split_ascii_whitespace (trim header))))"

definition basic_auth_username :: "('c, 'w) env \<Rightarrow> headers \<Rightarrow> string option" where
  "basic_auth_username env hs =
     (case authorization_words (env_http env) hs of
        Some [scheme, credentials] \<Rightarrow>
          if \<not> eq_ignore_ascii_case scheme ''Basic'' then None
          else
            (case b64_standard (env_decoders env) credentials of
               None \<Rightarrow> None
             | Some decoded \<Rightarrow>
                 (case from_utf8 decoded of
                    None \<Rightarrow> None
                  | Some decoded \<Rightarrow>
                      (case split_once (CHR '':'') decoded of
                         None \<Rightarrow> None
                       | Some (username, _) \<Rightarrow> if username = [] then None else Some username)))
      | _ \<Rightarrow> None)"

definition requester_basic :: "('c, 'w) env \<Rightarrow> request_uri \<Rightarrow> headers \<Rightarrow> requester option" where
  "requester_basic env uri hs =
     (case header_get hs ''authorization'' of
        None \<Rightarrow> None
      | Some authorization \<Rightarrow>
          (case authorization_words (env_http env) hs of
             Some (scheme # _) \<Rightarrow>
               if \<not> eq_ignore_ascii_case scheme ''Basic'' then None
               else Some (Basic (basic_auth_username env hs) authorization uri)
           | _ \<Rightarrow> None))"

definition docker_bearer :: "('c, 'w) env \<Rightarrow> headers \<Rightarrow> requester option" where
  "docker_bearer env hs =
     (case authorization_words (env_http env) hs of
        Some [scheme, token] \<Rightarrow>
          if \<not> eq_ignore_ascii_case scheme ''Bearer'' then None
          else
            (case seg (split_on (CHR ''.'') token) 1 of
               None \<Rightarrow> None
             | Some payload \<Rightarrow>
                 (case or_else (b64_url_safe_no_pad (env_decoders env) payload)
                         (b64_url_safe (env_decoders env) payload) of
                    None \<Rightarrow> None
                  | Some decoded \<Rightarrow>
                      (case claims_sub (env_decoders env) decoded of
                         None \<Rightarrow> None
                       | Some sub \<Rightarrow> if trim sub = [] then None else Some (DockerBearer (trim sub)))))
      | _ \<Rightarrow> None)"

section \<open>Verification\<close>

definition not_verified :: response where
  "not_verified = response_with_text 503 (''Request could not be verified by Nexus'' @ newline)"

definition verification_request :: "('c, 'w) env \<Rightarrow> string \<Rightarrow> request_uri \<Rightarrow> http_request" where
  "verification_request env authorization uri =
     (request_to ''HEAD'' (build_nexus_url (env_url env) (env_nexus_base_url env) uri))
       \<lparr>hr_headers := [(''authorization'', authorization)]\<rparr>"

definition verification_result :: "http_lib \<Rightarrow> string option \<Rightarrow> http_response \<Rightarrow> response + string option" where
  "verification_result lib user_id r =
     (let status = (if valid_status lib (hs_status r) then hs_status r else 500)
      in if status \<in> {401, 403, 404}
         then Inl (case response_from_nexus lib r of Inl _ \<Rightarrow> not_verified | Inr response \<Rightarrow> response)
         else if \<not> is_success status then Inl not_verified
         else Inr user_id)"

definition verify_requester ::
  "('c, 'w) env \<Rightarrow> requester option \<Rightarrow> ('c, 'w, response + string option) action" where
  "verify_requester env requester =
     (case requester of
        None \<Rightarrow> io_return (Inr None)
      | Some (Basic user_id authorization uri) \<Rightarrow>
          io_bind (send env VerifyRequester (verification_request env authorization uri)) (\<lambda>reply.
            io_return (case reply of
                Inl _ \<Rightarrow> Inl not_verified
              | Inr r \<Rightarrow> verification_result (env_http env) user_id r))
      | Some (DockerBearer user_id) \<Rightarrow> io_return (Inr (Some user_id)))"

section \<open>Messenger recipients\<close>

definition users_request :: "('c, 'w) env \<Rightarrow> string \<Rightarrow> string \<Rightarrow> string \<Rightarrow> http_request" where
  "users_request env username password user_id =
     (let lib = env_url env;
          base_path = trim_end_matches (CHR ''/'') (url_path lib (env_nexus_base_url env));
          u = url_append_pair lib ''userId'' user_id (url_set_query lib None
                (url_set_path lib (base_path @ ''/service/rest/v1/security/users'') (env_nexus_base_url env)))
      in (request_to ''GET'' u)\<lparr>hr_basic_auth := Some (username, Some password)\<rparr>)"

definition usable_email :: "string \<Rightarrow> bool" where
  "usable_email email \<longleftrightarrow>
     is_some_and (split_once (CHR ''@'') email) (\<lambda>(local, domain). local \<noteq> [] \<and> domain \<noteq> []) \<and>
     \<not> list_ex (contains_str email) white_space"

definition select_recipient :: "string \<Rightarrow> nexus_user list \<Rightarrow> string option" where
  "select_recipient user_id users =
     (case filter (\<lambda>u. nu_user_id u = user_id \<and> eq_ignore_ascii_case (nu_status u) ''active'') users of
        [u] \<Rightarrow>
          let email = trim (nu_email_address u)
          in if usable_email email then Some email else None
      | _ \<Rightarrow> None)"

definition resolve_nexus_email :: "('c, 'w) env \<Rightarrow> string \<Rightarrow> ('c, 'w, string option) action" where
  "resolve_nexus_email env user_id =
     (case (ns_nexus_username (cf_nexus (env_config env)), ns_nexus_password (cf_nexus (env_config env))) of
        (Some username, Some password) \<Rightarrow>
          io_bind (send env RecipientLookup (users_request env username password user_id)) (\<lambda>reply.
            io_return (case reply of
                Inl _ \<Rightarrow> None
              | Inr r \<Rightarrow>
                  if \<not> is_success (hs_status r) then None
                  else (case users_json (env_decoders env) r of
                          Inl _ \<Rightarrow> None
                        | Inr users \<Rightarrow> select_recipient user_id users)))
      | _ \<Rightarrow> io_return None)"

definition messenger_recipient :: "('c, 'w) env \<Rightarrow> string option \<Rightarrow> ('c, 'w, string option) action" where
  "messenger_recipient env requester =
     (if \<not> env_yandex_messenger env then io_return None
      else case requester of
        None \<Rightarrow> io_return None
      | Some user_id \<Rightarrow> resolve_nexus_email env user_id)"

section \<open>Lemmas\<close>

abbreviation sends_only :: "request_purpose set \<Rightarrow> event \<Rightarrow> bool" where
  "sends_only ps ev \<equiv> (case ev of HttpSent p _ \<Rightarrow> p \<in> ps | _ \<Rightarrow> False)"

lemma verify_requester_only [io_intros]:
  "P (HttpSent VerifyRequester (verification_request env (basic_authorization (the r)) (basic_uri (the r)))) \<Longrightarrow>
   io_only P (verify_requester env r)"
  unfolding verify_requester_def send_def
  by (auto split: option.splits requester.splits intro!: io_intros)

lemma messenger_recipient_only [io_intros]:
  "(\<And>req. P (HttpSent RecipientLookup req)) \<Longrightarrow> io_only P (messenger_recipient env r)"
  unfolding messenger_recipient_def resolve_nexus_email_def send_def
  by (auto split: option.splits intro!: io_intros)

lemma requester_total [io_intros]:
  "io_total (verify_requester env r)" "io_total (messenger_recipient env user)"
  unfolding verify_requester_def messenger_recipient_def resolve_nexus_email_def send_def
  by (auto split: option.splits requester.splits intro!: io_intros)

text \<open>
  A recipient is found only for a user that Nexus lists exactly once as active under precisely
  that user ID, and the address returned is that user's, with something on each side of an at sign and
  no white space.
\<close>

theorem select_recipient_sound:
  assumes "select_recipient user_id users = Some email"
  shows "\<exists>u. filter (\<lambda>u. nu_user_id u = user_id \<and> eq_ignore_ascii_case (nu_status u) ''active'') users = [u] \<and>
    email = trim (nu_email_address u) \<and>
    (\<exists>local domain. email = local @ ''@'' @ domain \<and> local \<noteq> [] \<and> domain \<noteq> []) \<and>
    (\<forall>w \<in> set white_space. \<not> sublist w email)"
proof -
  obtain u where u: "filter (\<lambda>u. nu_user_id u = user_id \<and> eq_ignore_ascii_case (nu_status u) ''active'') users = [u]"
    and email: "email = trim (nu_email_address u)" "usable_email email"
    using assms by (auto simp: select_recipient_def Let_def split: list.splits if_splits)
  from email(2) obtain local domain where "split_once (CHR ''@'') email = Some (local, domain)"
      "local \<noteq> []" "domain \<noteq> []"
    by (auto simp: usable_email_def is_some_and_def split: option.splits)
  then have "\<exists>local domain. email = local @ ''@'' @ domain \<and> local \<noteq> [] \<and> domain \<noteq> []"
    using split_once_SomeD by fastforce
  then show ?thesis
    using u email by (auto simp: usable_email_def contains_str_iff list_ex_iff)
qed

theorem select_recipient_sound_witness:
  "let alice = \<lparr>nu_user_id = ''alice'', nu_email_address = '' alice@example.com'', nu_status = ''Active''\<rparr>;
       bob = \<lparr>nu_user_id = ''bob'', nu_email_address = ''bob@example.com'', nu_status = ''active''\<rparr>
   in filter (\<lambda>u. nu_user_id u = ''alice'' \<and> eq_ignore_ascii_case (nu_status u) ''active'') [bob, alice] = [alice] \<and>
      ''alice@example.com'' = trim (nu_email_address alice) \<and>
      \<not> sublist '' '' ''alice@example.com''"
proof -
  let ?alice = "\<lparr>nu_user_id = ''alice'', nu_email_address = '' alice@example.com'', nu_status = ''Active''\<rparr>"
  let ?bob = "\<lparr>nu_user_id = ''bob'', nu_email_address = ''bob@example.com'', nu_status = ''active''\<rparr>"
  have "select_recipient ''alice'' [?bob, ?alice] = Some ''alice@example.com''"
    by code_simp
  from select_recipient_sound [OF this]
  obtain u where u: "filter (\<lambda>u. nu_user_id u = ''alice'' \<and> eq_ignore_ascii_case (nu_status u) ''active'') [?bob, ?alice] = [u]"
      "''alice@example.com'' = trim (nu_email_address u)" "\<forall>w \<in> set white_space. \<not> sublist w ''alice@example.com''"
    by blast
  have "'' '' \<in> set white_space"
    by code_simp
  moreover have "u = ?alice"
    using u(1) by (simp split: if_splits)
  ultimately show ?thesis
    using u by (simp add: Let_def)
qed

end
