(* ===== verification/Sample_World.thy ===== *)
theory Sample_World
  imports Effects
begin

text \<open>
  A concrete environment on which the handlers can be run: replies of HTTP requests come from a
  queue in the world, the caches are the bounded lists of \<^verbatim>\<open>Scan_Cache\<close>, commands and files succeed,
  and no other task runs.
\<close>

type_synonym sample_world = "(string + http_response) list"
type_synonym sample_cache = "(cache_key \<times> cached_scan) list"

definition sample_nexus :: nexus_settings where
  "sample_nexus =
     \<lparr>ns_bind_addr = ''127.0.0.1:8080'', ns_nexus_base_url = ''nexus'', ns_repository_name = ''default'',
      ns_repository_format = ''npm'', ns_docker_registry_base_url = None, ns_docker_repository_name = None,
      ns_osv_ecosystem = None, ns_osv_ecosystem_overrides = [], ns_nexus_username = None,
      ns_nexus_password = None, ns_repository_refresh_interval_secs = 60, ns_osv_api_url = ''osv'',
      ns_policy_file = None, ns_admin_token = None\<rparr>"

definition sample_decoders :: decoders where
  "sample_decoders =
     \<lparr>osv_json = (\<lambda>_. Inr \<lparr>or_vulns = [], or_next_page_token = None\<rparr>), trivy_json = (\<lambda>_. Inr []),
      catalog_json = (\<lambda>_. Inr []), users_json = (\<lambda>_. Inr []), claims_sub = (\<lambda>_. None),
      manifest_layers = (\<lambda>_. None), b64_standard = Some, b64_url_safe_no_pad = Some,
      b64_url_safe = Some, b64_encode = id, json_bytes = (\<lambda>_. [])\<rparr>"

definition sample_reply :: "nat \<Rightarrow> bytes \<Rightarrow> http_response" where
  "sample_reply status body =
     \<lparr>hs_status = status, hs_headers = [], hs_content_length = None, hs_chunks = [Inr body]\<rparr>"

definition sample_send ::
  "(sample_cache, sample_world) shared \<Rightarrow> (string + http_response) \<times> (sample_cache, sample_world) shared" where
  "sample_send s =
     (case sh_world s of
        [] \<Rightarrow> (Inl ''connection refused'', s)
      | reply # replies \<Rightarrow> (reply, s\<lparr>sh_world := replies\<rparr>))"

definition sample_url_lib :: url_lib where
  "sample_url_lib =
     \<lparr>url_path = (\<lambda>u. []), url_set_path = (\<lambda>p u. u @ p),
      url_set_query = (\<lambda>q u. case q of None \<Rightarrow> u | Some q \<Rightarrow> u @ ''?'' @ q),
      url_append_pair = (\<lambda>k v u. u @ ''?'' @ k @ ''='' @ v)\<rparr>"

definition sample_env :: "(sample_cache, sample_world) env" where
  "sample_env =
     \<lparr>env_config = sample_config sample_nexus [(''raw'', TrivyScanner)], env_nexus_base_url = ''nexus'',
      env_yandex_messenger = False, env_time = sample_time_lib, env_url = sample_url_lib,
      env_http = sample_http_lib, env_moka = list_moka, env_percent_decode = id,
      env_decoders = sample_decoders, env_url_parse = (\<lambda>s. Inl s), env_url_port = (\<lambda>_. None),
      env_host_str = (\<lambda>_. []), env_url_join = (\<lambda>u p. None), env_now = (\<lambda>s. (sample_instant 0, s)),
      env_uuid = (\<lambda>s. (0, s)), env_send = (\<lambda>_. sample_send),
      env_run = (\<lambda>_ s. (Exited True [] [] [], s)), env_other_tasks = id,
      env_acquire_permit = (\<lambda>s. (Inr (), s)), env_temp_file = (\<lambda>_ _ _ s. (Inr ''/tmp/artifact-0'', s)),
      env_temp_dir = (\<lambda>s. (Inr ''/tmp/dir'', s)), env_file_op = (\<lambda>_ _ _ s. (Inr (), s)),
      env_create_report = (\<lambda>_ s. (Inr \<lparr>cr_url = ''https://proxy.example/trust/reports/0''\<rparr>, s))\<rparr>"

definition sample_repository :: "string \<Rightarrow> string \<Rightarrow> nexus_repository" where
  "sample_repository name fmt =
     \<lparr>nr_name = name, nr_format = fmt, nr_repository_type = None, nr_url = None, nr_online = None,
      nr_osv_ecosystem = None\<rparr>"

definition sample_catalog :: repository_catalog where
  "sample_catalog =
     \<lparr>rc_repositories = [(''npm-proxy'', sample_repository ''npm-proxy'' ''npm''),
        (''raw-proxy'', sample_repository ''raw-proxy'' ''raw'')],
      rc_loaded_at = [], rc_generation = 1\<rparr>"

definition sample_shared :: "sample_world \<Rightarrow> (sample_cache, sample_world) shared" where
  "sample_shared replies =
     \<lparr>sh_cache = \<lparr>clean = [], vulnerable = []\<rparr>,
      sh_active_policy = \<lparr>ap_policy_set = default_policy_set, ap_source_path = None, ap_loaded_at = [],
        ap_generation = 1\<rparr>,
      sh_catalog = sample_catalog, sh_decisions = decision_log_new 100, sh_world = replies\<rparr>"

end
