(* ===== verification/Catalog_Load.thy ===== *)
theory Catalog_Load
  imports Sample_World
begin

text \<open>
  Loading the repository catalog from Nexus (\<^verbatim>\<open>load_repository_catalog\<close> of
  \<^verbatim>\<open>crates/proxy/src/catalog.rs\<close>) and replacing the shared one
  (\<^verbatim>\<open>reload_repository_catalog\<close> of \<^verbatim>\<open>state.rs\<close>). The reload holds a lock while it talks to Nexus.
\<close>

definition repositories_request :: "('c, 'w) env \<Rightarrow> http_request" where
  "repositories_request env =
     (let lib = env_url env; base = env_nexus_base_url env;
          base_path = trim_end_matches (CHR ''/'') (url_path lib base);
          path = (if base_path = [] \<or> base_path = ''/'' then ''/service/rest/v1/repositories''
                  else base_path @ ''/service/rest/v1/repositories'');
          u = url_set_query lib None (url_set_path lib path base)
      in (request_to ''GET'' u)\<lparr>hr_basic_auth :=
            (case ns_nexus_username (cf_nexus (env_config env)) of
               None \<Rightarrow> None
             | Some username \<Rightarrow> Some (username, ns_nexus_password (cf_nexus (env_config env))))\<rparr>)"

definition catalog_items ::
  "('c, 'w) env \<Rightarrow> string + http_response \<Rightarrow> string + nexus_repository_response_item list" where
  "catalog_items env reply =
     (case reply of
        Inl _ \<Rightarrow> Inl ''Nexus repository catalog request failed''
      | Inr r \<Rightarrow>
          if \<not> is_success (hs_status r) then
            Inl (''Nexus repository catalog returned '' @ status_text (env_http env) (hs_status r) @ '': '' @
              (case response_text (env_http env) r of
                 Inl e \<Rightarrow> ''failed to read Nexus repository catalog error body: '' @ e
               | Inr body \<Rightarrow> body))
          else map_err (\<lambda>_. ''invalid Nexus repository catalog response'') (catalog_json (env_decoders env) r))"

definition catalog_from_items ::
  "('c, 'w) env \<Rightarrow> u64 \<Rightarrow> nexus_repository_response_item list \<Rightarrow> offset_date_time \<Rightarrow>
   string + repository_catalog" where
  "catalog_from_items env generation items now =
     res_bind (catalog_new (env_time env) now (map (repository_of_item (env_config env)) items) generation)
       (\<lambda>catalog. res_bind (validate_configured_repositories catalog (env_config env)) (\<lambda>_. Inr catalog))"

definition load_repository_catalog ::
  "('c, 'w) env \<Rightarrow> u64 \<Rightarrow> ('c, 'w, string + repository_catalog) action" where
  "load_repository_catalog env generation =
     io_bind (send env CatalogLoad (repositories_request env)) (\<lambda>reply.
       case catalog_items env reply of
         Inl e \<Rightarrow> io_return (Inl e)
       | Inr items \<Rightarrow>
           io_bind (clock env) (\<lambda>now. io_return (catalog_from_items env generation items now)))"

definition reload_repository_catalog :: "('c, 'w) env \<Rightarrow> ('c, 'w, string + repository_catalog) action" where
  "reload_repository_catalog env =
     io_then (io_modify (env_other_tasks env))
       (io_bind (io_get sh_catalog) (\<lambda>current.
          case checked_add (rc_generation current) 1 of
            None \<Rightarrow> io_return (Inl ''repository catalog generation overflow'')
          | Some generation \<Rightarrow>
              io_try (load_repository_catalog env generation) (\<lambda>next.
                io_ext (\<lambda>s. let (c, s') = replace_repository_catalog next s in (Inr c, s')))))"

section \<open>Lemmas\<close>

lemma catalog_from_items_Inr:
  assumes "catalog_from_items env generation items now = Inr c"
  shows "rc_generation c = generation" "items \<noteq> []"
    "docker_registry_configured (env_config env) \<Longrightarrow>
     \<exists>r. catalog_get c (the (ns_docker_repository_name (cf_nexus (env_config env)))) = Some r \<and>
       alnum_lower (nr_format r) = ''docker''"
  using assms
  by (auto simp: catalog_from_items_def res_bind_Inr_iff catalog_new_def validate_configured_repositories_def
      docker_registry_configured_def split: if_splits option.splits)

text \<open>
  While the lock is held no other reload runs, so sending a request and reading the clock leave the
  catalog as it is.
\<close>

definition reload_exclusive :: "('c, 'w) env \<Rightarrow> bool" where
  "reload_exclusive env \<longleftrightarrow>
     (\<forall>req s. sh_catalog (snd (env_send env req s)) = sh_catalog s) \<and>
     (\<forall>s. sh_catalog (snd (env_now env s)) = sh_catalog s)"

lemma reload_run:
  "reload_repository_catalog env s =
     (let s0 = env_other_tasks env s; cur = sh_catalog s0; req = repositories_request env;
          r = env_send env req s0; n = env_now env (snd r); ev = [HttpSent CatalogLoad req]
      in case checked_add (rc_generation cur) 1 of
           None \<Rightarrow> Some (Inl ''repository catalog generation overflow'', [], s0)
         | Some generation \<Rightarrow>
             (case catalog_items env (fst r) of
                Inl e \<Rightarrow> Some (Inl e, ev, snd r)
              | Inr items \<Rightarrow>
                  (case catalog_from_items env generation items (fst n) of
                     Inl e \<Rightarrow> Some (Inl e, ev, snd n)
                   | Inr c \<Rightarrow> Some (Inr c, ev, (snd n)\<lparr>sh_catalog := c\<rparr>))))"
  by (simp add: reload_repository_catalog_def load_repository_catalog_def io_then_def io_try_def clock_def
      io_bind_def io_run_simps run_send Let_def replace_repository_catalog_def split: option.split sum.split)

text \<open>
  C33. A reload of the catalog is all or nothing: it always ends; if it fails, whatever the reason,
  the catalog in use is unchanged; if it succeeds, the new catalog is in use, its generation is the
  old one plus one without wrap-around, it is not empty, and a configured Docker
  repository is in it with format docker. At the last generation no request is sent.
\<close>

theorem reload_catalog_atomic:
  assumes "reload_exclusive env"
  shows "\<exists>result evs s'. reload_repository_catalog env s = Some (result, evs, s') \<and>
    (let old = sh_catalog (env_other_tasks env s)
     in (unat (rc_generation old) = 2 ^ 64 - 1 \<longrightarrow> evs = []) \<and>
        (case result of
           Inl e \<Rightarrow> sh_catalog s' = old
         | Inr c \<Rightarrow> sh_catalog s' = c \<and> unat (rc_generation c) = unat (rc_generation old) + 1 \<and>
             (docker_registry_configured (env_config env) \<longrightarrow>
               (\<exists>r. catalog_get c (the (ns_docker_repository_name (cf_nexus (env_config env)))) = Some r \<and>
                  alnum_lower (nr_format r) = ''docker''))))"
proof -
  have full: "checked_add g 1 = None" if "unat g = 2 ^ 64 - 1" for g :: u64
    using that by (simp add: checked_add_def)
  have succ: "unat h = unat g + 1 \<and> unat g \<noteq> 2 ^ 64 - 1" if "checked_add g 1 = Some h" for g h :: u64
    using that full [of g] checked_add_Some_iff [of g 1 h] by auto
  show ?thesis
    using assms
    by (auto simp: reload_run Let_def reload_exclusive_def catalog_from_items_Inr full dest!: succ
        split: option.split sum.split)
qed

theorem reload_catalog_atomic_witness:
  "\<exists>c evs s'. reload_repository_catalog
      (sample_env\<lparr>env_decoders := sample_decoders\<lparr>catalog_json := (\<lambda>_. Inr
         [\<lparr>ri_name = ''npm-proxy'', ri_format = ''npm'', ri_repository_type = None, ri_url = None,
           ri_online = None\<rparr>])\<rparr>\<rparr>)
      (sample_shared [Inr (sample_reply 200 [])]) = Some (Inr c, evs, s') \<and> unat (rc_generation c) = 2"
proof -
  let ?env = "sample_env\<lparr>env_decoders := sample_decoders\<lparr>catalog_json := (\<lambda>_. Inr
     [\<lparr>ri_name = ''npm-proxy'', ri_format = ''npm'', ri_repository_type = None, ri_url = None,
       ri_online = None\<rparr>])\<rparr>\<rparr>"
  let ?s = "sample_shared [Inr (sample_reply 200 [])]"
  have ex: "reload_exclusive ?env"
    by (simp add: reload_exclusive_def sample_env_def sample_send_def split: list.split)
  have filled: "filled ''npm-proxy''" "filled ''npm''" by code_simp+
  obtain c evs s' where run: "reload_repository_catalog ?env ?s = Some (Inr c, evs, s')"
    by (simp add: reload_run sample_env_def sample_send_def sample_shared_def sample_catalog_def
        sample_reply_def is_success_def checked_add_def catalog_items_def catalog_from_items_def
        catalog_new_def validate_configured_repositories_def repository_of_item_def res_bind_def
        sample_config_def sample_nexus_def map_err_def Let_def filled sample_decoders_def)
  have gen: "unat (rc_generation (sh_catalog (env_other_tasks ?env ?s))) = 1"
    by (simp add: sample_env_def sample_shared_def sample_catalog_def)
  show ?thesis
    using reload_catalog_atomic [OF ex, of ?s] run gen by (auto simp: Let_def)
qed

end
