(* ===== verification/Scan.thy ===== *)
theory Scan
  imports Requester Catalog_Load
begin

text \<open>
  Scan decisions (\<^verbatim>\<open>crates/proxy/src/{scan,audit}.rs\<close> and \<^verbatim>\<open>record_decision\<close> of \<^verbatim>\<open>decisions.rs\<close>): how
  the result of a scan becomes the answer to a download, with the audit trail, the trust report,
  the decision log and the notification that go with a block.

  Creating a report is \<open>env_create_report\<close>; the backends behind it are in \<^verbatim>\<open>Report_Backend\<close>.
\<close>

section \<open>Audit records and decisions\<close>

definition vulnerability_ids :: "block_report \<Rightarrow> string list" where
  "vulnerability_ids report = map v_id (br_vulnerabilities report)"

definition audit_base_of ::
  "policy_context \<Rightarrow> string \<Rightarrow> string \<Rightarrow> scan_target \<Rightarrow> audit_base" where
  "audit_base_of context policy_id mode target =
     \<lparr>au_repository = ctx_repository context, au_format = ctx_format context,
      au_team = unwrap_or (ctx_team context) [], au_policy_id = policy_id, au_mode = mode,
      au_target = display_name target\<rparr>"

definition audit_records ::
  "policy_context \<Rightarrow> scan_target \<Rightarrow> policy_evaluation \<Rightarrow> string option \<Rightarrow> audit_record list" where
  "audit_records context target e report_url =
     (let base = audit_base_of context (pe_policy_id e) (mode_as_str (pe_mode e)) target
      in map (PolicyExceptionApplied base) (pe_applied_exceptions e)
         @ map (PolicyExceptionExpiredMatch base) (pe_expired_exceptions e)
         @ (case pe_outcome e of
              Allowed \<Rightarrow> []
            | ReportOnlyOutcome report \<Rightarrow>
                [PolicyReportOnlyViolation base (vulnerability_ids report) (pe_applied_exceptions e)
                   (pe_expired_exceptions e)]
            | Blocked report \<Rightarrow>
                [PolicyBlocked base (vulnerability_ids report) (pe_applied_exceptions e)
                   (pe_expired_exceptions e) (unwrap_or report_url [])]))"

definition audit_policy_evaluation ::
  "policy_context \<Rightarrow> scan_target \<Rightarrow> policy_evaluation \<Rightarrow> string option \<Rightarrow> ('c, 'w, unit) action" where
  "audit_policy_evaluation context target e report_url =
     io_emits (map Audited (audit_records context target e report_url))"

definition audit_unsupported_block ::
  "policy_context \<Rightarrow> block_report \<Rightarrow> string \<Rightarrow> ('c, 'w, unit) action" where
  "audit_unsupported_block context report report_url =
     io_emit (Audited (UnsupportedBlocked (audit_base_of context [] ''enforce'' (br_target report))
       (vulnerability_ids report) report_url (br_reason report)))"

definition record_decision ::
  "('c, 'w) env \<Rightarrow> policy_context \<Rightarrow> decision_outcome \<Rightarrow> block_report \<Rightarrow> string option \<Rightarrow>
   ('c, 'w, unit) action" where
  "record_decision env context outcome report report_url =
     io_bind (now_rfc3339 env) (\<lambda>now.
       let d = \<lparr>rd_timestamp = now, rd_repository = ctx_repository context,
                rd_format = ctx_format context, rd_team = ctx_team context,
                rd_target = display_name (br_target report), rd_outcome = outcome,
                rd_policy_id = br_policy_id report, rd_reason = br_reason report,
                rd_vulnerability_ids = vulnerability_ids report, rd_report_url = report_url\<rparr>
       in io_call (DecisionRecorded d)
            (\<lambda>s. ((), s\<lparr>sh_decisions := decision_log_push d (sh_decisions s)\<rparr>)))"

section \<open>Blocking\<close>

definition notify_blocked ::
  "('c, 'w) env \<Rightarrow> string option \<Rightarrow> policy_context \<Rightarrow> block_report \<Rightarrow> string \<Rightarrow> ('c, 'w, unit) action" where
  "notify_blocked env recipient_login context report report_url =
     (case recipient_login of
        None \<Rightarrow> io_return ()
      | Some login \<Rightarrow>
          if \<not> env_yandex_messenger env then io_return ()
          else io_emit (NotificationQueued
            \<lparr>bn_login = login, bn_repository = ctx_repository context, bn_format = ctx_format context,
             bn_target = display_name (br_target report), bn_reason = br_reason report,
             bn_policy_id = br_policy_id report, bn_vulnerability_ids = vulnerability_ids report,
             bn_report_url = report_url\<rparr>))"

definition messenger_recipient_for_block ::
  "('c, 'w) env \<Rightarrow> string option \<Rightarrow> ('c, 'w, string option) action" where
  "messenger_recipient_for_block env requester =
     io_bind (messenger_recipient env requester) (\<lambda>recipient.
       if recipient = None \<and> env_yandex_messenger env
       then io_then (io_emit (NotificationSkipped ''recipient_unavailable'')) (io_return recipient)
       else io_return recipient)"

definition create_trust_report ::
  "('c, 'w) env \<Rightarrow> trust_report \<Rightarrow> ('c, 'w, response + created_report) action" where
  "create_trust_report env report =
     io_bind (io_call (ReportCreation report) (env_create_report env report)) (\<lambda>created.
       io_return (map_err (\<lambda>_. response_with_text 503
         (''Package download denied because the Trust report could not be created'' @ newline)) created))"

definition block_response_body :: "block_report \<Rightarrow> string \<Rightarrow> string" where
  "block_response_body report report_url =
     to_plain_text report @ newline @ ''Full report: '' @ report_url @ newline"

text \<open>\<^verbatim>\<open>TrustReport::new\<close> and \<^verbatim>\<open>with_requester\<close>, with the clock and the identifier they draw.\<close>

definition new_trust_report ::
  "('c, 'w) env \<Rightarrow> policy_context \<Rightarrow> block_report \<Rightarrow> string option \<Rightarrow> ('c, 'w, trust_report) action" where
  "new_trust_report env context report requester =
     io_bind (io_ext (env_uuid env)) (\<lambda>i. io_bind (clock env) (\<lambda>now.
       let r = trust_report_new (env_time env) now i context report
       in io_return (case requester of None \<Rightarrow> r | Some user \<Rightarrow> with_requester r user)))"

definition block_with_report ::
  "('c, 'w) env \<Rightarrow> policy_context \<Rightarrow> block_report \<Rightarrow> string option \<Rightarrow> (string \<Rightarrow> ('c, 'w, unit) action) \<Rightarrow>
   ('c, 'w, response + unit) action" where
  "block_with_report env context report requester audit =
     io_bind (new_trust_report env context report requester) (\<lambda>trust_report.
     io_try (create_trust_report env trust_report) (\<lambda>created.
     io_then (audit (cr_url created))
    (io_then (record_decision env context BlockedDecision report (Some (cr_url created)))
    (io_bind (messenger_recipient_for_block env (tr_requester trust_report)) (\<lambda>recipient.
     io_then (notify_blocked env recipient context report (cr_url created))
    (io_return (Inl (response_with_text 403 (block_response_body report (cr_url created)))))))))) "

definition handle_policy_evaluation ::
  "('c, 'w) env \<Rightarrow> policy_context \<Rightarrow> scan_target \<Rightarrow> policy_evaluation \<Rightarrow> requester option \<Rightarrow>
   ('c, 'w, response + unit) action" where
  "handle_policy_evaluation env context target e requester =
     (case pe_outcome e of
        Allowed \<Rightarrow> io_then (audit_policy_evaluation context target e None) (io_return (Inr ()))
      | ReportOnlyOutcome report \<Rightarrow>
          io_then (audit_policy_evaluation context target e None)
            (io_then (record_decision env context ReportOnlyDecision report None) (io_return (Inr ())))
      | Blocked report \<Rightarrow>
          io_try (verify_requester env requester) (\<lambda>user.
            block_with_report env context report user
              (\<lambda>url. audit_policy_evaluation context target e (Some url))))"

definition handle_unsupported_target ::
  "('c, 'w) env \<Rightarrow> nexus_repository \<Rightarrow> scan_target \<Rightarrow> string \<Rightarrow> requester option \<Rightarrow>
   ('c, 'w, response + unit) action" where
  "handle_unsupported_target env repository target reason requester =
     io_then (io_emit (Unsupported target))
       (case ss_unsupported_target_policy (cf_scan (env_config env)) of
          AllowUnsupported \<Rightarrow> io_return (Inr ())
        | BlockUnsupported \<Rightarrow>
            io_try (verify_requester env requester) (\<lambda>user.
              io_bind (io_get sh_active_policy) (\<lambda>active_policy.
                let context = context_for active_policy (nr_name repository) (nr_format repository);
                    block = unsupported_report target reason
                in block_with_report env context block user (audit_unsupported_block context block))))"

section \<open>Package targets\<close>

definition cache_key_for_target :: "scan_target \<Rightarrow> cache_key" where
  "cache_key_for_target target =
     from_parts (cache_namespace target) (cache_identifier target) (cache_version target)"

text \<open>A failed write to the cache is logged only.\<close>

definition put_cache :: "('c, 'w) env \<Rightarrow> cache_key \<Rightarrow> cached_scan \<Rightarrow> ('c, 'w, unit) action" where
  "put_cache env key scan = io_bind (store_cache env key scan) (\<lambda>_. io_return ())"

fun external_scanner_kind_of :: "artifact_scanner_kind \<Rightarrow> external_scanner_kind" where
  "external_scanner_kind_of TrivyScanner = TrivyKind"

definition external_scanner_for_kind :: "app_config \<Rightarrow> artifact_scanner_kind \<Rightarrow> external_scanner" where
  "external_scanner_for_kind config kind =
     \<lparr>xs_kind = external_scanner_kind_of kind, xs_command = scanner_command kind,
      xs_timeout = from_secs (ss_artifact_scanner_timeout_secs (cf_scan config)),
      xs_skip_db_update = ss_artifact_scanner_skip_db_update (cf_scan config),
      xs_offline = ss_artifact_scanner_offline (cf_scan config)\<rparr>"

text \<open>
  Evaluation under the policy that is active when the findings are at hand; \<^verbatim>\<open>evaluate_with_context\<close>
  reads the clock.
\<close>

definition evaluate_active ::
  "('c, 'w) env \<Rightarrow> nexus_repository \<Rightarrow> scan_target \<Rightarrow> vulnerability list \<Rightarrow>
   ('c, 'w, policy_context \<times> policy_evaluation) action" where
  "evaluate_active env repository target vs =
     io_bind (io_get sh_active_policy) (\<lambda>active_policy.
       let context = context_for active_policy (nr_name repository) (nr_format repository)
       in io_bind (clock env) (\<lambda>now.
            let e = evaluate_at (env_time env) (ap_policy_set active_policy) context target vs now
            in io_then (io_emit (Evaluated target e)) (io_return (context, e))))"

definition decide ::
  "('c, 'w) env \<Rightarrow> nexus_repository \<Rightarrow> scan_target \<Rightarrow> vulnerability list \<Rightarrow> requester option \<Rightarrow>
   ('c, 'w, response + unit) action" where
  "decide env repository target vs requester =
     io_bind (evaluate_active env repository target vs) (\<lambda>(context, e).
       handle_policy_evaluation env context target e requester)"

definition package_scan_failure :: "http_lib \<Rightarrow> scan_target \<Rightarrow> security_error \<Rightarrow> response" where
  "package_scan_failure lib target e =
     response_with_text 503
       (''Package scan failed and fail_open=false'' @ newline @ newline @ ''Target: ''
        @ display_name target @ newline @ ''Reason: '' @ security_error_display (status_text lib) e @ newline)"

definition package_scanned ::
  "('c, 'w) env \<Rightarrow> nexus_repository \<Rightarrow> scan_target \<Rightarrow> requester option \<Rightarrow>
   security_error + vulnerability list \<Rightarrow> ('c, 'w, response + unit) action"
where
  "package_scanned env repository target requester found =
     (case found of
        Inr vs \<Rightarrow>
          io_then (put_cache env (cache_key_for_target target) (cached_scan_new vs))
            (decide env repository target vs requester)
      | Inl e \<Rightarrow>
          (case e of
             UnsupportedTarget reason \<Rightarrow> handle_unsupported_target env repository target reason requester
           | _ \<Rightarrow>
               io_then (io_emit (ScanFailed target))
                 (io_return (if ss_fail_open (cf_scan (env_config env)) then Inr ()
                    else Inl (package_scan_failure (env_http env) target e)))))"

definition authorize_package_target ::
  "('c, 'w) env \<Rightarrow> nexus_repository \<Rightarrow> scan_target \<Rightarrow> requester option \<Rightarrow> ('c, 'w, response + unit) action"
where
  "authorize_package_target env repository target requester =
     io_bind (get_cache env (cache_key_for_target target)) (\<lambda>cached.
       case cached of
         Inr (Some scan) \<Rightarrow> decide env repository target (cs_vulnerabilities scan) requester
       | _ \<Rightarrow>
           io_bind (osv_vulnerabilities (env_http env) (osv_json (env_decoders env)) (send env OsvLookup)
                      (ns_osv_api_url (cf_nexus (env_config env))) target)
             (package_scanned env repository target requester))"

section \<open>What an observer sees\<close>

text \<open>
  The decisions of a handler and the requests it passes on, in order. \<open>Decided t b\<close>: the download of
  \<open>t\<close> was judged, and \<open>b\<close> says whether the configuration lets it through.
\<close>

datatype observation = Decided scan_target bool | Forwarded http_request

fun observe :: "app_config \<Rightarrow> event \<Rightarrow> observation option" where
  "observe config (Evaluated t e) = Some (Decided t (\<not> evaluation_is_blocked e))"
| "observe config (ScanFailed t) = Some (Decided t (ss_fail_open (cf_scan config)))"
| "observe config (Unsupported t) =
     Some (Decided t (ss_unsupported_target_policy (cf_scan config) = AllowUnsupported))"
| "observe config (HttpSent p req) = (if p = ForwardRequest then Some (Forwarded req) else None)"
| "observe config _ = None"

text \<open>Everything else a handler does.\<close>

fun background :: "event \<Rightarrow> bool" where
  "background (Evaluated t e) = False"
| "background (ScanFailed t) = False"
| "background (Unsupported t) = False"
| "background PermitAcquired = False"
| "background PermitReleased = False"
| "background (HttpSent p req) = (p \<noteq> ForwardRequest)"
| "background _ = True"

lemma observe_background [simp]: "background ev \<Longrightarrow> observe config ev = None"
  by (cases ev) simp_all

lemma list_all_Audited: "(\<And>ev. background ev \<Longrightarrow> P ev) \<Longrightarrow> list_all P (map Audited rs)"
  by (induction rs) simp_all

lemma get_cache_only [io_intros]: "(\<And>ev. background ev \<Longrightarrow> P ev) \<Longrightarrow> io_only P (get_cache env key)"
  unfolding get_cache_def by (intro io_intros) simp

lemma put_cache_only [io_intros]: "(\<And>ev. background ev \<Longrightarrow> P ev) \<Longrightarrow> io_only P (put_cache env key scan)"
  unfolding put_cache_def store_cache_def by (intro io_intros) simp_all

lemma clock_only [io_intros]: "io_only P (clock env)"
  unfolding clock_def by (intro io_intros) simp

lemma record_decision_only [io_intros]:
  "(\<And>ev. background ev \<Longrightarrow> P ev) \<Longrightarrow> io_only P (record_decision env context outcome report url)"
  unfolding record_decision_def now_rfc3339_def Let_def by (intro io_intros) simp_all

lemma audit_only [io_intros]:
  "(\<And>ev. background ev \<Longrightarrow> P ev) \<Longrightarrow> io_only P (audit_policy_evaluation context target e url)"
  "(\<And>ev. background ev \<Longrightarrow> P ev) \<Longrightarrow> io_only P (audit_unsupported_block context report url')"
  unfolding audit_policy_evaluation_def audit_unsupported_block_def
  by (intro io_intros; simp add: list_all_Audited)+

lemma block_with_report_only [io_intros]:
  "(\<And>ev. background ev \<Longrightarrow> P ev) \<Longrightarrow> (\<And>url. io_only P (audit url)) \<Longrightarrow>
   io_only P (block_with_report env context report requester audit)"
  unfolding block_with_report_def new_trust_report_def create_trust_report_def Let_def
    messenger_recipient_for_block_def notify_blocked_def
  by (intro io_intros; auto split: option.split intro!: io_intros)

lemma handle_policy_evaluation_only [io_intros]:
  "(\<And>ev. background ev \<Longrightarrow> P ev) \<Longrightarrow> io_only P (handle_policy_evaluation env context target e requester)"
  unfolding handle_policy_evaluation_def
  by (cases "pe_outcome e") (auto intro!: io_intros)

lemma handle_policy_evaluation_silent:
  "io_silent (observe config) (handle_policy_evaluation env context target e requester)"
  by (rule handle_policy_evaluation_only) simp

text \<open>A blocked evaluation is always answered by a refusal, and only a blocked one is.\<close>

lemma block_with_report_refuses:
  "io_post (block_with_report env context report requester audit) (\<lambda>r _. isl r)"
  unfolding block_with_report_def
  by (intro io_result_bind io_result_try io_result_then io_post_return) simp_all

lemma handle_policy_evaluation_result:
  "io_post (handle_policy_evaluation env context target e requester) (\<lambda>r _. isl r \<longleftrightarrow> evaluation_is_blocked e)"
proof (cases "pe_outcome e")
  case (Blocked report)
  then show ?thesis
    unfolding handle_policy_evaluation_def
    by (auto simp: evaluation_is_blocked_def intro!: io_result_try block_with_report_refuses)
qed (auto simp: handle_policy_evaluation_def evaluation_is_blocked_def intro!: io_result_then io_post_return)

lemma decide_sees:
  "io_sees (observe config) (decide env repository target vs requester) (\<lambda>r obs. obs = [Decided target (\<not> isl r)])"
proof -
  have "io_post (io_then (io_emit (Evaluated target e)) (io_return (ctx, e)))
      (\<lambda>a evs. List.map_filter (observe config) evs = [Decided target (\<not> evaluation_is_blocked (snd a))])" for ctx e
    by (simp add: io_post_def io_then_def io_bind_def io_run_simps List.map_filter_def)
  then have eval: "io_post (evaluate_active env repository target vs)
      (\<lambda>a evs. List.map_filter (observe config) evs = [Decided target (\<not> evaluation_is_blocked (snd a))])"
    unfolding evaluate_active_def Let_def
    by (intro io_sees_bind [where h = "observe config"] clock_only) (auto intro!: io_intros)
  have handled: "io_sees (observe config) (handle_policy_evaluation env ctx target e requester)
      (\<lambda>r obs. obs = [] \<and> (isl r \<longleftrightarrow> evaluation_is_blocked e))" for ctx e
    by (rule io_sees_silent [OF handle_policy_evaluation_silent])
      (rule io_post_weaken [OF handle_policy_evaluation_result], simp)
  show ?thesis
    unfolding decide_def
    by (intro io_post_bind [OF eval]) (auto intro: io_post_weaken [OF handled] split: prod.split)
qed

lemma handle_unsupported_target_sees:
  "io_sees (observe (env_config env)) (handle_unsupported_target env repository target reason requester)
    (\<lambda>r obs. obs = [Decided target (\<not> isl r)])"
proof -
  let ?config = "env_config env"
  let ?p = "ss_unsupported_target_policy (cf_scan (env_config env))"
  let ?m = "case ?p of
      AllowUnsupported \<Rightarrow> io_return (Inr ())
    | BlockUnsupported \<Rightarrow>
        io_try (verify_requester env requester) (\<lambda>user.
          io_bind (io_get sh_active_policy) (\<lambda>active_policy.
            let context = context_for active_policy (nr_name repository) (nr_format repository);
                block = unsupported_report target reason
            in block_with_report env context block user (audit_unsupported_block context block)))"
  have silent: "io_silent (observe ?config) ?m" unfolding Let_def by (cases ?p) (auto intro!: io_intros)
  have result: "io_post ?m (\<lambda>r _. isl r \<longleftrightarrow> ?p \<noteq> AllowUnsupported)"
    unfolding Let_def
    by (cases ?p) (auto intro!: io_post_return io_result_try io_result_bind block_with_report_refuses)
  have seen: "io_sees (observe ?config) ?m (\<lambda>r obs. obs = [] \<and> (isl r \<longleftrightarrow> ?p \<noteq> AllowUnsupported))"
    by (rule io_sees_silent [OF silent]) (rule io_post_weaken [OF result], simp)
  show ?thesis
    unfolding handle_unsupported_target_def io_then_def
  proof (rule io_post_bind [where R = "\<lambda>_ evs. evs = [Unsupported target]"])
    show "io_post (io_emit (Unsupported target)) (\<lambda>_ evs. evs = [Unsupported target])"
      by (intro io_intros) simp
  qed (auto simp: List.map_filter_def intro!: io_post_weaken [OF seen])
qed

lemma decide_only [io_intros]:
  "(\<And>ev. background ev \<Longrightarrow> P ev) \<Longrightarrow> (\<And>e. P (Evaluated target e)) \<Longrightarrow>
   io_only P (decide env repository target vs requester)"
  unfolding decide_def evaluate_active_def Let_def by (auto intro!: io_intros split: prod.split)

lemma handle_unsupported_target_only [io_intros]:
  "(\<And>ev. background ev \<Longrightarrow> P ev) \<Longrightarrow> P (Unsupported target) \<Longrightarrow>
   io_only P (handle_unsupported_target env repository target reason requester)"
  unfolding handle_unsupported_target_def Let_def
  by (cases "ss_unsupported_target_policy (cf_scan (env_config env))") (auto intro!: io_intros)

lemma send_only [io_intros]: "P (HttpSent p req) \<Longrightarrow> io_only P (send env p req)"
  unfolding send_def by (intro io_intros) simp

lemma scan_failed_sees:
  "io_sees (observe (env_config env)) (io_then (io_emit (ScanFailed target))
     (io_return (if ss_fail_open (cf_scan (env_config env)) then Inr x else Inl y)))
     (\<lambda>r obs. obs = [Decided target (\<not> isl r)])"
  by (simp add: io_post_def io_then_def io_bind_def io_run_simps List.map_filter_def)

lemma package_scanned_sees:
  "io_sees (observe (env_config env)) (package_scanned env repository target requester found)
    (\<lambda>r obs. obs = [Decided target (\<not> isl r)])"
proof (cases found)
  case (Inl e)
  then show ?thesis
    unfolding package_scanned_def
    by (cases e) (simp_all add: scan_failed_sees handle_unsupported_target_sees)
next
  case (Inr vs)
  then show ?thesis
    unfolding package_scanned_def by (auto intro!: io_sees_then put_cache_only decide_sees)
qed

text \<open>
  Every path through the authorization of a package takes exactly one decision about exactly that
  package, passes nothing on by itself, and succeeds exactly if the decision allows the download.
\<close>

lemma authorize_package_target_sees:
  "io_sees (observe (env_config env)) (authorize_package_target env repository target requester)
    (\<lambda>r obs. obs = [Decided target (\<not> isl r)])"
proof -
  have "io_sees (observe (env_config env))
      (io_bind (osv_vulnerabilities (env_http env) (osv_json (env_decoders env)) (send env OsvLookup)
        (ns_osv_api_url (cf_nexus (env_config env))) target) (package_scanned env repository target requester))
      (\<lambda>r obs. obs = [Decided target (\<not> isl r)])"
    by (intro io_sees_bind osv_vulnerabilities_only send_only package_scanned_sees) simp
  then show ?thesis
    unfolding authorize_package_target_def
    by (intro io_sees_bind get_cache_only) (auto split: sum.split option.split intro: decide_sees)
qed

section \<open>The answer to an evaluation\<close>

lemma io_emits_total [io_intros]: "io_total (audit_policy_evaluation context target e url)"
  "io_total (audit_unsupported_block context report url')"
  by (simp_all add: audit_policy_evaluation_def audit_unsupported_block_def io_total_def io_run_simps)

lemma record_decision_total [io_intros]: "io_total (record_decision env context outcome report url)"
  unfolding record_decision_def now_rfc3339_def clock_def Let_def by (intro io_intros)

lemma block_with_report_total [io_intros]:
  "(\<And>url. io_total (audit url)) \<Longrightarrow> io_total (block_with_report env context report requester audit)"
  unfolding block_with_report_def new_trust_report_def create_trust_report_def Let_def clock_def
    messenger_recipient_for_block_def notify_blocked_def
  by (intro io_intros; auto split: option.split intro!: io_intros)

lemma handle_policy_evaluation_total [io_intros]:
  "io_total (handle_policy_evaluation env context target e requester)"
  unfolding handle_policy_evaluation_def by (cases "pe_outcome e") (auto intro!: io_intros)

lemma decide_total [io_intros]: "io_total (decide env repository target vs requester)"
  unfolding decide_def evaluate_active_def clock_def Let_def by (auto intro!: io_intros split: prod.split)

lemma handle_unsupported_target_total [io_intros]:
  "io_total (handle_unsupported_target env repository target reason requester)"
  unfolding handle_unsupported_target_def Let_def
  by (cases "ss_unsupported_target_policy (cf_scan (env_config env))") (auto intro!: io_intros)

lemma cache_total [io_intros]: "io_total (get_cache env key)" "io_total (put_cache env key scan)"
  unfolding get_cache_def put_cache_def store_cache_def by (intro io_intros)+

lemma new_trust_report_post:
  "io_post (new_trust_report env context report requester)
     (\<lambda>r evs. evs = [] \<and> tr_block r = report \<and> tr_context r = context \<and> tr_requester r = requester)"
  by (auto simp: new_trust_report_def io_post_def io_bind_Some_iff io_run_simps clock_def Let_def
      trust_report_new_def with_requester_def split: option.splits)

lemma create_trust_report_post:
  "io_post (create_trust_report env report) (\<lambda>r evs. evs = [ReportCreation report])"
  by (auto simp: create_trust_report_def io_post_def io_bind_Some_iff io_run_simps io_call_run)

lemma record_decision_post:
  "io_post (record_decision env context outcome report url)
     (\<lambda>_ evs. \<exists>d. evs = [DecisionRecorded d] \<and> rd_outcome d = outcome \<and> rd_report_url d = url \<and>
        rd_target d = display_name (br_target report) \<and> rd_vulnerability_ids d = vulnerability_ids report)"
  by (auto simp: record_decision_def now_rfc3339_def clock_def io_post_def io_bind_Some_iff io_run_simps
      io_call_run Let_def)

text \<open>The trace of a completed block, and of one that stopped before the report existed.\<close>

definition block_completed ::
  "block_report \<Rightarrow> (string \<Rightarrow> event list) \<Rightarrow> response \<Rightarrow> event list \<Rightarrow> bool" where
  "block_completed report audits resp evs \<longleftrightarrow>
     (\<exists>rep url d before after.
        evs = before @ ReportCreation rep # audits url @ DecisionRecorded d # after \<and>
        tr_block rep = report \<and> rd_outcome d = BlockedDecision \<and> rd_report_url d = Some url \<and>
        rd_target d = display_name (br_target report) \<and>
        resp = response_with_text 403 (block_response_body report url))"

lemma block_completedI:
  "tr_block rep = report \<Longrightarrow> rd_outcome d = BlockedDecision \<Longrightarrow> rd_report_url d = Some url \<Longrightarrow>
   rd_target d = display_name (br_target report) \<Longrightarrow>
   block_completed report audits (response_with_text 403 (block_response_body report url))
     (before @ ReportCreation rep # audits url @ DecisionRecorded d # after)"
  unfolding block_completed_def by blast

fun is_verification :: "event \<Rightarrow> bool" where
  "is_verification (HttpSent p req) = (p = VerifyRequester)"
| "is_verification _ = False"

fun is_report_creation :: "event \<Rightarrow> bool" where
  "is_report_creation (ReportCreation rep) = True"
| "is_report_creation _ = False"

definition block_incomplete :: "event list \<Rightarrow> bool" where
  "block_incomplete evs \<longleftrightarrow> list_all (\<lambda>ev. is_verification ev \<or> is_report_creation ev) evs"

lemma block_trace_prefix:
  "list_all is_verification evs \<Longrightarrow> block_incomplete evs' \<Longrightarrow> block_incomplete (evs @ evs')"
  "block_completed report audits resp evs' \<Longrightarrow> block_completed report audits resp (evs @ evs')"
  by (auto simp: block_incomplete_def list_all_iff block_completed_def) (metis append.assoc)

lemma block_with_report_post:
  assumes "\<And>url. audit url = io_emits (audits url)"
  shows "io_post (block_with_report env context report requester audit)
    (\<lambda>r evs. \<exists>resp. r = Inl resp \<and> (block_completed report audits resp evs \<or> block_incomplete evs))"
  unfolding block_with_report_def
proof (rule io_post_bind [OF new_trust_report_post], rule io_post_try [OF create_trust_report_post], goal_cases)
  case (1 rep evs1 resp evs)
  then show ?case by (simp add: block_incomplete_def)
next
  case created: (2 rep evs1 created evs)
  show ?case
    unfolding assms
  proof (rule io_post_then [where R = "\<lambda>_ evs. evs = audits (cr_url created)"], goal_cases)
    case 1
    then show ?case by (intro io_intros) simp
  next
    case (2 x evs2)
    note evs2 = this
    show ?case
    proof (rule io_post_then [OF record_decision_post], goal_cases)
      case (1 x evs3)
      have tail: "io_post (io_bind (messenger_recipient_for_block env (tr_requester rep)) (\<lambda>recipient.
          io_then (notify_blocked env recipient context report (cr_url created))
            (io_return (Inl (response_with_text 403 (block_response_body report (cr_url created)))))))
          (\<lambda>b _. b = Inl (response_with_text 403 (block_response_body report (cr_url created))))"
        by (intro io_result_bind io_result_then io_post_return) simp
      show ?case
        using 1 created evs2 by (intro io_post_weaken [OF tail]) (auto intro: block_completedI [where before = "[]", simplified])
    qed
  qed
qed


section \<open>Package downloads\<close>

lemma get_cache_run:
  "get_cache env key s = Some (r, evs, s') \<Longrightarrow> evs = [CacheLookup key]"
  by (simp add: get_cache_def io_call_run)

fun asks_osv :: "event \<Rightarrow> bool" where
  "asks_osv (HttpSent p req) = (p = OsvLookup)"
| "asks_osv _ = False"

lemma handle_policy_evaluation_lookups:
  "io_only (\<lambda>ev. \<not> asks_osv ev)
     (handle_policy_evaluation env context target e requester)"
proof -
  have "list_all (\<lambda>ev. \<not> asks_osv ev) (map Audited rs)" for rs
    by (induction rs) simp_all
  then show ?thesis
    unfolding handle_policy_evaluation_def audit_policy_evaluation_def record_decision_def now_rfc3339_def clock_def
      block_with_report_def new_trust_report_def create_trust_report_def Let_def
      messenger_recipient_for_block_def notify_blocked_def
    by (cases "pe_outcome e") (auto split: option.split intro!: io_intros)
qed

text \<open>The judgement of findings that are at hand.\<close>

lemma decide_run:
  assumes "env_now env s0 = (now, s1)"
  shows "\<exists>r evs s'. decide env repository target vs requester s0 = Some (r, evs, s') \<and>
    list_all (\<lambda>ev. \<not> asks_osv ev) evs \<and>
    (isl r \<longleftrightarrow> evaluation_is_blocked (evaluate_at (env_time env) (ap_policy_set (sh_active_policy s0))
       (context_for (sh_active_policy s0) (nr_name repository) (nr_format repository)) target vs now))"
proof -
  let ?c = "context_for (sh_active_policy s0) (nr_name repository) (nr_format repository)"
  let ?e = "evaluate_at (env_time env) (ap_policy_set (sh_active_policy s0)) ?c target vs now"
  obtain r evs s' where h: "handle_policy_evaluation env ?c target ?e requester s1 = Some (r, evs, s')"
    using handle_policy_evaluation_total unfolding io_total_def by (metis not_None_eq prod_cases3)
  then have "decide env repository target vs requester s0 = Some (r, Evaluated target ?e # evs, s')"
    using assms by (simp add: decide_def evaluate_active_def clock_def io_then_def io_bind_def io_run_simps Let_def)
  then show ?thesis
    using io_postD [OF handle_policy_evaluation_result h] io_postD [OF handle_policy_evaluation_lookups h] by auto
qed

lemma authorize_package_hit:
  assumes "get_cache env (cache_key_for_target target) s = Some (Inr (Some scan), evs0, s0)"
    and "env_now env s0 = (now, s1)"
  shows "\<exists>r evs s'. authorize_package_target env repository target requester s = Some (r, evs, s') \<and>
    list_all (\<lambda>ev. \<not> asks_osv ev) evs \<and>
    (isl r \<longleftrightarrow> evaluation_is_blocked (evaluate_at (env_time env) (ap_policy_set (sh_active_policy s0))
       (context_for (sh_active_policy s0) (nr_name repository) (nr_format repository)) target
       (cs_vulnerabilities scan) now))"
  using decide_run [OF assms(2), of repository target "cs_vulnerabilities scan" requester] assms(1)
    get_cache_run [OF assms(1)]
  by (auto simp: authorize_package_target_def io_bind_def)

lemma authorize_package_fresh:
  assumes "get_cache env (cache_key_for_target target) s = Some (Inr None, evs0, s0)"
    and "osv_vulnerabilities (env_http env) (osv_json (env_decoders env)) (send env OsvLookup)
           (ns_osv_api_url (cf_nexus (env_config env))) target s0 = Some (Inr vs, evs1, s1)"
    and "store_cache env (cache_key_for_target target) (cached_scan_new vs) s1 = Some (stored, evs2, s2)"
    and "env_now env s2 = (now, s3)"
  shows "\<exists>r evs s'. authorize_package_target env repository target requester s = Some (r, evs, s') \<and>
    CacheStore (cache_key_for_target target) (cached_scan_new vs) \<in> set evs \<and>
    (isl r \<longleftrightarrow> evaluation_is_blocked (evaluate_at (env_time env) (ap_policy_set (sh_active_policy s2))
       (context_for (sh_active_policy s2) (nr_name repository) (nr_format repository)) target vs now))"
proof -
  have "evs2 = [CacheStore (cache_key_for_target target) (cached_scan_new vs)]"
    using assms(3) by (simp add: store_cache_def io_call_run)
  then show ?thesis
    using decide_run [OF assms(4), of repository target vs requester] assms(1-3)
    by (auto simp: authorize_package_target_def package_scanned_def put_cache_def io_then_def io_bind_def
        io_run_simps)
qed

text \<open>
  C26. A cached scan is judged anew: on a cache hit the stored findings are evaluated under the policy
  that is active after the lookup and at the current time, the download is refused exactly if that
  evaluation blocks it, and OSV is not asked.
\<close>

theorem cached_scan_current_policy:
  assumes "get_cache env (cache_key_for_target target) s = Some (Inr (Some scan), evs0, s0)"
    and "env_now env s0 = (now, s1)"
  shows "\<exists>r evs s'. authorize_package_target env repository target requester s = Some (r, evs, s') \<and>
    list_all (\<lambda>ev. \<not> asks_osv ev) evs \<and>
    (isl r \<longleftrightarrow> evaluation_is_blocked (evaluate_at (env_time env) (ap_policy_set (sh_active_policy s0))
       (context_for (sh_active_policy s0) (nr_name repository) (nr_format repository)) target
       (cs_vulnerabilities scan) now))"
  using assms by (rule authorize_package_hit)

definition vulnerable_shared :: "(sample_cache, sample_world) shared" where
  "vulnerable_shared = (sample_shared [])\<lparr>sh_cache := \<lparr>clean = [],
     vulnerable = [(cache_key_for_target sample_target, sample_scan)]\<rparr>\<rparr>"

lemma sample_hit:
  "get_cache sample_env (cache_key_for_target sample_target) vulnerable_shared =
     Some (Inr (Some sample_scan), [CacheLookup (cache_key_for_target sample_target)], vulnerable_shared)"
  by (simp add: get_cache_def io_call_run sample_env_def vulnerable_shared_def sample_shared_def cache_get_def
      list_moka_def)

lemma sample_now: "env_now sample_env s = (sample_instant 0, s)"
  by (simp add: sample_env_def)

lemma sample_blocked:
  "evaluation_is_blocked (evaluate_at sample_time_lib default_policy_set
     (policy_set_context default_policy_set ''npm-proxy'' ''npm'') sample_target
     (cs_vulnerabilities sample_scan) (sample_instant 0))"
  by code_simp

theorem cached_scan_current_policy_witness:
  "\<exists>r evs s'. authorize_package_target sample_env (sample_repository ''npm-proxy'' ''npm'') sample_target None
      vulnerable_shared = Some (r, evs, s') \<and> isl r"
proof -
  have "sh_active_policy vulnerable_shared = sh_active_policy (sample_shared [])"
    "ap_policy_set (sh_active_policy (sample_shared [])) = default_policy_set"
    "env_time sample_env = sample_time_lib"
    by (simp_all add: vulnerable_shared_def sample_shared_def sample_env_def)
  with cached_scan_current_policy [OF sample_hit sample_now, of "sample_repository ''npm-proxy'' ''npm''" None] sample_blocked
  show ?thesis by (auto simp: context_for_def sample_repository_def)
qed

text \<open>
  C27. A failed lookup fails closed and leaves no trace in the cache: if OSV cannot be asked, answers
  with an error or with something unreadable, the download is refused with a 503, or goes on if the
  configuration says so, and the only events are the cache lookup and the requests to OSV.
\<close>

theorem failed_lookup_not_cached:
  assumes "get_cache env (cache_key_for_target target) s = Some (miss, evs0, s0)"
    and "\<forall>scan. miss \<noteq> Inr (Some scan)"
    and "osv_vulnerabilities (env_http env) (osv_json (env_decoders env)) (send env OsvLookup)
           (ns_osv_api_url (cf_nexus (env_config env))) target s0 = Some (Inl e, evs1, s1)"
    and "\<forall>reason. e \<noteq> UnsupportedTarget reason"
  shows "authorize_package_target env repository target requester s =
      Some (if ss_fail_open (cf_scan (env_config env)) then Inr ()
            else Inl (package_scan_failure (env_http env) target e),
        CacheLookup (cache_key_for_target target) # evs1 @ [ScanFailed target], s1) \<and>
    list_all (sends_only {OsvLookup}) evs1"
proof -
  have scanned: "package_scanned env repository target requester (Inl e) s1 =
      Some (if ss_fail_open (cf_scan (env_config env)) then Inr ()
            else Inl (package_scan_failure (env_http env) target e), [ScanFailed target], s1)"
    using assms(4) by (cases e) (simp_all add: package_scanned_def io_then_def io_bind_def io_run_simps)
  have evs0: "evs0 = [CacheLookup (cache_key_for_target target)]" using assms(1) by (rule get_cache_run)
  have "authorize_package_target env repository target requester s =
      Some (if ss_fail_open (cf_scan (env_config env)) then Inr ()
            else Inl (package_scan_failure (env_http env) target e), evs0 @ evs1 @ [ScanFailed target], s1)"
  proof (cases miss)
    case (Inl x)
    then show ?thesis
      using assms(1,3) scanned by (simp add: authorize_package_target_def io_bind_def)
  next
    case (Inr x)
    with assms(2) have "x = None" by (cases x) auto
    then show ?thesis
      using Inr assms(1,3) scanned by (simp add: authorize_package_target_def io_bind_def)
  qed
  moreover have only: "io_only (sends_only {OsvLookup}) (osv_vulnerabilities (env_http env) (osv_json (env_decoders env))
      (send env OsvLookup) (ns_osv_api_url (cf_nexus (env_config env))) target)"
    unfolding send_def by (intro io_intros) simp
  ultimately show ?thesis using io_postD [OF only assms(3)] evs0 by simp
qed

theorem failed_lookup_not_cached_witness:
  "\<exists>resp evs s'. authorize_package_target sample_env (sample_repository ''npm-proxy'' ''npm'') sample_target None
      (sample_shared [Inl ''timeout'']) = Some (Inl resp, evs, s') \<and> rsp_status resp = 503"
proof -
  let ?s = "sample_shared [Inl ''timeout'']"
  let ?req = "osv_request ''osv'' (projr (osv_query_from_package (from_osv ''npm'' ''left-pad'' ''1.0.0'') None))"
  have miss: "get_cache sample_env (cache_key_for_target sample_target) ?s =
      Some (Inr None, [CacheLookup (cache_key_for_target sample_target)], ?s)"
    by (simp add: get_cache_def io_call_run sample_env_def sample_shared_def cache_get_def list_moka_def)
  have osv: "osv_vulnerabilities (env_http sample_env) (osv_json (env_decoders sample_env)) (send sample_env OsvLookup)
      (ns_osv_api_url (cf_nexus (env_config sample_env))) sample_target ?s =
      Some (Inl (Request ''timeout''), [HttpSent OsvLookup ?req], sample_shared [])"
    unfolding osv_vulnerabilities_def query_package_def sample_target_def scan_target.case
    by (subst query_loop.simps)
      (simp add: osv_query_from_package_def from_osv_def send_def io_call_run sample_env_def sample_send_def
        sample_shared_def osv_page_def res_bind_def map_err_def sample_config_def sample_nexus_def)
  have "\<not> ss_fail_open (cf_scan (env_config sample_env))"
    by (simp add: sample_env_def sample_config_def sample_scan_settings_def)
  then show ?thesis
    using failed_lookup_not_cached [OF miss _ osv, of "sample_repository ''npm-proxy'' ''npm''" None]
    by (auto simp: package_scan_failure_def response_with_text_def)
qed

text \<open>
  Before it refuses a blocked download that carries Basic credentials, the proxy sends Nexus a
  HEAD request for the very URL of the download.
\<close>

theorem blocked_download_probes_nexus:
  assumes "evaluation_is_blocked e"
  shows "\<exists>r evs s'. handle_policy_evaluation env context target e (Some (Basic user authorization uri)) s =
    Some (r, HttpSent VerifyRequester
      ((request_to ''HEAD'' (build_nexus_url (env_url env) (env_nexus_base_url env) uri))
         \<lparr>hr_headers := [(''authorization'', authorization)]\<rparr>) # evs, s')"
proof -
  obtain report where b: "pe_outcome e = Blocked report"
    using assms by (auto simp: evaluation_is_blocked_def split: policy_outcome.splits)
  obtain r evs s' where run: "handle_policy_evaluation env context target e (Some (Basic user authorization uri)) s =
      Some (r, evs, s')"
    using handle_policy_evaluation_total unfolding io_total_def by (metis not_None_eq prod_cases3)
  then have "\<exists>evs'. evs = HttpSent VerifyRequester (verification_request env authorization uri) # evs'"
    by (auto simp: handle_policy_evaluation_def b verify_requester_def io_try_def io_bind_Some_iff run_send io_run_simps)
  with run show ?thesis by (auto simp: verification_request_def)
qed

theorem blocked_download_probes_nexus_witness:
  "\<exists>r evs s'. handle_policy_evaluation sample_env (policy_set_context default_policy_set ''npm-proxy'' ''npm'')
     sample_target (evaluate_at sample_time_lib default_policy_set
       (policy_set_context default_policy_set ''npm-proxy'' ''npm'') sample_target
       (cs_vulnerabilities sample_scan) (sample_instant 0))
     (Some (Basic (Some ''alice'') ''Basic YWxpY2U6'' \<lparr>uri_path = ''/repository/npm-proxy/left-pad/-/left-pad-1.0.0.tgz'',
        uri_query = None\<rparr>)) (sample_shared []) =
     Some (r, HttpSent VerifyRequester ((request_to ''HEAD''
        (build_nexus_url (env_url sample_env) (env_nexus_base_url sample_env)
          \<lparr>uri_path = ''/repository/npm-proxy/left-pad/-/left-pad-1.0.0.tgz'', uri_query = None\<rparr>))
        \<lparr>hr_headers := [(''authorization'', ''Basic YWxpY2U6'')]\<rparr>) # evs, s')"
  by (rule blocked_download_probes_nexus [OF sample_blocked])

end
