(* ===== verification/Docker_Auth.thy ===== *)
theory Docker_Auth
  imports Scan
begin

text \<open>
  What the Docker and the Helm handlers share: the authority of the Docker registry and the
  scanner's credentials for it (\<^verbatim>\<open>docker_registry_authority\<close> and \<^verbatim>\<open>docker_auth_config\<close>, of which
  \<^verbatim>\<open>crates/proxy/src/docker.rs\<close> and \<^verbatim>\<open>helm.rs\<close> have a copy each).
\<close>

definition docker_registry_authority :: "('c, 'w) env \<Rightarrow> parsed_url \<Rightarrow> string + string" where
  "docker_registry_authority env u =
     (case pu_host u of
        None \<Rightarrow> Inl ''Docker registry base URL does not include a host''
      | Some h \<Rightarrow>
          let host = env_host_str env h;
              host = (if CHR '':'' \<in> set host \<and> \<not> starts_with host ''['' then ''['' @ host @ '']'' else host)
          in Inr (case env_url_port env u of None \<Rightarrow> host | Some port \<Rightarrow> host @ '':'' @ port))"

definition docker_auth_json :: "('c, 'w) env \<Rightarrow> string \<Rightarrow> string \<Rightarrow> string \<Rightarrow> json" where
  "docker_auth_json env registry username password =
     JObject [(''auths'', JObject [(registry,
       JObject [(''auth'', JString (b64_encode (env_decoders env) (username @ '':'' @ password)))])])]"

definition docker_auth_config :: "('c, 'w) env \<Rightarrow> parsed_url \<Rightarrow> ('c, 'w, string + string option) action" where
  "docker_auth_config env u =
     (case (ns_nexus_username (cf_nexus (env_config env)), ns_nexus_password (cf_nexus (env_config env))) of
        (Some username, Some password) \<Rightarrow>
          (case docker_registry_authority env u of
             Inl e \<Rightarrow> io_return (Inl e)
           | Inr registry \<Rightarrow>
               io_bind (io_ext (env_temp_dir env)) (\<lambda>directory.
                 case directory of
                   Inl _ \<Rightarrow> io_return (Inl ''failed to create Docker auth temp dir'')
                 | Inr directory \<Rightarrow>
                     let path = directory @ ''/config.json'';
                         content = json_bytes (env_decoders env) (docker_auth_json env registry username password)
                     in io_bind (io_call (FileWritten path content) (env_file_op env ''write'' path content)) (\<lambda>r.
                          io_return (case r of
                              Inl _ \<Rightarrow> Inl (''failed to write Docker auth config '' @ path)
                            | Inr () \<Rightarrow> Inr (Some directory)))))
      | _ \<Rightarrow> io_return (Inr None))"

definition scan_with_image ::
  "('c, 'w) env \<Rightarrow> external_scanner \<Rightarrow> scan_target \<Rightarrow> string \<Rightarrow> string option \<Rightarrow> bool \<Rightarrow>
   ('c, 'w, security_error + vulnerability list) action" where
  "scan_with_image env = scan_image (trivy_json (env_decoders env)) (run_command env)"

lemma docker_auth_config_only [io_intros]: "(\<And>ev. background ev \<Longrightarrow> P ev) \<Longrightarrow> io_only P (docker_auth_config env u)"
  unfolding docker_auth_config_def Let_def
  by (auto split: option.split sum.split intro!: io_intros)

lemma scan_with_image_only [io_intros]:
  "(\<And>ev. background ev \<Longrightarrow> P ev) \<Longrightarrow> io_only P (scan_with_image env x target img docker_config insecure)"
  unfolding scan_with_image_def scan_image_def run_command_def by (intro io_intros) simp_all

lemma docker_auth_total [io_intros]:
  "io_total (docker_auth_config env u)" "io_total (scan_with_image env x target img docker_config insecure)"
  unfolding docker_auth_config_def scan_with_image_def scan_image_def run_command_def Let_def
  by (auto split: option.split sum.split intro!: io_intros)

end
