(* ===== verification/Helm.thy ===== *)
theory Helm
  imports Docker_Auth
begin

text \<open>
  Helm charts (\<^verbatim>\<open>crates/proxy/src/helm.rs\<close>): a chart is rendered with \<^verbatim>\<open>helm template\<close>, the image references
  are read from the rendered text, and each image is scanned. The helm process runs without a
  time limit.
\<close>

section \<open>Image references\<close>

text \<open>\<^verbatim>\<open>str::lines\<close>: the line ending is a line feed, with a carriage return before it if there is one.\<close>

definition str_lines :: "string \<Rightarrow> string list" where
  "str_lines s =
     (let parts = split_on (CHR 0x0A) s
      in map (\<lambda>l. unwrap_or (strip_suffix [CHR 0x0D] l) l) (butlast parts)
         @ (if last parts = [] then [] else [last parts]))"

definition unquote :: "string \<Rightarrow> string" where
  "unquote value =
     (let v = trim value
      in if starts_with v [CHR 0x22] \<and> ends_with v [CHR 0x22] \<and> 2 \<le> length v \<or>
            starts_with v [CHR 0x27] \<and> ends_with v [CHR 0x27] \<and> 2 \<le> length v
         then butlast (drop 1 v) else v)"

text \<open>The reference on one line, if there is one.\<close>

definition image_of_line :: "string \<Rightarrow> string option" where
  "image_of_line line =
     (let l = trim line
      in if starts_with l ''#'' then None
         else (case strip_prefix ''image:'' l of
                 None \<Rightarrow> None
               | Some rest \<Rightarrow>
                   let value = trim rest
                   in if value = [] \<or> starts_with value ''imagePullPolicy'' then None
                      else if unquote value = [] then None
                      else Some (unquote value)))"

text \<open>The loop over the lines; the hash set \<^verbatim>\<open>seen\<close> has the elements of \<open>images\<close>.\<close>

fun collect_images :: "string list \<Rightarrow> string list \<Rightarrow> string list" where
  "collect_images images [] = images"
| "collect_images images (line # lines) =
     (case image_of_line line of
        None \<Rightarrow> collect_images images lines
      | Some img \<Rightarrow>
          if img \<in> set images then collect_images images lines
          else collect_images (images @ [img]) lines)"

definition parse_image_references :: "string \<Rightarrow> string list" where
  "parse_image_references rendered = collect_images [] (str_lines rendered)"

definition resolve_image_ref :: "string \<Rightarrow> string \<Rightarrow> string" where
  "resolve_image_ref img registry_authority =
     (let first_segment = hd (split_on (CHR ''/'') img);
          has_registry = (CHR ''.'' \<in> set first_segment \<or> CHR '':'' \<in> set first_segment)
      in if has_registry \<and> CHR ''/'' \<in> set img then img else registry_authority @ ''/'' @ img)"

section \<open>Rendering and scanning\<close>

definition helm_template_command :: "string \<Rightarrow> string \<Rightarrow> command_line" where
  "helm_template_command helm_binary chart_path =
     \<lparr>cmd_program = helm_binary, cmd_args = [''template'', ''release'', chart_path], cmd_env = [],
      cmd_timeout = None\<rparr>"

definition extract_chart_images :: "('c, 'w) env \<Rightarrow> string \<Rightarrow> string \<Rightarrow> ('c, 'w, string + string list) action" where
  "extract_chart_images env chart_path helm_binary =
     io_bind (run_command env (helm_template_command helm_binary chart_path)) (\<lambda>outcome.
       io_return (case outcome of
           Exited success status out err \<Rightarrow>
             if \<not> success then Inl (''helm template failed: '' @ from_utf8_lossy err)
             else Inr (parse_image_references (from_utf8_lossy out))
         | _ \<Rightarrow> Inl ''failed to run helm template''))"

fun scan_images ::
  "('c, 'w) env \<Rightarrow> external_scanner \<Rightarrow> scan_target \<Rightarrow> string \<Rightarrow> string option \<Rightarrow> bool \<Rightarrow> vulnerability list \<Rightarrow>
   string list \<Rightarrow> ('c, 'w, string + vulnerability list) action" where
  "scan_images env x target authority auth insecure acc [] = io_return (Inr acc)"
| "scan_images env x target authority auth insecure acc (img # imgs) =
     (let image_ref = resolve_image_ref img authority
      in io_bind (scan_with_image env x target image_ref auth insecure) (\<lambda>r.
           case r of
             Inr vs \<Rightarrow> scan_images env x target authority auth insecure (acc @ vs) imgs
           | Inl e \<Rightarrow>
               if ss_fail_open (cf_scan (env_config env))
               then scan_images env x target authority auth insecure acc imgs
               else io_return (Inl (''scanner failed for image '' @ image_ref @ '': ''
                      @ security_error_display (status_text (env_http env)) e))))"

definition scan_chart_images ::
  "('c, 'w) env \<Rightarrow> external_scanner \<Rightarrow> scan_target \<Rightarrow> string list \<Rightarrow>
   ('c, 'w, string + vulnerability list) action" where
  "scan_chart_images env x target images =
     (case ns_docker_registry_base_url (cf_nexus (env_config env)) of
        None \<Rightarrow> io_return (Inl ''helm chart scanning requires NEXUS_SEC_PROXY_DOCKER_REGISTRY_BASE_URL'')
      | Some base \<Rightarrow>
          (case env_url_parse env base of
             Inl _ \<Rightarrow> io_return (Inl ''failed to parse Docker registry base URL'')
           | Inr u \<Rightarrow>
               (case docker_registry_authority env u of
                  Inl e \<Rightarrow> io_return (Inl e)
                | Inr authority \<Rightarrow>
                    io_bind (docker_auth_config env u) (\<lambda>auth.
                      case auth of
                        Inl e \<Rightarrow> io_return (Inl (''failed to create Docker auth config: '' @ e))
                      | Inr auth \<Rightarrow>
                          scan_images env x target authority auth (pu_scheme u = ''http'') [] images))))"

definition scan_helm_chart ::
  "('c, 'w) env \<Rightarrow> external_scanner \<Rightarrow> scan_target \<Rightarrow> string \<Rightarrow> ('c, 'w, string + vulnerability list) action" where
  "scan_helm_chart env x target chart_path =
     io_bind (extract_chart_images env chart_path (ss_helm_binary (cf_scan (env_config env)))) (\<lambda>images.
       case images of
         Inl e \<Rightarrow> io_return (Inl (''helm chart image extraction failed: '' @ e))
       | Inr images \<Rightarrow>
           if images = [] then io_return (Inr []) else scan_chart_images env x target images)"

section \<open>Lemmas\<close>

lemma collect_images_spec:
  "distinct images \<Longrightarrow>
   distinct (collect_images images ls) \<and>
   set (collect_images images ls) = set images \<union> set (List.map_filter image_of_line ls)"
  by (induction images ls rule: collect_images.induct) (auto simp: List.map_filter_def split: option.splits)

text \<open>
  The image references of a rendered chart are those that stand alone after \<open>image:\<close> on a line,
  each once: a line counts only if, without the surrounding white space, it starts with \<open>image:\<close>, and
  the value is not empty.
\<close>

theorem parse_image_references_iff:
  "distinct (parse_image_references rendered) \<and>
   (img \<in> set (parse_image_references rendered) \<longleftrightarrow>
    (\<exists>line rest. line \<in> set (str_lines rendered) \<and> trim line = ''image:'' @ rest \<and> trim rest \<noteq> [] \<and>
       \<not> starts_with (trim rest) ''imagePullPolicy'' \<and> img = unquote (trim rest) \<and> img \<noteq> []))"
proof -
  have "image_of_line line = Some i \<longleftrightarrow>
      (\<exists>rest. trim line = ''image:'' @ rest \<and> trim rest \<noteq> [] \<and>
         \<not> starts_with (trim rest) ''imagePullPolicy'' \<and> i = unquote (trim rest) \<and> i \<noteq> [])" for line i
    by (auto simp: image_of_line_def Let_def strip_prefix_def prefix_def split: option.splits)
  moreover have "img \<in> set (List.map_filter image_of_line ls) \<longleftrightarrow> (\<exists>line \<in> set ls. image_of_line line = Some img)" for ls
    by (induction ls) (auto simp: List.map_filter_def)
  ultimately show ?thesis
    using collect_images_spec [of "[]" "str_lines rendered"] by (auto simp: parse_image_references_def)
qed

text \<open>
  An image that is written as the first key of a list item is not found: a manifest with
  the container \<open>- image: nginx:1.25\<close> yields no image, so the chart passes as one without images.
\<close>

theorem list_item_image_missed:
  "parse_image_references
     (''containers:'' @ newline @ ''- image: nginx:1.25'' @ newline @ ''  name: web'' @ newline) = []"
  by code_simp

section \<open>All images are scanned\<close>

lemma scan_with_image_events:
  "io_post (scan_with_image env x target img auth insecure)
     (\<lambda>_ evs. evs = [CommandRan (scan_image_command x img auth insecure)])"
  by (auto simp: scan_with_image_def scan_image_def run_command_def io_post_def io_bind_Some_iff io_call_run
      io_run_simps)


lemma scan_images_only [io_intros]:
  "(\<And>ev. background ev \<Longrightarrow> P ev) \<Longrightarrow> io_only P (scan_images env x target authority auth insecure acc imgs)"
  by (induction imgs arbitrary: acc) (auto simp: Let_def split: sum.split intro!: io_intros)

lemma scan_images_total [io_intros]: "io_total (scan_images env x target authority auth insecure acc imgs)"
  by (induction imgs arbitrary: acc) (auto simp: Let_def split: sum.split intro!: io_intros)

lemma scan_helm_chart_only [io_intros]: "(\<And>ev. background ev \<Longrightarrow> P ev) \<Longrightarrow> io_only P (scan_helm_chart env x target path)"
  unfolding scan_helm_chart_def extract_chart_images_def run_command_def scan_chart_images_def
  by (auto split: sum.split option.split intro!: io_intros)

lemma scan_helm_chart_total [io_intros]: "io_total (scan_helm_chart env x target path)"
  unfolding scan_helm_chart_def extract_chart_images_def run_command_def scan_chart_images_def
  by (auto split: sum.split option.split intro!: io_intros)

end
