(* ===== verification/Gateway.thy ===== *)
theory Gateway
  imports Helm
begin

text \<open>
  The gateway (\<^verbatim>\<open>crates/proxy/src/gateway.rs\<close>) without its entry point: passing requests on to Nexus, and
  artifacts, which are fetched into a temporary file, scanned there, and only then answered from memory.
  The method of a request is a valid one already, so \<^verbatim>\<open>Method::from_bytes\<close> succeeds.
  The permit of the scanner's semaphore is taken and given back by the events \<open>PermitAcquired\<close> and
  \<open>PermitReleased\<close>.
\<close>

section \<open>Passing requests on\<close>

record client_request =
  cq_method :: string
  cq_uri :: request_uri
  cq_headers :: headers
  cq_body :: "(string + bytes) list"

definition forwarded_request :: "('c, 'w) env \<Rightarrow> url \<Rightarrow> client_request \<Rightarrow> http_request" where
  "forwarded_request env base q =
     (copy_request_headers (request_to (cq_method q) (build_nexus_url (env_url env) base (cq_uri q)))
        (cq_headers q) False)\<lparr>hr_body := StreamBody (cq_body q)\<rparr>"

definition forward_request_to_base ::
  "('c, 'w) env \<Rightarrow> url \<Rightarrow> client_request \<Rightarrow> ('c, 'w, string + response) action" where
  "forward_request_to_base env base q =
     io_bind (send env ForwardRequest (forwarded_request env base q)) (\<lambda>reply.
       io_return (case reply of
           Inl _ \<Rightarrow> Inl ''Nexus request failed''
         | Inr r \<Rightarrow> response_from_nexus (env_http env) r))"

definition forward_request :: "('c, 'w) env \<Rightarrow> client_request \<Rightarrow> ('c, 'w, string + response) action" where
  "forward_request env q = forward_request_to_base env (env_nexus_base_url env) q"

section \<open>Prefetching\<close>

record prefetched_artifact =
  pf_status :: nat
  pf_headers :: headers
  pf_bytes :: bytes
  pf_file :: string

definition prefetched_response :: "prefetched_artifact \<Rightarrow> response" where
  "prefetched_response p =
     \<lparr>rsp_status = pf_status p, rsp_headers = pf_headers p, rsp_body = Bytes (pf_bytes p)\<rparr>"

datatype prefetch_result =
    Complete prefetched_artifact
  | ForwardResponse response
  | TooLarge "http_response option"

definition artifact_suffix :: "string \<Rightarrow> string" where
  "artifact_suffix path =
     (let file_name = last (split_on (CHR ''/'') path)
      in if CHR ''.'' \<notin> set file_name then [] else dropWhile (\<lambda>c. c \<noteq> CHR ''.'') file_name)"

definition temporary_artifact_file :: "('c, 'w) env \<Rightarrow> request_uri \<Rightarrow> ('c, 'w, string + string) action" where
  "temporary_artifact_file env uri =
     (let dir = ss_artifact_tmp_dir (cf_scan (env_config env))
      in io_bind (io_ext (env_temp_file env dir ''artifact-'' (artifact_suffix (uri_path uri)))) (\<lambda>file.
           io_return (map_err (\<lambda>_. case dir of
               Some d \<Rightarrow> ''failed to create temp file in '' @ d
             | None \<Rightarrow> ''failed to create temp file'') file)))"

text \<open>
  \<^verbatim>\<open>total_size.checked_add(chunk.len() as u64)\<close>; the cast loses nothing, because the length of a buffer
  is below \<open>2^63\<close>.
\<close>

definition checked_add_len :: "u64 \<Rightarrow> nat \<Rightarrow> u64 option" where
  "checked_add_len sz n = (if unat sz + n < 2 ^ 64 then Some (sz + of_nat n) else None)"

text \<open>The loop over the chunks of the body: \<^const>\<open>None\<close> when the limit is exceeded.\<close>

fun read_chunks ::
  "('c, 'w) env \<Rightarrow> string \<Rightarrow> bytes \<Rightarrow> u64 \<Rightarrow> (string + bytes) list \<Rightarrow> ('c, 'w, string + bytes option) action" where
  "read_chunks env file acc sz [] = io_return (Inr (Some acc))"
| "read_chunks env file acc sz (chunk # chunks) =
     (case chunk of
        Inl _ \<Rightarrow> io_return (Inl ''failed to read Nexus artifact bytes'')
      | Inr c \<Rightarrow>
          (case checked_add_len sz (length c) of
             None \<Rightarrow> io_return (Inl ''artifact size overflow'')
           | Some size' \<Rightarrow>
               if ss_artifact_scan_max_bytes (cf_scan (env_config env)) < size' then io_return (Inr None)
               else io_bind (io_call (FileWritten file c) (env_file_op env ''write'' file c)) (\<lambda>r.
                 case r of
                   Inl _ \<Rightarrow> io_return (Inl ''failed to write artifact temp file'')
                 | Inr _ \<Rightarrow> read_chunks env file (acc @ c) size' chunks)))"

definition file_step :: "('c, 'w) env \<Rightarrow> string \<Rightarrow> string \<Rightarrow> ('c, 'w, string + unit) action" where
  "file_step env op file =
     io_bind (io_ext (env_file_op env op file [])) (\<lambda>r.
       io_return (map_err (\<lambda>_. ''failed to '' @ op @ '' artifact temp file'') r))"

definition prefetch_request :: "('c, 'w) env \<Rightarrow> request_uri \<Rightarrow> headers \<Rightarrow> http_request" where
  "prefetch_request env uri hs =
     copy_request_headers (request_to ''GET'' (build_nexus_url (env_url env) (env_nexus_base_url env) uri)) hs True"

definition prefetch_body ::
  "('c, 'w) env \<Rightarrow> request_uri \<Rightarrow> http_response \<Rightarrow> ('c, 'w, string + prefetch_result) action" where
  "prefetch_body env uri r =
     io_try (temporary_artifact_file env uri) (\<lambda>file.
     io_try (file_step env ''reopen'' file) (\<lambda>_.
     io_try (read_chunks env file [] 0 (hs_chunks r)) (\<lambda>content.
       case content of
         None \<Rightarrow> io_return (Inr (TooLarge None))
       | Some content \<Rightarrow>
           io_try (file_step env ''flush'' file) (\<lambda>_.
           io_try (file_step env ''sync'' file) (\<lambda>_.
             io_return (Inr (Complete
               \<lparr>pf_status = hs_status r, pf_headers = response_headers (env_http env) (hs_headers r),
                pf_bytes = content, pf_file = file\<rparr>)))))))"

definition prefetch_artifact ::
  "('c, 'w) env \<Rightarrow> request_uri \<Rightarrow> headers \<Rightarrow> ('c, 'w, string + prefetch_result) action" where
  "prefetch_artifact env uri hs =
     io_bind (send env ArtifactPrefetch (prefetch_request env uri hs)) (\<lambda>reply.
       case reply of
         Inl _ \<Rightarrow> io_return (Inl ''Nexus artifact request failed'')
       | Inr r \<Rightarrow>
           if \<not> valid_status (env_http env) (hs_status r) then io_return (Inl ''invalid Nexus status code'')
           else if hs_status r \<noteq> 200 then
             io_return (res_bind (response_from_nexus (env_http env) r) (\<lambda>resp. Inr (ForwardResponse resp)))
           else if is_some_and (hs_content_length r)
                     (\<lambda>n. ss_artifact_scan_max_bytes (cf_scan (env_config env)) < n) then
             io_return (Inr (TooLarge (Some r)))
           else prefetch_body env uri r)"

section \<open>Artifact targets\<close>

definition artifact_cache_key :: "nexus_repository \<Rightarrow> artifact_target \<Rightarrow> request_uri \<Rightarrow> cache_key" where
  "artifact_cache_key repository a uri =
     from_parts (cache_namespace (Artifact a))
       (unwrap_or (at_digest a) (nr_name repository @ newline @ path_and_query uri)) None"

definition artifact_failure_text :: "scan_target \<Rightarrow> string \<Rightarrow> response" where
  "artifact_failure_text target reason =
     response_with_text 503
       (''Artifact scan failed and fail_open=false'' @ newline @ newline @ ''Target: ''
        @ display_name target @ newline @ ''Reason: '' @ reason @ newline)"

definition artifact_scan_failure ::
  "('c, 'w) env \<Rightarrow> scan_target \<Rightarrow> string \<Rightarrow> ('c, 'w, response + response option) action" where
  "artifact_scan_failure env target reason =
     io_then (io_emit (ScanFailed target))
       (io_return (if ss_fail_open (cf_scan (env_config env)) then Inr None
          else Inl (artifact_failure_text target reason)))"

definition bad_gateway :: "string \<Rightarrow> response" where
  "bad_gateway e = response_with_text 502 (''failed to proxy Nexus request: '' @ e @ newline)"

definition oversized_artifact_response ::
  "('c, 'w) env \<Rightarrow> nexus_repository \<Rightarrow> scan_target \<Rightarrow> http_response option \<Rightarrow> requester option \<Rightarrow>
   ('c, 'w, response + response option) action" where
  "oversized_artifact_response env repository target nexus_response requester =
     io_try (handle_unsupported_target env repository target
         (''artifact exceeds NEXUS_SEC_PROXY_ARTIFACT_SCAN_MAX_BYTES (''
          @ show_u64 (ss_artifact_scan_max_bytes (cf_scan (env_config env))) @ '')'') requester)
       (\<lambda>_. io_return (case nexus_response of
            Some r \<Rightarrow> (case response_from_nexus (env_http env) r of
                Inl e \<Rightarrow> Inl (bad_gateway e)
              | Inr resp \<Rightarrow> Inr (Some resp))
          | None \<Rightarrow> Inr None))"

definition scan_prefetched ::
  "('c, 'w) env \<Rightarrow> nexus_repository \<Rightarrow> scan_target \<Rightarrow> artifact_scanner_kind \<Rightarrow> string \<Rightarrow>
   ('c, 'w, string + vulnerability list) action" where
  "scan_prefetched env repository target kind file =
     (let x = external_scanner_for_kind (env_config env) kind
      in if alnum_lower (nr_format repository) = ''helm'' then scan_helm_chart env x target file
         else io_bind (scan_path (trivy_json (env_decoders env)) (run_command env) x target file) (\<lambda>r.
                io_return (map_err (security_error_display (status_text (env_http env))) r)))"

definition artifact_prefetched ::
  "('c, 'w) env \<Rightarrow> nexus_repository \<Rightarrow> artifact_target \<Rightarrow> artifact_scanner_kind \<Rightarrow> request_uri \<Rightarrow>
   requester option \<Rightarrow> prefetched_artifact \<Rightarrow> ('c, 'w, response + response option) action" where
  "artifact_prefetched env repository a kind uri requester p =
     io_bind (scan_prefetched env repository (Artifact a) kind (pf_file p)) (\<lambda>found.
       io_then (io_emit PermitReleased)
         (case found of
            Inl e \<Rightarrow>
              io_then (io_emit (ScanFailed (Artifact a)))
                (io_return (if ss_fail_open (cf_scan (env_config env)) then Inr (Some (prefetched_response p))
                   else Inl (artifact_failure_text (Artifact a) e)))
          | Inr vs \<Rightarrow>
              io_then (put_cache env (artifact_cache_key repository a uri) (cached_scan_new vs))
                (io_try (decide env repository (Artifact a) vs requester)
                   (\<lambda>_. io_return (Inr (Some (prefetched_response p)))))))"

definition artifact_fetched ::
  "('c, 'w) env \<Rightarrow> nexus_repository \<Rightarrow> artifact_target \<Rightarrow> artifact_scanner_kind \<Rightarrow> request_uri \<Rightarrow>
   requester option \<Rightarrow> string + prefetch_result \<Rightarrow> ('c, 'w, response + response option) action" where
  "artifact_fetched env repository a kind uri requester fetched =
     (case fetched of
        Inr (Complete p) \<Rightarrow> artifact_prefetched env repository a kind uri requester p
      | Inr (ForwardResponse resp) \<Rightarrow> io_then (io_emit PermitReleased) (io_return (Inr (Some resp)))
      | Inr (TooLarge r) \<Rightarrow>
          io_then (io_emit PermitReleased)
            (oversized_artifact_response env repository (Artifact a) r requester)
      | Inl e \<Rightarrow>
          io_then (io_emit PermitReleased)
            (artifact_scan_failure env (Artifact a) (''artifact prefetch failed: '' @ e)))"

definition scan_artifact_target ::
  "('c, 'w) env \<Rightarrow> nexus_repository \<Rightarrow> artifact_target \<Rightarrow> artifact_scanner_kind \<Rightarrow> request_uri \<Rightarrow> headers \<Rightarrow>
   requester option \<Rightarrow> ('c, 'w, response + response option) action" where
  "scan_artifact_target env repository a kind uri hs requester =
     io_bind (io_ext (env_acquire_permit env)) (\<lambda>permit.
       case permit of
         Inl e \<Rightarrow> artifact_scan_failure env (Artifact a) (''scanner concurrency limiter failed: '' @ e)
       | Inr _ \<Rightarrow>
           io_then (io_emit PermitAcquired)
             (io_bind (prefetch_artifact env uri hs) (artifact_fetched env repository a kind uri requester)))"

definition authorize_artifact_target ::
  "('c, 'w) env \<Rightarrow> nexus_repository \<Rightarrow> artifact_target \<Rightarrow> artifact_scanner_kind \<Rightarrow> request_uri \<Rightarrow> headers \<Rightarrow>
   requester option \<Rightarrow> ('c, 'w, response + response option) action" where
  "authorize_artifact_target env repository a kind uri hs requester =
     io_bind (get_cache env (artifact_cache_key repository a uri)) (\<lambda>cached.
       case cached of
         Inr (Some scan) \<Rightarrow>
           io_try (decide env repository (Artifact a) (cs_vulnerabilities scan) requester)
             (\<lambda>_. io_return (Inr None))
       | _ \<Rightarrow> scan_artifact_target env repository a kind uri hs requester)"

section \<open>Silence and totality\<close>

lemma read_chunks_only [io_intros]:
  assumes "\<And>ev. background ev \<Longrightarrow> P ev"
  shows "io_only P (read_chunks env file acc sz chunks)"
proof (induction chunks arbitrary: acc sz)
  case (Cons chunk chunks)
  note [io_intros] = Cons.IH
  show ?case
    by (cases chunk) (simp_all add: assms io_intros split: option.split sum.split)
qed (simp add: io_post_return)

lemma read_chunks_total [io_intros]: "io_total (read_chunks env file acc sz chunks)"
proof (induction chunks arbitrary: acc sz)
  case (Cons chunk chunks)
  note [io_intros] = Cons.IH
  show ?case
    by (cases chunk) (simp_all add: io_intros split: option.split sum.split)
qed (simp add: io_total_basic)

lemma prefetch_artifact_only [io_intros]: "(\<And>ev. background ev \<Longrightarrow> P ev) \<Longrightarrow> io_only P (prefetch_artifact env uri hs)"
  unfolding prefetch_artifact_def prefetch_body_def temporary_artifact_file_def file_step_def Let_def
  by (auto split: sum.split option.split intro!: io_intros)

lemma prefetch_artifact_total [io_intros]: "io_total (prefetch_artifact env uri hs)"
  unfolding prefetch_artifact_def prefetch_body_def temporary_artifact_file_def file_step_def send_def Let_def
  by (auto split: sum.split option.split intro!: io_intros)

lemma scan_prefetched_only [io_intros]: "(\<And>ev. background ev \<Longrightarrow> P ev) \<Longrightarrow> io_only P (scan_prefetched env repository target kind file)"
  unfolding scan_prefetched_def scan_path_def run_command_def Let_def by (auto intro!: io_intros)

lemma scan_prefetched_total [io_intros]: "io_total (scan_prefetched env repository target kind file)"
  unfolding scan_prefetched_def scan_path_def run_command_def Let_def by (auto intro!: io_intros)

section \<open>What is prefetched\<close>

text \<open>The bytes written to a file, in order.\<close>

definition file_content :: "string \<Rightarrow> event list \<Rightarrow> bytes" where
  "file_content file evs =
     concat (map (\<lambda>ev. case ev of FileWritten f c \<Rightarrow> if f = file then c else [] | _ \<Rightarrow> []) evs)"

lemma file_content_simps [simp]:
  "file_content file [] = []"
  "file_content file (FileWritten f c # evs) = (if f = file then c else []) @ file_content file evs"
  "file_content file (HttpSent p req # evs) = file_content file evs"
  "file_content file (evs @ evs') = file_content file evs @ file_content file evs'"
  by (simp_all add: file_content_def)

lemma checked_add_len_Some: "checked_add_len sz n = Some m \<Longrightarrow> unat m = unat sz + n"
proof -
  assume a: "checked_add_len sz n = Some m"
  then have "unat sz + n < 2 ^ 64" "m = sz + of_nat n" by (auto simp: checked_add_len_def split: if_splits)
  then show ?thesis by (simp add: unat_word_ariths unsigned_of_nat take_bit_eq_mod mod_add_right_eq)
qed

definition chunks_kept ::
  "('c, 'w) env \<Rightarrow> string \<Rightarrow> bytes \<Rightarrow> (string + bytes) list \<Rightarrow> string + bytes option \<Rightarrow> event list \<Rightarrow> bool" where
  "chunks_kept env file acc chunks r evs \<longleftrightarrow>
     (\<forall>b. r = Inr (Some b) \<longrightarrow>
        b = acc @ file_content file evs \<and> b = acc @ concat (map projr chunks) \<and> list_all (\<lambda>c. \<not> isl c) chunks \<and>
        length b \<le> unat (ss_artifact_scan_max_bytes (cf_scan (env_config env))))"

lemma read_chunks_post:
  assumes "unat sz = length acc" "sz \<le> ss_artifact_scan_max_bytes (cf_scan (env_config env))"
  shows "io_post (read_chunks env file acc sz chunks) (chunks_kept env file acc chunks)"
  using assms
proof (induction chunks arbitrary: acc sz)
  case Nil
  then show ?case by (auto intro!: io_post_return simp: chunks_kept_def word_le_nat_alt)
next
  case (Cons chunk chunks)
  let ?max = "ss_artifact_scan_max_bytes (cf_scan (env_config env))"
  show ?case
  proof (cases chunk)
    case (Inl e)
    then show ?thesis by (auto intro!: io_post_return simp: chunks_kept_def)
  next
    case (Inr c)
    show ?thesis
    proof (cases "checked_add_len sz (length c)")
      case None
      with Inr show ?thesis by (auto intro!: io_post_return simp: chunks_kept_def)
    next
      case (Some n)
      show ?thesis
      proof (cases "?max < n")
        case True
        with Inr Some show ?thesis by (auto intro!: io_post_return simp: chunks_kept_def)
      next
        case False
        then have le: "n \<le> ?max" by simp
        have n: "unat n = length (acc @ c)" using Some Cons.prems(1) by (auto dest: checked_add_len_Some)
        note rest = Cons.IH [OF n le]
        have "io_post (case r of Inl _ \<Rightarrow> io_return (Inl ''failed to write artifact temp file'')
            | Inr _ \<Rightarrow> read_chunks env file (acc @ c) n chunks)
            (\<lambda>r evs. chunks_kept env file acc (chunk # chunks) r (FileWritten file c # evs))" for r :: "string + unit"
          using Inr by (cases r) (auto simp: chunks_kept_def intro!: io_post_return io_post_weaken [OF rest])
        with Inr Some False show ?thesis
          by (auto intro!: io_post_bind [where R = "\<lambda>_ evs. evs = [FileWritten file c]"] io_post_call)
      qed
    qed
  qed
qed

definition prefetch_spec :: "('c, 'w) env \<Rightarrow> string + prefetch_result \<Rightarrow> event list \<Rightarrow> bool" where
  "prefetch_spec env r evs \<longleftrightarrow>
     (case r of
        Inl _ \<Rightarrow> True
      | Inr (Complete p) \<Rightarrow>
          pf_status p = 200 \<and> file_content (pf_file p) evs = pf_bytes p \<and>
          length (pf_bytes p) \<le> unat (ss_artifact_scan_max_bytes (cf_scan (env_config env)))
      | Inr (ForwardResponse resp) \<Rightarrow> rsp_status resp \<noteq> 200 \<and> (\<exists>cs. rsp_body resp = NexusStream cs)
      | Inr (TooLarge None) \<Rightarrow> True
      | Inr (TooLarge (Some r)) \<Rightarrow> hs_status r = 200 \<and> valid_status (env_http env) 200)"

lemma prefetch_spec_simps [simp]:
  "prefetch_spec env (Inl e) evs"
  "prefetch_spec env (Inr (TooLarge None)) evs"
  "prefetch_spec env (Inr (TooLarge (Some r))) evs \<longleftrightarrow> hs_status r = 200 \<and> valid_status (env_http env) 200"
  "prefetch_spec env (Inr (ForwardResponse resp)) evs \<longleftrightarrow> rsp_status resp \<noteq> 200 \<and> (\<exists>cs. rsp_body resp = NexusStream cs)"
  by (simp_all add: prefetch_spec_def)

lemma quiet_step:
  "io_post (temporary_artifact_file env uri) (\<lambda>_ evs. evs = [])"
  "io_post (file_step env op file) (\<lambda>_ evs. evs = [])"
  unfolding temporary_artifact_file_def file_step_def Let_def
  by (auto simp: io_post_def io_bind_Some_iff io_run_simps)

lemma prefetch_body_post:
  assumes "hs_status r = 200"
  shows "io_post (prefetch_body env uri r) (\<lambda>res evs. prefetch_spec env res (HttpSent p req # evs))"
proof -
  have chunks: "io_post (read_chunks env f [] 0 (hs_chunks r)) (chunks_kept env f [] (hs_chunks r))" for f
    by (rule read_chunks_post) simp_all
  show ?thesis
    unfolding prefetch_body_def
  proof (rule io_post_try [OF quiet_step(1)], simp, rule io_post_try [OF quiet_step(2)], simp,
      rule io_post_try [OF chunks], simp, goal_cases)
    case (1 f evs1 u evs2 content evs3)
    show ?case
    proof (cases content)
      case None
      then show ?thesis by (simp add: io_post_return)
    next
      case (Some b)
      have "prefetch_spec env (Inr (Complete \<lparr>pf_status = hs_status r,
          pf_headers = response_headers (env_http env) (hs_headers r), pf_bytes = b, pf_file = f\<rparr>)) (HttpSent p req # evs3)"
        using 1(3) Some by (auto simp: prefetch_spec_def chunks_kept_def assms)
      with 1(1,2) Some show ?thesis
        by (simp add: io_post_return io_post_try [OF quiet_step(2)])
    qed
  qed
qed

lemma prefetch_artifact_post: "io_post (prefetch_artifact env uri hs) (prefetch_spec env)"
  unfolding prefetch_artifact_def
proof (rule io_post_bind [where R = "\<lambda>_ evs. evs = [HttpSent ArtifactPrefetch (prefetch_request env uri hs)]"], goal_cases)
  case 1
  then show ?case unfolding send_def by (intro io_intros) simp
next
  case (2 reply evs)
  then show ?case
    by (cases reply) (auto intro!: io_post_return prefetch_body_post
        simp: response_from_nexus_def res_bind_def)
qed

section \<open>The decision about an artifact\<close>

text \<open>
  What authorizing an artifact may show: one decision about it, which the result follows; or none, if Nexus
  itself did not answer 200 and its answer is passed on.
\<close>

definition artifact_outcome :: "artifact_target \<Rightarrow> response + response option \<Rightarrow> observation list \<Rightarrow> bool" where
  "artifact_outcome a r obs \<longleftrightarrow>
     (case r of
        Inl _ \<Rightarrow> obs = [Decided (Artifact a) False]
      | Inr None \<Rightarrow> obs = [Decided (Artifact a) True]
      | Inr (Some resp) \<Rightarrow> obs = [Decided (Artifact a) True] \<or> obs = [] \<and> rsp_status resp \<noteq> 200)"

lemma artifact_outcome_decided: "artifact_outcome a r [Decided (Artifact a) (\<not> isl r)]"
  by (auto simp: artifact_outcome_def split: sum.split option.split)

lemma artifact_scan_failure_sees:
  "io_sees (observe (env_config env)) (artifact_scan_failure env (Artifact a) reason) (artifact_outcome a)"
  by (simp add: artifact_scan_failure_def artifact_outcome_def io_post_def io_then_def io_bind_def io_run_simps
      List.map_filter_def)

text \<open>A decision followed by a computation that shows nothing more.\<close>

lemma sees_try_decided:
  assumes "io_sees (observe config) m (\<lambda>r obs. obs = [Decided t (\<not> isl r)])"
  shows "io_sees (observe config) (io_try m (\<lambda>_. io_return x)) (\<lambda>r obs.
    (\<exists>e. r = Inl e \<and> obs = [Decided t False]) \<or> r = x \<and> obs = [Decided t True])"
  by (rule io_post_try [OF assms]) (auto intro!: io_post_return simp: List.map_filter_def)

lemma oversized_sees:
  assumes "case r of Some resp \<Rightarrow> valid_status (env_http env) (hs_status resp) | None \<Rightarrow> True"
  shows "io_sees (observe (env_config env)) (oversized_artifact_response env repository (Artifact a) r requester)
    (artifact_outcome a)"
  unfolding oversized_artifact_response_def
  by (rule io_post_weaken [OF sees_try_decided [OF handle_unsupported_target_sees]])
    (use assms in \<open>auto simp: artifact_outcome_def response_from_nexus_def split: option.splits\<close>)

lemma artifact_prefetched_sees:
  "io_sees (observe (env_config env)) (artifact_prefetched env repository a kind uri requester p) (artifact_outcome a)"
proof -
  let ?h = "observe (env_config env)"
  have failed: "io_sees ?h (io_then (io_emit (ScanFailed (Artifact a)))
      (io_return (if ss_fail_open (cf_scan (env_config env)) then Inr (Some (prefetched_response p)) else Inl x)))
      (artifact_outcome a)" for x :: response
    by (rule io_post_weaken [OF scan_failed_sees]) (simp add: artifact_outcome_decided)
  have decided: "io_sees ?h (io_try (decide env repository (Artifact a) vs requester)
      (\<lambda>_. io_return (Inr (Some (prefetched_response p))))) (artifact_outcome a)" for vs
    by (rule io_post_weaken [OF sees_try_decided [OF decide_sees]]) (auto simp: artifact_outcome_def)
  show ?thesis
    unfolding artifact_prefetched_def
  proof (intro io_sees_bind io_sees_then)
    show "io_sees ?h (case found of
        Inl e \<Rightarrow> io_then (io_emit (ScanFailed (Artifact a)))
          (io_return (if ss_fail_open (cf_scan (env_config env)) then Inr (Some (prefetched_response p))
             else Inl (artifact_failure_text (Artifact a) e)))
      | Inr vs \<Rightarrow> io_then (put_cache env (artifact_cache_key repository a uri) (cached_scan_new vs))
          (io_try (decide env repository (Artifact a) vs requester)
             (\<lambda>_. io_return (Inr (Some (prefetched_response p)))))) (artifact_outcome a)" for found
      by (cases found) (simp_all add: failed io_sees_then [OF put_cache_only decided])
  qed (auto intro!: io_intros)
qed

lemma artifact_fetched_sees:
  assumes "prefetch_spec env fetched evs"
  shows "io_sees (observe (env_config env)) (artifact_fetched env repository a kind uri requester fetched)
    (artifact_outcome a)"
proof -
  let ?h = "observe (env_config env)"
  have released: "io_sees ?h (io_then (io_emit PermitReleased) m) (artifact_outcome a)"
    if "io_sees ?h m (artifact_outcome a)" for m :: "('a, 'b, response + response option) action"
    by (intro io_sees_then io_intros that) simp
  have over: "io_sees ?h (oversized_artifact_response env repository (Artifact a) r requester) (artifact_outcome a)"
    if "fetched = Inr (TooLarge r)" for r
    using assms that by (intro oversized_sees) (auto simp: that split: option.split)
  have passed: "io_sees ?h (io_return (Inr (Some resp))) (artifact_outcome a)" if "rsp_status resp \<noteq> 200" for resp
    using that by (intro io_post_return) (simp add: artifact_outcome_def List.map_filter_def)
  show ?thesis
  proof (cases fetched)
    case (Inl e)
    then show ?thesis
      unfolding artifact_fetched_def by (simp only: sum.case released artifact_scan_failure_sees)
  next
    case (Inr res)
    with assms show ?thesis
      unfolding artifact_fetched_def
      by (cases res) (simp_all add: released over passed artifact_prefetched_sees)
  qed
qed

text \<open>
  Authorizing an artifact shows one decision about exactly that artifact, and the result follows
  it: \<open>Inl\<close> is a refusal, \<open>Inr None\<close> lets the request go on, and a response of status 200 is
  given only if the decision allows it.
\<close>

lemma authorize_artifact_target_sees:
  "io_sees (observe (env_config env)) (authorize_artifact_target env repository a kind uri hs requester)
    (artifact_outcome a)"
proof -
  let ?h = "observe (env_config env)"
  have fetched: "io_sees ?h (io_bind (prefetch_artifact env uri hs) (artifact_fetched env repository a kind uri requester))
      (artifact_outcome a)"
  proof (rule io_post_bind)
    show "io_post (prefetch_artifact env uri hs)
        (\<lambda>r evs. prefetch_spec env r evs \<and> List.map_filter ?h evs = [])"
      by (intro io_post_conj prefetch_artifact_post io_silent_sees prefetch_artifact_only) simp
  qed (auto intro: artifact_fetched_sees)
  have scanned: "io_sees ?h (scan_artifact_target env repository a kind uri hs requester) (artifact_outcome a)"
    unfolding scan_artifact_target_def
    by (intro io_sees_bind io_intros)
      (auto split: sum.split intro!: artifact_scan_failure_sees io_sees_then fetched io_intros)
  have hit: "io_sees ?h (io_try (decide env repository (Artifact a) vs requester) (\<lambda>_. io_return (Inr None)))
      (artifact_outcome a)" for vs
    by (rule io_post_weaken [OF sees_try_decided [OF decide_sees]]) (auto simp: artifact_outcome_def)
  show ?thesis
    unfolding authorize_artifact_target_def
    by (intro io_sees_bind io_intros) (auto split: sum.split option.split intro!: scanned hit)
qed

section \<open>What is scanned is what is delivered\<close>

definition scans_file :: "('c, 'w) env \<Rightarrow> nexus_repository \<Rightarrow> artifact_scanner_kind \<Rightarrow> string \<Rightarrow> command_line \<Rightarrow> bool" where
  "scans_file env repository kind file cmd \<longleftrightarrow>
     cmd = (if alnum_lower (nr_format repository) = ''helm''
            then helm_template_command (ss_helm_binary (cf_scan (env_config env))) file
            else scan_path_command (external_scanner_for_kind (env_config env) kind) file)"

definition delivered_scanned ::
  "('c, 'w) env \<Rightarrow> nexus_repository \<Rightarrow> artifact_target \<Rightarrow> artifact_scanner_kind \<Rightarrow>
   response + response option \<Rightarrow> event list \<Rightarrow> bool" where
  "delivered_scanned env repository a kind r evs \<longleftrightarrow>
     (case r of
        Inr (Some resp) \<Rightarrow>
          (case rsp_body resp of
             Bytes b \<Rightarrow>
               length b \<le> unat (ss_artifact_scan_max_bytes (cf_scan (env_config env))) \<and>
               (\<exists>file before cmd after. evs = before @ CommandRan cmd # after \<and>
                  scans_file env repository kind file cmd \<and> file_content file before = b)
           | NexusStream _ \<Rightarrow> rsp_status resp \<noteq> 200 \<or> Unsupported (Artifact a) \<in> set evs)
      | _ \<Rightarrow> True)"

lemma delivered_scanned_none [simp]:
  "delivered_scanned env repository a kind (Inl e) evs"
  "delivered_scanned env repository a kind (Inr None) evs"
  by (simp_all add: delivered_scanned_def)

lemma delivered_scannedI:
  "rsp_body resp = Bytes b \<Longrightarrow> length b \<le> unat (ss_artifact_scan_max_bytes (cf_scan (env_config env))) \<Longrightarrow>
   scans_file env repository kind file cmd \<Longrightarrow> file_content file before = b \<Longrightarrow>
   delivered_scanned env repository a kind (Inr (Some resp)) (before @ CommandRan cmd # after)"
  unfolding delivered_scanned_def by auto

lemma delivered_scanned_prefix:
  assumes "delivered_scanned env repository a kind r evs" "\<And>file. file_content file evs0 = []"
  shows "delivered_scanned env repository a kind r (evs0 @ evs)"
proof -
  have "\<exists>file before cmd after. evs0 @ evs = before @ CommandRan cmd # after \<and>
      scans_file env repository kind file cmd \<and> file_content file before = b"
    if "evs = before @ CommandRan cmd # after" "scans_file env repository kind f cmd" "file_content f before = b"
    for b f before cmd after
    using that assms(2) by (intro exI [of _ f] exI [of _ "evs0 @ before"] exI) auto
  then show ?thesis
    using assms(1) by (fastforce simp: delivered_scanned_def split: sum.splits option.splits response_body.splits)
qed

lemma scan_prefetched_starts:
  "io_post (scan_prefetched env repository target kind file) (\<lambda>_ evs.
     \<exists>cmd after. evs = CommandRan cmd # after \<and> scans_file env repository kind file cmd)"
  by (auto simp: scan_prefetched_def scans_file_def scan_helm_chart_def extract_chart_images_def scan_path_def
      run_command_def io_post_def io_bind_Some_iff io_call_run io_run_simps Let_def)

lemma result_prefetched:
  "io_post (artifact_prefetched env repository a kind uri requester p) (\<lambda>r evs.
     (\<exists>cmd after. evs = CommandRan cmd # after \<and> scans_file env repository kind (pf_file p) cmd) \<and>
     ((\<exists>e. r = Inl e) \<or> r = Inr (Some (prefetched_response p))))"
  unfolding artifact_prefetched_def
proof (rule io_post_bind [OF scan_prefetched_starts], goal_cases)
  case (1 found evs)
  let ?m = "case found of
        Inl e \<Rightarrow> io_then (io_emit (ScanFailed (Artifact a)))
          (io_return (if ss_fail_open (cf_scan (env_config env)) then Inr (Some (prefetched_response p))
             else Inl (artifact_failure_text (Artifact a) e)))
      | Inr vs \<Rightarrow> io_then (put_cache env (artifact_cache_key repository a uri) (cached_scan_new vs))
          (io_try (decide env repository (Artifact a) vs requester)
             (\<lambda>_. io_return (Inr (Some (prefetched_response p)))))"
  have "io_post ?m (\<lambda>r _. (\<exists>e. r = Inl e) \<or> r = Inr (Some (prefetched_response p)))"
    by (cases found) (auto intro!: io_result_then io_result_try io_post_return)
  then have "io_post (io_then (io_emit PermitReleased) ?m)
      (\<lambda>r _. (\<exists>e. r = Inl e) \<or> r = Inr (Some (prefetched_response p)))"
    by (rule io_result_then)
  then show ?case using 1 by (elim io_post_weaken) fastforce
qed

lemma unsupported_starts:
  "io_post (handle_unsupported_target env repository target reason requester) (\<lambda>_ evs. Unsupported target \<in> set evs)"
  by (auto simp: handle_unsupported_target_def io_post_def io_then_def io_bind_Some_iff io_run_simps)

lemma oversized_delivers:
  "io_post (oversized_artifact_response env repository (Artifact a) nr requester)
     (\<lambda>r evs. delivered_scanned env repository a kind r (before @ evs))"
proof -
  have q: "delivered_scanned env repository a kind (case nr of
      Some r \<Rightarrow> (case response_from_nexus (env_http env) r of Inl e \<Rightarrow> Inl (bad_gateway e) | Inr resp \<Rightarrow> Inr (Some resp))
    | None \<Rightarrow> Inr None) evs" if "Unsupported (Artifact a) \<in> set evs" for evs
    using that by (auto simp: delivered_scanned_def response_from_nexus_def split: option.split sum.splits if_splits)
  show ?thesis
    unfolding oversized_artifact_response_def
    by (rule io_post_try [OF unsupported_starts])
      (auto intro!: io_post_return q)
qed

lemma artifact_fetched_delivers:
  assumes "prefetch_spec env fetched evs0"
  shows "io_post (artifact_fetched env repository a kind uri requester fetched)
    (\<lambda>r evs. delivered_scanned env repository a kind r (evs0 @ evs))"
proof (cases fetched)
  case (Inl e)
  have "io_post (artifact_fetched env repository a kind uri requester (Inl e)) (\<lambda>r _. (\<exists>x. r = Inl x) \<or> r = Inr None)"
    unfolding artifact_fetched_def artifact_scan_failure_def sum.case
    by (intro io_result_then io_post_return) simp
  then show ?thesis unfolding Inl by (elim io_post_weaken) auto
next
  case (Inr res)
  show ?thesis
  proof (cases res)
    case (Complete p)
    have "delivered_scanned env repository a kind r (evs0 @ CommandRan cmd # after)"
      if "scans_file env repository kind (pf_file p) cmd" "(\<exists>e. r = Inl e) \<or> r = Inr (Some (prefetched_response p))"
      for r cmd after
      using that assms Inr Complete
      by (auto simp: prefetched_response_def prefetch_spec_def intro!: delivered_scannedI)
    then show ?thesis
      using Inr Complete by (auto simp: artifact_fetched_def intro!: io_post_weaken [OF result_prefetched])
  next
    case (ForwardResponse resp)
    then have "delivered_scanned env repository a kind (Inr (Some resp)) evs" for evs
      using assms Inr by (auto simp: delivered_scanned_def)
    then show ?thesis
      using Inr ForwardResponse
      by (auto simp: artifact_fetched_def intro!: io_post_then [where R = "\<lambda>_ _. True"] io_post_emit io_post_return)
  next
    case (TooLarge r)
    then show ?thesis
      using Inr oversized_delivers [where before = "evs0 @ [PermitReleased]"]
      by (auto simp: artifact_fetched_def intro!: io_post_then [where R = "\<lambda>_ evs. evs = [PermitReleased]"] io_post_emit)
  qed
qed

text \<open>
  C9. What is delivered has been scanned: if the answer to an artifact download is given from memory, its
  bytes are no more than the configured limit, they are exactly what was written to a file before
  the scanner (or, for charts, helm) ran on that file; and if it is streamed from Nexus, Nexus did not answer 200 or the
  artifact was let through as an unsupported one.
\<close>

theorem artifact_delivered_scanned:
  "io_post (authorize_artifact_target env repository a kind uri hs requester)
     (delivered_scanned env repository a kind)"
proof -
  have fetched: "io_post (io_bind (prefetch_artifact env uri hs) (artifact_fetched env repository a kind uri requester))
      (delivered_scanned env repository a kind)"
    by (rule io_post_bind [OF prefetch_artifact_post]) (rule artifact_fetched_delivers)
  have scanned: "io_post (scan_artifact_target env repository a kind uri hs requester)
      (delivered_scanned env repository a kind)"
    unfolding scan_artifact_target_def
  proof (rule io_post_bind [where R = "\<lambda>_ evs. evs = []"], goal_cases)
    case 1
    then show ?case by (intro io_post_ext) simp
  next
    case (2 permit evs)
    have "io_post (artifact_scan_failure env (Artifact a) e) (delivered_scanned env repository a kind)" for e
      unfolding artifact_scan_failure_def
      by (rule io_post_then [where R = "\<lambda>_ _. True"]) (auto intro!: io_post_emit io_post_return)
    moreover have "io_post (io_then (io_emit PermitAcquired) (io_bind (prefetch_artifact env uri hs)
        (artifact_fetched env repository a kind uri requester))) (delivered_scanned env repository a kind)"
      by (rule io_post_then [where R = "\<lambda>_ evs. evs = [PermitAcquired]"])
        (auto intro!: io_post_emit io_post_weaken [OF fetched] delivered_scanned_prefix [where ?evs0.0 = "[PermitAcquired]", simplified]
          simp: file_content_def)
    ultimately show ?case using 2 by (cases permit) simp_all
  qed
  have hit: "io_post (io_try (decide env repository (Artifact a) vs requester) (\<lambda>_. io_return (Inr None)))
      (\<lambda>r evs. delivered_scanned env repository a kind r (CacheLookup key # evs))" for vs key
    by (rule io_post_try [where R = "\<lambda>_ _. True"]) (auto simp: io_post_def io_run_simps)
  have miss: "io_post (scan_artifact_target env repository a kind uri hs requester)
      (\<lambda>r evs. delivered_scanned env repository a kind r ([CacheLookup key] @ evs))" for key
    by (rule io_post_weaken [OF scanned]) (erule delivered_scanned_prefix, simp add: file_content_def)
  show ?thesis
    unfolding authorize_artifact_target_def
  proof (rule io_post_bind [where R = "\<lambda>_ evs. evs = [CacheLookup (artifact_cache_key repository a uri)]"], goal_cases)
    case 1
    then show ?case unfolding get_cache_def by (intro io_post_call) simp
  next
    case (2 cached evs)
    then show ?case using hit miss by (auto split: sum.split option.split)
  qed
qed

section \<open>Permits\<close>

fun permit_of :: "event \<Rightarrow> bool option" where
  "permit_of PermitAcquired = Some True"
| "permit_of PermitReleased = Some False"
| "permit_of _ = None"

lemma permit_of_background [simp]: "background ev \<Longrightarrow> permit_of ev = None"
  by (cases ev) simp_all

lemma authorize_artifact_target_total [io_intros]:
  "io_total (authorize_artifact_target env repository a kind uri hs requester)"
proof -
  have "io_total (artifact_prefetched env repository a kind uri requester p)" for p
    unfolding artifact_prefetched_def by (auto split: sum.split intro!: io_intros)
  moreover have "io_total (artifact_scan_failure env (Artifact a) reason)" for reason
    unfolding artifact_scan_failure_def by (intro io_intros)
  moreover have "io_total (oversized_artifact_response env repository (Artifact a) r requester)" for r
    unfolding oversized_artifact_response_def by (intro io_intros)
  ultimately have "io_total (artifact_fetched env repository a kind uri requester fetched)" for fetched
    unfolding artifact_fetched_def by (auto split: sum.split prefetch_result.split intro!: io_intros)
  then show ?thesis
    unfolding authorize_artifact_target_def scan_artifact_target_def
    by (auto split: sum.split option.split intro!: io_intros simp: artifact_scan_failure_def)
qed

lemma artifact_fetched_permit:
  "io_sees permit_of (artifact_fetched env repository a kind uri requester fetched) (\<lambda>_ obs. obs = [False])"
proof -
  have rel: "io_sees permit_of (io_then (io_emit PermitReleased) m) (\<lambda>_ obs. obs = [False])" if "io_silent permit_of m"
    for m :: "('a, 'b, response + response option) action"
    using that by (intro io_sees_emit [where ob = False]) (simp_all add: io_silent_sees)
  have "io_sees permit_of (artifact_prefetched env repository a kind uri requester p) (\<lambda>_ obs. obs = [False])" for p
    unfolding artifact_prefetched_def
  proof (intro io_sees_bind rel)
    fix found
    show "io_silent permit_of (case found of
        Inl e \<Rightarrow> io_then (io_emit (ScanFailed (Artifact a)))
          (io_return (if ss_fail_open (cf_scan (env_config env)) then Inr (Some (prefetched_response p))
             else Inl (artifact_failure_text (Artifact a) e)))
      | Inr vs \<Rightarrow> io_then (put_cache env (artifact_cache_key repository a uri) (cached_scan_new vs))
          (io_try (decide env repository (Artifact a) vs requester)
             (\<lambda>_. io_return (Inr (Some (prefetched_response p))))))"
      by (cases found) (auto intro!: io_intros)
  qed (auto intro!: io_intros)
  moreover have "io_silent permit_of (oversized_artifact_response env repository (Artifact a) r requester)"
    "io_silent permit_of (artifact_scan_failure env (Artifact a) reason)" for r reason
    unfolding oversized_artifact_response_def artifact_scan_failure_def by (auto intro!: io_intros)
  ultimately show ?thesis
    unfolding artifact_fetched_def
    by (cases fetched; cases "projr fetched") (auto intro!: rel io_post_return)
qed


end
