(* ===== verification/Docker.thy ===== *)
theory Docker
  imports Gateway
begin

text \<open>
  The Docker registry mode (\<^verbatim>\<open>crates/proxy/src/docker.rs\<close>): manifests are fetched, the image they name is scanned
  by its digest, and the fetched manifest is the answer. A base URL that is missing or cannot be parsed makes the
  handler panic; it then gives no response (\<^const>\<open>None\<close>).
\<close>

section \<open>Requests and targets\<close>

definition is_docker_registry_path :: "string \<Rightarrow> bool" where
  "is_docker_registry_path path \<longleftrightarrow> path = ''/v2'' \<or> path = ''/v2/'' \<or> starts_with path ''/v2/''"

record docker_manifest_request =
  dm_image_name :: string
  dm_reference :: string

definition parse_manifest_request_path :: "(string \<Rightarrow> string) \<Rightarrow> string \<Rightarrow> docker_manifest_request option" where
  "parse_manifest_request_path pdec path =
     (case strip_prefix ''/v2/'' path of
        None \<Rightarrow> None
      | Some rest \<Rightarrow>
          (case rsplit_once ''/manifests/'' rest of
             None \<Rightarrow> None
           | Some (name, reference) \<Rightarrow>
               if name = [] \<or> reference = [] then None
               else Some \<lparr>dm_image_name = from_utf8_lossy (pdec name),
                          dm_reference = from_utf8_lossy (pdec reference)\<rparr>))"

datatype docker_manifest_kind = ManifestKind | IndexKind | UnknownKind

definition docker_manifest_kind_of :: "http_lib \<Rightarrow> headers \<Rightarrow> docker_manifest_kind" where
  "docker_manifest_kind_of lib hs =
     (case header_get hs ''content-type'' of
        None \<Rightarrow> UnknownKind
      | Some value \<Rightarrow>
          (case header_to_str lib value of
             None \<Rightarrow> UnknownKind
           | Some s \<Rightarrow>
               let content_type = to_ascii_lowercase (trim (hd (split_on (CHR '';'') s)))
               in if content_type \<in> set [''application/vnd.docker.distribution.manifest.v2+json'',
                                         ''application/vnd.oci.image.manifest.v1+json''] then ManifestKind
                  else if content_type \<in> set [''application/vnd.docker.distribution.manifest.list.v2+json'',
                                              ''application/vnd.oci.image.index.v1+json''] then IndexKind
                  else UnknownKind))"

definition docker_manifest_is_attestation :: "(bytes \<Rightarrow> string option list option) \<Rightarrow> bytes \<Rightarrow> bool" where
  "docker_manifest_is_attestation layers_json content =
     (case layers_json content of
        None \<Rightarrow> False
      | Some layers \<Rightarrow>
          layers \<noteq> [] \<and>
          list_all (\<lambda>media_type. media_type = Some ''application/vnd.in-toto+json'' \<or>
            media_type = Some ''application/vnd.dsse.envelope.v1+json'') layers)"

definition is_digest_reference :: "string \<Rightarrow> bool" where
  "is_digest_reference value =
     (case split_once (CHR '':'') value of
        None \<Rightarrow> False
      | Some (algorithm, digest) \<Rightarrow> algorithm \<noteq> [] \<and> digest \<noteq> [])"

definition docker_manifest_digest :: "http_lib \<Rightarrow> headers \<Rightarrow> string \<Rightarrow> string option" where
  "docker_manifest_digest lib hs reference =
     or_else (opt_filter is_digest_reference (map_option trim
         (Option.bind (header_get hs ''docker-content-digest'') (header_to_str lib))))
       (then_some (is_digest_reference reference) reference)"

definition docker_digest_target :: "string \<Rightarrow> string \<Rightarrow> artifact_target" where
  "docker_digest_target image_name digest =
     artifact_with_digest ''docker'' (image_name @ ''@'' @ digest) digest"

definition docker_reference_target :: "docker_manifest_request \<Rightarrow> artifact_target" where
  "docker_reference_target request =
     artifact_new ''docker'' (dm_image_name request @ '':'' @ dm_reference request)"

definition docker_cache_key :: "string \<Rightarrow> string \<Rightarrow> string \<Rightarrow> cache_key" where
  "docker_cache_key repository_name image_name digest =
     from_parts ''docker'' (repository_name @ ''/'' @ image_name @ ''@'' @ digest) None"

definition docker_image_ref :: "('c, 'w) env \<Rightarrow> parsed_url \<Rightarrow> string \<Rightarrow> string \<Rightarrow> string + string" where
  "docker_image_ref env u image_name digest =
     res_bind (docker_registry_authority env u) (\<lambda>authority. Inr (authority @ ''/'' @ image_name @ ''@'' @ digest))"

section \<open>The authentication challenge\<close>

definition first_forwarded_header :: "http_lib \<Rightarrow> headers \<Rightarrow> string \<Rightarrow> string option" where
  "first_forwarded_header lib hs name =
     opt_filter (\<lambda>value. value \<noteq> [] \<and> CHR ''/'' \<notin> set value)
       (map_option (\<lambda>value. trim (hd (split_on (CHR '','') value)))
         (Option.bind (header_get hs name) (header_to_str lib)))"

definition docker_proxy_origin :: "http_lib \<Rightarrow> headers \<Rightarrow> string option" where
  "docker_proxy_origin lib hs =
     (case or_else (first_forwarded_header lib hs ''x-forwarded-host'') (first_forwarded_header lib hs ''host'') of
        None \<Rightarrow> None
      | Some host \<Rightarrow>
          Some (unwrap_or (opt_filter (\<lambda>value. eq_ignore_ascii_case value ''http'' \<or> eq_ignore_ascii_case value ''https'')
                  (first_forwarded_header lib hs ''x-forwarded-proto'')) ''http'' @ ''://'' @ host))"

text \<open>\<^verbatim>\<open>str::replace\<close> for a pattern that is not empty: every occurrence, from the left.\<close>

function replace_all :: "string \<Rightarrow> string \<Rightarrow> string \<Rightarrow> string" where
  "replace_all pat to s =
     (if s = [] then []
      else if pat \<noteq> [] \<and> prefix pat s then to @ replace_all pat to (drop (length pat) s)
      else hd s # replace_all pat to (tl s))"
  by pat_completeness auto
termination
  by (relation "measure (\<lambda>(pat, to, s). length s)") (auto simp: neq_Nil_conv)

declare replace_all.simps [simp del]

definition realm_of :: "string \<Rightarrow> string" where
  "realm_of r = ''realm='' @ [CHR 0x22] @ r @ [CHR 0x22]"

definition rewrite_docker_auth_challenge ::
  "('c, 'w) env \<Rightarrow> url \<Rightarrow> headers \<Rightarrow> response \<Rightarrow> response" where
  "rewrite_docker_auth_challenge env base request_headers resp =
     (case docker_proxy_origin (env_http env) request_headers of
        None \<Rightarrow> resp
      | Some proxy_origin \<Rightarrow>
          (case env_url_join env base ''/v2/token'' of
             None \<Rightarrow> resp
           | Some internal \<Rightarrow>
               (case Option.bind (header_get (rsp_headers resp) ''www-authenticate'') (header_to_str (env_http env)) of
                  None \<Rightarrow> resp
                | Some challenge \<Rightarrow>
                    if \<not> contains_str challenge (realm_of internal) then resp
                    else (case header_from_str (env_http env)
                              (replace_all (realm_of internal) (realm_of (proxy_origin @ ''/v2/token'')) challenge) of
                            None \<Rightarrow> resp
                          | Some value \<Rightarrow> resp\<lparr>rsp_headers :=
                              header_insert (env_http env) ''www-authenticate'' value (rsp_headers resp)\<rparr>))))"

section \<open>Fetching\<close>

record buffered_nexus_response =
  bf_status :: nat
  bf_headers :: headers
  bf_bytes :: bytes

definition buffered_response :: "buffered_nexus_response \<Rightarrow> response" where
  "buffered_response b =
     \<lparr>rsp_status = bf_status b, rsp_headers = bf_headers b, rsp_body = Bytes (bf_bytes b)\<rparr>"

datatype docker_manifest_fetch = FetchComplete buffered_nexus_response | FetchForward response

text \<open>\<^verbatim>\<open>Response::bytes\<close>\<close>

fun collect_body :: "(string + bytes) list \<Rightarrow> string + bytes" where
  "collect_body [] = Inr []"
| "collect_body (Inl e # chunks) = Inl e"
| "collect_body (Inr c # chunks) = res_bind (collect_body chunks) (\<lambda>rest. Inr (c @ rest))"

definition docker_fetched ::
  "('c, 'w) env \<Rightarrow> url \<Rightarrow> headers \<Rightarrow> string + http_response \<Rightarrow> string + docker_manifest_fetch" where
  "docker_fetched env base hs reply =
     (case reply of
        Inl _ \<Rightarrow> Inl ''Nexus Docker manifest request failed''
      | Inr r \<Rightarrow>
          if \<not> valid_status (env_http env) (hs_status r) then Inl ''invalid Nexus Docker status code''
          else if hs_status r \<noteq> 200 then
            res_bind (response_from_nexus (env_http env) r)
              (\<lambda>resp. Inr (FetchForward (rewrite_docker_auth_challenge env base hs resp)))
          else
            res_bind (map_err (\<lambda>_. ''failed to read Docker manifest bytes'') (collect_body (hs_chunks r)))
              (\<lambda>content. Inr (FetchComplete \<lparr>bf_status = hs_status r,
                 bf_headers = response_headers (env_http env) (hs_headers r), bf_bytes = content\<rparr>)))"

definition fetch_docker_manifest ::
  "('c, 'w) env \<Rightarrow> url \<Rightarrow> request_uri \<Rightarrow> headers \<Rightarrow> ('c, 'w, string + docker_manifest_fetch) action" where
  "fetch_docker_manifest env base uri hs =
     io_bind (send env DockerManifestFetch
         (copy_request_headers (request_to ''GET'' (build_nexus_url (env_url env) base uri)) hs False))
       (\<lambda>reply. io_return (docker_fetched env base hs reply))"

section \<open>Failures\<close>

definition docker_failure_response :: "scan_target \<Rightarrow> string \<Rightarrow> response" where
  "docker_failure_response target reason =
     response_with_text 503
       (''Docker image scan failed and fail_open=false'' @ newline @ newline @ ''Target: ''
        @ display_name target @ newline @ ''Reason: '' @ reason @ newline)"

definition docker_bad_gateway :: "string \<Rightarrow> response" where
  "docker_bad_gateway e = response_with_text 502 (''failed to proxy Docker registry request: '' @ e @ newline)"

definition docker_manifest_failure ::
  "('c, 'w) env \<Rightarrow> scan_target \<Rightarrow> string \<Rightarrow> buffered_nexus_response \<Rightarrow> ('c, 'w, response + response) action" where
  "docker_manifest_failure env target reason prefetched =
     io_then (io_emit (ScanFailed target))
       (io_return (if ss_fail_open (cf_scan (env_config env)) then Inr (buffered_response prefetched)
          else Inl (docker_failure_response target reason)))"

definition docker_manifest_fetch_failure ::
  "('c, 'w) env \<Rightarrow> url \<Rightarrow> request_uri \<Rightarrow> headers \<Rightarrow> scan_target \<Rightarrow> string \<Rightarrow> ('c, 'w, response + response) action" where
  "docker_manifest_fetch_failure env base uri hs target reason =
     io_then (io_emit (ScanFailed target))
       (if \<not> ss_fail_open (cf_scan (env_config env)) then io_return (Inl (docker_failure_response target reason))
        else io_bind (forward_request_to_base env base
               \<lparr>cq_method = ''GET'', cq_uri = uri, cq_headers = hs, cq_body = []\<rparr>) (\<lambda>r.
             io_return (case r of
                 Inl e \<Rightarrow> Inl (docker_bad_gateway e)
               | Inr resp \<Rightarrow> Inr (rewrite_docker_auth_challenge env base hs resp))))"

section \<open>Manifests\<close>

definition docker_repository_and_scanner ::
  "app_config \<Rightarrow> repository_catalog \<Rightarrow> string + (nexus_repository \<times> artifact_scanner_kind) option" where
  "docker_repository_and_scanner config catalog =
     (case ns_docker_repository_name (cf_nexus config) of
        None \<Rightarrow> Inl ''Docker repository name is not configured''
      | Some name \<Rightarrow>
          (case catalog_get catalog name of
             None \<Rightarrow> Inl (''configured Docker repository '' @ name @ '' is missing from the catalog'')
           | Some repository \<Rightarrow>
               if alnum_lower (nr_format repository) \<noteq> ''docker''
               then Inl (''configured Docker repository '' @ name @ '' has format '' @ nr_format repository
                         @ '', expected docker'')
               else Inr (map_option (\<lambda>kind. (repository, kind)) (artifact_scanner_for_format config ''docker''))))"

text \<open>From the permit to the findings; the permit is given back on every path.\<close>

definition docker_scan ::
  "('c, 'w) env \<Rightarrow> parsed_url \<Rightarrow> artifact_scanner_kind \<Rightarrow> artifact_target \<Rightarrow> string \<Rightarrow> string \<Rightarrow>
   ('c, 'w, string + vulnerability list) action" where
  "docker_scan env u kind a image_name digest =
     io_bind (io_ext (env_acquire_permit env)) (\<lambda>permit.
       case permit of
         Inl e \<Rightarrow> io_return (Inl (''scanner concurrency limiter failed: '' @ e))
       | Inr _ \<Rightarrow>
           io_then (io_emit PermitAcquired)
             (io_bind (docker_auth_config env u) (\<lambda>auth.
                case auth of
                  Inl e \<Rightarrow>
                    io_then (io_emit PermitReleased)
                      (io_return (Inl (''failed to create Docker scanner auth config: '' @ e)))
                | Inr auth \<Rightarrow>
                    (case docker_image_ref env u image_name digest of
                       Inl e \<Rightarrow>
                         io_then (io_emit PermitReleased)
                           (io_return (Inl (''failed to build scanner image reference: '' @ e)))
                     | Inr image_ref \<Rightarrow>
                         io_bind (scan_with_image env (external_scanner_for_kind (env_config env) kind) (Artifact a)
                                    image_ref auth (pu_scheme u = ''http'')) (\<lambda>found.
                           io_then (io_emit PermitReleased)
                             (io_return (map_err (\<lambda>e. ''scanner failed: ''
                                @ security_error_display (status_text (env_http env)) e) found)))))))"

definition docker_scanned_manifest ::
  "('c, 'w) env \<Rightarrow> parsed_url \<Rightarrow> nexus_repository \<Rightarrow> artifact_scanner_kind \<Rightarrow> requester option \<Rightarrow> string \<Rightarrow> string \<Rightarrow>
   buffered_nexus_response \<Rightarrow> ('c, 'w, response + response) action" where
  "docker_scanned_manifest env u repository kind requester image_name digest prefetched =
     (let a = docker_digest_target image_name digest;
          key = docker_cache_key (nr_name repository) image_name digest
      in io_bind (get_cache env key) (\<lambda>cached.
           case cached of
             Inr (Some scan) \<Rightarrow>
               io_try (decide env repository (Artifact a) (cs_vulnerabilities scan) requester)
                 (\<lambda>_. io_return (Inr (buffered_response prefetched)))
           | _ \<Rightarrow>
               io_bind (docker_scan env u kind a image_name digest) (\<lambda>found.
                 case found of
                   Inl reason \<Rightarrow> docker_manifest_failure env (Artifact a) reason prefetched
                 | Inr vs \<Rightarrow>
                     io_then (put_cache env key (cached_scan_new vs))
                       (io_try (decide env repository (Artifact a) vs requester)
                          (\<lambda>_. io_return (Inr (buffered_response prefetched)))))))"

definition authorize_fetched_manifest ::
  "('c, 'w) env \<Rightarrow> parsed_url \<Rightarrow> nexus_repository \<Rightarrow> artifact_scanner_kind \<Rightarrow> headers \<Rightarrow>
   docker_manifest_request \<Rightarrow> buffered_nexus_response \<Rightarrow> ('c, 'w, response + response) action" where
  "authorize_fetched_manifest env u repository kind hs request prefetched =
     (let reference_target = Artifact (docker_reference_target request)
      in case docker_manifest_kind_of (env_http env) (bf_headers prefetched) of
           IndexKind \<Rightarrow> io_return (Inr (buffered_response prefetched))
         | UnknownKind \<Rightarrow>
             docker_manifest_failure env reference_target ''Docker manifest media type is not supported'' prefetched
         | ManifestKind \<Rightarrow>
             if docker_manifest_is_attestation (manifest_layers (env_decoders env)) (bf_bytes prefetched)
             then io_return (Inr (buffered_response prefetched))
             else (case docker_manifest_digest (env_http env) (bf_headers prefetched) (dm_reference request) of
                     None \<Rightarrow>
                       docker_manifest_failure env reference_target ''Docker manifest digest could not be resolved'' prefetched
                   | Some digest \<Rightarrow>
                       docker_scanned_manifest env u repository kind (docker_bearer env hs)
                         (dm_image_name request) digest prefetched))"

definition authorize_docker_manifest_inner ::
  "('c, 'w) env \<Rightarrow> url \<times> parsed_url \<Rightarrow> nexus_repository \<Rightarrow> artifact_scanner_kind \<Rightarrow> headers \<Rightarrow>
   docker_manifest_request \<Rightarrow> request_uri \<Rightarrow> ('c, 'w, response + response) action" where
  "authorize_docker_manifest_inner env base repository kind hs request uri =
     io_bind (fetch_docker_manifest env (fst base) uri hs) (\<lambda>fetched.
       case fetched of
         Inl e \<Rightarrow>
           docker_manifest_fetch_failure env (fst base) uri hs (Artifact (docker_reference_target request))
             (''manifest request failed: '' @ e)
       | Inr (FetchForward resp) \<Rightarrow> io_return (Inr resp)
       | Inr (FetchComplete prefetched) \<Rightarrow>
           authorize_fetched_manifest env (snd base) repository kind hs request prefetched)"

definition authorize_docker_manifest ::
  "('c, 'w) env \<Rightarrow> url \<times> parsed_url \<Rightarrow> nexus_repository \<Rightarrow> artifact_scanner_kind \<Rightarrow> headers \<Rightarrow>
   docker_manifest_request \<Rightarrow> request_uri \<Rightarrow> ('c, 'w, response) action" where
  "authorize_docker_manifest env base repository kind hs request uri =
     io_bind (authorize_docker_manifest_inner env base repository kind hs request uri)
       (\<lambda>r. io_return (case r of Inl resp \<Rightarrow> resp | Inr resp \<Rightarrow> resp))"

section \<open>The handler\<close>

definition registry_base_url :: "('c, 'w) env \<Rightarrow> (url \<times> parsed_url) option" where
  "registry_base_url env =
     Option.bind (ns_docker_registry_base_url (cf_nexus (env_config env))) (\<lambda>base.
       map_option (Pair base) (ok (env_url_parse env base)))"

definition unsupported_response :: "('c, 'w) env \<Rightarrow> response" where
  "unsupported_response env =
     \<lparr>rsp_status = 405, rsp_headers = [(''content-type'', ''application/json''), (''allow'', ''GET, HEAD'')],
      rsp_body = Bytes (json_bytes (env_decoders env)
        (JObject [(''errors'', JArray [JObject [(''code'', JString ''UNSUPPORTED''),
          (''message'', JString ''The operation is unsupported.'')]])]))\<rparr>"

definition forward_docker_request ::
  "('c, 'w) env \<Rightarrow> url \<Rightarrow> client_request \<Rightarrow> ('c, 'w, response) action" where
  "forward_docker_request env base q =
     io_bind (forward_request_to_base env base q) (\<lambda>r.
       io_return (case r of
           Inl e \<Rightarrow> docker_bad_gateway e
         | Inr resp \<Rightarrow> rewrite_docker_auth_challenge env base (cq_headers q) resp))"

definition handle_docker_registry_request ::
  "('c, 'w) env \<Rightarrow> client_request \<Rightarrow> ('c, 'w, response) action" where
  "handle_docker_registry_request env q =
     (case registry_base_url env of
        None \<Rightarrow> (\<lambda>_. None)
      | Some base \<Rightarrow>
          if cq_method q \<noteq> ''GET'' \<and> cq_method q \<noteq> ''HEAD'' then io_return (unsupported_response env)
          else (case (if cq_method q = ''GET''
                      then parse_manifest_request_path (env_percent_decode env) (uri_path (cq_uri q)) else None) of
                  None \<Rightarrow> forward_docker_request env (fst base) q
                | Some request \<Rightarrow>
                    io_bind (io_get sh_catalog) (\<lambda>catalog.
                      case docker_repository_and_scanner (env_config env) catalog of
                        Inl reason \<Rightarrow>
                          io_return (response_with_text 503
                            (''Docker registry mode is misconfigured: '' @ reason @ newline))
                      | Inr None \<Rightarrow> forward_docker_request env (fst base) q
                      | Inr (Some (repository, kind)) \<Rightarrow>
                          authorize_docker_manifest env base repository kind (cq_headers q) request (cq_uri q))))"

section \<open>What an observer sees\<close>

text \<open>
  A manifest is decided about under its digest or, when the digest is not known or nothing was fetched, under the reference
  of the request. No decision is taken for an answer of Nexus other than 200, for an image index and for an attestation.
\<close>

definition manifest_target :: "docker_manifest_request \<Rightarrow> scan_target \<Rightarrow> bool" where
  "manifest_target request t \<longleftrightarrow>
     t = Artifact (docker_reference_target request) \<or>
     (\<exists>digest. t = Artifact (docker_digest_target (dm_image_name request) digest))"

definition unscanned_manifest :: "('c, 'w) env \<Rightarrow> response \<Rightarrow> bool" where
  "unscanned_manifest env resp \<longleftrightarrow>
     rsp_status resp \<noteq> 200 \<or>
     (\<exists>b. resp = buffered_response b \<and>
        (docker_manifest_kind_of (env_http env) (bf_headers b) = IndexKind \<or>
         docker_manifest_is_attestation (manifest_layers (env_decoders env)) (bf_bytes b)))"

definition docker_outcome ::
  "('c, 'w) env \<Rightarrow> docker_manifest_request \<Rightarrow> response + response \<Rightarrow> observation list \<Rightarrow> bool" where
  "docker_outcome env request r obs \<longleftrightarrow>
     (\<exists>t. manifest_target request t \<and>
        (obs = [Decided t (\<not> isl r)] \<or> (\<exists>req. obs = [Decided t True, Forwarded req]))) \<or>
     (\<exists>resp. r = Inr resp \<and> obs = [] \<and> unscanned_manifest env resp)"

lemma docker_outcome_decided:
  "manifest_target request t \<Longrightarrow> docker_outcome env request r [Decided t (\<not> isl r)]"
  unfolding docker_outcome_def by blast

lemma manifest_targets [simp]:
  "manifest_target request (Artifact (docker_reference_target request))"
  "manifest_target request (Artifact (docker_digest_target (dm_image_name request) digest))"
  by (auto simp: manifest_target_def)

lemma docker_manifest_failure_sees:
  "manifest_target request t \<Longrightarrow>
   io_sees (observe (env_config env)) (docker_manifest_failure env t reason b) (docker_outcome env request)"
  unfolding docker_manifest_failure_def
  by (rule io_post_weaken [OF scan_failed_sees]) (simp add: docker_outcome_decided)

lemma docker_scan_only [io_intros]:
  "(\<And>ev. background ev \<Longrightarrow> P ev) \<Longrightarrow> P PermitAcquired \<Longrightarrow> P PermitReleased \<Longrightarrow>
   io_only P (docker_scan env u kind a image_name digest)"
  unfolding docker_scan_def by (auto split: sum.split intro!: io_intros)

lemma docker_decided:
  "manifest_target request t \<Longrightarrow>
   io_sees (observe (env_config env)) (io_try (decide env repository t vs requester) (\<lambda>_. io_return (Inr resp)))
     (docker_outcome env request)"
  by (rule io_post_weaken [OF sees_try_decided [OF decide_sees]]) (force simp: docker_outcome_def)

lemma docker_scanned_manifest_sees:
  "io_sees (observe (env_config env))
     (docker_scanned_manifest env u repository kind requester (dm_image_name request) digest b) (docker_outcome env request)"
proof -
  let ?h = "observe (env_config env)" and ?t = "Artifact (docker_digest_target (dm_image_name request) digest)"
  have found: "io_sees ?h (case found of
      Inl reason \<Rightarrow> docker_manifest_failure env ?t reason b
    | Inr vs \<Rightarrow> io_then (put_cache env key (cached_scan_new vs))
        (io_try (decide env repository ?t vs requester) (\<lambda>_. io_return (Inr (buffered_response b)))))
    (docker_outcome env request)" for found key
    by (cases found) (simp_all add: docker_manifest_failure_sees io_sees_then [OF put_cache_only docker_decided])
  then have scan: "io_sees ?h (io_bind (docker_scan env u kind a img digest) (\<lambda>found. case found of
      Inl reason \<Rightarrow> docker_manifest_failure env ?t reason b
    | Inr vs \<Rightarrow> io_then (put_cache env key (cached_scan_new vs))
        (io_try (decide env repository ?t vs requester) (\<lambda>_. io_return (Inr (buffered_response b))))))
    (docker_outcome env request)" for key a img
    by (intro io_sees_bind docker_scan_only) simp_all
  show ?thesis
    unfolding docker_scanned_manifest_def Let_def
    by (intro io_sees_bind get_cache_only) (auto split: sum.split option.split intro!: docker_decided scan)
qed

lemma authorize_fetched_manifest_sees:
  "io_sees (observe (env_config env)) (authorize_fetched_manifest env u repository kind hs request b)
     (docker_outcome env request)"
proof -
  have passed: "io_sees (observe (env_config env)) (io_return (Inr (buffered_response b))) (docker_outcome env request)"
    if "unscanned_manifest env (buffered_response b)"
    using that by (intro io_post_return) (auto simp: docker_outcome_def List.map_filter_def)
  show ?thesis
    unfolding authorize_fetched_manifest_def Let_def
    by (auto split: docker_manifest_kind.split option.split
        intro!: passed docker_manifest_failure_sees docker_scanned_manifest_sees simp: unscanned_manifest_def)
qed

lemma rewrite_challenge_status [simp]:
  "rsp_status (rewrite_docker_auth_challenge env base hs resp) = rsp_status resp"
  "rsp_body (rewrite_docker_auth_challenge env base hs resp) = rsp_body resp"
  by (auto simp: rewrite_docker_auth_challenge_def split: option.split)

lemma forward_request_sees:
  "io_sees (observe config) (forward_request_to_base env base q)
     (\<lambda>_ obs. obs = [Forwarded (forwarded_request env base q)])"
  by (auto simp: forward_request_to_base_def io_post_def io_bind_Some_iff run_send io_run_simps List.map_filter_def)

lemma fetch_failure_sees:
  "io_sees (observe (env_config env)) (docker_manifest_fetch_failure env base uri hs
     (Artifact (docker_reference_target request)) reason) (docker_outcome env request)"
proof -
  let ?h = "observe (env_config env)" and ?open = "ss_fail_open (cf_scan (env_config env))"
  let ?q = "\<lparr>cq_method = ''GET'', cq_uri = uri, cq_headers = hs, cq_body = []\<rparr>"
  have fwd: "io_sees ?h (io_bind (forward_request_to_base env base ?q) (\<lambda>r. io_return (f r)))
      (\<lambda>_ obs. obs = [Forwarded (forwarded_request env base ?q)])" for f :: "_ \<Rightarrow> response + response"
    by (rule io_post_bind [OF forward_request_sees]) (auto intro!: io_post_return)
  have "io_sees ?h (if \<not> ?open then io_return (Inl x)
      else io_bind (forward_request_to_base env base ?q) (\<lambda>r. io_return (f r)))
      (\<lambda>r obs. docker_outcome env request r (Decided (Artifact (docker_reference_target request)) ?open # obs))"
    for f :: "_ \<Rightarrow> response + response" and x
  proof (cases ?open)
    case True
    then show ?thesis by (simp, intro io_post_weaken [OF fwd]) (auto simp: docker_outcome_def)
  next
    case False
    then show ?thesis by (auto intro!: io_post_return simp: docker_outcome_def List.map_filter_simps)
  qed
  then show ?thesis
    unfolding docker_manifest_fetch_failure_def
    by (intro io_sees_emit [where ob = "Decided (Artifact (docker_reference_target request)) ?open"]) simp_all
qed

lemma authorize_docker_manifest_inner_sees:
  "io_sees (observe (env_config env)) (authorize_docker_manifest_inner env base repository kind hs request uri)
     (docker_outcome env request)"
proof -
  let ?h = "observe (env_config env)"
  have fetch: "io_post (fetch_docker_manifest env base' uri hs) (\<lambda>r evs. List.map_filter ?h evs = [] \<and>
      (\<forall>resp. r = Inr (FetchForward resp) \<longrightarrow> rsp_status resp \<noteq> 200))" for base'
    by (auto simp: fetch_docker_manifest_def io_post_def io_bind_Some_iff run_send io_run_simps docker_fetched_def
        List.map_filter_def res_bind_Inr_iff response_from_nexus_def split: sum.splits if_splits)
  show ?thesis
    unfolding authorize_docker_manifest_inner_def
  proof (rule io_post_bind [OF fetch], goal_cases)
    case (1 fetched evs)
    have "docker_outcome env request (Inr resp) []" if "fetched = Inr (FetchForward resp)" for resp
      using 1 that by (auto simp: docker_outcome_def unscanned_manifest_def)
    with 1 show ?case
      by (auto split: sum.split docker_manifest_fetch.split
          intro!: fetch_failure_sees authorize_fetched_manifest_sees io_post_return)
  qed
qed


end
