(* ===== verification/Proxy.thy ===== *)
theory Proxy
  imports Docker
begin

text \<open>
  The entry point of the proxy: \<^verbatim>\<open>proxy_handler\<close> of \<^verbatim>\<open>crates/proxy/src/gateway.rs\<close>, which composes the
  catalog, the classifier, the scans and the forwarding; and the two fixed answers of
  \<^verbatim>\<open>crates/proxy/src/admin.rs\<close> it uses. The properties of the whole request path follow.
\<close>

section \<open>The handler\<close>

definition admin_disabled :: response where
  "admin_disabled = response_with_text 404 (''admin API is disabled'' @ newline)"

definition admin_unknown :: response where
  "admin_unknown = response_with_text 404 (''admin route not found'' @ newline)"

text \<open>
  The part that may answer a download itself: \<^const>\<open>None\<close> if the request goes on to Nexus.
\<close>

definition authorize_artifact_download ::
  "('c, 'w) env \<Rightarrow> nexus_repository \<Rightarrow> client_request \<Rightarrow> artifact_target \<Rightarrow> requester option \<Rightarrow>
   ('c, 'w, response option) action" where
  "authorize_artifact_download env repository q a requester =
     (let refuse = (\<lambda>r. io_return (case r of Inl resp \<Rightarrow> Some resp | Inr _ \<Rightarrow> None))
      in case artifact_scanner_for_format (env_config env) (nr_format repository) of
           Some kind \<Rightarrow>
             if cq_method q = ''HEAD'' then io_return None
             else if header_contains (cq_headers q) ''range'' then
               io_bind (handle_unsupported_target env repository (Artifact a)
                 ''artifact range requests cannot be scanned'' requester) refuse
             else
               io_bind (authorize_artifact_target env repository a kind (cq_uri q) (cq_headers q) requester) (\<lambda>r.
                 io_return (case r of Inl resp \<Rightarrow> Some resp | Inr resp \<Rightarrow> resp))
         | None \<Rightarrow>
             io_bind (handle_unsupported_target env repository (Artifact a)
               (''artifact format '' @ nr_format repository @ '' is not mapped to a scanner'') requester) refuse)"

definition authorize_download ::
  "('c, 'w) env \<Rightarrow> nexus_repository \<Rightarrow> client_request \<Rightarrow> string \<Rightarrow> requester option \<Rightarrow> ('c, 'w, response option) action"
where
  "authorize_download env repository q stripped_path requester =
     (if cq_method q \<noteq> ''GET'' \<and> cq_method q \<noteq> ''HEAD'' then io_return None
      else
        (case classify_path (env_percent_decode env)
                \<lparr>cc_repository_format = nr_format repository, cc_osv_ecosystem = nr_osv_ecosystem repository\<rparr>
                (cq_method q) stripped_path of
           ProxyOnly \<Rightarrow> io_return None
         | Scan (Package package) \<Rightarrow>
             io_bind (authorize_package_target env repository (Package package) requester)
               (\<lambda>r. io_return (case r of Inl resp \<Rightarrow> Some resp | Inr _ \<Rightarrow> None))
         | Scan (Artifact a) \<Rightarrow> authorize_artifact_download env repository q a requester))"

definition forward_or_fail :: "('c, 'w) env \<Rightarrow> client_request \<Rightarrow> ('c, 'w, response) action" where
  "forward_or_fail env q =
     io_bind (forward_request env q) (\<lambda>r.
       io_return (case r of Inl e \<Rightarrow> bad_gateway e | Inr resp \<Rightarrow> resp))"

definition proxy_handler :: "('c, 'w) env \<Rightarrow> client_request \<Rightarrow> ('c, 'w, response) action" where
  "proxy_handler env q =
     (let path = uri_path (cq_uri q); requester = requester_basic env (cq_uri q) (cq_headers q)
      in if starts_with path ''/admin'' then
           io_return (if ns_admin_token (cf_nexus (env_config env)) \<noteq> None then admin_unknown else admin_disabled)
         else if starts_with path ''/trust/reports'' then
           io_return (response_with_text 404 (''Trust report not found'' @ newline))
         else if docker_registry_configured (env_config env) \<and> is_docker_registry_path path then
           handle_docker_registry_request env q
         else
           (case parse_repository_path (env_percent_decode env) path of
              None \<Rightarrow> forward_or_fail env q
            | Some rp \<Rightarrow>
                io_bind (io_get sh_catalog) (\<lambda>catalog.
                  case catalog_get catalog (rpath_repository rp) of
                    None \<Rightarrow> io_return (unknown_repository_response (rpath_repository rp))
                  | Some repository \<Rightarrow>
                      io_bind (authorize_download env repository q (rpath_stripped_path rp) requester) (\<lambda>answer.
                        case answer of
                          Some resp \<Rightarrow> io_return resp
                        | None \<Rightarrow> forward_or_fail env q))))"

section \<open>Observations of the handler\<close>

abbreviation observations :: "('c, 'w) env \<Rightarrow> event list \<Rightarrow> observation list" where
  "observations env evs \<equiv> List.map_filter (observe (env_config env)) evs"

text \<open>What a request may lead to: nothing, one request to Nexus, one decision, or a permission and then a request.\<close>

definition handler_trace :: "observation list \<Rightarrow> bool" where
  "handler_trace obs \<longleftrightarrow>
     obs = [] \<or> (\<exists>req. obs = [Forwarded req]) \<or> (\<exists>t b. obs = [Decided t b]) \<or>
     (\<exists>t req. obs = [Decided t True, Forwarded req])"

lemma handler_trace_simps [simp]:
  "handler_trace []" "handler_trace [Forwarded req]" "handler_trace [Decided t b]"
  "handler_trace [Decided t True, Forwarded req]"
  by (simp_all add: handler_trace_def)

lemma forward_or_fail_sees:
  "io_sees (observe (env_config env)) (forward_or_fail env q)
     (\<lambda>_ obs. obs = [Forwarded (forwarded_request env (env_nexus_base_url env) q)])"
  unfolding forward_or_fail_def forward_request_def
  by (rule io_post_bind [OF forward_request_sees]) (auto intro!: io_post_return)

text \<open>Whether an answer to a download stands for a refusal, and what was decided on the way.\<close>

definition download_outcome :: "scan_target \<Rightarrow> response option \<Rightarrow> observation list \<Rightarrow> bool" where
  "download_outcome t answer obs \<longleftrightarrow>
     (case answer of
        None \<Rightarrow> obs = [Decided t True]
      | Some resp \<Rightarrow> obs = [Decided t False] \<or> obs = [Decided t True] \<or> obs = [] \<and> rsp_status resp \<noteq> 200)"

lemma sees_refuse:
  assumes "io_sees h m (\<lambda>r obs. obs = [Decided t (\<not> isl r)])"
  shows "io_sees h (io_bind m (\<lambda>r. io_return (case r of Inl resp \<Rightarrow> Some resp | Inr _ \<Rightarrow> None)))
    (\<lambda>answer obs. obs = [Decided t (answer = None)])"
  by (rule io_post_bind [OF assms]) (auto intro!: io_post_return simp: List.map_filter_simps split: sum.split)

lemma authorize_artifact_download_sees:
  assumes "cq_method q \<noteq> ''HEAD''"
  shows "io_sees (observe (env_config env)) (authorize_artifact_download env repository q a requester)
    (download_outcome (Artifact a))"
proof -
  let ?h = "observe (env_config env)"
  have refused: "io_sees ?h (io_bind (handle_unsupported_target env repository (Artifact a) reason requester)
      (\<lambda>r. io_return (case r of Inl resp \<Rightarrow> Some resp | Inr _ \<Rightarrow> None))) (download_outcome (Artifact a))" for reason
    by (rule io_post_weaken [OF sees_refuse [OF handle_unsupported_target_sees]])
      (auto simp: download_outcome_def split: option.split)
  have scanned: "io_sees ?h (io_bind (authorize_artifact_target env repository a kind (cq_uri q) (cq_headers q) requester)
      (\<lambda>r. io_return (case r of Inl resp \<Rightarrow> Some resp | Inr resp \<Rightarrow> resp))) (download_outcome (Artifact a))" for kind
    by (rule io_post_bind [OF authorize_artifact_target_sees])
      (auto intro!: io_post_return simp: download_outcome_def artifact_outcome_def List.map_filter_simps
        split: sum.splits option.splits)
  show ?thesis
    using assms refused scanned by (simp add: authorize_artifact_download_def Let_def split: option.split)
qed

lemma authorize_download_sees:
  "io_sees (observe (env_config env)) (authorize_download env repository q path requester)
    (\<lambda>answer obs. obs = [] \<or> (\<exists>t b. obs = [Decided t b] \<and> (answer = None \<longrightarrow> b)))"
proof -
  let ?h = "observe (env_config env)"
  let ?Q = "\<lambda>answer obs. obs = [] \<or> (\<exists>t b. obs = [Decided t b] \<and> (answer = None \<longrightarrow> b))"
  have none: "io_sees ?h (io_return x) ?Q" for x :: "response option"
    by (intro io_post_return) (simp add: List.map_filter_simps)
  have package: "io_sees ?h (io_bind (authorize_package_target env repository (Package p) requester)
      (\<lambda>r. io_return (case r of Inl resp \<Rightarrow> Some resp | Inr _ \<Rightarrow> None))) ?Q" for p
    by (rule io_post_weaken [OF sees_refuse [OF authorize_package_target_sees]]) auto
  have artifact: "io_sees ?h (authorize_artifact_download env repository q a requester) ?Q" for a
  proof (cases "cq_method q = ''HEAD''")
    case True
    show ?thesis
    proof (cases "artifact_scanner_for_format (env_config env) (nr_format repository)")
      case None
      have "io_sees ?h (io_bind (handle_unsupported_target env repository (Artifact a) reason requester)
          (\<lambda>r. io_return (case r of Inl resp \<Rightarrow> Some resp | Inr _ \<Rightarrow> None))) ?Q" for reason
        by (rule io_post_weaken [OF sees_refuse [OF handle_unsupported_target_sees]]) auto
      with None show ?thesis by (simp add: authorize_artifact_download_def Let_def)
    next
      case (Some kind)
      with True none show ?thesis by (simp add: authorize_artifact_download_def Let_def)
    qed
  next
    case False
    show ?thesis
      by (rule io_post_weaken [OF authorize_artifact_download_sees [OF False]])
        (auto simp: download_outcome_def split: option.splits)
  qed
  show ?thesis
    using none package artifact
    by (auto simp: authorize_download_def split: request_classification.split scan_target.split)
qed

lemma handle_docker_sees:
  "io_sees (observe (env_config env)) (handle_docker_registry_request env q) (\<lambda>_ obs. handler_trace obs)"
proof -
  let ?h = "observe (env_config env)"
  have fwd: "io_sees ?h (forward_docker_request env base q) (\<lambda>_ obs. handler_trace obs)" for base
    unfolding forward_docker_request_def
    by (rule io_post_bind [OF forward_request_sees [where config = "env_config env"]]) (auto intro!: io_post_return)
  have manifest: "io_sees ?h (authorize_docker_manifest env base repository kind hs request uri) (\<lambda>_ obs. handler_trace obs)"
    for base repository kind hs request uri
    unfolding authorize_docker_manifest_def
    by (rule io_post_bind [OF authorize_docker_manifest_inner_sees]) (auto intro!: io_post_return simp: docker_outcome_def)
  show ?thesis
    unfolding handle_docker_registry_request_def
    by (auto split: option.split sum.split prod.split simp: io_post_def [of "\<lambda>_. None"] List.map_filter_simps
        intro!: fwd manifest io_post_return io_post_bind [where R = "\<lambda>_ evs. evs = []"] io_post_get)
qed

text \<open>
  Nothing is passed on after a refusal: every request to this handler leads to at most one decision and at most
  one request passed on to Nexus, in this order, and the request is passed on only if the decision,
  when there is one, allows it.
\<close>

theorem handler_passes_on_only_permitted:
  "io_post (proxy_handler env q) (\<lambda>_ evs. handler_trace (observations env evs))"
proof -
  let ?h = "observe (env_config env)"
  have fwd: "io_sees ?h (forward_or_fail env q) (\<lambda>_ obs. handler_trace obs)"
    by (rule io_post_weaken [OF forward_or_fail_sees]) simp
  have repo: "io_sees ?h (io_bind (authorize_download env repository q path requester) (\<lambda>answer.
      case answer of Some resp \<Rightarrow> io_return resp | None \<Rightarrow> forward_or_fail env q)) (\<lambda>_ obs. handler_trace obs)"
    for repository path requester
  proof (rule io_post_bind [OF authorize_download_sees], goal_cases)
    case (1 answer evs)
    then show ?case
      by (cases answer) (auto intro!: io_post_return io_post_weaken [OF forward_or_fail_sees])
  qed
  have ret: "io_sees ?h (io_return resp) (\<lambda>_ obs. handler_trace obs)" for resp :: response
    by (intro io_post_return) (simp add: List.map_filter_simps)
  have catalog: "io_sees ?h (io_bind (io_get sh_catalog) f) (\<lambda>_ obs. handler_trace obs)"
    if "\<And>c. io_sees ?h (f c) (\<lambda>_ obs. handler_trace obs)" for f :: "_ \<Rightarrow> ('a, 'b, response) action"
    by (rule io_sees_bind [OF _ that]) (auto intro!: io_intros)
  show ?thesis
    unfolding proxy_handler_def Let_def
    by (auto split: option.split intro!: ret fwd repo catalog handle_docker_sees)
qed

section \<open>Downloads from repositories\<close>

lemma parse_repository_path_guards:
  assumes "parse_repository_path pdec path = Some rp"
  shows "\<not> starts_with path ''/admin''" "\<not> starts_with path ''/trust/reports''" "\<not> is_docker_registry_path path"
proof -
  obtain rest where "path = ''/repository/'' @ rest"
    using assms by (auto simp: parse_repository_path_def strip_prefix_def prefix_def split: option.splits if_splits)
  then show "\<not> starts_with path ''/admin''" "\<not> starts_with path ''/trust/reports''" "\<not> is_docker_registry_path path"
    by (auto simp: is_docker_registry_path_def)
qed

lemma proxy_repository_run:
  assumes "parse_repository_path (env_percent_decode env) (uri_path (cq_uri q)) = Some rp"
  shows "proxy_handler env q s =
    (case catalog_get (sh_catalog s) (rpath_repository rp) of
       None \<Rightarrow> Some (unknown_repository_response (rpath_repository rp), [], s)
     | Some repository \<Rightarrow>
         io_bind (authorize_download env repository q (rpath_stripped_path rp)
             (requester_basic env (cq_uri q) (cq_headers q))) (\<lambda>answer.
           case answer of Some resp \<Rightarrow> io_return resp | None \<Rightarrow> forward_or_fail env q) s)"
  using parse_repository_path_guards [OF assms] assms
  by (simp add: proxy_handler_def io_bind_def io_run_simps split: option.splits)

text \<open>
  C32. A repository that is not in the catalog is closed: every request to it, whatever its method, is
  answered 403, and neither Nexus nor OSV nor the cache is touched.
\<close>

theorem unknown_repository_refused:
  assumes "parse_repository_path (env_percent_decode env) (uri_path (cq_uri q)) = Some rp"
    and "catalog_get (sh_catalog s) (rpath_repository rp) = None"
  shows "\<exists>resp. proxy_handler env q s = Some (resp, [], s) \<and> rsp_status resp = 403"
  using assms by (simp add: proxy_repository_run unknown_repository_response_def response_with_text_def)

definition sample_request :: "string \<Rightarrow> client_request" where
  "sample_request path =
     \<lparr>cq_method = ''GET'', cq_uri = \<lparr>uri_path = path, uri_query = None\<rparr>, cq_headers = [], cq_body = []\<rparr>"

theorem unknown_repository_refused_witness:
  "\<exists>resp. proxy_handler sample_env (sample_request ''/repository/pypi/simple/'') (sample_shared []) =
     Some (resp, [], sample_shared []) \<and> rsp_status resp = 403"
proof (rule unknown_repository_refused)
  have "parse_repository_path id ''/repository/pypi/simple/'' =
      Some \<lparr>rpath_repository = ''pypi'', rpath_stripped_path = ''/simple/''\<rparr>"
    by code_simp
  then show "parse_repository_path (env_percent_decode sample_env)
      (uri_path (cq_uri (sample_request ''/repository/pypi/simple/''))) =
      Some \<lparr>rpath_repository = ''pypi'', rpath_stripped_path = ''/simple/''\<rparr>"
    by (simp add: sample_env_def sample_request_def)
  show "catalog_get (sh_catalog (sample_shared []))
      (rpath_repository \<lparr>rpath_repository = ''pypi'', rpath_stripped_path = ''/simple/''\<rparr>) = None"
    by (simp add: catalog_get_def sample_shared_def sample_catalog_def btm_get_def)
qed

text \<open>
  C2. A download that is recognised as a package version is judged exactly once, before anything else, and under
  exactly that package: either it is refused and nothing is passed on, or it is allowed and the client's request is
  then passed on to Nexus.
\<close>

theorem package_download_decided:
  assumes "parse_repository_path (env_percent_decode env) (uri_path (cq_uri q)) = Some rp"
    and "catalog_get (sh_catalog s) (rpath_repository rp) = Some repository"
    and "cq_method q = ''GET'' \<or> cq_method q = ''HEAD''"
    and "classify_path (env_percent_decode env)
           \<lparr>cc_repository_format = nr_format repository, cc_osv_ecosystem = nr_osv_ecosystem repository\<rparr>
           (cq_method q) (rpath_stripped_path rp) = Scan (Package package)"
    and "proxy_handler env q s = Some (resp, evs, s')"
  shows "observations env evs = [Decided (Package package) False] \<or>
    observations env evs = [Decided (Package package) True,
      Forwarded (forwarded_request env (env_nexus_base_url env) q)]"
proof -
  let ?h = "observe (env_config env)" and ?r = "requester_basic env (cq_uri q) (cq_headers q)"
  have download: "authorize_download env repository q (rpath_stripped_path rp) ?r =
      io_bind (authorize_package_target env repository (Package package) ?r)
        (\<lambda>r. io_return (case r of Inl resp \<Rightarrow> Some resp | Inr _ \<Rightarrow> None))"
    using assms(3,4) by (auto simp: authorize_download_def)
  have "io_sees ?h (io_bind (authorize_download env repository q (rpath_stripped_path rp) ?r) (\<lambda>answer.
      case answer of Some resp \<Rightarrow> io_return resp | None \<Rightarrow> forward_or_fail env q))
      (\<lambda>_ obs. obs = [Decided (Package package) False] \<or>
        obs = [Decided (Package package) True, Forwarded (forwarded_request env (env_nexus_base_url env) q)])"
    unfolding download
  proof (rule io_post_bind [OF sees_refuse [OF authorize_package_target_sees]], goal_cases)
    case (1 answer evs)
    then show ?case
      by (cases answer) (auto intro!: io_post_return io_post_weaken [OF forward_or_fail_sees])
  qed
  then show ?thesis
    by (rule io_postD) (use assms(5) in \<open>simp add: proxy_repository_run [OF assms(1)] assms(2)\<close>)
qed

definition left_pad_request :: client_request where
  "left_pad_request = sample_request ''/repository/npm-proxy/left-pad/-/left-pad-1.0.0.tgz''"

lemma left_pad_path:
  "parse_repository_path (env_percent_decode sample_env) (uri_path (cq_uri left_pad_request)) =
     Some \<lparr>rpath_repository = ''npm-proxy'', rpath_stripped_path = ''/left-pad/-/left-pad-1.0.0.tgz''\<rparr>"
proof -
  have "parse_repository_path id ''/repository/npm-proxy/left-pad/-/left-pad-1.0.0.tgz'' =
      Some \<lparr>rpath_repository = ''npm-proxy'', rpath_stripped_path = ''/left-pad/-/left-pad-1.0.0.tgz''\<rparr>"
    by code_simp
  then show ?thesis by (simp add: sample_env_def left_pad_request_def sample_request_def)
qed

lemma left_pad_repository:
  "catalog_get (sh_catalog (sample_shared replies)) ''npm-proxy'' = Some (sample_repository ''npm-proxy'' ''npm'')"
  by (simp add: catalog_get_def sample_shared_def sample_catalog_def btm_get_def)

lemma left_pad_classified:
  "classify_path (env_percent_decode sample_env)
     \<lparr>cc_repository_format = nr_format (sample_repository ''npm-proxy'' ''npm''),
      cc_osv_ecosystem = nr_osv_ecosystem (sample_repository ''npm-proxy'' ''npm'')\<rparr>
     (cq_method left_pad_request) ''/left-pad/-/left-pad-1.0.0.tgz'' = Scan sample_target"
proof -
  have "classify_path id \<lparr>cc_repository_format = ''npm'', cc_osv_ecosystem = None\<rparr> ''GET''
      ''/left-pad/-/left-pad-1.0.0.tgz'' = Scan sample_target"
    by code_simp
  then show ?thesis by (simp add: sample_env_def sample_repository_def left_pad_request_def sample_request_def)
qed

theorem package_download_decided_witness:
  "\<exists>resp evs s'. proxy_handler sample_env left_pad_request vulnerable_shared = Some (resp, evs, s') \<and>
     (observations sample_env evs = [Decided sample_target False] \<or>
      observations sample_env evs = [Decided sample_target True,
        Forwarded (forwarded_request sample_env (env_nexus_base_url sample_env) left_pad_request)])"
proof -
  let ?rp = "\<lparr>rpath_repository = ''npm-proxy'', rpath_stripped_path = ''/left-pad/-/left-pad-1.0.0.tgz''\<rparr>"
  let ?repo = "sample_repository ''npm-proxy'' ''npm''"
  have catalog: "catalog_get (sh_catalog vulnerable_shared) (rpath_repository ?rp) = Some ?repo"
    by (simp add: vulnerable_shared_def left_pad_repository)
  have get: "cq_method left_pad_request = ''GET''" by (simp add: left_pad_request_def sample_request_def)
  have classified: "classify_path (env_percent_decode sample_env)
      \<lparr>cc_repository_format = nr_format ?repo, cc_osv_ecosystem = nr_osv_ecosystem ?repo\<rparr>
      (cq_method left_pad_request) (rpath_stripped_path ?rp) =
      Scan (Package (from_osv ''npm'' ''left-pad'' ''1.0.0''))"
    using left_pad_classified by (simp add: sample_target_def)
  obtain r evs0 s0 where "authorize_package_target sample_env ?repo sample_target
      (requester_basic sample_env (cq_uri left_pad_request) (cq_headers left_pad_request)) vulnerable_shared =
      Some (r, evs0, s0)"
    using authorize_package_hit [OF sample_hit sample_now] by blast
  moreover have "forward_or_fail sample_env left_pad_request s0 \<noteq> None"
    by (simp add: forward_or_fail_def forward_request_def forward_request_to_base_def io_bind_def run_send io_run_simps)
  ultimately obtain resp evs s' where run:
    "proxy_handler sample_env left_pad_request vulnerable_shared = Some (resp, evs, s')"
    using left_pad_classified get catalog
    by (cases r) (auto simp: proxy_repository_run [OF left_pad_path] authorize_download_def sample_target_def
        io_bind_def io_run_simps)
  show ?thesis
    using package_download_decided [OF left_pad_path catalog _ classified run] run get by (auto simp: sample_target_def)
qed

section \<open>A vulnerable package\<close>

text \<open>
  C3. A vulnerable package does not get through: a download of a package version that is not cached, for which
  OSV reports findings that the active policy blocks, is refused; nothing is passed on to Nexus; and
  the findings are stored in the cache.
\<close>

theorem vulnerable_package_refused:
  assumes "parse_repository_path (env_percent_decode env) (uri_path (cq_uri q)) = Some rp"
    and "catalog_get (sh_catalog s) (rpath_repository rp) = Some repository"
    and "cq_method q = ''GET'' \<or> cq_method q = ''HEAD''"
    and "classify_path (env_percent_decode env)
           \<lparr>cc_repository_format = nr_format repository, cc_osv_ecosystem = nr_osv_ecosystem repository\<rparr>
           (cq_method q) (rpath_stripped_path rp) = Scan (Package package)"
    and "get_cache env (cache_key_for_target (Package package)) s = Some (Inr None, evs0, s0)"
    and "osv_vulnerabilities (env_http env) (osv_json (env_decoders env)) (send env OsvLookup)
           (ns_osv_api_url (cf_nexus (env_config env))) (Package package) s0 = Some (Inr vs, evs1, s1)"
    and "store_cache env (cache_key_for_target (Package package)) (cached_scan_new vs) s1 = Some (stored, evs2, s2)"
    and "env_now env s2 = (now, s3)"
    and "evaluation_is_blocked (evaluate_at (env_time env) (ap_policy_set (sh_active_policy s2))
           (context_for (sh_active_policy s2) (nr_name repository) (nr_format repository)) (Package package) vs now)"
  shows "\<exists>resp evs s'. proxy_handler env q s = Some (resp, evs, s') \<and>
    observations env evs = [Decided (Package package) False] \<and>
    CacheStore (cache_key_for_target (Package package)) (cached_scan_new vs) \<in> set evs"
proof -
  let ?r = "requester_basic env (cq_uri q) (cq_headers q)"
  obtain resp evs s' where run: "authorize_package_target env repository (Package package) ?r s =
      Some (Inl resp, evs, s')"
    and stored: "CacheStore (cache_key_for_target (Package package)) (cached_scan_new vs) \<in> set evs"
    using authorize_package_fresh [OF assms(5-8), of repository ?r] assms(9) by (auto simp: isl_def)
  have "authorize_download env repository q (rpath_stripped_path rp) ?r s = Some (Some resp, evs, s')"
    using run assms(3,4) by (auto simp: authorize_download_def io_bind_def io_run_simps)
  then have "proxy_handler env q s = Some (resp, evs, s')"
    by (simp add: proxy_repository_run [OF assms(1)] assms(2) io_bind_def io_run_simps)
  moreover have "observations env evs = [Decided (Package package) False]"
    using io_postD [OF authorize_package_target_sees run] by simp
  ultimately show ?thesis using stored by blast
qed

definition osv_record :: osv_vulnerability where
  "osv_record =
     \<lparr>ov_id = ''GHSA-1'', ov_aliases = [''CVE-1''], ov_summary = None, ov_details = None, ov_severity = [],
      ov_references = [], ov_affected = [], ov_database_specific = JObject [(''severity'', JString ''HIGH'')]\<rparr>"

definition osv_env :: "(sample_cache, sample_world) env" where
  "osv_env = sample_env\<lparr>env_decoders := sample_decoders\<lparr>osv_json :=
     (\<lambda>_. Inr \<lparr>or_vulns = [osv_record], or_next_page_token = None\<rparr>)\<rparr>\<rparr>"

theorem vulnerable_package_refused_witness:
  "\<exists>resp evs s'. proxy_handler osv_env left_pad_request (sample_shared [Inr (sample_reply 200 [])]) =
     Some (resp, evs, s') \<and> observations osv_env evs = [Decided sample_target False]"
proof -
  let ?s = "sample_shared [Inr (sample_reply 200 [])]" and ?p = "from_osv ''npm'' ''left-pad'' ''1.0.0''"
  let ?rp = "\<lparr>rpath_repository = ''npm-proxy'', rpath_stripped_path = ''/left-pad/-/left-pad-1.0.0.tgz''\<rparr>"
  let ?repo = "sample_repository ''npm-proxy'' ''npm''" and ?v = "into_vulnerability ?p osv_record"
  let ?key = "cache_key_for_target (Package ?p)"
  let ?s2 = "(sample_shared [])\<lparr>sh_cache := \<lparr>clean = [], vulnerable = [(?key, cached_scan_new [?v])]\<rparr>\<rparr>"
  have path: "parse_repository_path (env_percent_decode osv_env) (uri_path (cq_uri left_pad_request)) = Some ?rp"
    using left_pad_path by (simp add: osv_env_def)
  have catalog: "catalog_get (sh_catalog ?s) (rpath_repository ?rp) = Some ?repo" by (simp add: left_pad_repository)
  have get: "cq_method left_pad_request = ''GET'' \<or> cq_method left_pad_request = ''HEAD''"
    by (simp add: left_pad_request_def sample_request_def)
  have classified: "classify_path (env_percent_decode osv_env)
      \<lparr>cc_repository_format = nr_format ?repo, cc_osv_ecosystem = nr_osv_ecosystem ?repo\<rparr>
      (cq_method left_pad_request) (rpath_stripped_path ?rp) = Scan (Package ?p)"
    using left_pad_classified by (simp add: osv_env_def sample_target_def)
  have miss: "get_cache osv_env ?key ?s = Some (Inr None, [CacheLookup ?key], ?s)"
    by (simp add: get_cache_def io_call_run osv_env_def sample_env_def sample_shared_def cache_get_def list_moka_def)
  have osv: "osv_vulnerabilities (env_http osv_env) (osv_json (env_decoders osv_env)) (send osv_env OsvLookup)
      (ns_osv_api_url (cf_nexus (env_config osv_env))) (Package ?p) ?s =
      Some (Inr [?v], [HttpSent OsvLookup (osv_request ''osv'' (projr (osv_query_from_package ?p None)))], sample_shared [])"
    unfolding osv_vulnerabilities_def query_package_def scan_target.case
    by (subst query_loop.simps)
      (simp add: osv_query_from_package_def from_osv_def send_def io_call_run osv_env_def sample_env_def
        sample_send_def sample_shared_def osv_page_def res_bind_def map_err_def sample_config_def sample_nexus_def
        is_success_def sample_reply_def opt_filter_def)
  have store: "store_cache osv_env ?key (cached_scan_new [?v]) (sample_shared []) =
      Some (Inr (), [CacheStore ?key (cached_scan_new [?v])], ?s2)"
    by (simp add: store_cache_def io_call_run osv_env_def sample_env_def sample_shared_def cache_put_def
        put_steps_def has_vulnerabilities_def cached_scan_new_def list_moka_def)
  have now: "env_now osv_env ?s2 = (sample_instant 0, ?s2)" by (simp add: osv_env_def sample_env_def)
  have "evaluation_is_blocked (evaluate_at sample_time_lib default_policy_set
      (policy_set_context default_policy_set ''npm-proxy'' ''npm'') (Package ?p) [?v] (sample_instant 0))"
    by code_simp
  then have blocked: "evaluation_is_blocked (evaluate_at (env_time osv_env) (ap_policy_set (sh_active_policy ?s2))
      (context_for (sh_active_policy ?s2) (nr_name ?repo) (nr_format ?repo)) (Package ?p) [?v] (sample_instant 0))"
    by (simp add: osv_env_def sample_env_def sample_shared_def context_for_def sample_repository_def)
  show ?thesis
    using vulnerable_package_refused [OF path catalog get classified miss osv store now blocked]
    by (auto simp: sample_target_def)
qed

section \<open>Paths the proxy does not look through\<close>

text \<open>
  What the URL standard says of setting a path: a segment followed by two dots disappears.
\<close>

definition dot_segment_law :: "url_lib \<Rightarrow> bool" where
  "dot_segment_law lib \<longleftrightarrow>
     (\<forall>p rest u. url_set_path lib (p @ ''/x/../'' @ rest) u = url_set_path lib (p @ ''/'' @ rest) u)"

lemma dotted_path_not_parsed: "parse_repository_path pdec (''/x/../'' @ rest) = None"
  by (simp add: parse_repository_path_def strip_prefix_def)

lemma build_nexus_url_dotted:
  assumes "dot_segment_law lib" "rest \<noteq> []"
  shows "build_nexus_url lib base \<lparr>uri_path = ''/x/../'' @ rest, uri_query = query\<rparr> =
    build_nexus_url lib base \<lparr>uri_path = ''/'' @ rest, uri_query = query\<rparr>"
proof -
  have "url_set_path lib (p @ ''/x/../'' @ rest) base = url_set_path lib (p @ ''/'' @ rest) base" for p
    using assms(1) by (simp add: dot_segment_law_def)
  from this [of "[]"] this [of "trim_end_matches (CHR ''/'') (url_path lib base)"] show ?thesis
    using assms(2) by (simp add: build_nexus_url_def Let_def)
qed


definition resolve_dots :: "string \<Rightarrow> string" where
  "resolve_dots p =
     join ''/'' (foldl (\<lambda>stack seg. if seg = ''..'' then butlast stack else stack @ [seg]) [] (split_on (CHR ''/'') p))"

lemma resolve_dots_law: "resolve_dots (p @ ''/x/../'' @ rest) = resolve_dots (p @ ''/'' @ rest)"
proof -
  have sep: "split_on (CHR ''/'') (xs @ CHR ''/'' # ys) = split_on (CHR ''/'') xs @ split_on (CHR ''/'') ys" for xs ys
    by (induction xs) (auto split: list.split)
  have "split_on (CHR ''/'') (p @ ''/x/../'' @ rest) =
      split_on (CHR ''/'') p @ [''x'', ''..''] @ split_on (CHR ''/'') rest"
    using sep [of p "''x/../'' @ rest"] by simp
  with sep [of p rest] show ?thesis by (simp add: resolve_dots_def)
qed


text \<open>
  In Docker registry mode the request for a manifest is recognised on the undecoded path: a GET in which a letter
  of \<open>manifests\<close> is percent-encoded is passed on without a scan, whatever scanner is configured.
\<close>

theorem encoded_manifest_path_unscanned:
  assumes "registry_base_url env = Some base" "cq_method q = ''GET''"
    and "uri_path (cq_uri q) = ''/v2/library/nginx/%6danifests/latest''"
  shows "\<exists>resp s'. handle_docker_registry_request env q s =
    Some (resp, [HttpSent ForwardRequest (forwarded_request env (fst base) q)], s')"
proof -
  have "rsplit_once ''/manifests/'' ''library/nginx/%6danifests/latest'' = None" by code_simp
  then have "parse_manifest_request_path pdec ''/v2/library/nginx/%6danifests/latest'' = None" for pdec
    by (simp add: parse_manifest_request_path_def strip_prefix_def)
  then show ?thesis
    using assms
    by (simp add: handle_docker_registry_request_def forward_docker_request_def forward_request_to_base_def
        io_bind_def run_send io_run_simps)
qed

definition docker_env :: "(sample_cache, sample_world) env" where
  "docker_env = sample_env
     \<lparr>env_config := sample_config (sample_nexus\<lparr>ns_docker_registry_base_url := Some ''registry'',
        ns_docker_repository_name := Some ''docker-proxy''\<rparr>) [(''docker'', TrivyScanner)],
      env_url_parse := (\<lambda>_. Inr \<lparr>pu_scheme = ''https'', pu_host = Some (Domain ''registry.example''),
        pu_cannot_be_a_base = False, pu_path = ''/'', pu_query = None, pu_fragment = None, pu_username = [],
        pu_password = None\<rparr>)\<rparr>"

theorem encoded_manifest_path_unscanned_witness:
  "\<exists>resp req s'. handle_docker_registry_request docker_env (sample_request ''/v2/library/nginx/%6danifests/latest'')
     (sample_shared []) = Some (resp, [HttpSent ForwardRequest req], s')"
proof -
  obtain base where "registry_base_url docker_env = Some base"
    by (simp add: registry_base_url_def docker_env_def sample_config_def ok_def)
  from encoded_manifest_path_unscanned [OF this, of "sample_request ''/v2/library/nginx/%6danifests/latest''" "sample_shared []"] show ?thesis
    by (auto simp: sample_request_def)
qed

end
