(* ===== verification/Report_Html.thy ===== *)
theory Report_Html
  imports Config Trust_Report
begin

text \<open>
  The HTML of a local trust report (\<^verbatim>\<open>render_report\<close> and its helpers in
  \<^verbatim>\<open>crates/proxy/src/trust_reports.rs\<close>). The static parts of the page are the literals of the code. The URL
  parser and the text of an identifier are parameters.

  A rendered page is read by a scanner of HTML tags, which follows quoted attribute values. The lemmas
  show that no field of a report, whatever it contains, opens, closes or changes a tag; the only
  tags that depend on a report are links to HTTP URLs.
\<close>

section \<open>Rendering\<close>

fun escape_char :: "char \<Rightarrow> string" where
  "escape_char c =
     (if c = CHR ''&'' then ''&amp;''
      else if c = CHR ''<'' then ''&lt;''
      else if c = CHR ''>'' then ''&gt;''
      else if c = CHR 0x22 then ''&quot;''
      else if c = CHR 0x27 then ''&#39;''
      else [c])"

definition escape_text :: "string \<Rightarrow> string" where
  "escape_text s = concat (map escape_char s)"

definition html_fact :: "string \<Rightarrow> string \<Rightarrow> string" where
  \<open>html_fact label val =
     ''<div class="fact"><dt>'' @ escape_text label @ ''</dt><dd>'' @ escape_text val @ ''</dd></div>''\<close>

definition html_count :: "string \<Rightarrow> nat \<Rightarrow> string" where
  \<open>html_count label val =
     ''<div class="count"><strong>'' @ show_nat val @ ''</strong><span>'' @ escape_text label @ ''</span></div>''\<close>

definition fact_row :: "string \<Rightarrow> string \<Rightarrow> string" where
  "fact_row label val = ''<dt>'' @ escape_text label @ ''</dt><dd>'' @ escape_text val @ ''</dd>''"

definition is_http_url :: "(string \<Rightarrow> string + parsed_url) \<Rightarrow> string \<Rightarrow> bool" where
  "is_http_url parse u \<longleftrightarrow>
     (case parse u of Inl _ \<Rightarrow> False | Inr p \<Rightarrow> pu_scheme p = ''http'' \<or> pu_scheme p = ''https'')"

definition reference_link :: "(string \<Rightarrow> string + parsed_url) \<Rightarrow> reference \<Rightarrow> string" where
  \<open>reference_link parse r =
     ''<li>''
     @ (if is_http_url parse (ref_url r)
        then ''<a href="'' @ escape_text (ref_url r) @ ''" rel="noopener noreferrer">''
          @ escape_text (ref_url r) @ ''</a>''
        else escape_text (ref_url r))
     @ (case ref_kind r of None \<Rightarrow> [] | Some kind \<Rightarrow> '' ('' @ escape_text kind @ '')'')
     @ ''</li>''\<close>

definition severity_text :: "severity option \<Rightarrow> string" where
  "severity_text s = (case s of None \<Rightarrow> ''UNKNOWN'' | Some s \<Rightarrow> severity_as_str s)"

definition middle_dot :: string where
  "middle_dot = '' '' @ [CHR 0xC2, CHR 0xB7] @ '' ''"

definition vulnerability_details ::
  "(string \<Rightarrow> string + parsed_url) \<Rightarrow> string \<Rightarrow> vulnerability \<Rightarrow> string" where
  \<open>vulnerability_details parse target v =
     (let severity = severity_text (v_severity v); aliases = join '', '' (v_aliases v)
      in ''<details><summary>'' @ escape_text (v_id v) @ middle_dot @ escape_text severity
         @ ''</summary><div class="vulnerability"><dl>''
         @ fact_row ''ID'' (v_id v)
         @ fact_row ''Severity'' severity
         @ fact_row ''Aliases'' (if aliases = [] then ''None'' else aliases)
         @ fact_row ''Summary'' (unwrap_or (v_summary v) ''Not provided'')
         @ fact_row ''Component'' (unwrap_or (v_component_name v) target)
         @ fact_row ''Component version'' (unwrap_or (v_component_version v) ''Not provided'')
         @ fact_row ''Mitigation'' (unwrap_or (mitigation v target) ''Unknown'')
         @ ''<dt>Description</dt><dd class="description">''
         @ escape_text (unwrap_or (v_details v) ''No full description provided.'')
         @ ''</dd><dt>References</dt><dd>''
         @ (if v_references v = [] then ''None''
            else ''<ul class="references">'' @ concat (map (reference_link parse) (v_references v)) @ ''</ul>'')
         @ ''</dd></dl></div></details>'')\<close>

definition report_page_head :: string where
  \<open>report_page_head =
     join newline [
      ''<!doctype html>'',
      ''<html lang="en">'',
      ''<head>'',
      ''<meta charset="utf-8">'',
      ''<meta name="viewport" content="width=device-width, initial-scale=1">'',
      ''<meta name="color-scheme" content="light dark">'',
      ''<title>Trust ''
       @ [CHR 0xE2, CHR 0x80, CHR 0x94]
       @ '' Block report</title>'',
      ''<style>'',
      '':root{color-scheme:light dark;--bg:#f5f7fa;--panel:#fff;--text:#172033;--muted:#5f6b7a;-''
       @ ''-line:#d9e0e8;--accent:#2855d9;--danger:#b42318;--chip:#eef2f7}'',
      ''@media(prefers-color-scheme:dark){:root{--bg:#0f1420;--panel:#171e2c;--text:#edf2f8;--mu''
       @ ''ted:#a9b4c3;--line:#303a4c;--accent:#86a5ff;--danger:#ff8a80;--chip:#222c3d}}'',
      '':root[data-theme="light"]{color-scheme:light;--bg:#f5f7fa;--panel:#fff;--text:#172033;--''
       @ ''muted:#5f6b7a;--line:#d9e0e8;--accent:#2855d9;--danger:#b42318;--chip:#eef2f7}'',
      '':root[data-theme="dark"]{color-scheme:dark;--bg:#0f1420;--panel:#171e2c;--text:#edf2f8;-''
       @ ''-muted:#a9b4c3;--line:#303a4c;--accent:#86a5ff;--danger:#ff8a80;--chip:#222c3d}'',
      ''*{box-sizing:border-box}body{margin:0;background:var(--bg);color:var(--text);font-family''
       @ '':ui-sans-serif,system-ui,-apple-system,BlinkMacSystemFont,"Segoe UI",sans-serif;line-hei''
       @ ''ght:1.55}a{color:var(--accent);overflow-wrap:anywhere}header{border-bottom:1px solid var''
       @ ''(--line);background:var(--panel)}.header-inner,main{width:min(1120px,calc(100% - 32px));''
       @ ''margin:auto}.header-inner{min-height:72px;display:flex;align-items:center;justify-conten''
       @ ''t:space-between;gap:20px}.brand{display:flex;align-items:center;gap:10px;font-size:1.25r''
       @ ''em;font-weight:750}.brand svg{width:30px;height:30px;color:var(--accent)}button{border:1''
       @ ''px solid var(--line);border-radius:8px;background:var(--panel);color:var(--text);padding''
       @ '':8px 11px;cursor:pointer}main{padding:32px 0 56px}h1{font-size:clamp(1.75rem,4vw,2.5rem)''
       @ '';line-height:1.15;margin:0 0 8px}.lede{color:var(--muted);margin:0 0 28px}.panel{backgro''
       @ ''und:var(--panel);border:1px solid var(--line);border-radius:14px;padding:22px;margin-top''
       @ '':20px;box-shadow:0 8px 24px rgba(15,23,42,.05)}h2{font-size:1.15rem;margin:0 0 16px}.fac''
       @ ''ts{display:grid;grid-template-columns:repeat(auto-fit,minmax(220px,1fr));gap:14px}.fact ''
       @ ''dt{font-size:.78rem;text-transform:uppercase;letter-spacing:.06em;color:var(--muted)}.fa''
       @ ''ct dd{margin:3px 0 0;overflow-wrap:anywhere}.reason{color:var(--danger);font-weight:650}''
       @ ''.counts{display:grid;grid-template-columns:repeat(auto-fit,minmax(120px,1fr));gap:10px}.''
       @ ''count{background:var(--chip);border-radius:10px;padding:14px}.count strong{display:block''
       @ '';font-size:1.5rem}.count span{color:var(--muted);font-size:.85rem}.violations{margin:0;p''
       @ ''adding-left:22px}.violations li+li{margin-top:6px}details{border:1px solid var(--line);b''
       @ ''order-radius:10px;background:var(--panel)}details+details{margin-top:10px}summary{cursor''
       @ '':pointer;padding:14px 16px;font-weight:650}.vulnerability{border-top:1px solid var(--lin''
       @ ''e);padding:16px}.vulnerability dl{display:grid;grid-template-columns:minmax(90px,140px) ''
       @ ''1fr;gap:8px 14px;margin:0}.vulnerability dt{color:var(--muted)}.vulnerability dd{margin:''
       @ ''0;overflow-wrap:anywhere}.description{white-space:pre-wrap}.empty{color:var(--muted);mar''
       @ ''gin:0}.references{margin:0;padding-left:20px}.references li+li{margin-top:5px}@media(max''
       @ ''-width:560px){.header-inner,main{width:min(100% - 20px,1120px)}main{padding-top:22px}.pa''
       @ ''nel{padding:16px}.vulnerability dl{grid-template-columns:1fr;gap:2px}.vulnerability dd+d''
       @ ''t{margin-top:9px}}'',
      ''</style>'',
      ''<script>(()=>{try{const t=localStorage.getItem("trust-theme");if(t==="light"||t==="dark"''
       @ '')document.documentElement.dataset.theme=t}catch{}})()</script>'',
      ''</head>'',
      ''<body>'',
      ''<header><div class="header-inner"><div class="brand">'',
      ''<svg viewBox="0 0 32 32" role="img" aria-label="Shield with lock"><path fill="currentCol''
       @ ''or" d="M16 2 4.5 6.2v8.7c0 7.1 4.8 12.7 11.5 15.1 6.7-2.4 11.5-8 11.5-15.1V6.2L16 2Zm0 3''
       @ ''.2 8.5 3.1v6.6c0 5.4-3.4 9.9-8.5 12.1-5.1-2.2-8.5-6.7-8.5-12.1V8.3L16 5.2Z"/><path fill=''
       @ ''"currentColor" d="M12 15v-2a4 4 0 0 1 8 0v2h1v7H11v-7h1Zm2 0h4v-2a2 2 0 1 0-4 0v2Z"/></s''
       @ ''vg>'',
      ''<span>Trust</span></div><button id="theme-toggle" type="button" aria-label="Toggle color''
       @ '' theme" aria-pressed="false">Theme</button></div></header>'',
      ''<main><h1>Download blocked</h1><p class="lede">This report explains the enforced securit''
       @ ''y decision.</p>'',
      ''<section class="panel" aria-labelledby="decision-heading"><h2 id="decision-heading">Deci''
       @ ''sion</h2><dl class="facts">'']\<close>

definition report_page_tail :: string where
  \<open>report_page_tail =
     join newline [
      ''</section></main>'',
      ''<script>(()=>{const b=document.getElementById("theme-toggle");const root=document.docume''
       @ ''ntElement;const current=()=>root.dataset.theme||(matchMedia("(prefers-color-scheme: dark''
       @ '')").matches?"dark":"light");const sync=()=>{const d=current();b.setAttribute("aria-press''
       @ ''ed",String(d==="dark"));b.textContent=d==="dark"?"Light theme":"Dark theme"};b.addEventL''
       @ ''istener("click",()=>{const next=current()==="dark"?"light":"dark";root.dataset.theme=nex''
       @ ''t;try{localStorage.setItem("trust-theme",next)}catch{}sync()});sync()})()</script>'',
      ''</body>'',
      ''</html>'',
      []]\<close>

definition report_decision :: "uuid_lib \<Rightarrow> trust_report \<Rightarrow> string" where
  \<open>report_decision ulib report =
     (let block = tr_block report; context = tr_context report
      in html_fact ''Blocked at'' (tr_created_at report)
         @ html_fact ''Report UUID'' (uuid_text ulib (tr_id report))
         @ html_fact ''Requester'' (unwrap_or (tr_requester report) ''Unavailable'')
         @ html_fact ''Target'' (display_name (br_target block))
         @ html_fact ''Repository'' (ctx_repository context)
         @ html_fact ''Format'' (ctx_format context)
         @ html_fact ''Team'' (unwrap_or (ctx_team context) ''Not assigned'')
         @ html_fact ''Policy'' (unwrap_or (br_policy_id block) ''Unsupported target policy'')
         @ ''</dl><p class="reason">'' @ escape_text (br_reason block) @ ''</p></section>'')\<close>

definition report_counts :: "severity_counts \<Rightarrow> string" where
  \<open>report_counts counts =
     ''<section class="panel" aria-labelledby="severity-heading"><h2 id="severity-heading">Severity counts</h2>''
     @ ''<div class="counts">''
     @ html_count ''Total'' (cnt_total counts)
     @ html_count ''Critical'' (cnt_critical counts)
     @ html_count ''High'' (cnt_high counts)
     @ html_count ''Medium'' (cnt_medium counts)
     @ html_count ''Low'' (cnt_low counts)
     @ html_count ''Unknown'' (cnt_unknown counts)
     @ ''</div></section>''\<close>

definition report_violations :: "policy_violation list \<Rightarrow> string" where
  \<open>report_violations violations =
     ''<section class="panel" aria-labelledby="violations-heading"><h2 id="violations-heading">Policy violations</h2>''
     @ (if violations = [] then ''<p class="empty">No policy violation details were provided.</p>''
        else ''<ul class="violations">''
          @ concat (map (\<lambda>v. ''<li>'' @ escape_text (pv_reason v) @ ''</li>'') violations) @ ''</ul>'')
     @ ''</section>''\<close>

definition report_vulnerabilities ::
  "(string \<Rightarrow> string + parsed_url) \<Rightarrow> block_report \<Rightarrow> string" where
  \<open>report_vulnerabilities parse block =
     ''<section class="panel" aria-labelledby="vulnerabilities-heading">''
     @ ''<h2 id="vulnerabilities-heading">Block-relevant vulnerabilities</h2>''
     @ (if br_vulnerabilities block = []
        then ''<p class="empty">No vulnerabilities are associated with this block.</p>''
        else concat (map (vulnerability_details parse (display_name (br_target block))) (br_vulnerabilities block)))\<close>

definition render_report ::
  "uuid_lib \<Rightarrow> (string \<Rightarrow> string + parsed_url) \<Rightarrow> trust_report \<Rightarrow> string" where
  "render_report ulib parse report =
     report_page_head
     @ report_decision ulib report
     @ report_counts (tr_severity_counts report)
     @ report_violations (br_policy_violations (tr_block report))
     @ report_vulnerabilities parse (tr_block report)
     @ report_page_tail"

section \<open>Reading tags\<close>

text \<open>
  Where a reader of HTML is: in text, or inside a tag, whose characters so far are kept, possibly in an
  attribute value with its quote. The scan returns the position at the end and the complete tags.
\<close>

datatype html_pos = InText | InTag string | InQuote char string

fun html_scan :: "html_pos \<Rightarrow> string \<Rightarrow> html_pos \<times> string list" where
  "html_scan pos [] = (pos, [])"
| "html_scan InText (c # cs) = html_scan (if c = CHR ''<'' then InTag [c] else InText) cs"
| "html_scan (InTag t) (c # cs) =
     (if c = CHR ''>'' then let (pos, tags) = html_scan InText cs in (pos, (t @ [c]) # tags)
      else html_scan (if c = CHR 0x22 \<or> c = CHR 0x27 then InQuote c (t @ [c]) else InTag (t @ [c])) cs)"
| "html_scan (InQuote q t) (c # cs) =
     html_scan (if c = q then InTag (t @ [c]) else InQuote q (t @ [c])) cs"

definition html_tags :: "string \<Rightarrow> string list" where
  "html_tags s = snd (html_scan InText s)"

text \<open>A piece of a page between tags, with the tags it holds.\<close>

definition html_piece :: "string \<Rightarrow> string list \<Rightarrow> bool" where
  "html_piece s tags \<longleftrightarrow> html_scan InText s = (InText, tags)"

text \<open>Reading back the character references that escaping writes.\<close>

fun unescape_text :: "string \<Rightarrow> string" where
  "unescape_text [] = []"
| "unescape_text (c # cs) =
     (if c \<noteq> CHR ''&'' then c # unescape_text cs
      else if prefix ''amp;'' cs then CHR ''&'' # unescape_text (drop 4 cs)
      else if prefix ''lt;'' cs then CHR ''<'' # unescape_text (drop 3 cs)
      else if prefix ''gt;'' cs then CHR ''>'' # unescape_text (drop 3 cs)
      else if prefix ''quot;'' cs then CHR 0x22 # unescape_text (drop 5 cs)
      else if prefix ''#39;'' cs then CHR 0x27 # unescape_text (drop 4 cs)
      else c # unescape_text cs)"

lemma html_scan_append:
  "html_scan pos (s @ t) =
     (let (pos1, tags1) = html_scan pos s; (pos2, tags2) = html_scan pos1 t in (pos2, tags1 @ tags2))"
  by (induction pos s rule: html_scan.induct) (simp_all add: split_beta Let_def)

lemma escape_text_Nil [simp]: "escape_text [] = []"
  and escape_text_Cons: "escape_text (c # s) = escape_char c @ escape_text s"
  by (simp_all add: escape_text_def)

lemma escape_text_chars:
  "c \<in> set (escape_text s) \<Longrightarrow> c \<noteq> CHR ''<'' \<and> c \<noteq> CHR ''>'' \<and> c \<noteq> CHR 0x22 \<and> c \<noteq> CHR 0x27"
  by (induction s) (auto simp: escape_text_Cons split: if_splits)

lemma html_scan_text: "CHR ''<'' \<notin> set s \<Longrightarrow> html_scan InText s = (InText, [])"
  by (induction s) auto

lemma html_scan_quoted: "q \<notin> set s \<Longrightarrow> html_scan (InQuote q t) s = (InQuote q (t @ s), [])"
  by (induction s arbitrary: t) auto

lemma html_scan_escaped [simp]:
  "html_scan InText (escape_text s) = (InText, [])"
  "html_scan (InQuote (CHR 0x22) t) (escape_text s) = (InQuote (CHR 0x22) (t @ escape_text s), [])"
  using escape_text_chars by (blast intro!: html_scan_text html_scan_quoted)+

lemma html_scan_number [simp]: "html_scan InText (show_nat n) = (InText, [])"
proof -
  have "CHR ''<'' \<notin> set (show_nat n)"
    using show_nat_digits [of n] by (auto simp: list_all_iff is_ascii_digit_def code_def)
  then show ?thesis by (rule html_scan_text)
qed

lemma html_piece_append: "html_piece s ts \<Longrightarrow> html_piece t us \<Longrightarrow> html_piece (s @ t) (ts @ us)"
  by (simp add: html_piece_def html_scan_append)

lemma html_piece_concat:
  "(\<And>x. x \<in> set xs \<Longrightarrow> html_piece (f x) (g x)) \<Longrightarrow> html_piece (concat (map f xs)) (concat (map g xs))"
  by (induction xs) (simp_all add: html_piece_append, simp add: html_piece_def)

text \<open>The kind of position, which decides whether the static parts of the page are complete.\<close>

datatype html_spot = TextSpot | TagSpot | QuoteSpot char

fun spot_of :: "html_pos \<Rightarrow> html_spot" where
  "spot_of InText = TextSpot"
| "spot_of (InTag _) = TagSpot"
| "spot_of (InQuote q _) = QuoteSpot q"

fun spot_scan :: "html_spot \<Rightarrow> string \<Rightarrow> html_spot" where
  "spot_scan spot [] = spot"
| "spot_scan TextSpot (c # cs) = spot_scan (if c = CHR ''<'' then TagSpot else TextSpot) cs"
| "spot_scan TagSpot (c # cs) =
     spot_scan (if c = CHR ''>'' then TextSpot
       else if c = CHR 0x22 \<or> c = CHR 0x27 then QuoteSpot c else TagSpot) cs"
| "spot_scan (QuoteSpot q) (c # cs) = spot_scan (if c = q then TagSpot else QuoteSpot q) cs"

lemma spot_of_scan: "spot_of (fst (html_scan pos s)) = spot_scan (spot_of pos) s"
  by (induction pos s rule: html_scan.induct) (simp_all add: split_beta Let_def)

lemma html_piece_complete: "spot_scan TextSpot s = TextSpot \<Longrightarrow> html_piece s (html_tags s)"
  using spot_of_scan [of InText s]
  by (cases "fst (html_scan InText s)") (simp_all add: html_piece_def html_tags_def prod_eq_iff)

lemma head_piece: "html_piece report_page_head (html_tags report_page_head)"
  and tail_piece: "html_piece report_page_tail (html_tags report_page_tail)"
  by (rule html_piece_complete, code_simp)+

section \<open>The tags of a report\<close>

definition fact_tags :: "string list" where
  \<open>fact_tags = [''<div class="fact">'', ''<dt>'', ''</dt>'', ''<dd>'', ''</dd>'', ''</div>'']\<close>

definition count_tags :: "string list" where
  \<open>count_tags =
     [''<div class="count">'', ''<strong>'', ''</strong>'', ''<span>'', ''</span>'', ''</div>'']\<close>

definition row_tags :: "string list" where
  "row_tags = [''<dt>'', ''</dt>'', ''<dd>'', ''</dd>'']"

definition link_tag :: "string \<Rightarrow> string" where
  \<open>link_tag u = ''<a href="'' @ escape_text u @ ''" rel="noopener noreferrer">''\<close>

fun reference_tags :: "string option \<Rightarrow> string list" where
  "reference_tags None = [''<li>'', ''</li>'']"
| "reference_tags (Some u) = [''<li>'', link_tag u, ''</a>'', ''</li>'']"

definition vulnerability_tags :: "string option list \<Rightarrow> string list" where
  \<open>vulnerability_tags links =
     [''<details>'', ''<summary>'', ''</summary>'', ''<div class="vulnerability">'', ''<dl>'']
     @ concat (replicate 7 row_tags)
     @ [''<dt>'', ''</dt>'', ''<dd class="description">'', ''</dd>'', ''<dt>'', ''</dt>'', ''<dd>'']
     @ (if links = [] then []
        else [''<ul class="references">''] @ concat (map reference_tags links) @ [''</ul>''])
     @ [''</dd>'', ''</dl>'', ''</div>'', ''</details>'']\<close>

text \<open>
  The tags of the page of a block with so many policy violations and vulnerabilities with these references,
  each a link or not.
\<close>

definition page_tags :: "nat \<Rightarrow> string option list list \<Rightarrow> string list" where
  \<open>page_tags violations vulnerabilities =
     html_tags report_page_head
     @ concat (replicate 8 fact_tags)
     @ [''</dl>'', ''<p class="reason">'', ''</p>'', ''</section>'',
        ''<section class="panel" aria-labelledby="severity-heading">'', ''<h2 id="severity-heading">'', ''</h2>'',
        ''<div class="counts">'']
     @ concat (replicate 6 count_tags)
     @ [''</div>'', ''</section>'',
        ''<section class="panel" aria-labelledby="violations-heading">'', ''<h2 id="violations-heading">'', ''</h2>'']
     @ (if violations = 0 then [''<p class="empty">'', ''</p>'']
        else [''<ul class="violations">''] @ concat (replicate violations [''<li>'', ''</li>'']) @ [''</ul>''])
     @ [''</section>'',
        ''<section class="panel" aria-labelledby="vulnerabilities-heading">'',
        ''<h2 id="vulnerabilities-heading">'', ''</h2>'']
     @ (if vulnerabilities = [] then [''<p class="empty">'', ''</p>'']
        else concat (map vulnerability_tags vulnerabilities))
     @ html_tags report_page_tail\<close>

definition link_of :: "(string \<Rightarrow> string + parsed_url) \<Rightarrow> reference \<Rightarrow> string option" where
  "link_of parse r = then_some (is_http_url parse (ref_url r)) (ref_url r)"

lemma fact_piece: "html_piece (html_fact label val) fact_tags"
  by (simp add: html_piece_def html_fact_def fact_tags_def html_scan_append)

lemma count_piece: "html_piece (html_count label val) count_tags"
  by (simp add: html_piece_def html_count_def count_tags_def html_scan_append)

lemma row_piece: "html_piece (fact_row label val) row_tags"
  by (simp add: html_piece_def fact_row_def row_tags_def html_scan_append)

lemma reference_piece: "html_piece (reference_link parse r) (reference_tags (link_of parse r))"
  by (simp add: html_piece_def reference_link_def link_of_def then_some_def link_tag_def html_scan_append
      split: option.split)

lemma violation_piece: "html_piece (''<li>'' @ escape_text t @ ''</li>'') [''<li>'', ''</li>'']"
  by (simp add: html_piece_def html_scan_append)

lemma references_piece:
  "html_piece (concat (map (reference_link parse) rs)) (concat (map reference_tags (map (link_of parse) rs)))"
  using html_piece_concat [OF reference_piece] by (simp add: o_def)

lemma middle_dot_scan [simp]: "html_scan InText middle_dot = (InText, [])"
  by (simp add: middle_dot_def)

lemmas part_scans =
  fact_piece [unfolded html_piece_def] count_piece [unfolded html_piece_def] row_piece [unfolded html_piece_def]
  references_piece [unfolded html_piece_def]

lemma vulnerability_piece:
  "html_piece (vulnerability_details parse target v) (vulnerability_tags (map (link_of parse) (v_references v)))"
  unfolding vulnerability_details_def vulnerability_tags_def Let_def
  by (simp add: html_piece_def html_scan_append part_scans numeral_eq_Suc)

lemma decision_piece:
  \<open>html_piece (report_decision ulib report)
     (concat (replicate 8 fact_tags) @ [''</dl>'', ''<p class="reason">'', ''</p>'', ''</section>''])\<close>
  by (simp add: html_piece_def report_decision_def Let_def html_scan_append part_scans numeral_eq_Suc)

lemma counts_piece:
  \<open>html_piece (report_counts counts)
     ([''<section class="panel" aria-labelledby="severity-heading">'', ''<h2 id="severity-heading">'', ''</h2>'',
       ''<div class="counts">''] @ concat (replicate 6 count_tags) @ [''</div>'', ''</section>''])\<close>
  by (simp add: html_piece_def report_counts_def html_scan_append part_scans numeral_eq_Suc)

lemma violations_piece:
  \<open>html_piece (report_violations vs)
     ([''<section class="panel" aria-labelledby="violations-heading">'', ''<h2 id="violations-heading">'', ''</h2>'']
      @ (if length vs = 0 then [''<p class="empty">'', ''</p>'']
         else [''<ul class="violations">''] @ concat (replicate (length vs) [''<li>'', ''</li>'']) @ [''</ul>''])
      @ [''</section>''])\<close>
proof -
  have "html_piece (concat (map (\<lambda>v. ''<li>'' @ escape_text (pv_reason v) @ ''</li>'') vs))
      (concat (map (\<lambda>_. [''<li>'', ''</li>'']) vs))"
    by (rule html_piece_concat) (rule violation_piece)
  then show ?thesis
    by (simp add: html_piece_def report_violations_def html_scan_append map_replicate_const)
qed

lemma vulnerabilities_piece:
  \<open>html_piece (report_vulnerabilities parse block)
     ([''<section class="panel" aria-labelledby="vulnerabilities-heading">'',
       ''<h2 id="vulnerabilities-heading">'', ''</h2>'']
      @ (if br_vulnerabilities block = [] then [''<p class="empty">'', ''</p>'']
         else concat (map vulnerability_tags
           (map (\<lambda>v. map (link_of parse) (v_references v)) (br_vulnerabilities block)))))\<close>
proof -
  have "html_piece (concat (map (vulnerability_details parse (display_name (br_target block))) (br_vulnerabilities block)))
      (concat (map (\<lambda>v. vulnerability_tags (map (link_of parse) (v_references v))) (br_vulnerabilities block)))"
    by (rule html_piece_concat) (rule vulnerability_piece)
  then show ?thesis
    by (simp add: html_piece_def report_vulnerabilities_def html_scan_append o_def)
qed

lemmas page_pieces = head_piece decision_piece counts_piece violations_piece vulnerabilities_piece tail_piece

lemma report_piece:
  "html_piece (render_report ulib parse report)
     (page_tags (length (br_policy_violations (tr_block report)))
        (map (\<lambda>v. map (link_of parse) (v_references v)) (br_vulnerabilities (tr_block report))))"
  using page_pieces [unfolded html_piece_def]
  by (simp add: html_piece_def render_report_def page_tags_def html_scan_append)

text \<open>
  C13. The tags of a rendered report are those of the template, determined by the numbers of violations and
  vulnerabilities and, for each reference with an HTTP URL, a link whose attribute is that URL, escaped: no
  text of a report can open, close or change a tag. Escaping itself loses nothing.
\<close>

theorem report_tags_fixed:
  "html_tags (render_report ulib parse report) =
     page_tags (length (br_policy_violations (tr_block report)))
       (map (\<lambda>v. map (link_of parse) (v_references v)) (br_vulnerabilities (tr_block report))) \<and>
   unescape_text (escape_text s) = s"
proof
  show "unescape_text (escape_text s) = s"
    by (induction s) (auto simp: escape_text_Cons)
qed (use report_piece in \<open>simp add: html_piece_def html_tags_def\<close>)

end
