(* ===== verification/Report_Store.thy ===== *)
theory Report_Store
  imports Report_Html Effects "HOL-Library.AList"
begin

text \<open>
  The local report store (\<^verbatim>\<open>ReportStore\<close> and \<^verbatim>\<open>serve_report\<close> of \<^verbatim>\<open>crates/proxy/src/trust_reports.rs\<close>) over a model of the file
  system: a disk is the list of its paths with their entries, and any operation may fail with any error,
  a write after any number of bytes. The events of a computation are its effects on the files, in order,
  so a prefix of them is what a crash leaves behind. The modification time of a file is the system clock of
  the operation that wrote it last. Handles are paths: no other process renames the files
  between opening and closing.
\<close>

section \<open>The disk\<close>

type_synonym path = string
type_synonym system_time = int

datatype io_error = NotFoundError | AlreadyExistsError | IoError string

datatype fs_entry = RegularFile bytes system_time | DirectoryEntry

type_synonym files = "(path \<times> fs_entry) list"

datatype fs_effect =
    DirMade path
  | Created path system_time
  | Written path bytes system_time
  | Renamed path path
  | Removed path

fun apply_effect :: "fs_effect \<Rightarrow> files \<Rightarrow> files" where
  "apply_effect (DirMade p) fs = AList.update p DirectoryEntry fs"
| "apply_effect (Created p t) fs = AList.update p (RegularFile [] t) fs"
| "apply_effect (Written p b t) fs =
     (case map_of fs p of
        Some (RegularFile old _) \<Rightarrow> AList.update p (RegularFile (old @ b) t) fs
      | _ \<Rightarrow> fs)"
| "apply_effect (Renamed p q) fs =
     (case map_of fs p of
        Some e \<Rightarrow> AList.update q e (AList.delete p fs)
      | None \<Rightarrow> fs)"
| "apply_effect (Removed p) fs = AList.delete p fs"

definition replay :: "fs_effect list \<Rightarrow> files \<Rightarrow> files" where
  "replay effs fs = fold apply_effect effs fs"

text \<open>
  A disk with the number of operations so far, which of them fail (and how many bytes a failing write leaves),
  the two clocks at each operation, whether the platform keeps modification times, and the time of the last
  cleanup that the store keeps behind its lock.
\<close>

record disk =
  dk_files :: files
  dk_ops :: nat
  dk_fault :: "nat \<Rightarrow> (io_error \<times> nat) option"
  dk_system_time :: "nat \<Rightarrow> system_time"
  dk_instant :: "nat \<Rightarrow> duration"
  dk_no_mtime :: "io_error option"
  dk_last_cleanup :: duration

type_synonym 'a fs_io = "(disk, fs_effect, io_error + 'a) io"

definition fs_op ::
  "(files \<Rightarrow> system_time \<Rightarrow> io_error + 'a \<times> fs_effect list) \<Rightarrow> (nat \<Rightarrow> system_time \<Rightarrow> fs_effect list) \<Rightarrow> 'a fs_io" where
  "fs_op act short = (\<lambda>d.
     let n = dk_ops d; t = dk_system_time d n; d = d\<lparr>dk_ops := n + 1\<rparr>
     in case dk_fault d n of
          Some (e, k) \<Rightarrow> Some (Inl e, short k t, d\<lparr>dk_files := replay (short k t) (dk_files d)\<rparr>)
        | None \<Rightarrow>
            (case act (dk_files d) t of
               Inl e \<Rightarrow> Some (Inl e, [], d)
             | Inr (a, effs) \<Rightarrow> Some (Inr a, effs, d\<lparr>dk_files := replay effs (dk_files d)\<rparr>)))"

definition open_new :: "path \<Rightarrow> unit fs_io" where
  "open_new p = fs_op (\<lambda>fs t. if map_of fs p \<noteq> None then Inl AlreadyExistsError else Inr ((), [Created p t])) (\<lambda>_ _. [])"

definition write_all :: "path \<Rightarrow> bytes \<Rightarrow> unit fs_io" where
  "write_all p b = fs_op (\<lambda>fs t. Inr ((), [Written p b t])) (\<lambda>k t. [Written p (take k b) t])"

definition sync_all :: "path \<Rightarrow> unit fs_io" where
  "sync_all p = fs_op (\<lambda>fs t. Inr ((), [])) (\<lambda>_ _. [])"

definition rename :: "path \<Rightarrow> path \<Rightarrow> unit fs_io" where
  "rename p q = fs_op (\<lambda>fs t.
     case map_of fs p of
       None \<Rightarrow> Inl NotFoundError
     | Some _ \<Rightarrow>
         if map_of fs q = Some DirectoryEntry then Inl (IoError ''is a directory'')
         else Inr ((), [Renamed p q])) (\<lambda>_ _. [])"

definition remove_file :: "path \<Rightarrow> unit fs_io" where
  "remove_file p = fs_op (\<lambda>fs t.
     case map_of fs p of
       None \<Rightarrow> Inl NotFoundError
     | Some DirectoryEntry \<Rightarrow> Inl (IoError ''is a directory'')
     | Some (RegularFile _ _) \<Rightarrow> Inr ((), [Removed p])) (\<lambda>_ _. [])"

definition fs_metadata :: "path \<Rightarrow> fs_entry fs_io" where
  "fs_metadata p = fs_op (\<lambda>fs t. case map_of fs p of None \<Rightarrow> Inl NotFoundError | Some e \<Rightarrow> Inr (e, [])) (\<lambda>_ _. [])"

definition fs_read :: "path \<Rightarrow> bytes fs_io" where
  "fs_read p = fs_op (\<lambda>fs t.
     case map_of fs p of
       None \<Rightarrow> Inl NotFoundError
     | Some DirectoryEntry \<Rightarrow> Inl (IoError ''is a directory'')
     | Some (RegularFile b _) \<Rightarrow> Inr (b, [])) (\<lambda>_ _. [])"

text \<open>\<^verbatim>\<open>Path::join\<close>\<close>

definition path_join :: "path \<Rightarrow> path \<Rightarrow> path" where
  "path_join dir name =
     (if starts_with name ''/'' then name
      else if dir = [] \<or> ends_with dir ''/'' then dir @ name
      else dir @ ''/'' @ name)"

definition in_directory :: "path \<Rightarrow> path \<Rightarrow> bool" where
  "in_directory dir p \<longleftrightarrow>
     (case strip_prefix (path_join dir []) p of
        None \<Rightarrow> False
      | Some name \<Rightarrow> name \<noteq> [] \<and> CHR ''/'' \<notin> set name)"

definition read_dir :: "path \<Rightarrow> path list fs_io" where
  "read_dir dir = fs_op (\<lambda>fs t.
     if map_of fs dir \<noteq> Some DirectoryEntry then Inl NotFoundError
     else Inr (filter (in_directory dir) (map fst fs), [])) (\<lambda>_ _. [])"

definition next_entry :: "path \<Rightarrow> unit fs_io" where
  "next_entry p = fs_op (\<lambda>fs t. Inr ((), [])) (\<lambda>_ _. [])"

definition create_dir_all :: "path \<Rightarrow> unit fs_io" where
  "create_dir_all dir = fs_op (\<lambda>fs t.
     case map_of fs dir of
       Some (RegularFile _ _) \<Rightarrow> Inl AlreadyExistsError
     | Some DirectoryEntry \<Rightarrow> Inr ((), [])
     | None \<Rightarrow> Inr ((), [DirMade dir])) (\<lambda>_ _. [])"

definition system_now :: "system_time fs_io" where
  "system_now = (\<lambda>d. Some (Inr (dk_system_time d (dk_ops d)), [], d))"

definition instant_now :: "duration fs_io" where
  "instant_now = (\<lambda>d. Some (Inr (dk_instant d (dk_ops d)), [], d))"

text \<open>\<^verbatim>\<open>Metadata::modified\<close>\<close>

definition modified :: "fs_entry \<Rightarrow> system_time fs_io" where
  "modified e = (\<lambda>d. Some
     (case dk_no_mtime d of
        Some err \<Rightarrow> Inl err
      | None \<Rightarrow> Inr (case e of RegularFile _ t \<Rightarrow> t | DirectoryEntry \<Rightarrow> 0), [], d))"

fun is_file :: "fs_entry \<Rightarrow> bool" where
  "is_file (RegularFile _ _) = True"
| "is_file DirectoryEntry = False"

section \<open>The store\<close>

record report_store =
  rs_directory :: path
  rs_base_url :: string
  rs_retention :: duration

definition cleanup_interval :: duration where
  "cleanup_interval = 24 * 60 * 60 * 1000000000"

definition saturating_mul :: "u64 \<Rightarrow> u64 \<Rightarrow> u64" where
  "saturating_mul a b = (if unat a * unat b < 2 ^ 64 then a * b else - 1)"

definition is_expired_at :: "system_time \<Rightarrow> system_time \<Rightarrow> duration \<Rightarrow> bool" where
  "is_expired_at now t retention \<longleftrightarrow> t \<le> now \<and> int retention \<le> now - t"

definition report_path :: "uuid_lib \<Rightarrow> report_store \<Rightarrow> uuid \<Rightarrow> path" where
  "report_path ulib store i = path_join (rs_directory store) (uuid_text ulib i @ ''.html'')"

definition temporary_path :: "uuid_lib \<Rightarrow> report_store \<Rightarrow> uuid \<Rightarrow> path" where
  "temporary_path ulib store i = path_join (rs_directory store) (''.'' @ uuid_text ulib i @ ''.html.tmp'')"

definition valid_report_id :: "uuid_lib \<Rightarrow> string \<Rightarrow> uuid option" where
  "valid_report_id ulib s =
     Option.bind (uuid_parse_str ulib s) (\<lambda>i. then_some (uuid_is_random ulib i \<and> uuid_text ulib i = s) i)"

definition is_expired :: "fs_entry \<Rightarrow> duration \<Rightarrow> bool fs_io" where
  "is_expired e retention =
     io_try (modified e) (\<lambda>t. io_try system_now (\<lambda>now. io_return (Inr (is_expired_at now t retention))))"

text \<open>A step that ignores the file being gone.\<close>

definition unless_missing :: "'a fs_io \<Rightarrow> unit fs_io \<Rightarrow> ('a \<Rightarrow> unit fs_io) \<Rightarrow> unit fs_io" where
  "unless_missing m gone k = io_bind m (\<lambda>r.
     case r of
       Inr a \<Rightarrow> k a
     | Inl NotFoundError \<Rightarrow> gone
     | Inl e \<Rightarrow> io_return (Inl e))"

fun cleanup_entries :: "report_store \<Rightarrow> path list \<Rightarrow> unit fs_io" where
  "cleanup_entries store [] = next_entry (rs_directory store)"
| "cleanup_entries store (p # ps) =
     io_try (next_entry (rs_directory store)) (\<lambda>_.
       unless_missing (fs_metadata p) (cleanup_entries store ps) (\<lambda>e.
         if is_file e
         then io_try (is_expired e (rs_retention store)) (\<lambda>expired.
                if expired
                then unless_missing (remove_file p) (cleanup_entries store ps) (\<lambda>_. cleanup_entries store ps)
                else cleanup_entries store ps)
         else cleanup_entries store ps))"

definition cleanup_expired :: "report_store \<Rightarrow> unit fs_io" where
  "cleanup_expired store = io_try (read_dir (rs_directory store)) (cleanup_entries store)"

definition set_last_cleanup :: "duration \<Rightarrow> unit fs_io" where
  "set_last_cleanup t = (\<lambda>d. Some (Inr (), [], d\<lparr>dk_last_cleanup := t\<rparr>))"

definition cleanup_if_due :: "report_store \<Rightarrow> unit fs_io" where
  "cleanup_if_due store =
     io_try instant_now (\<lambda>now. io_bind (io_get dk_last_cleanup) (\<lambda>last_cleanup.
       if now - last_cleanup < cleanup_interval then io_return (Inr ())
       else io_try (cleanup_expired store) (\<lambda>_. io_try instant_now set_last_cleanup)))"

text \<open>Writing a whole file under a fresh name, and the last step with it.\<close>

definition write_fresh :: "path \<Rightarrow> bytes \<Rightarrow> unit fs_io \<Rightarrow> unit fs_io" where
  "write_fresh p b finish =
     io_try (open_new p) (\<lambda>_. io_try (write_all p b) (\<lambda>_. io_try (sync_all p) (\<lambda>_. finish)))"

definition or_remove :: "path \<Rightarrow> unit fs_io \<Rightarrow> unit fs_io" where
  "or_remove p m = io_bind m (\<lambda>r.
     case r of
       Inl e \<Rightarrow> io_bind (remove_file p) (\<lambda>_. io_return (Inl e))
     | Inr _ \<Rightarrow> io_return (Inr ()))"

definition report_url :: "uuid_lib \<Rightarrow> report_store \<Rightarrow> uuid \<Rightarrow> string" where
  "report_url ulib store i =
     trim_end_matches (CHR ''/'') (rs_base_url store) @ ''/trust/reports/'' @ uuid_text ulib i"

definition store_create ::
  "uuid_lib \<Rightarrow> (string \<Rightarrow> string + parsed_url) \<Rightarrow> report_store \<Rightarrow> trust_report \<Rightarrow> created_report fs_io" where
  "store_create ulib parse store report =
     io_try (cleanup_if_due store) (\<lambda>_.
       let html = render_report ulib parse report;
           final_path = report_path ulib store (tr_id report);
           temporary = temporary_path ulib store (tr_id report)
       in io_try (or_remove temporary (write_fresh temporary html (rename temporary final_path))) (\<lambda>_.
            io_return (Inr \<lparr>cr_url = report_url ulib store (tr_id report)\<rparr>)))"

definition store_read :: "uuid_lib \<Rightarrow> report_store \<Rightarrow> string \<Rightarrow> bytes option fs_io" where
  "store_read ulib store s =
     (case valid_report_id ulib s of
        None \<Rightarrow> io_return (Inr None)
      | Some i \<Rightarrow>
          let p = report_path ulib store i
          in io_bind (fs_metadata p) (\<lambda>r.
               case r of
                 Inl NotFoundError \<Rightarrow> io_return (Inr None)
               | Inl e \<Rightarrow> io_return (Inl e)
               | Inr e \<Rightarrow>
                   if \<not> is_file e then io_return (Inr None)
                   else io_try (is_expired e (rs_retention store)) (\<lambda>expired.
                     if expired then io_bind (remove_file p) (\<lambda>_. io_return (Inr None))
                     else io_bind (fs_read p) (\<lambda>contents. io_return
                       (case contents of
                          Inr b \<Rightarrow> Inr (Some b)
                        | Inl NotFoundError \<Rightarrow> Inr None
                        | Inl e \<Rightarrow> Inl e)))))"

definition verify_writable :: "path \<Rightarrow> unit fs_io" where
  "verify_writable probe = or_remove probe (write_fresh probe ''ok'' (remove_file probe))"

text \<open>The random identifier of the probe file is an argument.\<close>

definition probe_path :: "uuid_lib \<Rightarrow> report_store \<Rightarrow> uuid \<Rightarrow> path" where
  "probe_path ulib store i = path_join (rs_directory store) (''.write-test-'' @ uuid_text ulib i)"

definition store_initialize ::
  "uuid_lib \<Rightarrow> uuid \<Rightarrow> path \<Rightarrow> string \<Rightarrow> u64 \<Rightarrow> report_store fs_io" where
  "store_initialize ulib i directory base_url retention_days =
     (let store = \<lparr>rs_directory = directory, rs_base_url = base_url,
            rs_retention = from_secs (saturating_mul retention_days (24 * 60 * 60))\<rparr>
      in io_try instant_now (\<lambda>now. io_try (set_last_cleanup now) (\<lambda>_.
         io_try (create_dir_all directory) (\<lambda>_.
         io_try (verify_writable (probe_path ulib store i)) (\<lambda>_.
         io_try (cleanup_expired store) (\<lambda>_.
         io_try instant_now (\<lambda>now. io_try (set_last_cleanup now) (\<lambda>_. io_return (Inr store)))))))))"

section \<open>Serving\<close>

definition quoted :: "string \<Rightarrow> string" where
  "quoted s = [CHR 0x27] @ s @ [CHR 0x27]"

definition security_headers :: headers where
  "security_headers =
     [(''cache-control'', ''no-store, no-cache, must-revalidate, max-age=0''),
      (''pragma'', ''no-cache''),
      (''x-content-type-options'', ''nosniff''),
      (''referrer-policy'', ''no-referrer''),
      (''x-frame-options'', ''DENY''),
      (''x-robots-tag'', ''noindex, nofollow, noarchive''),
      (''content-security-policy'',
       ''default-src '' @ quoted ''none'' @ ''; style-src '' @ quoted ''unsafe-inline'' @ ''; script-src ''
       @ quoted ''unsafe-inline'' @ ''; base-uri '' @ quoted ''none'' @ ''; form-action '' @ quoted ''none''
       @ ''; frame-ancestors '' @ quoted ''none'')]"

definition with_security_headers :: "http_lib \<Rightarrow> response \<Rightarrow> response" where
  "with_security_headers lib r =
     r\<lparr>rsp_headers := foldl (\<lambda>hs (n, v). header_insert lib n v hs) (rsp_headers r) security_headers\<rparr>"

definition report_response :: "io_error + bytes option \<Rightarrow> response" where
  "report_response r =
     (case r of
        Inr (Some contents) \<Rightarrow>
          \<lparr>rsp_status = 200, rsp_headers = [(''content-type'', ''text/html; charset=utf-8'')],
           rsp_body = Bytes contents\<rparr>
      | Inr None \<Rightarrow> response_with_text 404 (''Trust report not found'' @ newline)
      | Inl _ \<Rightarrow> response_with_text 503 (''Trust report is temporarily unavailable'' @ newline))"

text \<open>\<^const>\<open>None\<close> is a backend other than the local store.\<close>

definition serve_report ::
  "uuid_lib \<Rightarrow> http_lib \<Rightarrow> report_store option \<Rightarrow> string \<Rightarrow> (disk, fs_effect, response) io" where
  "serve_report ulib lib store s =
     (case store of
        None \<Rightarrow>
          io_return (with_security_headers lib (response_with_text 404 (''Trust report not found'' @ newline)))
      | Some store \<Rightarrow>
          io_bind (store_read ulib store s) (\<lambda>r. io_return (with_security_headers lib (report_response r))))"

section \<open>Effects and the disk\<close>

text \<open>A computation is faithful if its effects are all it does to the files.\<close>

definition fs_faithful :: "(disk, fs_effect, 'a) io \<Rightarrow> bool" where
  "fs_faithful m \<longleftrightarrow> (\<forall>d r evs d'. m d = Some (r, evs, d') \<longrightarrow> dk_files d' = replay evs (dk_files d))"

lemma replay_simps [simp]:
  "replay [] fs = fs"
  "replay (x # xs) fs = replay xs (apply_effect x fs)"
  "replay (xs @ ys) fs = replay ys (replay xs fs)"
  by (simp_all add: replay_def)

named_theorems faithful_intros "computations whose effects are all they do to the files"

lemma fs_faithful_basic [faithful_intros]:
  "fs_faithful (io_return a)" "fs_faithful (io_get g)" "fs_faithful (fs_op act short)" "fs_faithful system_now"
  "fs_faithful instant_now" "fs_faithful (modified e)" "fs_faithful (set_last_cleanup t)"
  by (auto simp: fs_faithful_def io_run_simps fs_op_def system_now_def instant_now_def modified_def
      set_last_cleanup_def Let_def split: option.splits sum.splits)

lemma fs_faithful_bind [faithful_intros]:
  "fs_faithful m \<Longrightarrow> (\<And>a. fs_faithful (f a)) \<Longrightarrow> fs_faithful (io_bind m f)"
  unfolding fs_faithful_def io_bind_Some_iff by fastforce

lemma fs_faithful_try [faithful_intros]:
  "fs_faithful m \<Longrightarrow> (\<And>a. fs_faithful (f a)) \<Longrightarrow> fs_faithful (io_try m f)"
  unfolding io_try_def by (rule fs_faithful_bind) (auto intro: faithful_intros split: sum.split)

lemma fs_faithful_ops [faithful_intros]:
  "fs_faithful (open_new p)" "fs_faithful (write_all p b)" "fs_faithful (sync_all p)" "fs_faithful (rename p q)"
  "fs_faithful (remove_file p)" "fs_faithful (fs_metadata p)" "fs_faithful (fs_read p)" "fs_faithful (read_dir p)"
  "fs_faithful (next_entry p)" "fs_faithful (create_dir_all p)" "fs_faithful (is_expired e r)"
  unfolding open_new_def write_all_def sync_all_def rename_def remove_file_def fs_metadata_def fs_read_def
    read_dir_def next_entry_def create_dir_all_def is_expired_def
  by (intro faithful_intros)+

lemma fs_faithful_unless_missing [faithful_intros]:
  "fs_faithful m \<Longrightarrow> fs_faithful gone \<Longrightarrow> (\<And>a. fs_faithful (k a)) \<Longrightarrow> fs_faithful (unless_missing m gone k)"
  unfolding unless_missing_def
  by (rule fs_faithful_bind) (auto intro: faithful_intros split: sum.split io_error.split)

lemma fs_faithful_cleanup_entries [faithful_intros]: "fs_faithful (cleanup_entries store ps)"
  by (induction ps) (auto intro!: faithful_intros)

lemma fs_faithful_or_remove [faithful_intros]: "fs_faithful m \<Longrightarrow> fs_faithful (or_remove p m)"
  unfolding or_remove_def by (rule fs_faithful_bind) (auto intro!: faithful_intros split: sum.split)

lemma fs_faithful_create: "fs_faithful (store_create ulib parse store report)"
  unfolding store_create_def cleanup_if_due_def cleanup_expired_def write_fresh_def Let_def
  by (auto intro!: faithful_intros)

section \<open>What each operation does\<close>

lemma io_post_fs_op:
  "(\<And>e k t. Q (Inl e) (short k t)) \<Longrightarrow> (\<And>fs t e. act fs t = Inl e \<Longrightarrow> Q (Inl e) []) \<Longrightarrow>
   (\<And>fs t a effs. act fs t = Inr (a, effs) \<Longrightarrow> Q (Inr a) effs) \<Longrightarrow> io_post (fs_op act short) Q"
  by (auto simp: io_post_def fs_op_def Let_def split: option.splits sum.splits)

lemma post_open_new:
  "io_post (open_new p) (\<lambda>r evs. case r of Inl _ \<Rightarrow> evs = [] | Inr _ \<Rightarrow> \<exists>t. evs = [Created p t])"
  unfolding open_new_def by (rule io_post_fs_op) (auto split: if_splits)

lemma post_write_all:
  "io_post (write_all p b)
     (\<lambda>r evs. \<exists>t. case r of Inl _ \<Rightarrow> \<exists>k. evs = [Written p (take k b) t] | Inr _ \<Rightarrow> evs = [Written p b t])"
  unfolding write_all_def by (rule io_post_fs_op) auto

lemma post_rename:
  "io_post (rename p q) (\<lambda>r evs. evs = (case r of Inl _ \<Rightarrow> [] | Inr _ \<Rightarrow> [Renamed p q]))"
  unfolding rename_def by (rule io_post_fs_op) (auto split: if_splits option.splits)

lemma post_remove_file:
  "io_post (remove_file p) (\<lambda>r evs. evs = (case r of Inl _ \<Rightarrow> [] | Inr _ \<Rightarrow> [Removed p]))"
  unfolding remove_file_def by (rule io_post_fs_op) (auto split: option.splits fs_entry.splits)

lemma post_quiet:
  "io_post (sync_all p) (\<lambda>_ evs. evs = [])" "io_post (fs_metadata p) (\<lambda>_ evs. evs = [])"
  "io_post (fs_read p) (\<lambda>_ evs. evs = [])" "io_post (next_entry p) (\<lambda>_ evs. evs = [])"
  "io_post (is_expired e retention) (\<lambda>_ evs. evs = [])" "io_post instant_now (\<lambda>_ evs. evs = [])"
  "io_post (set_last_cleanup t) (\<lambda>_ evs. evs = [])"
  "io_post (read_dir dir) (\<lambda>r evs. evs = [] \<and> (\<forall>ps. r = Inr ps \<longrightarrow> list_all (in_directory dir) ps))"
  by (auto simp: io_post_def sync_all_def fs_metadata_def fs_read_def next_entry_def is_expired_def modified_def
      system_now_def instant_now_def set_last_cleanup_def read_dir_def fs_op_def io_try_def io_bind_Some_iff
      io_run_simps Let_def list_all_iff split: option.splits sum.splits if_splits fs_entry.splits)

text \<open>Cleaning up only removes files, and only in the directory of the store.\<close>

definition cleanup_effect :: "report_store \<Rightarrow> fs_effect \<Rightarrow> bool" where
  "cleanup_effect store eff \<longleftrightarrow> (\<exists>p. eff = Removed p \<and> in_directory (rs_directory store) p)"

lemma io_only_quiet: "io_post m (\<lambda>_ evs. evs = []) \<Longrightarrow> io_only P m"
  by (erule io_post_weaken) simp

lemmas quiet_only = post_quiet(1-7) [THEN io_only_quiet]

lemma io_only_unless_missing:
  "io_only P m \<Longrightarrow> io_only P gone \<Longrightarrow> (\<And>a. io_only P (k a)) \<Longrightarrow> io_only P (unless_missing m gone k)"
  unfolding unless_missing_def
  by (rule io_only_bind) (auto intro: io_post_return split: sum.split io_error.split)

lemma cleanup_entries_only:
  "list_all (in_directory (rs_directory store)) ps \<Longrightarrow> io_only (cleanup_effect store) (cleanup_entries store ps)"
proof (induction ps)
  case (Cons p ps)
  have "io_only (cleanup_effect store) (remove_file p)"
    by (rule io_post_weaken [OF post_remove_file])
      (use Cons.prems in \<open>auto simp: cleanup_effect_def split: sum.splits\<close>)
  with Cons show ?case
    by (auto intro!: io_only_try io_only_unless_missing quiet_only)
qed (auto intro: quiet_only)

lemma cleanup_if_due_only: "io_only (cleanup_effect store) (cleanup_if_due store)"
proof -
  have "io_only (cleanup_effect store) (cleanup_expired store)"
    unfolding cleanup_expired_def
    by (rule io_post_try [OF post_quiet(8)]) (auto intro: cleanup_entries_only)
  then show ?thesis
    unfolding cleanup_if_due_def
    by (auto intro!: io_only_try io_only_bind io_post_return io_post_get quiet_only)
qed

text \<open>Effects on a temporary file, and what is left of any other path after them.\<close>

fun touches :: "path \<Rightarrow> fs_effect \<Rightarrow> bool" where
  "touches p (Created q _) = (q = p)"
| "touches p (Written q _ _) = (q = p)"
| "touches p (Removed q) = (q = p)"
| "touches p _ = False"

lemma replay_other:
  "list_all (\<lambda>x. touches p x \<or> cleanup_effect store x) effs \<Longrightarrow> q \<noteq> p \<Longrightarrow>
   map_of (replay effs fs) q \<in> {map_of fs q, None}"
proof (induction effs arbitrary: fs)
  case (Cons x effs)
  have "map_of (apply_effect x fs) q \<in> {map_of fs q, None}"
    using Cons.prems
    by (cases x) (auto simp: cleanup_effect_def update_conv' delete_conv' split: option.split fs_entry.split)
  moreover have "map_of (replay effs (apply_effect x fs)) q \<in> {map_of (apply_effect x fs) q, None}"
    by (rule Cons.IH) (use Cons.prems in auto)
  ultimately show ?case by auto
qed simp

lemma post_write_fresh:
  assumes "io_post finish F"
  shows "io_post (write_fresh p b finish) (\<lambda>r evs.
    (\<exists>t t' w. evs = [Created p t, Written p b t'] @ w \<and> F r w) \<or>
    (\<exists>e. r = Inl e) \<and> list_all (touches p) evs)"
  unfolding write_fresh_def
  apply (rule io_post_try [OF post_open_new])
   apply simp
  apply (rule io_post_try [OF post_write_all])
   apply fastforce
  apply (rule io_post_try [OF post_quiet(1)])
   apply fastforce
  apply (rule io_post_weaken [OF assms])
  apply fastforce
  done

lemma post_write_report:
  "io_post (or_remove p (write_fresh p b (rename p q))) (\<lambda>r evs.
     case r of
       Inl _ \<Rightarrow> list_all (touches p) evs
     | Inr _ \<Rightarrow> \<exists>t t'. evs = [Created p t, Written p b t', Renamed p q])"
  unfolding or_remove_def
  apply (rule io_post_bind [OF post_write_fresh [OF post_rename]])
  apply (auto split!: sum.splits intro!: io_post_return)
   apply (rule io_post_bind [OF post_remove_file], auto intro!: io_post_return split: sum.splits)+
  done

lemma post_store_create:
  "io_post (store_create ulib parse store report) (\<lambda>r evs.
     \<exists>clean w. evs = clean @ w \<and> list_all (cleanup_effect store) clean \<and>
       (case r of
          Inl _ \<Rightarrow> list_all (touches (temporary_path ulib store (tr_id report))) w
        | Inr created \<Rightarrow>
            cr_url created = report_url ulib store (tr_id report) \<and>
            (\<exists>t t'. w = [Created (temporary_path ulib store (tr_id report)) t,
               Written (temporary_path ulib store (tr_id report)) (render_report ulib parse report) t',
               Renamed (temporary_path ulib store (tr_id report)) (report_path ulib store (tr_id report))])))"
  unfolding store_create_def Let_def
  apply (rule io_post_try [OF cleanup_if_due_only])
   apply (rule exI, rule exI [where x = "[]"], simp)
  apply (rule io_post_try [OF post_write_report])
   apply (fastforce)
  apply (rule io_post_return)
  apply fastforce
  done

lemma path_join_inject: "\<not> prefix ''/'' a \<Longrightarrow> \<not> prefix ''/'' b \<Longrightarrow> path_join dir a = path_join dir b \<longleftrightarrow> a = b"
  by (simp add: path_join_def)

lemma uuid_law_chars:
  assumes "uuid_law ulib"
  shows "CHR ''/'' \<notin> set (uuid_text ulib i)" "CHR ''.'' \<notin> set (uuid_text ulib i)"
proof -
  have "c \<in> set (uuid_text ulib i) \<Longrightarrow> is_ascii_digit c \<or> is_ascii_lower c \<or> c = CHR ''-''" for c
    using assms by (auto simp: uuid_law_def list_all_iff)
  moreover have "\<not> is_ascii_digit (CHR ''/'')" "\<not> is_ascii_lower (CHR ''/'')" "\<not> is_ascii_digit (CHR ''.'')"
    "\<not> is_ascii_lower (CHR ''.'')"
    by code_simp+
  ultimately show "CHR ''/'' \<notin> set (uuid_text ulib i)" "CHR ''.'' \<notin> set (uuid_text ulib i)"
    by fastforce+
qed

lemma temporary_not_report:
  assumes "uuid_law ulib"
  shows "temporary_path ulib store i \<noteq> report_path ulib store j"
proof -
  have "\<not> prefix ''/'' (uuid_text ulib j @ ''.html'')" "hd (uuid_text ulib j @ ''.html'') = CHR ''.'' \<longrightarrow> uuid_text ulib j = []"
    using uuid_law_chars [OF assms, of j] by (cases "uuid_text ulib j"; auto)+
  moreover have "length (''.'' @ uuid_text ulib i @ ''.html.tmp'') \<noteq> length ''.html''" by simp
  ultimately show ?thesis
    unfolding temporary_path_def report_path_def
    by (subst path_join_inject) (auto simp: Cons_eq_append_conv)
qed

lemma report_in_directory:
  assumes "uuid_law ulib"
  shows "in_directory (rs_directory store) (report_path ulib store i)"
proof -
  have "\<not> prefix ''/'' (uuid_text ulib i @ ''.html'')"
    using uuid_law_chars [OF assms, of i] by (cases "uuid_text ulib i") auto
  moreover have "strip_prefix a (a @ b) = Some b" for a b :: string by simp
  ultimately show ?thesis
    using uuid_law_chars [OF assms, of i]
    by (auto simp: in_directory_def report_path_def path_join_def strip_prefix_def)
qed

lemma replay_report:
  "p \<noteq> q \<Longrightarrow> map_of (replay [Created p t, Written p b t', Renamed p q] fs) r =
     (if r = q then Some (RegularFile b t') else if r = p then None else map_of fs r)"
  by (simp add: update_conv' delete_conv' fun_upd_def)

text \<open>A prefix of the effects of a creation is harmless outside the temporary file, or the whole of a success.\<close>

lemma create_prefix:
  fixes ulib store report
  defines "tmp \<equiv> temporary_path ulib store (tr_id report)"
  assumes "store_create ulib parse store report d = Some (r, evs, d')"
  shows "list_all (\<lambda>x. touches tmp x \<or> cleanup_effect store x) (take n evs) \<or>
    (\<exists>clean t t'. list_all (cleanup_effect store) clean \<and>
       take n evs = clean @ [Created tmp t, Written tmp (render_report ulib parse report) t',
         Renamed tmp (report_path ulib store (tr_id report))])"
proof -
  obtain clean w where evs: "evs = clean @ w" and clean: "list_all (cleanup_effect store) clean"
    and w: "case r of Inl _ \<Rightarrow> list_all (touches tmp) w
      | Inr c \<Rightarrow> \<exists>t t'. w = [Created tmp t, Written tmp (render_report ulib parse report) t',
          Renamed tmp (report_path ulib store (tr_id report))]"
    using io_postD [OF post_store_create assms(2)] unfolding tmp_def by (cases r) auto
  from clean have pre: "list_all (cleanup_effect store) (take n clean)"
    by (auto simp: list_all_iff dest: in_set_takeD)
  show ?thesis
  proof (cases r)
    case (Inl e)
    with w pre show ?thesis
      by (auto simp: evs list_all_iff dest: in_set_takeD)
  next
    case (Inr c)
    with w obtain t t' where w: "w = [Created tmp t, Written tmp (render_report ulib parse report) t',
        Renamed tmp (report_path ulib store (tr_id report))]" by auto
    show ?thesis
    proof (cases "n < length clean + 3")
      case True
      then have "set (take n evs) \<subseteq> set (take n clean) \<union> {Created tmp t, Written tmp (render_report ulib parse report) t'}"
        by (auto simp: evs w take_Cons' split: if_splits)
      with pre show ?thesis by (auto simp: list_all_iff)
    next
      case False
      then have "take n evs = evs" by (simp add: evs w)
      with clean show ?thesis by (auto simp: evs w)
    qed
  qed
qed

text \<open>
  C12. Creating a report is atomic on the disk. Whatever fails, and wherever the process stops, a path other
  than the temporary one holds what it held before, or nothing if cleaning up removed it, or, at the path of the new
  report only, the complete page.
\<close>

theorem report_creation_atomic:
  assumes "uuid_law ulib" "store_create ulib parse store report d = Some (r, evs, d')"
    "p \<noteq> temporary_path ulib store (tr_id report)"
  shows "map_of (replay (take n evs) (dk_files d)) p \<in> {map_of (dk_files d) p, None} \<or>
    p = report_path ulib store (tr_id report) \<and>
    (\<exists>t. map_of (replay (take n evs) (dk_files d)) p = Some (RegularFile (render_report ulib parse report) t))"
  using create_prefix [OF assms(2), of n]
proof (elim disjE exE conjE)
  fix clean t t'
  assume clean: "list_all (cleanup_effect store) clean"
    and evs: "take n evs = clean @ [Created (temporary_path ulib store (tr_id report)) t,
      Written (temporary_path ulib store (tr_id report)) (render_report ulib parse report) t',
      Renamed (temporary_path ulib store (tr_id report)) (report_path ulib store (tr_id report))]"
  have "map_of (replay clean (dk_files d)) p \<in> {map_of (dk_files d) p, None}"
    by (rule replay_other [OF _ assms(3)]) (use clean in \<open>auto simp: list_all_iff\<close>)
  then show ?thesis
    using replay_report [OF temporary_not_report [OF assms(1), of store "tr_id report" "tr_id report"], of t
        "render_report ulib parse report" t' "replay clean (dk_files d)" p] assms(3)
    by (simp add: evs del: replay_simps(2)) 
qed (use replay_other [OF _ assms(3)] in blast)

lemma created_file:
  assumes "uuid_law ulib" "store_create ulib parse store report d = Some (Inr created, evs, d')"
  shows "cr_url created = report_url ulib store (tr_id report)"
    and "\<exists>t. map_of (dk_files d') (report_path ulib store (tr_id report)) =
      Some (RegularFile (render_report ulib parse report) t)"
proof -
  have files: "dk_files d' = replay evs (dk_files d)"
    using fs_faithful_create assms(2) by (auto simp: fs_faithful_def)
  obtain clean t t' where "evs = clean @
      [Created (temporary_path ulib store (tr_id report)) t,
       Written (temporary_path ulib store (tr_id report)) (render_report ulib parse report) t',
       Renamed (temporary_path ulib store (tr_id report)) (report_path ulib store (tr_id report))]"
    and url: "cr_url created = report_url ulib store (tr_id report)"
    using io_postD [OF post_store_create assms(2)] by auto
  then show "\<exists>t. map_of (dk_files d') (report_path ulib store (tr_id report)) =
      Some (RegularFile (render_report ulib parse report) t)"
    using replay_report [OF temporary_not_report [OF assms(1)]]
    by (simp add: files del: replay_simps(2))
  show "cr_url created = report_url ulib store (tr_id report)" by (rule url)
qed

lemma valid_report_id_iff:
  "uuid_law ulib \<Longrightarrow> valid_report_id ulib s = Some i \<longleftrightarrow> s = uuid_text ulib i \<and> uuid_is_random ulib i"
  by (auto simp: valid_report_id_def uuid_law_def bind_eq_Some_conv)

text \<open>
  C15. A created report can be read at the address it was given: as long as it is kept, and the disk and the platform do not
  fail, serving the identifier returns the complete page.
\<close>

theorem report_round_trip:
  assumes "uuid_law ulib" "uuid_is_random ulib (tr_id report)"
    "store_create ulib parse store report d = Some (Inr created, evs, d')"
  shows "cr_url created = trim_end_matches (CHR ''/'') (rs_base_url store) @ ''/trust/reports/'' @ uuid_text ulib (tr_id report) \<and>
    (\<exists>t. map_of (dk_files d') (report_path ulib store (tr_id report)) =
       Some (RegularFile (render_report ulib parse report) t) \<and>
     (\<forall>e. dk_files e = dk_files d' \<and> dk_no_mtime e = None \<and> (\<forall>n. dk_fault e n = None) \<and>
       \<not> is_expired_at (dk_system_time e (dk_ops e + 1)) t (rs_retention store) \<longrightarrow>
       (\<exists>e'. serve_report ulib lib (Some store) (uuid_text ulib (tr_id report)) e =
          Some (with_security_headers lib
            \<lparr>rsp_status = 200, rsp_headers = [(''content-type'', ''text/html; charset=utf-8'')],
             rsp_body = Bytes (render_report ulib parse report)\<rparr>, [], e'))))"
proof -
  obtain t where t: "map_of (dk_files d') (report_path ulib store (tr_id report)) =
      Some (RegularFile (render_report ulib parse report) t)"
    using created_file(2) [OF assms(1,3)] by blast
  have "valid_report_id ulib (uuid_text ulib (tr_id report)) = Some (tr_id report)"
    using assms(1,2) by (simp add: valid_report_id_iff)
  then have "\<exists>e'. serve_report ulib lib (Some store) (uuid_text ulib (tr_id report)) e =
      Some (with_security_headers lib
        \<lparr>rsp_status = 200, rsp_headers = [(''content-type'', ''text/html; charset=utf-8'')],
         rsp_body = Bytes (render_report ulib parse report)\<rparr>, [], e')"
    if "dk_files e = dk_files d'" "dk_no_mtime e = None" "\<forall>n. dk_fault e n = None"
      "\<not> is_expired_at (dk_system_time e (dk_ops e + 1)) t (rs_retention store)" for e
    using that t
    by (simp add: serve_report_def store_read_def report_response_def fs_metadata_def fs_read_def is_expired_def
        modified_def system_now_def fs_op_def io_try_def io_bind_def io_return_def Let_def)
  with t created_file(1) [OF assms(1,3)] show ?thesis
    by (auto simp: report_url_def)
qed

lemma fs_metadata_InrD:
  "fs_metadata p d = Some (Inr e, evs, d') \<Longrightarrow>
   map_of (dk_files d) p = Some e \<and> evs = [] \<and> d' = d\<lparr>dk_ops := dk_ops d + 1\<rparr>"
  by (auto simp: fs_metadata_def fs_op_def Let_def split: option.splits)

lemma fs_read_InrD:
  "fs_read p d = Some (Inr b, evs, d') \<Longrightarrow> (\<exists>t. map_of (dk_files d) p = Some (RegularFile b t)) \<and> evs = []"
  by (auto simp: fs_read_def fs_op_def Let_def split: option.splits fs_entry.splits)

lemma is_expired_InrD:
  "is_expired (RegularFile b t) retention d = Some (Inr x, evs, d') \<Longrightarrow>
   x = is_expired_at (dk_system_time d (dk_ops d)) t retention \<and> evs = [] \<and> d' = d"
  by (auto simp: is_expired_def modified_def system_now_def io_try_def io_bind_Some_iff io_return_def
      split: option.splits)

lemma io_try_InrD:
  assumes "io_try m f s = Some (Inr b, evs, s'')"
  shows "\<exists>a evs1 s' evs2. m s = Some (Inr a, evs1, s') \<and> f a s' = Some (Inr b, evs2, s'') \<and> evs = evs1 @ evs2"
proof -
  obtain r evs1 s' evs2 where "m s = Some (r, evs1, s')" "evs = evs1 @ evs2"
    and "(case r of Inl e \<Rightarrow> io_return (Inl e) | Inr a \<Rightarrow> f a) s' = Some (Inr b, evs2, s'')"
    using assms by (auto simp: io_try_def io_bind_Some_iff)
  then show ?thesis by (cases r) (auto simp: io_return_def)
qed

lemma store_read_SomeD:
  assumes "store_read ulib store s d = Some (Inr (Some b), evs, d')"
  shows "\<exists>i t. valid_report_id ulib s = Some i \<and>
    map_of (dk_files d) (report_path ulib store i) = Some (RegularFile b t) \<and>
    \<not> is_expired_at (dk_system_time d (dk_ops d + 1)) t (rs_retention store) \<and> evs = []"
proof -
  obtain i where i: "valid_report_id ulib s = Some i"
    using assms by (cases "valid_report_id ulib s") (auto simp: store_read_def io_return_def)
  let ?p = "report_path ulib store i"
  obtain r ev1 d1 where meta: "fs_metadata ?p d = Some (r, ev1, d1)"
    using assms by (auto simp: store_read_def i Let_def io_bind_Some_iff)
  with assms obtain e ev2 where e: "r = Inr e" "is_file e" "evs = ev1 @ ev2"
    and rest: "io_try (is_expired e (rs_retention store)) (\<lambda>expired.
        if expired then io_bind (remove_file ?p) (\<lambda>_. io_return (Inr None))
        else io_bind (fs_read ?p) (\<lambda>contents. io_return
          (case contents of Inr b \<Rightarrow> Inr (Some b) | Inl NotFoundError \<Rightarrow> Inr None | Inl e \<Rightarrow> Inl e))) d1 =
      Some (Inr (Some b), ev2, d')"
    by (auto simp: store_read_def i Let_def io_bind_Some_iff io_return_def
        split: sum.splits if_splits io_error.splits)
  then obtain b' t where entry: "e = RegularFile b' t" by (cases e) auto
  from io_try_InrD [OF rest] obtain x ev3 d2 ev4 where
    ex: "is_expired e (rs_retention store) d1 = Some (Inr x, ev3, d2)" "ev2 = ev3 @ ev4"
    and k: "(if x then io_bind (remove_file ?p) (\<lambda>_. io_return (Inr None))
        else io_bind (fs_read ?p) (\<lambda>contents. io_return
          (case contents of Inr b \<Rightarrow> Inr (Some b) | Inl NotFoundError \<Rightarrow> Inr None | Inl e \<Rightarrow> Inl e))) d2 =
      Some (Inr (Some b), ev4, d')"
    by blast
  then have x: "\<not> x" by (auto simp: io_bind_Some_iff io_return_def)
  with k have "io_bind (fs_read ?p) (\<lambda>contents. io_return
          (case contents of Inr b \<Rightarrow> Inr (Some b) | Inl NotFoundError \<Rightarrow> Inr None | Inl e \<Rightarrow> Inl e)) d2 =
      Some (Inr (Some b), ev4, d')" by simp
  then obtain contents ev5 d3 ev6 where "fs_read ?p d2 = Some (contents, ev5, d3)" "ev4 = ev5 @ ev6"
    "io_return (case contents of Inr b \<Rightarrow> Inr (Some b) | Inl NotFoundError \<Rightarrow> Inr None | Inl e \<Rightarrow> Inl e) d3 =
      Some (Inr (Some b) :: io_error + bytes option, ev6, d')"
    unfolding io_bind_Some_iff by blast
  then have "fs_read ?p d2 = Some (Inr b, ev4, d3)"
    by (cases contents; cases "projl contents") (auto simp: io_return_def)
  with meta ex x e entry i show ?thesis
    using fs_metadata_InrD [of ?p d e] is_expired_InrD [of b' t "rs_retention store" d1] fs_read_InrD [of ?p d2 b]
    by fastforce
qed

text \<open>
  C16. Whatever identifier is asked for, a page is served only for the text of a random identifier, it
  is the content of that report's own file inside the directory of the store, and the file is not expired.
\<close>

theorem served_report_sound:
  assumes "uuid_law ulib" "serve_report ulib lib (Some store) s d = Some (resp, evs, d')" "rsp_status resp = 200"
  shows "\<exists>i b t. s = uuid_text ulib i \<and> uuid_is_random ulib i \<and>
    in_directory (rs_directory store) (report_path ulib store i) \<and>
    map_of (dk_files d) (report_path ulib store i) = Some (RegularFile b t) \<and>
    \<not> is_expired_at (dk_system_time d (dk_ops d + 1)) t (rs_retention store) \<and>
    rsp_body resp = Bytes b \<and> evs = []"
proof -
  obtain r where read: "store_read ulib store s d = Some (r, evs, d')"
    and resp: "resp = with_security_headers lib (report_response r)"
    using assms(2) by (auto simp: serve_report_def io_bind_Some_iff io_return_def)
  with assms(3) obtain b where r: "r = Inr (Some b)"
    by (auto simp: with_security_headers_def report_response_def response_with_text_def split: sum.splits option.splits)
  from store_read_SomeD [OF read [unfolded r]] show ?thesis
    using report_in_directory [OF assms(1)] assms(1)
    by (auto simp: valid_report_id_iff resp r with_security_headers_def report_response_def)
qed

section \<open>A sample store\<close>

definition sample_uuid_lib :: uuid_lib where
  "sample_uuid_lib =
     \<lparr>uuid_text = (\<lambda>i. show_nat (unat i)), uuid_parse_str = (\<lambda>s. map_option of_nat (parse_uint 128 s)),
      uuid_is_random = (\<lambda>_. True), uuid_v5_url = (\<lambda>_. 5)\<rparr>"

lemma sample_uuid_law: "uuid_law sample_uuid_lib"
proof -
  have "parse_uint 128 (show_nat (unat i)) = Some (unat i)" for i :: uuid
    by (rule parse_uint_show_nat) (use unsigned_less [of i, where ?'a = nat] in simp)
  then show ?thesis
    using show_nat_digits by (auto simp: uuid_law_def sample_uuid_lib_def list_all_iff)
qed

definition sample_store :: report_store where
  "sample_store =
     \<lparr>rs_directory = ''/reports'', rs_base_url = ''https://trust.example/'', rs_retention = 1000\<rparr>"

definition sample_disk :: disk where
  "sample_disk =
     \<lparr>dk_files = [(''/reports'', DirectoryEntry)], dk_ops = 0, dk_fault = (\<lambda>_. None), dk_system_time = int,
      dk_instant = (\<lambda>n. n), dk_no_mtime = None, dk_last_cleanup = 0\<rparr>"

definition sample_report :: trust_report where
  "sample_report =
     \<lparr>tr_id = 7, tr_created_at = ''2024-01-01T00:00:00Z'', tr_requester = None,
      tr_context = \<lparr>ctx_repository = ''npm-proxy'', ctx_format = ''npm'', ctx_team = None\<rparr>,
      tr_block = \<lparr>br_target = Package (from_osv ''npm'' ''left-pad'' ''1.0.0''), br_reason = ''blocked'',
        br_policy_id = None, br_policy_violations = [], br_vulnerabilities = []\<rparr>,
      tr_severity_counts = from_vulnerabilities []\<rparr>"

definition sample_page :: string where
  "sample_page = render_report sample_uuid_lib Inl sample_report"

definition sample_disk' :: disk where
  "sample_disk' = sample_disk\<lparr>dk_files := [(''/reports'', DirectoryEntry), (''/reports/7.html'', RegularFile sample_page 1)],
     dk_ops := 4\<rparr>"

lemma sample_paths:
  "report_path sample_uuid_lib sample_store (tr_id sample_report) = ''/reports/7.html''"
  "temporary_path sample_uuid_lib sample_store (tr_id sample_report) = ''/reports/.7.html.tmp''"
  by code_simp+

lemma sample_create:
  "store_create sample_uuid_lib Inl sample_store sample_report sample_disk =
     Some (Inr \<lparr>cr_url = ''https://trust.example/trust/reports/7''\<rparr>,
       [Created ''/reports/.7.html.tmp'' 0, Written ''/reports/.7.html.tmp'' sample_page 1,
        Renamed ''/reports/.7.html.tmp'' ''/reports/7.html''], sample_disk')"
proof -
  have "report_url sample_uuid_lib sample_store (tr_id sample_report) = ''https://trust.example/trust/reports/7''"
    by code_simp
  then show ?thesis
    by (simp add: store_create_def cleanup_if_due_def cleanup_interval_def instant_now_def or_remove_def write_fresh_def
        open_new_def write_all_def sync_all_def rename_def fs_op_def io_try_def io_bind_def io_return_def io_get_def
        Let_def sample_paths sample_page_def [symmetric] sample_disk_def sample_disk'_def)
qed

theorem report_creation_atomic_witness:
  "map_of (replay (take 2 [Created ''/reports/.7.html.tmp'' 0, Written ''/reports/.7.html.tmp'' sample_page 1,
        Renamed ''/reports/.7.html.tmp'' ''/reports/7.html'']) (dk_files sample_disk)) ''/reports/7.html'' = None"
  using report_creation_atomic [OF sample_uuid_law sample_create, of "''/reports/7.html''" 2]
  by (auto simp: sample_paths sample_disk_def)

theorem report_round_trip_witness:
  "\<exists>e'. serve_report sample_uuid_lib sample_http_lib (Some sample_store) ''7'' sample_disk' =
     Some (with_security_headers sample_http_lib
       \<lparr>rsp_status = 200, rsp_headers = [(''content-type'', ''text/html; charset=utf-8'')],
        rsp_body = Bytes sample_page\<rparr>, [], e')"
proof -
  have i: "uuid_text sample_uuid_lib (tr_id sample_report) = ''7''" by code_simp
  have "uuid_is_random sample_uuid_lib (tr_id sample_report)" by (simp add: sample_uuid_lib_def)
  from report_round_trip [OF sample_uuid_law this sample_create, of sample_http_lib, THEN conjunct2]
  show ?thesis
    unfolding i sample_paths sample_page_def [symmetric]
    apply (elim exE conjE)
    apply (drule spec [of _ sample_disk'])
    apply (erule mp)
    apply (simp add: is_expired_at_def sample_disk'_def sample_disk_def sample_store_def)
    done
qed

theorem served_report_sound_witness:
  "\<exists>t. map_of (dk_files sample_disk') ''/reports/7.html'' = Some (RegularFile sample_page t) \<and>
     \<not> is_expired_at 5 t (rs_retention sample_store)"
proof -
  have "uuid_text sample_uuid_lib 7 = ''7''" by code_simp
  then have "valid_report_id sample_uuid_lib ''7'' = Some 7"
    using valid_report_id_iff [OF sample_uuid_law, of "''7''" 7] by (simp add: sample_uuid_lib_def)
  moreover have p: "report_path sample_uuid_lib sample_store 7 = ''/reports/7.html''" by code_simp
  ultimately have "serve_report sample_uuid_lib sample_http_lib (Some sample_store) ''7'' sample_disk' =
      Some (with_security_headers sample_http_lib (report_response (Inr (Some sample_page))), [], sample_disk'\<lparr>dk_ops := 6\<rparr>)"
    by (simp add: serve_report_def store_read_def fs_metadata_def fs_read_def is_expired_def modified_def
        system_now_def fs_op_def io_try_def io_bind_def io_return_def Let_def is_expired_at_def sample_disk'_def
        sample_disk_def sample_store_def)
  from served_report_sound [OF sample_uuid_law this] obtain i t where i: "''7'' = uuid_text sample_uuid_lib i"
    and t: "map_of (dk_files sample_disk') (report_path sample_uuid_lib sample_store i) = Some (RegularFile sample_page t)"
    "\<not> is_expired_at (dk_system_time sample_disk' (dk_ops sample_disk' + 1)) t (rs_retention sample_store)"
    by (auto simp: with_security_headers_def report_response_def)
  have "i = 7"
  proof -
    have "''7'' = uuid_text sample_uuid_lib 7" by code_simp
    with i have "uuid_parse_str sample_uuid_lib (uuid_text sample_uuid_lib i) =
        uuid_parse_str sample_uuid_lib (uuid_text sample_uuid_lib 7)" by simp
    then show ?thesis using sample_uuid_law by (simp add: uuid_law_def)
  qed
  with t p show ?thesis by (auto simp: sample_disk'_def sample_disk_def)
qed

end
