(* ===== verification/Defectdojo.thy ===== *)
theory Defectdojo
  imports Http Trust_Report Utf8
begin

text \<open>
  The DefectDojo client (\<^verbatim>\<open>crates/defectdojo/src/lib.rs\<close>): a trust report is sent as a Generic Findings import, and
  the delivery is counted. The JSON encoder and decoder, the multipart builder, the URL library, the UUID library, the clock
  and the HTTP client are parameters; an error of the HTTP client tells whether it was a timeout. Counters are
  64-bit words that wrap, as \<^verbatim>\<open>AtomicU64::fetch_add\<close> does.
\<close>

section \<open>Findings\<close>

record generic_finding =
  gf_title :: string
  gf_severity :: string
  gf_description :: string
  gf_vuln_id_from_tool :: string
  gf_unique_id_from_tool :: string
  gf_cve :: "string option"
  gf_references :: string
  gf_component_name :: string
  gf_component_version :: "string option"
  gf_mitigation :: "string option"
  gf_fix_available :: "bool option"
  gf_fix_version :: "string option"
  gf_tags :: "string list"

record generic_report =
  gr_name :: string
  gr_kind :: string
  gr_findings :: "generic_finding list"

definition scan_type :: string where
  "scan_type = ''Generic Findings Import''"

definition report_type :: string where
  "report_type = ''Nexus Security Proxy''"

fun defectdojo_severity :: "severity option \<Rightarrow> string" where
  "defectdojo_severity (Some Critical) = ''Critical''"
| "defectdojo_severity (Some High) = ''High''"
| "defectdojo_severity (Some Medium) = ''Medium''"
| "defectdojo_severity (Some Low) = ''Low''"
| "defectdojo_severity None = ''Info''"

definition report_tags :: "uuid_lib \<Rightarrow> trust_report \<Rightarrow> string list" where
  "report_tags ulib report =
     [''repository:'' @ ctx_repository (tr_context report), ''format:'' @ ctx_format (tr_context report),
      ''report:'' @ uuid_text ulib (tr_id report)]
     @ (case ctx_team (tr_context report) of None \<Rightarrow> [] | Some team \<Rightarrow> [''team:'' @ team])
     @ (case br_policy_id (tr_block report) of None \<Rightarrow> [] | Some policy \<Rightarrow> [''policy:'' @ policy])"

definition normalized_cve :: "string \<Rightarrow> string option" where
  "normalized_cve s =
     (let u = to_ascii_uppercase (trim s)
      in then_some
           (case split_on (CHR ''-'') u of
              [cve, year, i] \<Rightarrow>
                cve = ''CVE'' \<and> length year = 4 \<and> list_all is_ascii_digit year \<and>
                4 \<le> length i \<and> list_all is_ascii_digit i
            | _ \<Rightarrow> False) u)"

definition finding_references :: "vulnerability \<Rightarrow> string option \<Rightarrow> string" where
  "finding_references v cve =
     (let urls = map ref_url (v_references v)
      in join newline
           (case cve of
              None \<Rightarrow> urls
            | Some c \<Rightarrow>
                let u = ''https://nvd.nist.gov/vuln/detail/'' @ c
                in if u \<in> set urls then urls else urls @ [u]))"

definition report_context :: "uuid_lib \<Rightarrow> trust_report \<Rightarrow> string" where
  "report_context ulib report =
     (let block = tr_block report; context = tr_context report; counts = tr_severity_counts report;
          violations =
            (if br_policy_violations block = [] then ''Unavailable''
             else join newline (map (\<lambda>v. ''- '' @ pv_reason v) (br_policy_violations block)))
      in ''Reason: '' @ br_reason block @ newline
         @ ''Repository: '' @ ctx_repository context @ newline
         @ ''Artifact format: '' @ ctx_format context @ newline
         @ ''Target: '' @ display_name (br_target block) @ newline
         @ ''Team: '' @ unwrap_or (ctx_team context) ''Unavailable'' @ newline
         @ ''Policy: '' @ unwrap_or (br_policy_id block) ''Unsupported target policy'' @ newline
         @ ''Requester: '' @ unwrap_or (tr_requester report) ''Unavailable'' @ newline
         @ ''Blocked at: '' @ tr_created_at report @ newline
         @ ''Report UUID: '' @ uuid_text ulib (tr_id report) @ newline
         @ ''Severity counts: critical='' @ show_nat (cnt_critical counts)
         @ '', high='' @ show_nat (cnt_high counts)
         @ '', medium='' @ show_nat (cnt_medium counts)
         @ '', low='' @ show_nat (cnt_low counts)
         @ '', unknown='' @ show_nat (cnt_unknown counts) @ newline
         @ ''Policy violations:'' @ newline @ violations)"

definition finding_description :: "uuid_lib \<Rightarrow> trust_report \<Rightarrow> vulnerability \<Rightarrow> string" where
  "finding_description ulib report v =
     (case v_summary v of None \<Rightarrow> [] | Some s \<Rightarrow> s @ newline @ newline)
     @ (case v_details v of None \<Rightarrow> [] | Some s \<Rightarrow> s @ newline @ newline)
     @ report_context ulib report"

abbreviation nul :: string where
  "nul \<equiv> [CHR 0x00]"

definition vulnerability_identity_text :: "trust_report \<Rightarrow> vulnerability \<Rightarrow> string" where
  "vulnerability_identity_text report v =
     (let target = br_target (tr_block report)
      in ''nexus-sec-proxy'' @ nul @ ctx_repository (tr_context report)
         @ nul @ cache_namespace target
         @ nul @ cache_identifier target
         @ nul @ unwrap_or (cache_version target) []
         @ nul @ v_id v)"

definition vulnerability_identity :: "uuid_lib \<Rightarrow> trust_report \<Rightarrow> vulnerability \<Rightarrow> string" where
  "vulnerability_identity ulib report v =
     uuid_text ulib (uuid_v5_url ulib (vulnerability_identity_text report v))"

definition vulnerability_finding :: "uuid_lib \<Rightarrow> trust_report \<Rightarrow> vulnerability \<Rightarrow> generic_finding" where
  "vulnerability_finding ulib report v =
     (let target = display_name (br_target (tr_block report));
          cve = find_map normalized_cve (identifiers v)
      in \<lparr>gf_title = v_id v @ '' in '' @ target,
          gf_severity = defectdojo_severity (v_severity v),
          gf_description = finding_description ulib report v,
          gf_vuln_id_from_tool = v_id v,
          gf_unique_id_from_tool = vulnerability_identity ulib report v,
          gf_cve = cve,
          gf_references = finding_references v cve,
          gf_component_name = unwrap_or (v_component_name v) target,
          gf_component_version = or_else (v_component_version v) (cache_version (br_target (tr_block report))),
          gf_mitigation = mitigation v target,
          gf_fix_available = then_some (v_fixed_versions v \<noteq> []) True,
          gf_fix_version = then_some (v_fixed_versions v \<noteq> []) (join '', '' (v_fixed_versions v)),
          gf_tags = report_tags ulib report\<rparr>)"

definition policy_finding :: "uuid_lib \<Rightarrow> trust_report \<Rightarrow> generic_finding" where
  "policy_finding ulib report =
     (let target = display_name (br_target (tr_block report))
      in \<lparr>gf_title = ''Policy block: '' @ target,
          gf_severity = ''Info'',
          gf_description = report_context ulib report,
          gf_vuln_id_from_tool = ''NEXUS-SEC-PROXY-POLICY'',
          gf_unique_id_from_tool =
            uuid_text ulib (uuid_v5_url ulib
              (''nexus-sec-proxy'' @ nul @ ''policy'' @ nul @ uuid_text ulib (tr_id report))),
          gf_cve = None, gf_references = [], gf_component_name = target, gf_component_version = None,
          gf_mitigation = None, gf_fix_available = None, gf_fix_version = None,
          gf_tags = report_tags ulib report\<rparr>)"

definition generic_report_from :: "uuid_lib \<Rightarrow> trust_report \<Rightarrow> generic_report" where
  "generic_report_from ulib report =
     \<lparr>gr_name = ''Nexus Security Proxy block '' @ uuid_text ulib (tr_id report),
      gr_kind = report_type,
      gr_findings =
        (if br_vulnerabilities (tr_block report) = [] then [policy_finding ulib report]
         else map (vulnerability_finding ulib report) (br_vulnerabilities (tr_block report)))\<rparr>"

section \<open>Serialisation\<close>

definition optional_field :: "string \<Rightarrow> ('a \<Rightarrow> json) \<Rightarrow> 'a option \<Rightarrow> (string \<times> json) list" where
  "optional_field name enc x = (case x of None \<Rightarrow> [] | Some a \<Rightarrow> [(name, enc a)])"

definition finding_json :: "generic_finding \<Rightarrow> json" where
  "finding_json f = JObject
     ([(''title'', JString (gf_title f)), (''severity'', JString (gf_severity f)),
       (''description'', JString (gf_description f)),
       (''vuln_id_from_tool'', JString (gf_vuln_id_from_tool f)),
       (''unique_id_from_tool'', JString (gf_unique_id_from_tool f))]
      @ optional_field ''cve'' JString (gf_cve f)
      @ (if gf_references f = [] then [] else [(''references'', JString (gf_references f))])
      @ [(''component_name'', JString (gf_component_name f))]
      @ optional_field ''component_version'' JString (gf_component_version f)
      @ optional_field ''mitigation'' JString (gf_mitigation f)
      @ optional_field ''fix_available'' JBool (gf_fix_available f)
      @ optional_field ''fix_version'' JString (gf_fix_version f)
      @ [(''tags'', JArray (map JString (gf_tags f)))])"

definition report_json :: "generic_report \<Rightarrow> json" where
  "report_json r = JObject
     [(''name'', JString (gr_name r)), (''type'', JString (gr_kind r)),
      (''findings'', JArray (map finding_json (gr_findings r)))]"

section \<open>The client\<close>

record import_response =
  ir_test_id :: "u64 option"
  ir_test :: "u64 option"

record request_error =
  rq_timeout :: bool
  rq_text :: string

datatype defectdojo_error =
    DojoSerialize string
  | DojoMultipart string
  | DojoRequest request_error
  | DojoRejected nat string
  | DojoInvalidResponse string
  | DojoMissingTestId

fun dojo_category :: "defectdojo_error \<Rightarrow> string" where
  "dojo_category (DojoSerialize _) = ''report_encoding''"
| "dojo_category (DojoMultipart _) = ''report_encoding''"
| "dojo_category (DojoRequest e) = (if rq_timeout e then ''timeout'' else ''transport'')"
| "dojo_category (DojoRejected _ _) = ''rejected''"
| "dojo_category (DojoInvalidResponse _) = ''invalid_response''"
| "dojo_category DojoMissingTestId = ''invalid_response''"

fun dojo_error_display :: "(nat \<Rightarrow> string) \<Rightarrow> defectdojo_error \<Rightarrow> string" where
  "dojo_error_display show_status (DojoSerialize e) = ''failed to serialize Generic Findings report: '' @ e"
| "dojo_error_display show_status (DojoMultipart e) = ''failed to build multipart report: '' @ e"
| "dojo_error_display show_status (DojoRequest e) = ''DefectDojo request failed: '' @ rq_text e"
| "dojo_error_display show_status (DojoRejected st body) =
     ''DefectDojo rejected the report with '' @ show_status st @ '': '' @ body"
| "dojo_error_display show_status (DojoInvalidResponse e) = ''DefectDojo returned malformed JSON: '' @ e"
| "dojo_error_display show_status DojoMissingTestId =
     ''DefectDojo response did not identify the created Test''"

record dojo_config =
  dc_base_url :: url
  dc_token :: string
  dc_engagement_id :: u64

record dojo_status =
  ds_submitted :: u64
  ds_failed :: u64
  ds_last_success_at :: "string option"
  ds_last_failure_at :: "string option"
  ds_last_failure_category :: "string option"

definition dojo_status_default :: dojo_status where
  "dojo_status_default =
     \<lparr>ds_submitted = 0, ds_failed = 0, ds_last_success_at = None, ds_last_failure_at = None,
      ds_last_failure_category = None\<rparr>"

text \<open>The status with the world outside the process.\<close>

record 'w dojo =
  dj_status :: dojo_status
  dj_world :: 'w

record 'w dojo_lib =
  dl_uuid :: uuid_lib
  dl_url :: url_lib
  dl_clear_fragment :: "url \<Rightarrow> url"
  dl_http :: http_lib
  dl_time :: time_lib
  dl_to_vec :: "json \<Rightarrow> string + bytes"
  dl_mime_str :: "string \<Rightarrow> string + unit"
  dl_import_json :: "http_response \<Rightarrow> string + import_response"
  dl_send :: "http_request \<Rightarrow> 'w \<Rightarrow> (request_error + http_response) \<times> 'w"
  dl_now :: "'w \<Rightarrow> offset_date_time \<times> 'w"

datatype dojo_event = DojoSent http_request

type_synonym ('w, 'a) dojo_io = "('w dojo, dojo_event, 'a) io"

definition url_with_path :: "'w dojo_lib \<Rightarrow> url \<Rightarrow> string \<Rightarrow> url" where
  "url_with_path lib base path =
     dl_clear_fragment lib (url_set_query (dl_url lib) None
       (url_set_path (dl_url lib)
          (trim_end_matches (CHR ''/'') (url_path (dl_url lib) base) @ ''/'' @ trim_start_matches (CHR ''/'') path) base))"

definition import_request :: "'w dojo_lib \<Rightarrow> dojo_config \<Rightarrow> trust_report \<Rightarrow> bytes \<Rightarrow> http_request" where
  "import_request lib config report payload =
     (request_to ''POST'' (url_with_path lib (dc_base_url config) ''api/v2/import-scan/''))
       \<lparr>hr_headers := [(''authorization'', ''Token '' @ dc_token config)],
        hr_body := MultipartBody
          [(''scan_type'', TextPart scan_type),
           (''engagement'', TextPart (show_u64 (dc_engagement_id config))),
           (''background_import'', TextPart ''false''),
           (''minimum_severity'', TextPart ''Info''),
           (''active'', TextPart ''true''),
           (''verified'', TextPart ''true''),
           (''skip_duplicates'', TextPart ''false''),
           (''test_title'', TextPart (''Nexus Security Proxy block '' @ uuid_text (dl_uuid lib) (tr_id report))),
           (''file'', FilePart payload ''nexus-sec-proxy.json'' ''application/json'')]\<rparr>"

text \<open>What the client makes of the answer: the address of the created test.\<close>

definition import_result ::
  "'w dojo_lib \<Rightarrow> dojo_config \<Rightarrow> request_error + http_response \<Rightarrow> defectdojo_error + string" where
  "import_result lib config answer =
     (case answer of
        Inl e \<Rightarrow> Inl (DojoRequest e)
      | Inr r \<Rightarrow>
          if \<not> is_success (hs_status r)
          then Inl (DojoRejected (hs_status r)
                 (chars_take 4096 (case response_text (dl_http lib) r of Inl _ \<Rightarrow> [] | Inr body \<Rightarrow> body)))
          else res_bind (map_err DojoInvalidResponse (dl_import_json lib r)) (\<lambda>response.
            res_bind (ok_or DojoMissingTestId
                (opt_filter (\<lambda>i. 0 < i) (or_else (ir_test_id response) (ir_test response)))) (\<lambda>test_id.
              Inr (url_with_path lib (dc_base_url config) (''test/'' @ show_u64 test_id)))))"

definition encode_report :: "'w dojo_lib \<Rightarrow> trust_report \<Rightarrow> defectdojo_error + bytes" where
  "encode_report lib report =
     res_bind (map_err DojoSerialize (dl_to_vec lib (report_json (generic_report_from (dl_uuid lib) report))))
       (\<lambda>payload. res_bind (map_err DojoMultipart (dl_mime_str lib ''application/json'')) (\<lambda>_. Inr payload))"

definition dojo_send :: "'w dojo_lib \<Rightarrow> http_request \<Rightarrow> ('w, request_error + http_response) dojo_io" where
  "dojo_send lib req = io_call (DojoSent req)
     (\<lambda>s. let (r, w) = dl_send lib req (dj_world s) in (r, s\<lparr>dj_world := w\<rparr>))"

definition dojo_now :: "'w dojo_lib \<Rightarrow> ('w, string) dojo_io" where
  "dojo_now lib = io_ext (\<lambda>s. let (t, w) = dl_now lib (dj_world s)
     in (unwrap_or (rfc3339_format (dl_time lib) t) (odt_unix_timestamp (dl_time lib) t), s\<lparr>dj_world := w\<rparr>))"

definition update_status :: "(dojo_status \<Rightarrow> dojo_status) \<Rightarrow> ('w, unit) dojo_io" where
  "update_status f = io_modify (\<lambda>s. s\<lparr>dj_status := f (dj_status s)\<rparr>)"

definition record_success :: "'w dojo_lib \<Rightarrow> ('w, unit) dojo_io" where
  "record_success lib = io_bind (dojo_now lib) (\<lambda>now. update_status (\<lambda>st. st\<lparr>ds_last_success_at := Some now\<rparr>))"

definition record_failure :: "'w dojo_lib \<Rightarrow> string \<Rightarrow> ('w, unit) dojo_io" where
  "record_failure lib category =
     io_then (update_status (\<lambda>st. st\<lparr>ds_failed := ds_failed st + 1\<rparr>))
       (io_bind (dojo_now lib) (\<lambda>now. update_status (\<lambda>st.
          st\<lparr>ds_last_failure_at := Some now, ds_last_failure_category := Some category\<rparr>)))"

definition submit_inner ::
  "'w dojo_lib \<Rightarrow> dojo_config \<Rightarrow> trust_report \<Rightarrow> ('w, defectdojo_error + string) dojo_io" where
  "submit_inner lib config report =
     (case encode_report lib report of
        Inl e \<Rightarrow> io_return (Inl e)
      | Inr payload \<Rightarrow>
          io_bind (dojo_send lib (import_request lib config report payload))
            (\<lambda>answer. io_return (import_result lib config answer)))"

definition submit ::
  "'w dojo_lib \<Rightarrow> dojo_config \<Rightarrow> trust_report \<Rightarrow> ('w, defectdojo_error + string) dojo_io" where
  "submit lib config report =
     io_then (update_status (\<lambda>st. st\<lparr>ds_submitted := ds_submitted st + 1\<rparr>))
       (io_bind (submit_inner lib config report) (\<lambda>r.
          io_then (case r of Inr _ \<Rightarrow> record_success lib | Inl e \<Rightarrow> record_failure lib (dojo_category e))
            (io_return r)))"

section \<open>Lemmas\<close>

lemma no_hyphen_digits: "list_all is_ascii_digit s \<Longrightarrow> CHR ''-'' \<notin> set s"
proof -
  have "\<not> is_ascii_digit (CHR ''-'')" by code_simp
  then show "list_all is_ascii_digit s \<Longrightarrow> CHR ''-'' \<notin> set s" by (auto simp: list_all_iff)
qed

text \<open>An identifier is a CVE exactly if, trimmed and in upper case, it has the form of one.\<close>

lemma normalized_cve_iff:
  "normalized_cve s = Some u \<longleftrightarrow>
     u = to_ascii_uppercase (trim s) \<and>
     (\<exists>year i. u = ''CVE-'' @ year @ ''-'' @ i \<and> length year = 4 \<and> list_all is_ascii_digit year \<and>
        4 \<le> length i \<and> list_all is_ascii_digit i)"
proof -
  have parts: "split_on (CHR ''-'') u = [''CVE'', year, i] \<longleftrightarrow> u = ''CVE-'' @ year @ ''-'' @ i"
    if "list_all is_ascii_digit year" "list_all is_ascii_digit i" for year i
  proof
    assume "split_on (CHR ''-'') u = [''CVE'', year, i]"
    then show "u = ''CVE-'' @ year @ ''-'' @ i" using join_split_on [of "CHR ''-''" u] by simp
  next
    assume "u = ''CVE-'' @ year @ ''-'' @ i"
    moreover have "\<forall>x \<in> set year. x \<noteq> CHR ''-''" "\<forall>x \<in> set i. x \<noteq> CHR ''-''"
      using that [THEN no_hyphen_digits] by auto
    then have "split_on (CHR ''-'') (year @ CHR ''-'' # i) = [year, i]"
      by (simp only: split_by_append_sep split_by_single refl)
    ultimately show "split_on (CHR ''-'') u = [''CVE'', year, i]" by simp
  qed
  show ?thesis
  proof
    assume "normalized_cve s = Some u"
    then show "u = to_ascii_uppercase (trim s) \<and>
      (\<exists>year i. u = ''CVE-'' @ year @ ''-'' @ i \<and> length year = 4 \<and> list_all is_ascii_digit year \<and>
        4 \<le> length i \<and> list_all is_ascii_digit i)"
      using parts by (auto simp: normalized_cve_def Let_def split: list.splits)
  next
    assume "u = to_ascii_uppercase (trim s) \<and>
      (\<exists>year i. u = ''CVE-'' @ year @ ''-'' @ i \<and> length year = 4 \<and> list_all is_ascii_digit year \<and>
        4 \<le> length i \<and> list_all is_ascii_digit i)"
    then obtain year i where u: "to_ascii_uppercase (trim s) = u" "u = ''CVE-'' @ year @ ''-'' @ i"
      and ok: "length year = 4" "list_all is_ascii_digit year" "4 \<le> length i" "list_all is_ascii_digit i" by blast
    with parts have "split_on (CHR ''-'') u = [''CVE'', year, i]" by blast
    with u(1) ok show "normalized_cve s = Some u" by (simp add: normalized_cve_def)
  qed
qed

lemma nul_append_eq_iff:
  "CHR 0x00 \<notin> set a \<Longrightarrow> CHR 0x00 \<notin> set b \<Longrightarrow> a @ CHR 0x00 # x = b @ CHR 0x00 # y \<longleftrightarrow> a = b \<and> x = y"
proof (induction a arbitrary: b)
  case Nil
  then show ?case by (cases b) auto
next
  case (Cons c a)
  then show ?case by (cases b) auto
qed

definition nul_free_report :: "trust_report \<Rightarrow> bool" where
  "nul_free_report report \<longleftrightarrow>
     (let target = br_target (tr_block report)
      in list_all (\<lambda>s. CHR 0x00 \<notin> set s)
           [ctx_repository (tr_context report), cache_namespace target, cache_identifier target,
            unwrap_or (cache_version target) []])"

text \<open>
  The text that identifies a finding towards DefectDojo separates findings: for two reports whose
  repository and target have no NUL character, two findings have the same text only if they agree in the
  repository, the target and the vulnerability.
\<close>

theorem finding_identity_inject:
  assumes "nul_free_report r" "nul_free_report r'"
    "vulnerability_identity_text r v = vulnerability_identity_text r' v'"
  shows "ctx_repository (tr_context r) = ctx_repository (tr_context r') \<and>
    cache_namespace (br_target (tr_block r)) = cache_namespace (br_target (tr_block r')) \<and>
    cache_identifier (br_target (tr_block r)) = cache_identifier (br_target (tr_block r')) \<and>
    unwrap_or (cache_version (br_target (tr_block r))) [] = unwrap_or (cache_version (br_target (tr_block r'))) [] \<and>
    v_id v = v_id v'"
  using assms
  by (simp add: vulnerability_identity_text_def nul_free_report_def Let_def nul_append_eq_iff)

lemma run_dojo [io_simps]:
  "dojo_send lib req s =
     Some (fst (dl_send lib req (dj_world s)), [DojoSent req], s\<lparr>dj_world := snd (dl_send lib req (dj_world s))\<rparr>)"
  "update_status f s = Some ((), [], s\<lparr>dj_status := f (dj_status s)\<rparr>)"
  "dojo_now lib s = Some
     (unwrap_or (rfc3339_format (dl_time lib) (fst (dl_now lib (dj_world s))))
        (odt_unix_timestamp (dl_time lib) (fst (dl_now lib (dj_world s)))), [],
      s\<lparr>dj_world := snd (dl_now lib (dj_world s))\<rparr>)"
  by (simp_all add: dojo_send_def update_status_def dojo_now_def io_call_run io_run_simps split_beta Let_def)

text \<open>What is submitted and what is answered.\<close>

definition submission_result ::
  "'w dojo_lib \<Rightarrow> dojo_config \<Rightarrow> trust_report \<Rightarrow> 'w \<Rightarrow> defectdojo_error + string" where
  "submission_result lib config report w =
     (case encode_report lib report of
        Inl e \<Rightarrow> Inl e
      | Inr payload \<Rightarrow> import_result lib config (fst (dl_send lib (import_request lib config report payload) w)))"

definition is_error :: "'e + 'a \<Rightarrow> bool" where
  "is_error r \<longleftrightarrow> (case r of Inl _ \<Rightarrow> True | Inr _ \<Rightarrow> False)"

lemma submit_run:
  "\<exists>evs s'. submit lib config report s = Some (submission_result lib config report (dj_world s), evs, s') \<and>
     evs = (case encode_report lib report of
              Inl _ \<Rightarrow> [] | Inr payload \<Rightarrow> [DojoSent (import_request lib config report payload)]) \<and>
     ds_submitted (dj_status s') = ds_submitted (dj_status s) + 1 \<and>
     ds_failed (dj_status s') =
       ds_failed (dj_status s) + (if is_error (submission_result lib config report (dj_world s)) then 1 else 0) \<and>
     ds_last_failure_category (dj_status s') =
       (case submission_result lib config report (dj_world s) of
          Inl e \<Rightarrow> Some (dojo_category e) | Inr _ \<Rightarrow> ds_last_failure_category (dj_status s))"
  by (simp add: submit_def submit_inner_def submission_result_def record_success_def record_failure_def is_error_def
      io_then_def io_bind_def run_dojo io_run_simps split: sum.split)

text \<open>
  C17. Submitting a report always completes. It sends at most one request, and none if the report cannot be
  encoded; it succeeds exactly if the service accepts the request and names a test, and every submission
  counts once as submitted and, if it fails, once as failed, with its category.
\<close>

theorem submit_outcome:
  "\<exists>evs s'. submit lib config report s = Some (submission_result lib config report (dj_world s), evs, s') \<and>
     evs = (case encode_report lib report of
              Inl _ \<Rightarrow> [] | Inr payload \<Rightarrow> [DojoSent (import_request lib config report payload)]) \<and>
     ds_submitted (dj_status s') = ds_submitted (dj_status s) + 1 \<and>
     ds_failed (dj_status s') =
       ds_failed (dj_status s) + (if is_error (submission_result lib config report (dj_world s)) then 1 else 0) \<and>
     ds_last_failure_category (dj_status s') =
       (case submission_result lib config report (dj_world s) of
          Inl e \<Rightarrow> Some (dojo_category e) | Inr _ \<Rightarrow> ds_last_failure_category (dj_status s))"
  by (rule submit_run)

text \<open>
  The address of a created report is that of the test the service names first, and no answer
  other than a success with a positive test number gives one.
\<close>

theorem import_result_Inr_iff:
  "import_result lib config answer = Inr u \<longleftrightarrow>
     (\<exists>r response i. answer = Inr r \<and> is_success (hs_status r) \<and> dl_import_json lib r = Inr response \<and>
        (case ir_test_id response of Some j \<Rightarrow> i = j | None \<Rightarrow> ir_test response = Some i) \<and> 0 < i \<and>
        u = url_with_path lib (dc_base_url config) (''test/'' @ show_u64 i))"
proof -
  have named: "ok_or e (opt_filter (\<lambda>i. 0 < i) (or_else a b)) = Inr i \<longleftrightarrow>
      (case a of Some j \<Rightarrow> i = j | None \<Rightarrow> b = Some i) \<and> 0 < i" for e :: defectdojo_error and a b :: "u64 option" and i
    by (cases a; cases b) (auto simp: ok_or_def opt_filter_def or_else_def)
  show ?thesis
    by (cases answer) (auto simp: import_result_def res_bind_Inr_iff named)
qed

text \<open>Every blocked download is reported by at least one finding, each vulnerability by exactly one, in order.\<close>

lemma generic_report_findings:
  "length (gr_findings (generic_report_from ulib report)) = max 1 (length (br_vulnerabilities (tr_block report)))"
  "br_vulnerabilities (tr_block report) \<noteq> [] \<Longrightarrow>
   map gf_vuln_id_from_tool (gr_findings (generic_report_from ulib report)) = map v_id (br_vulnerabilities (tr_block report))"
  by (cases "br_vulnerabilities (tr_block report)";
      simp add: generic_report_from_def vulnerability_finding_def Let_def o_def)+

end
