(* ===== verification/Report_Backend.thy ===== *)
theory Report_Backend
  imports Report_Store Defectdojo Scan
begin

text \<open>
  The report backend (\<^verbatim>\<open>ReportBackend\<close> of \<^verbatim>\<open>crates/proxy/src/trust_reports.rs\<close>): the local store or DefectDojo.
  Each works on its own part of the world. An environment with a backend creates reports through it, so what
  the scan decisions do with \<open>env_create_report\<close> is done by the code's own backends.
\<close>

datatype report_backend = LocalBackend report_store | DojoBackend dojo_config

fun local_store :: "report_backend \<Rightarrow> report_store option" where
  "local_store (LocalBackend store) = Some store"
| "local_store (DojoBackend _) = None"

fun defectdojo :: "report_backend \<Rightarrow> dojo_config option" where
  "defectdojo (LocalBackend _) = None"
| "defectdojo (DojoBackend config) = Some config"

record 'w backend_world =
  bw_disk :: disk
  bw_dojo :: "'w dojo"

record 'w backend_lib =
  bl_dojo :: "'w dojo_lib"
  bl_url_parse :: "string \<Rightarrow> string + parsed_url"
  bl_io_error_text :: "io_error \<Rightarrow> string"

datatype backend_event = DiskEffect fs_effect | DojoEvent dojo_event

text \<open>A computation on a part of a larger state.\<close>

definition io_zoom ::
  "('s \<Rightarrow> 'p) \<Rightarrow> ('p \<Rightarrow> 's \<Rightarrow> 's) \<Rightarrow> ('e \<Rightarrow> 'f) \<Rightarrow> ('p, 'e, 'a) io \<Rightarrow> ('s, 'f, 'a) io" where
  "io_zoom get put ev m = (\<lambda>s. map_option (\<lambda>(a, evs, p). (a, map ev evs, put p s)) (m (get s)))"

definition on_disk :: "(disk, fs_effect, 'a) io \<Rightarrow> ('w backend_world, backend_event, 'a) io" where
  "on_disk = io_zoom bw_disk (\<lambda>d w. w\<lparr>bw_disk := d\<rparr>) DiskEffect"

definition on_dojo :: "('w dojo, dojo_event, 'a) io \<Rightarrow> ('w backend_world, backend_event, 'a) io" where
  "on_dojo = io_zoom bw_dojo (\<lambda>d w. w\<lparr>bw_dojo := d\<rparr>) DojoEvent"

definition backend_create ::
  "'w backend_lib \<Rightarrow> report_backend \<Rightarrow> trust_report \<Rightarrow> ('w backend_world, backend_event, string + created_report) io" where
  "backend_create lib backend report =
     (case backend of
        LocalBackend store \<Rightarrow>
          io_bind (on_disk (store_create (dl_uuid (bl_dojo lib)) (bl_url_parse lib) store report))
            (\<lambda>r. io_return (map_err (bl_io_error_text lib) r))
      | DojoBackend config \<Rightarrow>
          io_bind (on_dojo (submit (bl_dojo lib) config report)) (\<lambda>r. io_return
            (res_bind (map_err (dojo_error_display (status_text (dl_http (bl_dojo lib)))) r)
               (\<lambda>u. Inr \<lparr>cr_url = u\<rparr>))))"

text \<open>An environment that creates its reports through a backend.\<close>

definition with_backend ::
  "'w backend_lib \<Rightarrow> report_backend \<Rightarrow> ('c, 'w backend_world) env \<Rightarrow> ('c, 'w backend_world) env" where
  "with_backend lib backend env = env\<lparr>env_create_report := (\<lambda>report s.
     case backend_create lib backend report (sh_world s) of
       Some (r, _, w) \<Rightarrow> (r, s\<lparr>sh_world := w\<rparr>)
     | None \<Rightarrow> (Inl [], s))\<rparr>"

section \<open>Totality\<close>

lemma io_total_zoom [io_intros]: "io_total m \<Longrightarrow> io_total (io_zoom get put ev m)"
  by (simp add: io_total_def io_zoom_def)

lemma fs_total [io_intros]:
  "io_total (fs_op act short)" "io_total system_now" "io_total instant_now" "io_total (modified e)"
  "io_total (set_last_cleanup t)"
  by (auto simp: io_total_def fs_op_def system_now_def instant_now_def modified_def set_last_cleanup_def Let_def
      split: option.splits sum.splits)

lemma unless_missing_total [io_intros]:
  "io_total m \<Longrightarrow> io_total gone \<Longrightarrow> (\<And>a. io_total (k a)) \<Longrightarrow> io_total (unless_missing m gone k)"
  unfolding unless_missing_def
  by (rule io_total_bind) (auto intro: io_intros split: sum.split io_error.split)

lemma cleanup_entries_total [io_intros]: "io_total (cleanup_entries store ps)"
  by (induction ps)
    (auto intro!: io_intros simp: next_entry_def fs_metadata_def is_expired_def remove_file_def)

lemma store_create_total: "io_total (store_create ulib parse store report)"
  unfolding store_create_def cleanup_if_due_def cleanup_expired_def or_remove_def write_fresh_def open_new_def
    write_all_def sync_all_def rename_def remove_file_def read_dir_def Let_def
  by (auto intro!: io_intros split: sum.split)

lemma submit_total: "io_total (submit lib config report)"
  unfolding io_total_def
proof
  fix s :: "'a dojo"
  show "submit lib config report s \<noteq> None"
    using submit_run [of lib config report s] by auto
qed

lemma backend_create_total: "io_total (backend_create lib backend report)"
  unfolding backend_create_def on_disk_def on_dojo_def
  by (cases backend) (auto intro!: io_intros store_create_total submit_total)

section \<open>Reports of blocked downloads\<close>


definition sample_backend_lib :: "unit backend_lib" where
  "sample_backend_lib =
     \<lparr>bl_dojo = \<lparr>dl_uuid = sample_uuid_lib, dl_url = sample_url_lib, dl_clear_fragment = id, dl_http = sample_http_lib,
        dl_time = sample_time_lib, dl_to_vec = (\<lambda>_. Inr []), dl_mime_str = (\<lambda>_. Inr ()),
        dl_import_json = (\<lambda>_. Inr \<lparr>ir_test_id = Some 1, ir_test = None\<rparr>),
        dl_send = (\<lambda>_ w. (Inr (sample_reply 201 []), w)), dl_now = (\<lambda>w. (sample_instant 0, w))\<rparr>,
      bl_url_parse = Inl, bl_io_error_text = (\<lambda>_. ''io'')\<rparr>"

definition sample_backend_world :: "unit backend_world" where
  "sample_backend_world =
     \<lparr>bw_disk = sample_disk, bw_dojo = \<lparr>dj_status = dojo_status_default, dj_world = ()\<rparr>\<rparr>"


end
