(* ===== verification/Messenger.thy ===== *)
theory Messenger
  imports Effects
begin

text \<open>
  The messenger (\<^verbatim>\<open>crates/yandex-messenger/src/lib.rs\<close>): notifications of blocked downloads are queued and one worker renders each with
  a template and sends it, with retries. The HTTP client, the JSON reader, the clocks and the template file are
  parameters. Counters are 64-bit words that wrap. The worker and its bounded queue are a state machine, because requests
  queue notifications while the worker delivers.
\<close>

section \<open>Templates\<close>

record template_context =
  tc_user :: string
  tc_repository :: string
  tc_format :: string
  tc_target :: string
  tc_reason :: string
  tc_policy_id :: string
  tc_vulnerability_ids :: string
  tc_report_url :: string
  tc_timestamp :: string

definition template_context_of :: "block_notification \<Rightarrow> string \<Rightarrow> template_context" where
  "template_context_of n timestamp =
     \<lparr>tc_user = bn_login n, tc_repository = bn_repository n, tc_format = bn_format n, tc_target = bn_target n,
      tc_reason = bn_reason n, tc_policy_id = unwrap_or (bn_policy_id n) [],
      tc_vulnerability_ids = join '','' (bn_vulnerability_ids n), tc_report_url = bn_report_url n,
      tc_timestamp = timestamp\<rparr>"

definition placeholder_value :: "string \<Rightarrow> template_context \<Rightarrow> string option" where
  "placeholder_value key ctx =
     (if key = ''user'' then Some (tc_user ctx)
      else if key = ''repository'' then Some (tc_repository ctx)
      else if key = ''format'' then Some (tc_format ctx)
      else if key = ''target'' then Some (tc_target ctx)
      else if key = ''reason'' then Some (tc_reason ctx)
      else if key = ''policy_id'' then Some (tc_policy_id ctx)
      else if key = ''vulnerability_ids'' then Some (tc_vulnerability_ids ctx)
      else if key = ''report_url'' then Some (tc_report_url ctx)
      else if key = ''timestamp'' then Some (tc_timestamp ctx)
      else None)"

function render_template :: "string \<Rightarrow> template_context \<Rightarrow> string" where
  "render_template template ctx =
     (case split_once (CHR ''{'') template of
        None \<Rightarrow> template
      | Some (before, after_open) \<Rightarrow>
          (case split_once (CHR ''}'') after_open of
             None \<Rightarrow> before @ CHR ''{'' # after_open
           | Some (key, rest) \<Rightarrow>
               before @ (case placeholder_value key ctx of Some val \<Rightarrow> val | None \<Rightarrow> ''{'' @ key @ ''}'')
               @ render_template rest ctx))"
  by pat_completeness auto
termination
  by (relation "measure (\<lambda>(template, ctx). length template)") (auto dest!: split_once_SomeD)

declare render_template.simps [simp del]

definition max_text_chars :: nat where
  "max_text_chars = 6000"

definition truncate_text :: "string \<Rightarrow> string \<Rightarrow> string" where
  "truncate_text text report_url =
     (if chars_count text \<le> max_text_chars then text
      else
        let tail_text = newline @ ''Report: '' @ report_url; tail_chars = chars_count tail_text
        in if tail_chars \<ge> max_text_chars then chars_take max_text_chars tail_text
           else chars_take (max_text_chars - tail_chars) text @ tail_text)"

section \<open>State of the worker\<close>

record messenger_config =
  mc_token :: string
  mc_template_file :: string
  mc_api_url :: string

record delivery_status =
  dv_sent :: u64
  dv_retried :: u64
  dv_failed :: u64
  dv_skipped :: "(string, u64) btree_map"
  dv_last_success_at :: "string option"
  dv_last_failure_at :: "string option"
  dv_last_failure_category :: "string option"

definition delivery_status_default :: delivery_status where
  "delivery_status_default =
     \<lparr>dv_sent = 0, dv_retried = 0, dv_failed = 0, dv_skipped = [], dv_last_success_at = None,
      dv_last_failure_at = None, dv_last_failure_category = None\<rparr>"

definition count_skipped :: "string \<Rightarrow> delivery_status \<Rightarrow> delivery_status" where
  "count_skipped reason st =
     st\<lparr>dv_skipped := btm_insert reason (unwrap_or (btm_get (dv_skipped st) reason) 0 + 1) (dv_skipped st)\<rparr>"

record template_state =
  ts_modified :: "int option"
  ts_template :: "string option"

record 'w courier =
  co_status :: delivery_status
  co_template :: template_state
  co_sequence :: u64
  co_world :: 'w

record 'w messenger_lib =
  ml_time :: time_lib
  ml_now :: "'w \<Rightarrow> offset_date_time \<times> 'w"
  ml_unix_nanos :: "'w \<Rightarrow> nat \<times> 'w"
  ml_metadata :: "string \<Rightarrow> 'w \<Rightarrow> (string + int option) \<times> 'w"
  ml_read_to_string :: "string \<Rightarrow> 'w \<Rightarrow> (string + string) \<times> 'w"
  ml_send :: "http_request \<Rightarrow> 'w \<Rightarrow> (string + http_response) \<times> 'w"
  ml_bytes :: "http_response \<Rightarrow> 'w \<Rightarrow> (string + bytes) \<times> 'w"
  ml_json :: "bytes \<Rightarrow> string + json"
  ml_sleep :: "nat \<Rightarrow> 'w \<Rightarrow> 'w"

datatype courier_event = TextSent http_request | Slept nat

type_synonym ('w, 'a) courier_io = "('w courier, courier_event, 'a) io"

definition on_world :: "('w \<Rightarrow> 'a \<times> 'w) \<Rightarrow> ('w, 'a) courier_io" where
  "on_world f = io_ext (\<lambda>s. let (a, w) = f (co_world s) in (a, s\<lparr>co_world := w\<rparr>))"

definition change_status :: "(delivery_status \<Rightarrow> delivery_status) \<Rightarrow> ('w, unit) courier_io" where
  "change_status f = io_modify (\<lambda>s. s\<lparr>co_status := f (co_status s)\<rparr>)"

definition courier_now :: "'w messenger_lib \<Rightarrow> ('w, string) courier_io" where
  "courier_now lib = io_bind (on_world (ml_now lib)) (\<lambda>t.
     case rfc3339_format (ml_time lib) t of
       Some s \<Rightarrow> io_return s
     | None \<Rightarrow> io_bind (on_world (ml_now lib)) (\<lambda>t. io_return (odt_unix_timestamp (ml_time lib) t)))"

definition courier_failure :: "'w messenger_lib \<Rightarrow> string \<Rightarrow> ('w, unit) courier_io" where
  "courier_failure lib category =
     io_then (change_status (\<lambda>st. st\<lparr>dv_failed := dv_failed st + 1\<rparr>))
       (io_bind (courier_now lib) (\<lambda>now. change_status (\<lambda>st.
          st\<lparr>dv_last_failure_at := Some now, dv_last_failure_category := Some category\<rparr>)))"

definition courier_success :: "'w messenger_lib \<Rightarrow> ('w, unit) courier_io" where
  "courier_success lib =
     io_then (change_status (\<lambda>st. st\<lparr>dv_sent := dv_sent st + 1\<rparr>))
       (io_bind (courier_now lib) (\<lambda>now. change_status (\<lambda>st. st\<lparr>dv_last_success_at := Some now\<rparr>)))"

section \<open>The template file\<close>

definition current_template :: "'w messenger_lib \<Rightarrow> messenger_config \<Rightarrow> ('w, string option) courier_io" where
  "current_template lib config =
     io_bind (on_world (ml_metadata lib (mc_template_file config))) (\<lambda>meta.
       case meta of
         Inl _ \<Rightarrow> io_get (\<lambda>s. ts_template (co_template s))
       | Inr mtime \<Rightarrow>
           io_bind (io_get co_template) (\<lambda>state.
             if ts_template state \<noteq> None \<and> mtime \<noteq> None \<and> ts_modified state = mtime
             then io_return (ts_template state)
             else io_bind (on_world (ml_read_to_string lib (mc_template_file config))) (\<lambda>content.
               case content of
                 Inr template \<Rightarrow>
                   io_then (io_modify (\<lambda>s. s\<lparr>co_template := \<lparr>ts_modified = mtime, ts_template = Some template\<rparr>\<rparr>))
                     (io_return (Some template))
               | Inl _ \<Rightarrow> io_return (ts_template state))))"

definition with_report_url :: "string \<Rightarrow> template_context \<Rightarrow> string" where
  "with_report_url template ctx =
     (let rendered = render_template template ctx
      in if contains_str template ''{report_url}'' then rendered
         else (if \<not> ends_with rendered newline \<and> rendered \<noteq> [] then rendered @ newline else rendered)
              @ ''Report: '' @ tc_report_url ctx)"

definition render_message ::
  "'w messenger_lib \<Rightarrow> messenger_config \<Rightarrow> template_context \<Rightarrow> ('w, string option) courier_io" where
  "render_message lib config ctx =
     io_bind (current_template lib config) (\<lambda>template.
       io_return (map_option (\<lambda>t. with_report_url t ctx) template))"

section \<open>Delivery\<close>

record send_failure =
  sf_transient :: bool
  sf_category :: string

abbreviation transient_failure :: "string \<Rightarrow> send_failure" where
  "transient_failure category \<equiv> \<lparr>sf_transient = True, sf_category = category\<rparr>"

abbreviation permanent_failure :: "string \<Rightarrow> send_failure" where
  "permanent_failure category \<equiv> \<lparr>sf_transient = False, sf_category = category\<rparr>"

record send_text_request =
  st_login :: string
  st_text :: string
  st_payload_id :: string

definition send_text_json :: "send_text_request \<Rightarrow> json" where
  "send_text_json r = JObject
     [(''login'', JString (st_login r)), (''text'', JString (st_text r)), (''payload_id'', JString (st_payload_id r))]"

definition send_text_url :: "messenger_config \<Rightarrow> url" where
  "send_text_url config = trim_end_matches (CHR ''/'') (mc_api_url config) @ ''/bot/v1/messages/sendText/''"

definition send_text_http :: "messenger_config \<Rightarrow> send_text_request \<Rightarrow> http_request" where
  "send_text_http config r =
     (request_to ''POST'' (send_text_url config))
       \<lparr>hr_headers := [(''authorization'', ''OAuth '' @ mc_token config)], hr_body := JsonBody (send_text_json r)\<rparr>"

definition is_server_error :: "nat \<Rightarrow> bool" where
  "is_server_error status \<longleftrightarrow> 500 \<le> status \<and> status < 600"

definition json_ok :: "json \<Rightarrow> bool" where
  "json_ok v \<longleftrightarrow> (case v of JObject members \<Rightarrow> map_of members ''ok'' = Some (JBool True) | _ \<Rightarrow> False)"

definition send_attempt ::
  "'w messenger_lib \<Rightarrow> messenger_config \<Rightarrow> send_text_request \<Rightarrow> ('w, send_failure + unit) courier_io" where
  "send_attempt lib config r =
     io_then (io_emit (TextSent (send_text_http config r)))
       (io_bind (on_world (ml_send lib (send_text_http config r))) (\<lambda>answer.
          case answer of
            Inl _ \<Rightarrow> io_return (Inl (transient_failure ''network''))
          | Inr resp \<Rightarrow>
              if hs_status resp = 429 then io_return (Inl (transient_failure ''rate_limited''))
              else if is_server_error (hs_status resp) then io_return (Inl (transient_failure ''server_error''))
              else if \<not> is_success (hs_status resp) then io_return (Inl (permanent_failure ''rejected''))
              else io_bind (on_world (ml_bytes lib resp)) (\<lambda>body. io_return
                (case body of
                   Inl _ \<Rightarrow> Inl (transient_failure ''network'')
                 | Inr b \<Rightarrow>
                     (case ml_json lib b of
                        Inl _ \<Rightarrow> Inl (permanent_failure ''invalid_response'')
                      | Inr v \<Rightarrow> if json_ok v then Inr () else Inl (permanent_failure ''api_error''))))))"

definition max_send_attempts :: nat where
  "max_send_attempts = 3"

text \<open>The loop over the attempts; \<open>todo\<close> is the number of attempts that are left.\<close>

fun send_loop :: "'w messenger_lib \<Rightarrow> messenger_config \<Rightarrow> send_text_request \<Rightarrow> nat \<Rightarrow> ('w, unit) courier_io" where
  "send_loop lib config r 0 = io_return ()"
| "send_loop lib config r (Suc todo) =
     io_bind (send_attempt lib config r) (\<lambda>sent.
       case sent of
         Inr _ \<Rightarrow> courier_success lib
       | Inl failure \<Rightarrow>
           if sf_transient failure \<and> todo \<noteq> 0
           then io_then (change_status (\<lambda>st. st\<lparr>dv_retried := dv_retried st + 1\<rparr>))
                  (io_then (io_emit (Slept (100 * (max_send_attempts - todo))))
                    (io_then (io_modify (\<lambda>s. s\<lparr>co_world := ml_sleep lib (100 * (max_send_attempts - todo)) (co_world s)\<rparr>))
                       (send_loop lib config r todo)))
           else courier_failure lib (sf_category failure))"

definition next_payload_id :: "'w messenger_lib \<Rightarrow> ('w, string) courier_io" where
  "next_payload_id lib =
     io_bind (io_get co_sequence) (\<lambda>sequence.
       io_then (io_modify (\<lambda>s. s\<lparr>co_sequence := sequence + 1\<rparr>))
         (io_bind (on_world (ml_unix_nanos lib)) (\<lambda>nanos.
            io_return (''nexus-sec-proxy-'' @ show_nat nanos @ ''-'' @ show_u64 sequence))))"

definition deliver :: "'w messenger_lib \<Rightarrow> messenger_config \<Rightarrow> block_notification \<Rightarrow> ('w, unit) courier_io" where
  "deliver lib config n =
     io_bind (courier_now lib) (\<lambda>timestamp.
     io_bind (render_message lib config (template_context_of n timestamp)) (\<lambda>text.
       case text of
         None \<Rightarrow> courier_failure lib ''template_unavailable''
       | Some text \<Rightarrow>
           if text = [] then courier_failure lib ''template_empty''
           else io_bind (next_payload_id lib) (\<lambda>payload_id.
             send_loop lib config
               \<lparr>st_login = bn_login n, st_text = truncate_text text (bn_report_url n), st_payload_id = payload_id\<rparr>
               max_send_attempts)))"

definition validate_config ::
  "(string \<Rightarrow> string + parsed_url) \<Rightarrow> (string \<Rightarrow> string + string) \<Rightarrow> messenger_config \<Rightarrow> string + unit" where
  "validate_config parse read_file config =
     (if mc_token config = [] then Inl ''Yandex Messenger token is empty''
      else res_bind (map_err (\<lambda>_. ''invalid Yandex Messenger API URL'') (parse (mc_api_url config))) (\<lambda>u.
        if \<not> (pu_scheme u = ''http'' \<or> pu_scheme u = ''https'') \<or> pu_host u = None
        then Inl ''Yandex Messenger API URL must be an HTTP(S) URL with a host''
        else res_bind (map_err (\<lambda>_. ''failed to read Yandex Messenger template '' @ mc_template_file config)
               (read_file (mc_template_file config))) (\<lambda>template.
          if template = [] then Inl ''Yandex Messenger template is empty'' else Inr ())))"

section \<open>The queue and the worker\<close>

definition queue_capacity :: nat where
  "queue_capacity = 256"

datatype worker_command = Notification block_notification | Shutdown

datatype worker = Waiting | Delivering block_notification | Stopped | Aborted

text \<open>
  The queue, the worker and the status; the last three components are history: the notifications offered, accepted and
  delivered so far, oldest first.
\<close>

record 'w messenger =
  ms_queue :: "worker_command list"
  ms_worker :: worker
  ms_courier :: "'w courier"
  ms_offered :: "block_notification list"
  ms_accepted :: "block_notification list"
  ms_delivered :: "block_notification list"

definition messenger_new :: "'w \<Rightarrow> 'w messenger" where
  "messenger_new w =
     \<lparr>ms_queue = [], ms_worker = Waiting,
      ms_courier = \<lparr>co_status = delivery_status_default,
        co_template = \<lparr>ts_modified = None, ts_template = None\<rparr>, co_sequence = 1, co_world = w\<rparr>,
      ms_offered = [], ms_accepted = [], ms_delivered = []\<rparr>"

definition record_skipped :: "string \<Rightarrow> 'w messenger \<Rightarrow> 'w messenger" where
  "record_skipped reason s =
     s\<lparr>ms_courier := (ms_courier s)\<lparr>co_status := count_skipped reason (co_status (ms_courier s))\<rparr>\<rparr>"

definition receiver_gone :: "worker \<Rightarrow> bool" where
  "receiver_gone w \<longleftrightarrow> w = Stopped \<or> w = Aborted"

definition notifier_notify_blocked :: "block_notification \<Rightarrow> 'w messenger \<Rightarrow> 'w messenger" where
  "notifier_notify_blocked n s =
     (let s = s\<lparr>ms_offered := ms_offered s @ [n]\<rparr>
      in if receiver_gone (ms_worker s) then record_skipped ''worker_closed'' s
         else if length (ms_queue s) \<ge> queue_capacity then record_skipped ''queue_full'' s
         else s\<lparr>ms_queue := ms_queue s @ [Notification n], ms_accepted := ms_accepted s @ [n]\<rparr>)"

definition notifier_status :: "'w messenger \<Rightarrow> delivery_status" where
  "notifier_status s = co_status (ms_courier s)"

definition send_shutdown :: "'w messenger \<Rightarrow> 'w messenger" where
  "send_shutdown s = s\<lparr>ms_queue := ms_queue s @ [Shutdown]\<rparr>"

definition abort_worker :: "'w messenger \<Rightarrow> 'w messenger" where
  "abort_worker s = s\<lparr>ms_worker := Aborted\<rparr>"

text \<open>The loop of the worker: it receives a command, delivers a notification, and ends when it receives the shutdown signal.\<close>

inductive worker_step :: "'w messenger_lib \<Rightarrow> messenger_config \<Rightarrow> 'w messenger \<Rightarrow> 'w messenger \<Rightarrow> bool"
  for lib config
where
  receive: "ms_worker s = Waiting \<Longrightarrow> ms_queue s = Notification n # q \<Longrightarrow>
    worker_step lib config s (s\<lparr>ms_queue := q, ms_worker := Delivering n\<rparr>)"
| delivered: "ms_worker s = Delivering n \<Longrightarrow> deliver lib config n (ms_courier s) = Some ((), evs, c) \<Longrightarrow>
    worker_step lib config s
      (s\<lparr>ms_worker := Waiting, ms_courier := c, ms_delivered := ms_delivered s @ [n]\<rparr>)"
| stop: "ms_worker s = Waiting \<Longrightarrow> ms_queue s = Shutdown # q \<Longrightarrow>
    worker_step lib config s (s\<lparr>ms_queue := q, ms_worker := Stopped\<rparr>)"

text \<open>
  The steps: a request offers a notification; the worker works; the shutdown signal
  enters the queue as soon as there is room; after a timeout the worker is aborted.
\<close>

inductive messenger_step :: "'w messenger_lib \<Rightarrow> messenger_config \<Rightarrow> 'w messenger \<Rightarrow> 'w messenger \<Rightarrow> bool"
  for lib config
where
  offer: "messenger_step lib config s (notifier_notify_blocked n s)"
| skip: "messenger_step lib config s (record_skipped reason s)"
| work: "worker_step lib config s s' \<Longrightarrow> messenger_step lib config s s'"
| signal: "\<not> receiver_gone (ms_worker s) \<Longrightarrow> length (ms_queue s) < queue_capacity \<Longrightarrow>
    messenger_step lib config s (send_shutdown s)"
| abort: "\<not> receiver_gone (ms_worker s) \<Longrightarrow> messenger_step lib config s (abort_worker s)"

inductive messenger_run :: "'w messenger_lib \<Rightarrow> messenger_config \<Rightarrow> 'w messenger \<Rightarrow> bool" for lib config
where
  start: "messenger_run lib config (messenger_new w)"
| step: "messenger_run lib config s \<Longrightarrow> messenger_step lib config s s' \<Longrightarrow> messenger_run lib config s'"

section \<open>Messages\<close>

lemma report_line_valid: "utf8_valid u \<Longrightarrow> utf8_valid (newline @ ''Report: '' @ u)"
proof -
  have "utf8_valid (newline @ ''Report: '')" by code_simp
  then show "utf8_valid u \<Longrightarrow> utf8_valid (newline @ ''Report: '' @ u)"
    using utf8_valid_append [of "newline @ ''Report: ''" u] by simp
qed


text \<open>
  The address is appended unless the template contains its placeholder as a text; but a brace before it makes it part of
  another, unknown placeholder, and the message then names no report.
\<close>

theorem nested_placeholder_loses_url:
  "with_report_url ''See {{report_url}'' ctx = ''See {{report_url}''"
proof -
  have "split_once (CHR ''{'') ''See {{report_url}'' = Some (''See '', ''{report_url}'')"
    "split_once (CHR ''}'') ''{report_url}'' = Some (''{report_url'', [])"
    "contains_str ''See {{report_url}'' ''{report_url}''"
    by code_simp+
  moreover have "placeholder_value ''{report_url'' ctx = None" by (simp add: placeholder_value_def)
  moreover have "render_template [] ctx = []" by (simp add: render_template.simps)
  ultimately show ?thesis
    unfolding with_report_url_def Let_def by (subst render_template.simps) simp
qed

section \<open>Deliveries\<close>

lemma run_courier [io_simps]:
  "on_world f s = Some (fst (f (co_world s)), [], s\<lparr>co_world := snd (f (co_world s))\<rparr>)"
  "change_status g s = Some ((), [], s\<lparr>co_status := g (co_status s)\<rparr>)"
  by (simp_all add: on_world_def change_status_def io_run_simps split_beta Let_def)

lemma courier_now_run: "\<exists>t w. courier_now lib s = Some (t, [], s\<lparr>co_world := w\<rparr>)"
  by (auto simp: courier_now_def io_bind_def run_courier io_return_def split: option.split)

lemma courier_failure_run:
  "\<exists>s'. courier_failure lib category s = Some ((), [], s') \<and>
     dv_sent (co_status s') = dv_sent (co_status s) \<and> dv_failed (co_status s') = dv_failed (co_status s) + 1 \<and>
     dv_retried (co_status s') = dv_retried (co_status s) \<and> dv_skipped (co_status s') = dv_skipped (co_status s)"
proof -
  let ?s = "s\<lparr>co_status := (co_status s)\<lparr>dv_failed := dv_failed (co_status s) + 1\<rparr>\<rparr>"
  obtain t w where "courier_now lib ?s = Some (t, [], ?s\<lparr>co_world := w\<rparr>)" using courier_now_run [of lib ?s] by auto
  then show ?thesis by (simp add: courier_failure_def io_then_def io_bind_def run_courier)
qed

lemma courier_success_run:
  "\<exists>s'. courier_success lib s = Some ((), [], s') \<and>
     dv_sent (co_status s') = dv_sent (co_status s) + 1 \<and> dv_failed (co_status s') = dv_failed (co_status s) \<and>
     dv_retried (co_status s') = dv_retried (co_status s) \<and> dv_skipped (co_status s') = dv_skipped (co_status s)"
proof -
  let ?s = "s\<lparr>co_status := (co_status s)\<lparr>dv_sent := dv_sent (co_status s) + 1\<rparr>\<rparr>"
  obtain t w where "courier_now lib ?s = Some (t, [], ?s\<lparr>co_world := w\<rparr>)" using courier_now_run [of lib ?s] by auto
  then show ?thesis by (simp add: courier_success_def io_then_def io_bind_def run_courier)
qed

lemma send_attempt_run:
  "\<exists>x w. send_attempt lib config r s = Some (x, [TextSent (send_text_http config r)], s\<lparr>co_world := w\<rparr>)"
  by (auto simp: send_attempt_def io_then_def io_bind_def io_emit_def run_courier io_return_def
      split: sum.split)

definition sends :: "courier_event list \<Rightarrow> http_request list" where
  "sends evs = List.map_filter (\<lambda>e. case e of TextSent q \<Rightarrow> Some q | Slept _ \<Rightarrow> None) evs"

lemma sends_simps [simp]:
  "sends [] = []" "sends (TextSent q # evs) = q # sends evs" "sends (Slept n # evs) = sends evs"
  "sends (evs @ evs') = sends evs @ sends evs'"
  by (simp_all add: sends_def List.map_filter_simps)

text \<open>How a delivery with \<open>k\<close> requests counts.\<close>

definition counted :: "nat \<Rightarrow> delivery_status \<Rightarrow> delivery_status \<Rightarrow> bool" where
  "counted k st st' \<longleftrightarrow>
     (dv_sent st' = dv_sent st + 1 \<and> dv_failed st' = dv_failed st \<or>
      dv_sent st' = dv_sent st \<and> dv_failed st' = dv_failed st + 1) \<and>
     dv_retried st' = dv_retried st + of_nat (k - 1) \<and> dv_skipped st' = dv_skipped st"

lemma send_loop_run:
  "\<exists>evs s' k. send_loop lib config r (Suc todo) s = Some ((), evs, s') \<and>
     sends evs = replicate k (send_text_http config r) \<and> 1 \<le> k \<and> k \<le> Suc todo \<and>
     counted k (co_status s) (co_status s')"
proof (induction todo arbitrary: s)
  case 0
  obtain x w where "send_attempt lib config r s = Some (x, [TextSent (send_text_http config r)], s\<lparr>co_world := w\<rparr>)"
    using send_attempt_run [of lib config r s] by auto
  then show ?case
    using courier_success_run [of lib "s\<lparr>co_world := w\<rparr>"]
      courier_failure_run [of lib "sf_category (projl x)" "s\<lparr>co_world := w\<rparr>"]
    by (cases x) (auto simp: io_bind_def counted_def intro!: exI [where x = 1])
next
  case (Suc todo)
  obtain x w where
    attempt: "send_attempt lib config r s = Some (x, [TextSent (send_text_http config r)], s\<lparr>co_world := w\<rparr>)"
    using send_attempt_run [of lib config r s] by auto
  show ?case
  proof (cases "\<exists>f. x = Inl f \<and> sf_transient f")
    case False
    with attempt show ?thesis
      using courier_success_run [of lib "s\<lparr>co_world := w\<rparr>"]
        courier_failure_run [of lib "sf_category (projl x)" "s\<lparr>co_world := w\<rparr>"]
      by (cases x) (auto simp: io_bind_def counted_def intro!: exI [where x = 1])
  next
    case True
    let ?ms = "100 * (max_send_attempts - Suc todo)"
    let ?s = "s\<lparr>co_status := (co_status s)\<lparr>dv_retried := dv_retried (co_status s) + 1\<rparr>, co_world := ml_sleep lib ?ms w\<rparr>"
    obtain evs s' k where rest: "send_loop lib config r (Suc todo) ?s = Some ((), evs, s')"
      "sends evs = replicate k (send_text_http config r)" "1 \<le> k" "k \<le> Suc todo"
      "counted k (co_status ?s) (co_status s')"
      using Suc.IH [of ?s] by blast
    from rest(3,5) have "counted (Suc k) (co_status s) (co_status s')"
      by (cases k) (auto simp: counted_def algebra_simps)
    moreover have "send_loop lib config r (Suc (Suc todo)) s =
        Some ((), TextSent (send_text_http config r) # Slept ?ms # evs, s')"
      using attempt rest(1) True
      by (auto simp: io_bind_def io_then_def run_courier io_run_simps simp del: send_loop.simps(2)
          simp add: send_loop.simps(2) [of lib config r "Suc todo"])
    ultimately show ?thesis using rest(2-4) by (intro exI [where x = "Suc k"] exI conjI) auto
  qed
qed

lemma current_template_run:
  "\<exists>t s'. current_template lib config s = Some (t, [], s') \<and> co_status s' = co_status s \<and>
     (ts_template (co_template s) \<noteq> None \<longrightarrow> t \<noteq> None \<and> ts_template (co_template s') \<noteq> None)"
  unfolding current_template_def
  by (cases "fst (ml_metadata lib (mc_template_file config) (co_world s))";
      cases "fst (ml_read_to_string lib (mc_template_file config)
        (snd (ml_metadata lib (mc_template_file config) (co_world s))))")
    (auto simp: io_bind_def io_then_def run_courier io_run_simps)

lemma render_message_run:
  "\<exists>t s'. render_message lib config ctx s = Some (t, [], s') \<and> co_status s' = co_status s"
  using current_template_run [of lib config s] by (auto simp: render_message_def io_bind_def io_return_def)

lemma deliver_run:
  "\<exists>evs s' k r. deliver lib config n s = Some ((), evs, s') \<and>
     sends evs = replicate k (send_text_http config r) \<and> k \<le> 3 \<and>
     st_login r = bn_login n \<and> (\<exists>text. st_text r = truncate_text text (bn_report_url n)) \<and>
     counted k (co_status s) (co_status s')"
proof -
  obtain t w where now: "courier_now lib s = Some (t, [], s\<lparr>co_world := w\<rparr>)"
    using courier_now_run [of lib s] by auto
  let ?ctx = "template_context_of n t"
  obtain m s0 where msg: "render_message lib config ?ctx (s\<lparr>co_world := w\<rparr>) = Some (m, [], s0)"
    and s0: "co_status s0 = co_status s"
    using render_message_run [of lib config ?ctx "s\<lparr>co_world := w\<rparr>"] by auto
  show ?thesis
  proof (cases "m = None \<or> m = Some []")
    case True
    define category where "category = (if m = None then ''template_unavailable'' else ''template_empty'')"
    obtain s' where "courier_failure lib category s0 = Some ((), [], s')" "counted 0 (co_status s) (co_status s')"
      using courier_failure_run [of lib category s0] s0 by (auto simp: counted_def)
    with True now msg have "deliver lib config n s = Some ((), [], s')"
      by (auto simp: deliver_def io_bind_def category_def)
    with \<open>counted 0 (co_status s) (co_status s')\<close> show ?thesis
      by (intro exI [where x = "[]"] exI [where x = s'] exI [where x = 0]
          exI [where x = "\<lparr>st_login = bn_login n, st_text = truncate_text [] (bn_report_url n), st_payload_id = []\<rparr>"])
        auto
  next
    case False
    then obtain body where m: "m = Some body" "body \<noteq> []" by auto
    obtain pid s1 where pid: "next_payload_id lib s0 = Some (pid, [], s1)" "co_status s1 = co_status s"
      using s0 by (simp add: next_payload_id_def io_bind_def io_then_def run_courier io_run_simps)
    define r where "r = \<lparr>st_login = bn_login n, st_text = truncate_text body (bn_report_url n), st_payload_id = pid\<rparr>"
    obtain evs s' k where sent: "send_loop lib config r (Suc 2) s1 = Some ((), evs, s')"
      "sends evs = replicate k (send_text_http config r)" "k \<le> Suc 2" "counted k (co_status s1) (co_status s')"
      using send_loop_run [of lib config r 2 s1] by blast
    have three: "max_send_attempts = Suc 2" by (simp add: max_send_attempts_def)
    have "deliver lib config n s = Some ((), evs, s')"
      using now msg pid(1) m sent(1) unfolding deliver_def three
      by (simp add: io_bind_def r_def [symmetric] del: send_loop.simps)
    with sent pid(2) show ?thesis
      by (intro exI [where x = evs] exI [where x = s'] exI [where x = k] exI [where x = r]) (auto simp: r_def)
  qed
qed


section \<open>The queue\<close>

fun queued :: "worker_command list \<Rightarrow> block_notification list" where
  "queued [] = []"
| "queued (Notification n # q) = n # queued q"
| "queued (Shutdown # q) = queued q"

fun in_delivery :: "worker \<Rightarrow> block_notification list" where
  "in_delivery (Delivering n) = [n]"
| "in_delivery _ = []"

lemma queued_append [simp]: "queued (q @ r) = queued q @ queued r"
  by (induction q rule: queued.induct) auto

definition messenger_inv :: "'w messenger \<Rightarrow> bool" where
  "messenger_inv s \<longleftrightarrow>
     length (ms_queue s) \<le> queue_capacity \<and> prefix (ms_delivered s) (ms_accepted s) \<and>
     subseq (ms_accepted s) (ms_offered s) \<and>
     (ms_worker s \<noteq> Aborted \<longrightarrow> ms_accepted s = ms_delivered s @ in_delivery (ms_worker s) @ queued (ms_queue s))"

inductive_cases worker_stepE: "worker_step lib config s s'"

lemma worker_step_inv: "worker_step lib config s s' \<Longrightarrow> messenger_inv s \<Longrightarrow> messenger_inv s'"
  by (elim worker_stepE) (auto simp: messenger_inv_def)

lemma notify_inv:
  assumes "messenger_inv s"
  shows "messenger_inv (notifier_notify_blocked n s)"
proof -
  have "subseq (xs @ ys @ zs @ [n]) (ws @ [n]) \<longleftrightarrow> subseq (xs @ ys @ zs) ws" for xs ys zs ws
    using subseq_append [of "xs @ ys @ zs" "[n]" ws] by (simp only: append_assoc)
  moreover have "subseq (ms_accepted s) (ms_offered s @ [n])"
    using assms by (auto simp: messenger_inv_def)
  ultimately show ?thesis
    using assms
    by (auto simp: messenger_inv_def notifier_notify_blocked_def record_skipped_def receiver_gone_def Let_def
        intro: prefix_prefix)
qed

lemma messenger_step_inv: "messenger_step lib config s s' \<Longrightarrow> messenger_inv s \<Longrightarrow> messenger_inv s'"
  by (induction rule: messenger_step.induct)
    (auto simp: notify_inv worker_step_inv, auto simp: messenger_inv_def record_skipped_def receiver_gone_def send_shutdown_def abort_worker_def prefix_def)

text \<open>
  C18. In every reachable state the queue holds at most 256 commands, the delivered notifications are the first accepted ones, in order,
  and the accepted are among the offered, in order. Unless the worker was aborted no accepted notification is lost: those not
  delivered are being delivered or queued. And a delivery that has begun can always be completed.
\<close>

theorem messenger_queue_fifo:
  assumes "messenger_run lib config s"
  shows "length (ms_queue s) \<le> 256 \<and> prefix (ms_delivered s) (ms_accepted s) \<and> subseq (ms_accepted s) (ms_offered s) \<and>
    (ms_worker s \<noteq> Aborted \<longrightarrow> ms_accepted s = ms_delivered s @ in_delivery (ms_worker s) @ queued (ms_queue s)) \<and>
    (\<forall>n. ms_worker s = Delivering n \<longrightarrow>
       (\<exists>s'. messenger_step lib config s s' \<and> ms_worker s' = Waiting \<and> ms_delivered s' = ms_delivered s @ [n]))"
proof -
  have "messenger_inv s"
    using assms
  proof (induction rule: messenger_run.induct)
    case (start w)
    show ?case by (simp add: messenger_inv_def messenger_new_def)
  next
    case (step s s')
    then show ?case using messenger_step_inv by blast
  qed
  moreover have "\<exists>s'. messenger_step lib config s s' \<and> ms_worker s' = Waiting \<and> ms_delivered s' = ms_delivered s @ [n]"
    if "ms_worker s = Delivering n" for n
  proof -
    obtain evs c where "deliver lib config n (ms_courier s) = Some ((), evs, c)"
      using deliver_run [of lib config n "ms_courier s"] by blast
    from messenger_step.work [OF worker_step.delivered [OF that this]] show ?thesis by force
  qed
  ultimately show ?thesis by (simp add: messenger_inv_def queue_capacity_def)
qed

section \<open>A sample messenger\<close>

definition sample_messenger_lib :: "unit messenger_lib" where
  "sample_messenger_lib =
     \<lparr>ml_time = sample_time_lib, ml_now = (\<lambda>w. (sample_instant 0, w)), ml_unix_nanos = (\<lambda>w. (0, w)),
      ml_metadata = (\<lambda>_ w. (Inr (Some 1), w)), ml_read_to_string = (\<lambda>_ w. (Inr ''{user} was blocked'', w)),
      ml_send = (\<lambda>_ w. (Inl ''unreachable'', w)), ml_bytes = (\<lambda>_ w. (Inr [], w)), ml_json = (\<lambda>_. Inr JNull),
      ml_sleep = (\<lambda>_ w. w)\<rparr>"

definition sample_messenger_config :: messenger_config where
  "sample_messenger_config =
     \<lparr>mc_token = ''t'', mc_template_file = ''/etc/template'', mc_api_url = ''https://messenger.example''\<rparr>"

definition sample_notification :: block_notification where
  "sample_notification =
     \<lparr>bn_login = ''alice'', bn_repository = ''npm-proxy'', bn_format = ''npm'', bn_target = ''npm:left-pad@1.0.0'',
      bn_reason = ''blocked'', bn_policy_id = None, bn_vulnerability_ids = [], bn_report_url = ''https://r''\<rparr>"


theorem messenger_queue_fifo_witness:
  "\<exists>s. messenger_run sample_messenger_lib sample_messenger_config s \<and>
     ms_accepted s = [sample_notification] \<and> ms_worker s = Delivering sample_notification \<and>
     (\<exists>s'. messenger_step sample_messenger_lib sample_messenger_config s s' \<and> ms_worker s' = Waiting \<and>
        ms_delivered s' = [sample_notification])"
proof -
  let ?run = "messenger_run sample_messenger_lib sample_messenger_config"
  let ?s1 = "notifier_notify_blocked sample_notification (messenger_new ())"
  have s1: "ms_worker ?s1 = Waiting" "ms_queue ?s1 = [Notification sample_notification]" "ms_delivered ?s1 = []"
    "ms_accepted ?s1 = [sample_notification]"
    by (simp_all add: notifier_notify_blocked_def messenger_new_def receiver_gone_def queue_capacity_def)
  let ?s2 = "?s1\<lparr>ms_queue := [], ms_worker := Delivering sample_notification\<rparr>"
  have "?run ?s1" by (rule messenger_run.step [OF messenger_run.start messenger_step.offer])
  then have "?run ?s2" by (rule messenger_run.step) (intro messenger_step.work worker_step.receive s1)
  with messenger_queue_fifo [OF this] s1 show ?thesis by (intro exI [where x = ?s2]) simp
qed

end
