(* ===== verification/Scanner_Db.thy ===== *)
theory Scanner_Db
  imports Effects
begin

text \<open>
  The state of the scanner's database (\<^verbatim>\<open>crates/proxy/src/scanner_db.rs\<close>), for the health check and the admin API: the
  newest database file below the scanner's cache directory. What the file system answers below a directory is a tree,
  in which every listing, every entry and every modification time may be an error. Listings do not follow symbolic links, so the tree
  is finite.
\<close>

section \<open>The directory tree\<close>

type_synonym mtime = int

datatype dir_tree =
    EntryError string
  | NoMetadata string
  | SubDir string "string + dir_tree list"
  | PlainFile string "string + mtime"
  | OtherFile string

datatype scanner_db_status = NotConfigured | Missing | NotDirectory | NotFound | Unreadable | Found

fun scanner_db_status_text :: "scanner_db_status \<Rightarrow> string" where
  "scanner_db_status_text NotConfigured = ''not_configured''"
| "scanner_db_status_text Missing = ''missing''"
| "scanner_db_status_text NotDirectory = ''not_directory''"
| "scanner_db_status_text NotFound = ''not_found''"
| "scanner_db_status_text Unreadable = ''unreadable''"
| "scanner_db_status_text Found = ''found''"

record scanner_db_summary =
  sd_env_var :: string
  sd_cache_dir :: "string option"
  sd_status :: scanner_db_status
  sd_db_file :: "string option"
  sd_modified_at :: "string option"
  sd_age_seconds :: "nat option"
  sd_error :: "string option"

section \<open>The search\<close>

definition is_scanner_db_file :: "string \<Rightarrow> bool" where
  "is_scanner_db_file file_name =
     (case from_utf8 file_name of
        None \<Rightarrow> False
      | Some name \<Rightarrow>
          let name = to_ascii_lowercase name in name = ''metadata.json'' \<or> ends_with name ''.db'')"

definition entry_path :: "string \<Rightarrow> string \<Rightarrow> string" where
  "entry_path dir name = (if ends_with dir ''/'' then dir @ name else dir @ ''/'' @ name)"

definition newer :: "string \<times> mtime \<Rightarrow> (string \<times> mtime) option \<Rightarrow> (string \<times> mtime) option" where
  "newer candidate newest =
     (case newest of
        None \<Rightarrow> Some candidate
      | Some current \<Rightarrow> if snd current < snd candidate then Some candidate else newest)"

text \<open>
  The listing of a directory at a depth, and the loop over its entries. A listing error ends the search; an entry that cannot
  be read is skipped.
\<close>

function visit_scanner_db_files ::
  "string \<Rightarrow> nat \<Rightarrow> string + dir_tree list \<Rightarrow> (string \<times> mtime) option \<Rightarrow> string + (string \<times> mtime) option"
and visit_entries ::
  "string \<Rightarrow> nat \<Rightarrow> dir_tree list \<Rightarrow> (string \<times> mtime) option \<Rightarrow> string + (string \<times> mtime) option"
where
  "visit_scanner_db_files dir depth (Inl e) newest =
     (if depth > 4 then Inr newest else Inl (''failed to read '' @ dir @ '': '' @ e))"
| "visit_scanner_db_files dir depth (Inr entries) newest =
     (if depth > 4 then Inr newest else visit_entries dir depth entries newest)"
| "visit_entries dir depth [] newest = Inr newest"
| "visit_entries dir depth (entry # entries) newest =
     (case entry of
        EntryError _ \<Rightarrow> visit_entries dir depth entries newest
      | NoMetadata _ \<Rightarrow> visit_entries dir depth entries newest
      | SubDir name listing \<Rightarrow>
          (case visit_scanner_db_files (entry_path dir name) (depth + 1) listing newest of
             Inl e \<Rightarrow> Inl e
           | Inr newest' \<Rightarrow> visit_entries dir depth entries newest')
      | PlainFile name modified \<Rightarrow>
          visit_entries dir depth entries
            (if is_scanner_db_file name
             then (case modified of Inl _ \<Rightarrow> newest | Inr t \<Rightarrow> newer (entry_path dir name, t) newest)
             else newest)
      | OtherFile _ \<Rightarrow> visit_entries dir depth entries newest)"
  by pat_completeness auto
termination
  by (relation "measures
      [case_sum (\<lambda>(dir, depth, listing, newest). 2 * (5 - depth)) (\<lambda>(dir, depth, entries, newest). 2 * (5 - depth) - 1),
       case_sum (\<lambda>_. 0) (\<lambda>(dir, depth, entries, newest). length entries + 1)]") auto

definition newest_scanner_db_file :: "string \<Rightarrow> string + dir_tree list \<Rightarrow> string + (string \<times> mtime) option" where
  "newest_scanner_db_file cache_dir listing = visit_scanner_db_files cache_dir 0 listing None"

section \<open>The summary\<close>

datatype dir_metadata = MetadataNotFound | MetadataError string | IsDirectory "string + dir_tree list" | IsNotDirectory

definition db_summary :: "string \<Rightarrow> string option \<Rightarrow> scanner_db_status \<Rightarrow> scanner_db_summary" where
  "db_summary env_var cache_dir status =
     \<lparr>sd_env_var = env_var, sd_cache_dir = cache_dir, sd_status = status, sd_db_file = None, sd_modified_at = None,
      sd_age_seconds = None, sd_error = None\<rparr>"

definition system_time_age_seconds :: "mtime \<Rightarrow> mtime \<Rightarrow> nat" where
  "system_time_age_seconds now t = (if t \<le> now then nat ((now - t) div 1000000000) else 0)"

definition scanner_db_summary_for_dir ::
  "(mtime \<Rightarrow> string) \<Rightarrow> mtime \<Rightarrow> string \<Rightarrow> string \<Rightarrow> dir_metadata \<Rightarrow> scanner_db_summary" where
  "scanner_db_summary_for_dir format_system_time now env_var cache_dir metadata =
     (case metadata of
        MetadataNotFound \<Rightarrow> db_summary env_var (Some cache_dir) Missing
      | MetadataError e \<Rightarrow> (db_summary env_var (Some cache_dir) Unreadable)\<lparr>sd_error := Some e\<rparr>
      | IsNotDirectory \<Rightarrow> db_summary env_var (Some cache_dir) NotDirectory
      | IsDirectory listing \<Rightarrow>
          (case newest_scanner_db_file cache_dir listing of
             Inr (Some (path, t)) \<Rightarrow>
               (db_summary env_var (Some cache_dir) Found)
                 \<lparr>sd_db_file := Some path, sd_modified_at := Some (format_system_time t),
                  sd_age_seconds := Some (system_time_age_seconds now t)\<rparr>
           | Inr None \<Rightarrow> db_summary env_var (Some cache_dir) NotFound
           | Inl e \<Rightarrow> (db_summary env_var (Some cache_dir) Unreadable)\<lparr>sd_error := Some e\<rparr>))"

definition scanner_db_summary_from_env ::
  "(mtime \<Rightarrow> string) \<Rightarrow> mtime \<Rightarrow> lookup \<Rightarrow> (string \<Rightarrow> dir_metadata) \<Rightarrow> string \<Rightarrow> scanner_db_summary" where
  "scanner_db_summary_from_env format_system_time now lookup metadata env_var =
     (case optional_string_env lookup env_var of
        Some cache_dir \<Rightarrow>
          scanner_db_summary_for_dir format_system_time now env_var cache_dir (metadata cache_dir)
      | None \<Rightarrow> db_summary env_var None NotConfigured)"

definition scanner_db_summaries_from_env ::
  "(mtime \<Rightarrow> string) \<Rightarrow> mtime \<Rightarrow> lookup \<Rightarrow> (string \<Rightarrow> dir_metadata) \<Rightarrow> scanner_db_summary list" where
  "scanner_db_summaries_from_env format_system_time now lookup metadata =
     [scanner_db_summary_from_env format_system_time now lookup metadata ''TRIVY_CACHE_DIR'']"

section \<open>Correctness\<close>

text \<open>The readable database files of a tree down to the depth of the search, in the order of the listing.\<close>

fun tree_files :: "string \<Rightarrow> nat \<Rightarrow> dir_tree \<Rightarrow> (string \<times> mtime) list" where
  "tree_files dir fuel (SubDir name (Inr entries)) =
     (case fuel of 0 \<Rightarrow> [] | Suc n \<Rightarrow> concat (map (tree_files (entry_path dir name) n) entries))"
| "tree_files dir fuel (PlainFile name (Inr t)) = (if is_scanner_db_file name then [(entry_path dir name, t)] else [])"
| "tree_files dir fuel _ = []"

definition newest_of :: "(string \<times> mtime) list \<Rightarrow> (string \<times> mtime) option \<Rightarrow> (string \<times> mtime) option" where
  "newest_of files newest = fold newer files newest"

lemma newest_of_simps [simp]:
  "newest_of [] newest = newest"
  "newest_of (f # fs) newest = newest_of fs (newer f newest)"
  "newest_of (fs @ gs) newest = newest_of gs (newest_of fs newest)"
  by (simp_all add: newest_of_def)

lemma visit_files:
  "visit_scanner_db_files dir depth listing newest = Inr r \<Longrightarrow>
     (case listing of
        Inl _ \<Rightarrow> 4 < depth \<and> r = newest
      | Inr entries \<Rightarrow> r = (if 4 < depth then newest else newest_of (concat (map (tree_files dir (4 - depth)) entries)) newest))"
  "visit_entries dir depth entries newest = Inr r \<Longrightarrow> depth \<le> 4 \<Longrightarrow>
     r = newest_of (concat (map (tree_files dir (4 - depth)) entries)) newest"
proof (induction dir depth listing newest and dir depth entries newest arbitrary: r and r
    rule: visit_scanner_db_files_visit_entries.induct)
  case (4 dir depth entry entries newest)
  show ?case
  proof (cases entry)
    case (SubDir name listing)
    with 4 obtain newest' where
      sub: "visit_scanner_db_files (entry_path dir name) (depth + 1) listing newest = Inr newest'"
      and rest: "visit_entries dir depth entries newest' = Inr r"
      by (auto split: sum.splits)
    have depth: "4 - depth = (if depth = 4 then 0 else Suc (3 - depth))" using "4.prems"(2) by auto
    from 4(3) [OF SubDir sub] have "newest' = newest_of (tree_files dir (4 - depth) entry) newest"
      using "4.prems"(2) depth by (cases listing) (auto simp: SubDir split: if_splits)
    moreover from 4(4) [OF SubDir sub rest] have "r = newest_of (concat (map (tree_files dir (4 - depth)) entries)) newest'"
      using "4.prems"(2) by simp
    ultimately show ?thesis by simp
  next
    case (PlainFile name modified)
    have "r = newest_of (concat (map (tree_files dir (4 - depth)) entries))
        (if is_scanner_db_file name
         then (case modified of Inl _ \<Rightarrow> newest | Inr t \<Rightarrow> newer (entry_path dir name, t) newest)
         else newest)"
      using 4(5) [OF PlainFile _ "4.prems"(2)] "4.prems"(1) by (simp add: PlainFile)
    then show ?thesis by (cases modified) (simp_all add: PlainFile)
  qed (use 4 in auto)
qed (auto split: if_splits)

lemma newest_of_spec:
  "case newest_of files newest of
     None \<Rightarrow> files = [] \<and> newest = None
   | Some f \<Rightarrow> (f \<in> set files \<or> newest = Some f) \<and> (\<forall>g \<in> set files. snd g \<le> snd f) \<and>
       (\<forall>g. newest = Some g \<longrightarrow> snd g \<le> snd f)"
proof (induction files arbitrary: newest)
  case Nil
  then show ?case by (auto split: option.split)
next
  case (Cons f files)
  obtain p t where f: "f = (p, t)" by (cases f)
  from Cons [of "newer f newest"] show ?case
    by (cases newest) (auto simp: f newer_def split: option.splits if_splits)
qed

text \<open>
  C38. The search always ends. If it does not fail it returns a database file whose modification time is the latest of
  all readable database files down to four levels below the directory, and it finds none only if there is none.
\<close>

theorem newest_db_file_correct:
  assumes "newest_scanner_db_file dir (Inr entries) = Inr r"
  shows "case r of
      None \<Rightarrow> concat (map (tree_files dir 4) entries) = []
    | Some f \<Rightarrow> f \<in> set (concat (map (tree_files dir 4) entries)) \<and>
        (\<forall>g \<in> set (concat (map (tree_files dir 4) entries)). snd g \<le> snd f)"
proof -
  let ?files = "concat (map (tree_files dir 4) entries)"
  have "r = newest_of ?files None"
    using visit_files(1) [OF assms [unfolded newest_scanner_db_file_def]] by simp
  with newest_of_spec [of ?files None] show ?thesis
    by (cases "newest_of ?files None") (simp_all del: set_concat)
qed

theorem newest_db_file_correct_witness:
  "(''/c/db/trivy.db'', 7) \<in> set (concat (map (tree_files ''/c'' 4)
     [PlainFile ''metadata.json'' (Inr 3), SubDir ''db'' (Inr [PlainFile ''trivy.db'' (Inr 7)])]))"
proof -
  have "newest_scanner_db_file ''/c''
      (Inr [PlainFile ''metadata.json'' (Inr 3), SubDir ''db'' (Inr [PlainFile ''trivy.db'' (Inr 7)])]) =
      Inr (Some (''/c/db/trivy.db'', 7))"
    by code_simp
  from newest_db_file_correct [OF this] show ?thesis by simp
qed

end
