(* ===== verification/Admin.thy ===== *)
theory Admin
  imports Proxy Report_Backend Messenger Scanner_Db
begin

text \<open>
  The admin API (\<^verbatim>\<open>crates/proxy/src/admin.rs\<close>): a bearer token guards views of the state, reloads of
  the policy and of the catalog, and the validation of policy files. Answers are JSON values; each response
  struct of the code is a record with the object that its derived serialiser writes. The serialiser of policy sets,
  the file with the policy, clocks, the environment of the process and the compiled-in features are parameters.
\<close>

section \<open>Answers\<close>

definition jopt :: "('a \<Rightarrow> json) \<Rightarrow> 'a option \<Rightarrow> json" where
  "jopt enc x = (case x of None \<Rightarrow> JNull | Some a \<Rightarrow> enc a)"

definition jnum :: "u64 \<Rightarrow> json" where
  "jnum n = JNumber (PosInt n)"

definition jmap :: "('a \<Rightarrow> json) \<Rightarrow> (string, 'a) btree_map \<Rightarrow> json" where
  "jmap enc m = JObject (map (\<lambda>(k, v). (k, enc v)) m)"

text \<open>\<^verbatim>\<open>axum::Json\<close>\<close>

definition json_response :: "('c, 'w) env \<Rightarrow> nat \<Rightarrow> json \<Rightarrow> response" where
  "json_response env status j =
     \<lparr>rsp_status = status, rsp_headers = [(''content-type'', ''application/json'')],
      rsp_body = Bytes (json_bytes (env_decoders env) j)\<rparr>"

record error_response =
  er_error :: string
  er_details :: "string option"

definition error_response_json :: "error_response \<Rightarrow> json" where
  "error_response_json e = JObject ((''error'', JString (er_error e)) # optional_field ''details'' JString (er_details e))"

definition json_error :: "('c, 'w) env \<Rightarrow> nat \<Rightarrow> string \<Rightarrow> string option \<Rightarrow> response" where
  "json_error env status error details =
     json_response env status (error_response_json \<lparr>er_error = error, er_details = details\<rparr>)"

section \<open>Summaries\<close>

record immutable_config_summary =
  ic_bind_addr :: string
  ic_nexus_base_url :: string
  ic_nexus_username_configured :: bool
  ic_docker_registry_base_url :: "string option"
  ic_docker_repository_name :: "string option"
  ic_repository_refresh_interval_secs :: u64
  ic_yandex_messenger_available :: bool
  ic_yandex_messenger_enabled :: bool
  ic_yandex_messenger_token_configured :: bool
  ic_yandex_messenger_template_file :: "string option"
  ic_yandex_messenger_api_url :: string
  ic_defectdojo_available :: bool
  ic_defectdojo_enabled :: bool
  ic_defectdojo_url :: "string option"
  ic_defectdojo_token_configured :: bool
  ic_defectdojo_engagement_id :: "u64 option"
  ic_trust_base_url :: "string option"
  ic_trust_report_dir :: string
  ic_trust_report_retention_days :: u64
  ic_legacy_repository_name :: string
  ic_legacy_repository_format :: string
  ic_legacy_osv_ecosystem :: "string option"
  ic_osv_ecosystem_overrides :: "(string, string) btree_map"
  ic_osv_api_url :: string
  ic_policy_file :: "string option"
  ic_fail_open :: bool
  ic_unsupported_target_policy :: unsupported_target_policy
  ic_request_timeout_secs :: u64
  ic_artifact_tmp_dir :: "string option"

record cache_summary =
  cs_clean_entry_count :: u64
  cs_vulnerable_entry_count :: u64
  cs_total_entry_count :: u64
  cs_allowed_ttl_secs :: u64
  cs_blocked_ttl_secs :: u64
  cs_max_capacity :: u64

record scanner_summary =
  sm_enabled :: bool
  sm_routes :: "(string, string) btree_map"
  sm_docker_registry_configured :: bool
  sm_docker_repository_name :: "string option"
  sm_docker_scanner :: "string option"
  sm_skip_db_update :: bool
  sm_offline :: bool
  sm_timeout_secs :: u64
  sm_max_bytes :: u64
  sm_concurrency :: u64
  sm_available_permits :: nat
  sm_db_files :: "scanner_db_summary list"

record messenger_summary =
  ym_available :: bool
  ym_enabled :: bool
  ym_sent :: u64
  ym_retried :: u64
  ym_failed :: u64
  ym_skipped_by_reason :: "(string, u64) btree_map"
  ym_last_success_at :: "string option"
  ym_last_failure_at :: "string option"
  ym_last_failure_category :: "string option"

record dojo_summary =
  dd_available :: bool
  dd_enabled :: bool
  dd_submitted :: u64
  dd_failed :: u64
  dd_last_success_at :: "string option"
  dd_last_failure_at :: "string option"
  dd_last_failure_category :: "string option"

record status_response =
  sr_version :: string
  sr_started_at :: string
  sr_uptime_seconds :: u64
  sr_immutable_config :: immutable_config_summary
  sr_active_policy :: active_policy_summary
  sr_repositories :: repository_catalog_summary
  sr_cache :: cache_summary
  sr_scanner :: scanner_summary
  sr_yandex_messenger :: messenger_summary
  sr_defectdojo :: dojo_summary

record validate_policy_request =
  vp_policy_toml :: string
  vp_repository_name :: "string option"
  vp_repository_format :: "string option"

record validate_policy_response =
  vr_valid :: bool
  vr_context :: policy_context
  vr_selected_policy_id :: string
  vr_selected_policy_mode :: enforcement_mode

record decisions_response =
  dr_limit :: nat
  dr_decisions :: "recent_decision list"

section \<open>Their serialised forms\<close>

fun unsupported_target_policy_text :: "unsupported_target_policy \<Rightarrow> string" where
  "unsupported_target_policy_text AllowUnsupported = ''allow''"
| "unsupported_target_policy_text BlockUnsupported = ''block''"

fun decision_outcome_text :: "decision_outcome \<Rightarrow> string" where
  "decision_outcome_text BlockedDecision = ''blocked''"
| "decision_outcome_text ReportOnlyDecision = ''report_only''"

definition immutable_config_json :: "immutable_config_summary \<Rightarrow> json" where
  "immutable_config_json c = JObject
     [(''bind_addr'', JString (ic_bind_addr c)),
      (''nexus_base_url'', JString (ic_nexus_base_url c)),
      (''nexus_username_configured'', JBool (ic_nexus_username_configured c)),
      (''docker_registry_base_url'', jopt JString (ic_docker_registry_base_url c)),
      (''docker_repository_name'', jopt JString (ic_docker_repository_name c)),
      (''repository_refresh_interval_secs'', jnum (ic_repository_refresh_interval_secs c)),
      (''yandex_messenger_available'', JBool (ic_yandex_messenger_available c)),
      (''yandex_messenger_enabled'', JBool (ic_yandex_messenger_enabled c)),
      (''yandex_messenger_token_configured'', JBool (ic_yandex_messenger_token_configured c)),
      (''yandex_messenger_template_file'', jopt JString (ic_yandex_messenger_template_file c)),
      (''yandex_messenger_api_url'', JString (ic_yandex_messenger_api_url c)),
      (''defectdojo_available'', JBool (ic_defectdojo_available c)),
      (''defectdojo_enabled'', JBool (ic_defectdojo_enabled c)),
      (''defectdojo_url'', jopt JString (ic_defectdojo_url c)),
      (''defectdojo_token_configured'', JBool (ic_defectdojo_token_configured c)),
      (''defectdojo_engagement_id'', jopt jnum (ic_defectdojo_engagement_id c)),
      (''trust_base_url'', jopt JString (ic_trust_base_url c)),
      (''trust_report_dir'', JString (ic_trust_report_dir c)),
      (''trust_report_retention_days'', jnum (ic_trust_report_retention_days c)),
      (''legacy_repository_name'', JString (ic_legacy_repository_name c)),
      (''legacy_repository_format'', JString (ic_legacy_repository_format c)),
      (''legacy_osv_ecosystem'', jopt JString (ic_legacy_osv_ecosystem c)),
      (''osv_ecosystem_overrides'', jmap JString (ic_osv_ecosystem_overrides c)),
      (''osv_api_url'', JString (ic_osv_api_url c)),
      (''policy_file'', jopt JString (ic_policy_file c)),
      (''fail_open'', JBool (ic_fail_open c)),
      (''unsupported_target_policy'',
         JString (unsupported_target_policy_text (ic_unsupported_target_policy c))),
      (''request_timeout_secs'', jnum (ic_request_timeout_secs c)),
      (''artifact_tmp_dir'', jopt JString (ic_artifact_tmp_dir c))]"

definition cache_summary_json :: "cache_summary \<Rightarrow> json" where
  "cache_summary_json c = JObject
     [(''clean_entry_count'', jnum (cs_clean_entry_count c)),
      (''vulnerable_entry_count'', jnum (cs_vulnerable_entry_count c)),
      (''total_entry_count'', jnum (cs_total_entry_count c)),
      (''allowed_ttl_secs'', jnum (cs_allowed_ttl_secs c)),
      (''blocked_ttl_secs'', jnum (cs_blocked_ttl_secs c)),
      (''max_capacity'', jnum (cs_max_capacity c))]"

definition scanner_db_summary_json :: "scanner_db_summary \<Rightarrow> json" where
  "scanner_db_summary_json d = JObject
     [(''env_var'', JString (sd_env_var d)),
      (''cache_dir'', jopt JString (sd_cache_dir d)),
      (''status'', JString (scanner_db_status_text (sd_status d))),
      (''db_file'', jopt JString (sd_db_file d)),
      (''modified_at'', jopt JString (sd_modified_at d)),
      (''age_seconds'', jopt (\<lambda>n. jnum (of_nat n)) (sd_age_seconds d)),
      (''error'', jopt JString (sd_error d))]"

definition scanner_summary_json :: "scanner_summary \<Rightarrow> json" where
  "scanner_summary_json s = JObject
     [(''enabled'', JBool (sm_enabled s)),
      (''routes'', jmap JString (sm_routes s)),
      (''docker_registry_configured'', JBool (sm_docker_registry_configured s)),
      (''docker_repository_name'', jopt JString (sm_docker_repository_name s)),
      (''docker_scanner'', jopt JString (sm_docker_scanner s)),
      (''skip_db_update'', JBool (sm_skip_db_update s)),
      (''offline'', JBool (sm_offline s)),
      (''timeout_secs'', jnum (sm_timeout_secs s)),
      (''max_bytes'', jnum (sm_max_bytes s)),
      (''concurrency'', jnum (sm_concurrency s)),
      (''available_permits'', jnum (of_nat (sm_available_permits s))),
      (''db_files'', JArray (map scanner_db_summary_json (sm_db_files s)))]"

definition messenger_summary_json :: "messenger_summary \<Rightarrow> json" where
  "messenger_summary_json y = JObject
     [(''available'', JBool (ym_available y)),
      (''enabled'', JBool (ym_enabled y)),
      (''sent'', jnum (ym_sent y)),
      (''retried'', jnum (ym_retried y)),
      (''failed'', jnum (ym_failed y)),
      (''skipped_by_reason'', jmap jnum (ym_skipped_by_reason y)),
      (''last_success_at'', jopt JString (ym_last_success_at y)),
      (''last_failure_at'', jopt JString (ym_last_failure_at y)),
      (''last_failure_category'', jopt JString (ym_last_failure_category y))]"

definition dojo_summary_json :: "dojo_summary \<Rightarrow> json" where
  "dojo_summary_json d = JObject
     [(''available'', JBool (dd_available d)),
      (''enabled'', JBool (dd_enabled d)),
      (''submitted'', jnum (dd_submitted d)),
      (''failed'', jnum (dd_failed d)),
      (''last_success_at'', jopt JString (dd_last_success_at d)),
      (''last_failure_at'', jopt JString (dd_last_failure_at d)),
      (''last_failure_category'', jopt JString (dd_last_failure_category d))]"

definition active_policy_summary_json :: "active_policy_summary \<Rightarrow> json" where
  "active_policy_summary_json p = JObject
     [(''generation'', jnum (aps_generation p)),
      (''source_path'', jopt JString (aps_source_path p)),
      (''loaded_at'', JString (aps_loaded_at p))]"

definition catalog_summary_json :: "repository_catalog_summary \<Rightarrow> json" where
  "catalog_summary_json c = JObject
     [(''generation'', jnum (rcs_generation c)),
      (''loaded_at'', JString (rcs_loaded_at c)),
      (''repository_count'', jnum (of_nat (rcs_repository_count c)))]"

definition repository_json :: "nexus_repository \<Rightarrow> json" where
  "repository_json r = JObject
     [(''name'', JString (nr_name r)),
      (''format'', JString (nr_format r)),
      (''type'', jopt JString (nr_repository_type r)),
      (''url'', jopt JString (nr_url r)),
      (''online'', jopt JBool (nr_online r)),
      (''osv_ecosystem'', jopt JString (nr_osv_ecosystem r))]"

definition repositories_json :: "repositories_response \<Rightarrow> json" where
  "repositories_json r = JObject
     [(''generation'', jnum (rr_generation r)),
      (''loaded_at'', JString (rr_loaded_at r)),
      (''repositories'', JArray (map repository_json (rr_repositories r)))]"

definition recent_decision_json :: "recent_decision \<Rightarrow> json" where
  "recent_decision_json d = JObject
     [(''timestamp'', JString (rd_timestamp d)),
      (''repository'', JString (rd_repository d)),
      (''format'', JString (rd_format d)),
      (''team'', jopt JString (rd_team d)),
      (''target'', JString (rd_target d)),
      (''outcome'', JString (decision_outcome_text (rd_outcome d))),
      (''policy_id'', jopt JString (rd_policy_id d)),
      (''reason'', JString (rd_reason d)),
      (''vulnerability_ids'', JArray (map JString (rd_vulnerability_ids d))),
      (''report_url'', jopt JString (rd_report_url d))]"

definition decisions_json :: "decisions_response \<Rightarrow> json" where
  "decisions_json d = JObject
     [(''limit'', jnum (of_nat (dr_limit d))),
      (''decisions'', JArray (map recent_decision_json (dr_decisions d)))]"

definition policy_context_json :: "policy_context \<Rightarrow> json" where
  "policy_context_json c = JObject
     [(''repository'', JString (ctx_repository c)),
      (''format'', JString (ctx_format c)),
      (''team'', jopt JString (ctx_team c))]"

definition validate_policy_json :: "validate_policy_response \<Rightarrow> json" where
  "validate_policy_json r = JObject
     [(''valid'', JBool (vr_valid r)),
      (''context'', policy_context_json (vr_context r)),
      (''selected_policy_id'', JString (vr_selected_policy_id r)),
      (''selected_policy_mode'', JString (mode_as_str (vr_selected_policy_mode r)))]"

definition status_json :: "status_response \<Rightarrow> json" where
  "status_json s = JObject
     [(''version'', JString (sr_version s)),
      (''started_at'', JString (sr_started_at s)),
      (''uptime_seconds'', jnum (sr_uptime_seconds s)),
      (''immutable_config'', immutable_config_json (sr_immutable_config s)),
      (''active_policy'', active_policy_summary_json (sr_active_policy s)),
      (''repositories'', catalog_summary_json (sr_repositories s)),
      (''cache'', cache_summary_json (sr_cache s)),
      (''scanner'', scanner_summary_json (sr_scanner s)),
      (''yandex_messenger'', messenger_summary_json (sr_yandex_messenger s)),
      (''defectdojo'', dojo_summary_json (sr_defectdojo s))]"

definition security_policy_json :: "security_policy \<Rightarrow> json" where
  "security_policy_json p =
     (let limit = jopt (\<lambda>n :: u32. jnum (ucast n))
      in JObject
        [(''minimum_blocking_severity'', JString (severity_as_str (minimum_blocking_severity p))),
         (''allowed_vulnerability_ids'', JArray (map JString (allowed_vulnerability_ids p))),
         (''limits'', JObject
            [(''total'', limit (lim_total (limits p))), (''low'', limit (lim_low (limits p))),
             (''medium'', limit (lim_medium (limits p))), (''high'', limit (lim_high (limits p))),
             (''critical'', limit (lim_critical (limits p)))])])"

definition policy_rule_json :: "policy_rule \<Rightarrow> json" where
  "policy_rule_json r = JObject
     [(''id'', JString (rule_id r)),
      (''mode'', JString (mode_as_str (rule_mode r))),
      (''scope'', JObject
         [(''repositories'', JArray (map JString (sc_repositories (rule_scope r)))),
          (''formats'', JArray (map JString (sc_formats (rule_scope r)))),
          (''teams'', JArray (map JString (sc_teams (rule_scope r))))]),
      (''policy'', security_policy_json (rule_policy r))]"

text \<open>The serialiser of time stamps belongs to the library \<^verbatim>\<open>time\<close>.\<close>

definition policy_exception_json :: "(offset_date_time \<Rightarrow> json) \<Rightarrow> policy_exception \<Rightarrow> json" where
  "policy_exception_json time_json e = JObject
     [(''id'', JString (ex_id e)),
      (''owner'', JString (ex_owner e)),
      (''ticket'', JString (ex_ticket e)),
      (''reason'', JString (ex_reason e)),
      (''expires_at'', time_json (ex_expires_at e)),
      (''vulnerability_ids'', JArray (map JString (ex_vulnerability_ids e))),
      (''scope'', JObject
         [(''repositories'', JArray (map JString (es_repositories (ex_scope e)))),
          (''formats'', JArray (map JString (es_formats (ex_scope e)))),
          (''teams'', JArray (map JString (es_teams (ex_scope e)))),
          (''packages'', JArray (map JString (es_packages (ex_scope e)))),
          (''versions'', JArray (map JString (es_versions (ex_scope e))))])]"

definition policy_set_json :: "(offset_date_time \<Rightarrow> json) \<Rightarrow> policy_set \<Rightarrow> json" where
  "policy_set_json time_json ps = JObject
     [(''default_policy'', policy_rule_json (ps_default_policy ps)),
      (''repositories'', jmap (\<lambda>r. JObject [(''team'', JString (rp_team r))]) (ps_repositories ps)),
      (''policies'', JArray (map policy_rule_json (ps_policies ps))),
      (''exceptions'', JArray (map (policy_exception_json time_json) (ps_exceptions ps)))]"

section \<open>The running process\<close>

text \<open>
  What the handlers use beyond the environment of a request: the page, the version, the compiled-in features, the clocks, the
  process environment and the file system, and the states of the notifier and the DefectDojo client, if there are any.
\<close>

record ('c, 'w) admin =
  ad_env :: "('c, 'w) env"
  ad_page :: string
  ad_version :: string
  ad_started_at_rfc3339 :: string
  ad_messenger_feature :: bool
  ad_defectdojo_feature :: bool
  ad_elapsed_secs :: "('c, 'w) shared \<Rightarrow> u64"
  ad_config_lib :: "('c, 'w) shared \<Rightarrow> config_lib"
  ad_time_json :: "offset_date_time \<Rightarrow> json"
  ad_notifier :: "('c, 'w) shared \<Rightarrow> delivery_status option"
  ad_dojo :: "('c, 'w) shared \<Rightarrow> dojo_status option"
  ad_available_permits :: "('c, 'w) shared \<Rightarrow> nat"
  ad_lookup :: lookup
  ad_system_now :: "('c, 'w) shared \<Rightarrow> mtime"
  ad_format_system_time :: "mtime \<Rightarrow> string"
  ad_dir_metadata :: "('c, 'w) shared \<Rightarrow> string \<Rightarrow> dir_metadata"

abbreviation ad_config :: "('c, 'w) admin \<Rightarrow> app_config" where
  "ad_config ad \<equiv> env_config (ad_env ad)"

definition authorize_admin :: "('c, 'w) admin \<Rightarrow> headers \<Rightarrow> response + unit" where
  "authorize_admin ad hs =
     (let env = ad_env ad
      in case ns_admin_token (cf_nexus (ad_config ad)) of
           None \<Rightarrow> Inl (json_error env 404 ''admin API is disabled'' None)
         | Some expected_token \<Rightarrow>
             (case header_get hs ''authorization'' of
                None \<Rightarrow> Inl (json_error env 401 ''missing bearer token'' None)
              | Some header \<Rightarrow>
                  (case header_to_str (env_http env) header of
                     None \<Rightarrow> Inl (json_error env 401 ''invalid authorization header'' None)
                   | Some header \<Rightarrow>
                       (case strip_prefix ''Bearer '' header of
                          None \<Rightarrow> Inl (json_error env 401 ''missing bearer token'' None)
                        | Some token \<Rightarrow>
                            if token \<noteq> expected_token then Inl (json_error env 403 ''invalid bearer token'' None)
                            else Inr ()))))"

text \<open>The first lines of every handler: \<^verbatim>\<open>if let Err(response) = authorize_admin(..) { return *response; }\<close>.\<close>

definition admin_guard ::
  "('c, 'w) admin \<Rightarrow> headers \<Rightarrow> ('c, 'w, response) action \<Rightarrow> ('c, 'w, response) action" where
  "admin_guard ad hs handler =
     (case authorize_admin ad hs of Inl resp \<Rightarrow> io_return resp | Inr _ \<Rightarrow> handler)"

definition config_summary :: "bool \<Rightarrow> bool \<Rightarrow> app_config \<Rightarrow> immutable_config_summary" where
  "config_summary messenger_feature defectdojo_feature config =
     (let n = cf_nexus config; m = cf_messenger config; r = cf_report config; c = cf_scan config
      in \<lparr>ic_bind_addr = ns_bind_addr n,
          ic_nexus_base_url = ns_nexus_base_url n,
          ic_nexus_username_configured = (ns_nexus_username n \<noteq> None),
          ic_docker_registry_base_url = ns_docker_registry_base_url n,
          ic_docker_repository_name = ns_docker_repository_name n,
          ic_repository_refresh_interval_secs = ns_repository_refresh_interval_secs n,
          ic_yandex_messenger_available = messenger_feature,
          ic_yandex_messenger_enabled = (messenger_feature \<and> ms_enabled m),
          ic_yandex_messenger_token_configured = (ms_token m \<noteq> None),
          ic_yandex_messenger_template_file = ms_template_file m,
          ic_yandex_messenger_api_url = ms_api_url m,
          ic_defectdojo_available = defectdojo_feature,
          ic_defectdojo_enabled = (defectdojo_feature \<and> rs_defectdojo_enabled r),
          ic_defectdojo_url = rs_defectdojo_url r,
          ic_defectdojo_token_configured = (rs_defectdojo_token r \<noteq> None),
          ic_defectdojo_engagement_id = rs_defectdojo_engagement_id r,
          ic_trust_base_url = rs_trust_base_url r,
          ic_trust_report_dir = rs_trust_report_dir r,
          ic_trust_report_retention_days = rs_trust_report_retention_days r,
          ic_legacy_repository_name = ns_repository_name n,
          ic_legacy_repository_format = ns_repository_format n,
          ic_legacy_osv_ecosystem = ns_osv_ecosystem n,
          ic_osv_ecosystem_overrides = ns_osv_ecosystem_overrides n,
          ic_osv_api_url = ns_osv_api_url n,
          ic_policy_file = ns_policy_file n,
          ic_fail_open = ss_fail_open c,
          ic_unsupported_target_policy = ss_unsupported_target_policy c,
          ic_request_timeout_secs = ss_request_timeout_secs c,
          ic_artifact_tmp_dir = ss_artifact_tmp_dir c\<rparr>)"

definition cache_summary_of :: "('c, 'w) admin \<Rightarrow> ('c, 'w, cache_summary) action" where
  "cache_summary_of ad = io_ext (\<lambda>s.
     let s = env_other_tasks (ad_env ad) s; (st, c) = stats (env_moka (ad_env ad)) (sh_cache s);
         config = cf_scan (ad_config ad)
     in (\<lparr>cs_clean_entry_count = cst_clean_entry_count st,
          cs_vulnerable_entry_count = cst_vulnerable_entry_count st,
          cs_total_entry_count = cst_total_entry_count st,
          cs_allowed_ttl_secs = ss_cache_allowed_ttl_secs config,
          cs_blocked_ttl_secs = ss_cache_blocked_ttl_secs config,
          cs_max_capacity = ss_cache_max_capacity config\<rparr>, s\<lparr>sh_cache := c\<rparr>))"

definition scanner_used :: "app_config \<Rightarrow> string \<times> artifact_scanner_kind \<Rightarrow> bool" where
  "scanner_used config route \<longleftrightarrow> fst route \<noteq> ''docker'' \<or> docker_registry_configured config"

definition scanner_summary_of :: "('c, 'w) admin \<Rightarrow> ('c, 'w) shared \<Rightarrow> scanner_summary" where
  "scanner_summary_of ad s =
     (let config = ad_config ad; c = cf_scan config
      in \<lparr>sm_enabled = list_ex (scanner_used config) (ss_artifact_scanner_formats c),
          sm_routes = btm_collect (map (\<lambda>(fmt, kind). (fmt, scanner_command kind)) (ss_artifact_scanner_formats c)),
          sm_docker_registry_configured = docker_registry_configured config,
          sm_docker_repository_name = ns_docker_repository_name (cf_nexus config),
          sm_docker_scanner = map_option scanner_command (artifact_scanner_for_format config ''docker''),
          sm_skip_db_update = ss_artifact_scanner_skip_db_update c,
          sm_offline = ss_artifact_scanner_offline c,
          sm_timeout_secs = ss_artifact_scanner_timeout_secs c,
          sm_max_bytes = ss_artifact_scan_max_bytes c,
          sm_concurrency = max (ss_artifact_scanner_concurrency c) 1,
          sm_available_permits = ad_available_permits ad s,
          sm_db_files = scanner_db_summaries_from_env (ad_format_system_time ad) (ad_system_now ad s) (ad_lookup ad)
            (ad_dir_metadata ad s)\<rparr>)"

definition defectdojo_summary :: "('c, 'w) admin \<Rightarrow> ('c, 'w) shared \<Rightarrow> dojo_summary" where
  "defectdojo_summary ad s =
     (let absent = \<lparr>dd_available = ad_defectdojo_feature ad, dd_enabled = False, dd_submitted = 0, dd_failed = 0,
            dd_last_success_at = None, dd_last_failure_at = None, dd_last_failure_category = None\<rparr>
      in if \<not> ad_defectdojo_feature ad then absent
         else case ad_dojo ad s of
           Some st \<Rightarrow>
             \<lparr>dd_available = True, dd_enabled = True, dd_submitted = ds_submitted st, dd_failed = ds_failed st,
              dd_last_success_at = ds_last_success_at st, dd_last_failure_at = ds_last_failure_at st,
              dd_last_failure_category = ds_last_failure_category st\<rparr>
         | None \<Rightarrow> absent)"

definition yandex_messenger_summary :: "('c, 'w) admin \<Rightarrow> ('c, 'w) shared \<Rightarrow> messenger_summary" where
  "yandex_messenger_summary ad s =
     (let absent = \<lparr>ym_available = ad_messenger_feature ad, ym_enabled = False, ym_sent = 0, ym_retried = 0,
            ym_failed = 0, ym_skipped_by_reason = [], ym_last_success_at = None, ym_last_failure_at = None,
            ym_last_failure_category = None\<rparr>
      in if \<not> ad_messenger_feature ad then absent
         else case ad_notifier ad s of
           Some st \<Rightarrow>
             \<lparr>ym_available = True, ym_enabled = True, ym_sent = dv_sent st, ym_retried = dv_retried st,
              ym_failed = dv_failed st, ym_skipped_by_reason = dv_skipped st,
              ym_last_success_at = dv_last_success_at st, ym_last_failure_at = dv_last_failure_at st,
              ym_last_failure_category = dv_last_failure_category st\<rparr>
         | None \<Rightarrow> absent)"

section \<open>Handlers\<close>

definition admin_ui :: "('c, 'w) admin \<Rightarrow> response" where
  "admin_ui ad =
     \<lparr>rsp_status = 200, rsp_headers = [(''content-type'', ''text/html; charset=utf-8'')], rsp_body = Bytes (ad_page ad)\<rparr>"

definition admin_status :: "('c, 'w) admin \<Rightarrow> headers \<Rightarrow> ('c, 'w, response) action" where
  "admin_status ad hs = admin_guard ad hs
     (io_bind (io_get (\<lambda>s. (active_policy_summary_of (sh_active_policy s), ad_elapsed_secs ad s,
         catalog_summary (sh_catalog s)))) (\<lambda>(policy, uptime, catalog).
      io_bind (cache_summary_of ad) (\<lambda>cache.
      io_get (\<lambda>s. json_response (ad_env ad) 200 (status_json
        \<lparr>sr_version = ad_version ad, sr_started_at = ad_started_at_rfc3339 ad, sr_uptime_seconds = uptime,
         sr_immutable_config = config_summary (ad_messenger_feature ad) (ad_defectdojo_feature ad) (ad_config ad),
         sr_active_policy = policy, sr_repositories = catalog, sr_cache = cache,
         sr_scanner = scanner_summary_of ad s, sr_yandex_messenger = yandex_messenger_summary ad s,
         sr_defectdojo = defectdojo_summary ad s\<rparr>)))))"

definition admin_policy :: "('c, 'w) admin \<Rightarrow> headers \<Rightarrow> ('c, 'w, response) action" where
  "admin_policy ad hs = admin_guard ad hs
     (io_get (\<lambda>s. json_response (ad_env ad) 200 (JObject
        [(''active_policy'', active_policy_summary_json (active_policy_summary_of (sh_active_policy s))),
         (''policy_set'', policy_set_json (ad_time_json ad) (ap_policy_set (sh_active_policy s)))])))"

definition admin_reload_policy :: "('c, 'w) admin \<Rightarrow> headers \<Rightarrow> ('c, 'w, response) action" where
  "admin_reload_policy ad hs = admin_guard ad hs
     (let env = ad_env ad
      in case ns_policy_file (cf_nexus (ad_config ad)) of
           None \<Rightarrow> io_return (json_error env 409 ''policy reload requires NEXUS_SEC_PROXY_POLICY_FILE'' None)
         | Some path \<Rightarrow>
             io_bind (io_get (\<lambda>s. load_policy_file (ad_config_lib ad s) path)) (\<lambda>loaded.
               case loaded of
                 Inr ps \<Rightarrow>
                   io_bind (clock env) (\<lambda>now.
                   io_bind (io_ext (reload_active_policy (env_time env) now ps (Some path))) (\<lambda>next.
                     io_return (json_response env 200 (JObject
                       [(''reloaded'', JBool True),
                        (''active_policy'', active_policy_summary_json (active_policy_summary_of next))]))))
               | Inl e \<Rightarrow>
                   io_return (json_error env 422 ''policy reload failed'' (Some (config_error_display e)))))"

definition admin_validate_policy ::
  "('c, 'w) admin \<Rightarrow> headers \<Rightarrow> validate_policy_request \<Rightarrow> ('c, 'w, response) action" where
  "admin_validate_policy ad hs request = admin_guard ad hs
     (io_get (\<lambda>s.
        case parse_policy_toml (ad_config_lib ad s) (vp_policy_toml request) of
          Inr ps \<Rightarrow>
            (let c = policy_set_context ps (unwrap_or (vp_repository_name request) ''default'')
                   (unwrap_or (vp_repository_format request) ''generic'');
                 selected = select_policy ps c
             in json_response (ad_env ad) 200 (validate_policy_json
                  \<lparr>vr_valid = True, vr_context = c, vr_selected_policy_id = rule_id selected,
                   vr_selected_policy_mode = rule_mode selected\<rparr>))
        | Inl e \<Rightarrow>
            json_error (ad_env ad) 422 ''invalid policy TOML'' (Some (policy_set_error_display e))))"

definition admin_repositories :: "('c, 'w) admin \<Rightarrow> headers \<Rightarrow> ('c, 'w, response) action" where
  "admin_repositories ad hs = admin_guard ad hs
     (io_get (\<lambda>s. json_response (ad_env ad) 200 (repositories_json (catalog_response (sh_catalog s)))))"

definition admin_reload_repositories :: "('c, 'w) admin \<Rightarrow> headers \<Rightarrow> ('c, 'w, response) action" where
  "admin_reload_repositories ad hs = admin_guard ad hs
     (io_bind (reload_repository_catalog (ad_env ad)) (\<lambda>r. io_return
        (case r of
           Inr catalog \<Rightarrow> json_response (ad_env ad) 200 (JObject
             [(''reloaded'', JBool True), (''catalog'', catalog_summary_json (catalog_summary catalog)),
              (''repositories'', JArray (map repository_json (rr_repositories (catalog_response catalog))))])
         | Inl e \<Rightarrow> json_error (ad_env ad) 502 ''repository catalog reload failed'' (Some e))))"

definition admin_cache :: "('c, 'w) admin \<Rightarrow> headers \<Rightarrow> ('c, 'w, response) action" where
  "admin_cache ad hs = admin_guard ad hs
     (io_bind (cache_summary_of ad) (\<lambda>c. io_return (json_response (ad_env ad) 200 (cache_summary_json c))))"

definition admin_scanner :: "('c, 'w) admin \<Rightarrow> headers \<Rightarrow> ('c, 'w, response) action" where
  "admin_scanner ad hs = admin_guard ad hs
     (io_get (\<lambda>s. json_response (ad_env ad) 200 (scanner_summary_json (scanner_summary_of ad s))))"

definition admin_decisions :: "('c, 'w) admin \<Rightarrow> headers \<Rightarrow> nat option \<Rightarrow> ('c, 'w, response) action" where
  "admin_decisions ad hs limit = admin_guard ad hs
     (io_get (\<lambda>s.
        let limit = max 1 (min 100 (unwrap_or limit 25))
        in json_response (ad_env ad) 200 (decisions_json
             \<lparr>dr_limit = limit, dr_decisions = decision_log_list (sh_decisions s) limit\<rparr>)))"

section \<open>Authorization\<close>

definition admin_authorized :: "('c, 'w) admin \<Rightarrow> headers \<Rightarrow> bool" where
  "admin_authorized ad hs \<longleftrightarrow>
     (\<exists>token header. ns_admin_token (cf_nexus (ad_config ad)) = Some token \<and>
        header_get hs ''authorization'' = Some header \<and>
        header_to_str (env_http (ad_env ad)) header = Some (''Bearer '' @ token))"

lemma json_error_status [simp]: "rsp_status (json_error env n e d) = n"
  by (simp add: json_error_def json_response_def)

lemma json_response_status [simp]: "rsp_status (json_response env n j) = n"
  by (simp add: json_response_def)

lemma authorize_admin_Inr_iff: "authorize_admin ad hs = Inr u \<longleftrightarrow> admin_authorized ad hs"
  by (auto simp: authorize_admin_def admin_authorized_def Let_def strip_prefix_eq_Some split: option.splits)

lemma authorize_admin_InlD:
  "authorize_admin ad hs = Inl resp \<Longrightarrow>
     rsp_status resp \<in> {401, 403, 404} \<and>
     (rsp_status resp = 404 \<longleftrightarrow> ns_admin_token (cf_nexus (ad_config ad)) = None)"
  by (auto simp: authorize_admin_def Let_def split: option.splits if_splits)

lemma admin_guard_authorized [simp]: "admin_authorized ad hs \<Longrightarrow> admin_guard ad hs handler = handler"
  by (auto simp: admin_guard_def simp flip: authorize_admin_Inr_iff [of ad hs "()"])

lemma admin_guard_refused:
  assumes "\<not> admin_authorized ad hs"
  obtains resp where "\<And>handler. admin_guard ad hs handler = io_return resp" "rsp_status resp \<in> {401, 403, 404}"
    "rsp_status resp = 404 \<longleftrightarrow> ns_admin_token (cf_nexus (ad_config ad)) = None"
proof (cases "authorize_admin ad hs")
  case (Inl resp)
  with that [of resp] authorize_admin_InlD [OF Inl] show ?thesis by (auto simp: admin_guard_def)
next
  case (Inr u)
  with assms authorize_admin_Inr_iff show ?thesis by blast
qed

section \<open>Reloading the policy\<close>

text \<open>
  C24. A policy reload is all or nothing: it always ends and sends nothing; if the file cannot be read or is not a valid
  policy, nothing changes and the answer is 422; otherwise the answer is 200 and the active policy is the file's,
  well formed, with the next generation, and nothing else changes. And a file is reloaded exactly if validating its text
  through the API succeeds.
\<close>

theorem policy_reload_atomic:
  assumes "admin_authorized ad hs" "ns_policy_file (cf_nexus (ad_config ad)) = Some path"
  shows "\<exists>resp s'. admin_reload_policy ad hs s = Some (resp, [], s') \<and>
    (case load_policy_file (ad_config_lib ad s) path of
       Inl e \<Rightarrow> rsp_status resp = 422 \<and> s' = s
     | Inr ps \<Rightarrow> rsp_status resp = 200 \<and> wf_policy_set ps \<and>
         (\<exists>loaded_at. let s0 = snd (env_now (ad_env ad) s)
          in s' = s0\<lparr>sh_active_policy := \<lparr>ap_policy_set = ps, ap_source_path = Some path, ap_loaded_at = loaded_at,
               ap_generation = ap_generation (sh_active_policy s0) + 1\<rparr>\<rparr>)) \<and>
    (\<forall>content name fmt. read_to_string (ad_config_lib ad s) path = Inr content \<longrightarrow>
       (\<exists>answer. admin_validate_policy ad hs
            \<lparr>vp_policy_toml = content, vp_repository_name = name, vp_repository_format = fmt\<rparr> s = Some (answer, [], s) \<and>
          rsp_status answer = rsp_status resp))"
proof -
  have "wf_policy_set ps" if "load_policy_file (ad_config_lib ad s) path = Inr ps" for ps
    using load_policy_ok(3) [of "ad_config_lib ad s" "\<lambda>_. None" "Some path"] that
    by (simp add: load_policy_def res_bind_Inr_iff)
  with assms show ?thesis
    by (auto simp: admin_reload_policy_def admin_validate_policy_def Let_def io_bind_def io_run_simps clock_def
        reload_active_policy_def active_policy_new_def load_policy_file_def split: sum.split)
qed

section \<open>Secrets\<close>

text \<open>A configuration whose credentials and tokens are blanked; whether they are set remains.\<close>

definition redact :: "app_config \<Rightarrow> app_config" where
  "redact c =
     (let blank = map_option (\<lambda>_. [])
      in c\<lparr>cf_nexus := (cf_nexus c)\<lparr>ns_nexus_username := blank (ns_nexus_username (cf_nexus c)),
              ns_nexus_password := blank (ns_nexus_password (cf_nexus c)),
              ns_admin_token := blank (ns_admin_token (cf_nexus c))\<rparr>,
           cf_messenger := (cf_messenger c)\<lparr>ms_token := blank (ms_token (cf_messenger c))\<rparr>,
           cf_report := (cf_report c)\<lparr>rs_defectdojo_token := blank (rs_defectdojo_token (cf_report c))\<rparr>\<rparr>)"

lemma redact_summaries:
  "config_summary mf df (redact c) = config_summary mf df c"
  "docker_registry_configured (redact c) = docker_registry_configured c"
  "artifact_scanner_for_format (redact c) fmt = artifact_scanner_for_format c fmt"
  "cf_scan (redact c) = cf_scan c" "ns_docker_repository_name (cf_nexus (redact c)) = ns_docker_repository_name (cf_nexus c)"
  "scanner_used (redact c) = scanner_used c"
  by (simp_all add: redact_def config_summary_def docker_registry_configured_def artifact_scanner_for_format_def
      scanner_used_def fun_eq_iff Let_def)

definition with_config :: "app_config \<Rightarrow> ('c, 'w) admin \<Rightarrow> ('c, 'w) admin" where
  "with_config c ad = ad\<lparr>ad_env := (ad_env ad)\<lparr>env_config := c\<rparr>\<rparr>"

lemma with_config_simps [simp]:
  "ad_config (with_config c ad) = c" "env_http (ad_env (with_config c ad)) = env_http (ad_env ad)"
  "env_moka (ad_env (with_config c ad)) = env_moka (ad_env ad)"
  "env_other_tasks (ad_env (with_config c ad)) = env_other_tasks (ad_env ad)"
  "json_response (ad_env (with_config c ad)) = json_response (ad_env ad)"
  "json_error (ad_env (with_config c ad)) = json_error (ad_env ad)"
  "ad_version (with_config c ad) = ad_version ad" "ad_started_at_rfc3339 (with_config c ad) = ad_started_at_rfc3339 ad"
  "ad_messenger_feature (with_config c ad) = ad_messenger_feature ad"
  "ad_defectdojo_feature (with_config c ad) = ad_defectdojo_feature ad"
  "ad_elapsed_secs (with_config c ad) = ad_elapsed_secs ad" "ad_notifier (with_config c ad) = ad_notifier ad"
  "ad_dojo (with_config c ad) = ad_dojo ad" "ad_available_permits (with_config c ad) = ad_available_permits ad"
  "ad_lookup (with_config c ad) = ad_lookup ad" "ad_system_now (with_config c ad) = ad_system_now ad"
  "ad_format_system_time (with_config c ad) = ad_format_system_time ad"
  "ad_dir_metadata (with_config c ad) = ad_dir_metadata ad"
  by (simp_all add: with_config_def json_response_def json_error_def fun_eq_iff)

lemma with_redacted:
  "scanner_summary_of (with_config (redact c) ad) = scanner_summary_of (with_config c ad)"
  "cache_summary_of (with_config (redact c) ad) = cache_summary_of (with_config c ad)"
  "yandex_messenger_summary (with_config c ad) = yandex_messenger_summary ad"
  "defectdojo_summary (with_config c ad) = defectdojo_summary ad"
  by (simp_all add: scanner_summary_of_def cache_summary_of_def yandex_messenger_summary_def defectdojo_summary_def
      redact_summaries fun_eq_iff Let_def)

lemma redacted_views:
  assumes "redact c = redact c'" "ns_admin_token (cf_nexus c) = ns_admin_token (cf_nexus c')"
  shows "admin_status (with_config c ad) hs = admin_status (with_config c' ad) hs"
    and "admin_scanner (with_config c ad) hs = admin_scanner (with_config c' ad) hs"
    and "admin_cache (with_config c ad) hs = admin_cache (with_config c' ad) hs"
proof -
  have guard: "admin_guard (with_config c ad) hs = admin_guard (with_config c' ad) hs"
  proof -
    have "authorize_admin (with_config c ad) hs = authorize_admin (with_config c' ad) hs"
      using assms(2) by (simp add: authorize_admin_def Let_def split: option.split)
    then show ?thesis by (simp add: admin_guard_def fun_eq_iff)
  qed
  have sums: "scanner_summary_of (with_config c ad) = scanner_summary_of (with_config c' ad)"
      "cache_summary_of (with_config c ad) = cache_summary_of (with_config c' ad)"
      "config_summary mf df c = config_summary mf df c'" for mf df
    using with_redacted [of c ad] with_redacted [of c' ad] redact_summaries(1) [of mf df c]
      redact_summaries(1) [of mf df c'] assms(1)
    by simp_all
  show "admin_status (with_config c ad) hs = admin_status (with_config c' ad) hs"
    by (simp add: admin_status_def guard sums with_redacted)
  show "admin_scanner (with_config c ad) hs = admin_scanner (with_config c' ad) hs"
    and "admin_cache (with_config c ad) hs = admin_cache (with_config c' ad) hs"
    by (simp_all add: admin_scanner_def admin_cache_def guard sums)
qed

text \<open>
  C25. The views of the configuration do not reveal its secrets: two configurations that differ only in the Nexus credentials,
  the messenger's token or the DefectDojo token give the same answers to requests for the status, the scanner and the cache.
\<close>

theorem views_hide_secrets:
  assumes "redact c = redact c'" "ns_admin_token (cf_nexus c) = ns_admin_token (cf_nexus c')"
  shows "admin_status (with_config c ad) hs s = admin_status (with_config c' ad) hs s \<and>
    admin_scanner (with_config c ad) hs s = admin_scanner (with_config c' ad) hs s \<and>
    admin_cache (with_config c ad) hs s = admin_cache (with_config c' ad) hs s"
  by (simp add: redacted_views [OF assms])

section \<open>Recent decisions\<close>

text \<open>
  The API lists the most recent decisions, newest first: as many as asked for, at least one and at most a hundred,
  25 if the request does not say.
\<close>

theorem recent_decisions_listed:
  assumes "admin_authorized ad hs"
  shows "admin_decisions ad hs limit
      (s\<lparr>sh_decisions := fold decision_log_push ds (decision_log_new 100)\<rparr>) =
    Some (json_response (ad_env ad) 200 (JObject
      [(''limit'', jnum (of_nat (max 1 (min 100 (case limit of None \<Rightarrow> 25 | Some n \<Rightarrow> n))))),
       (''decisions'', JArray (map recent_decision_json
          (take (max 1 (min 100 (case limit of None \<Rightarrow> 25 | Some n \<Rightarrow> n))) (rev ds))))]),
      [], s\<lparr>sh_decisions := fold decision_log_push ds (decision_log_new 100)\<rparr>)"
proof -
  have "decision_log_list (fold decision_log_push ds (decision_log_new 100)) n = take (min n 100) (rev ds)" for n
    using pushes_take [of "decision_log_new 100" ds] by (simp add: decision_log_new_def decision_log_list_def)
  with assms show ?thesis
    by (simp add: admin_decisions_def decisions_json_def io_run_simps Let_def unwrap_or_def min_def max_def split: option.split)
qed

section \<open>An example\<close>

definition sample_admin :: "(sample_cache, sample_world) admin" where
  "sample_admin =
     \<lparr>ad_env = sample_env\<lparr>env_config := sample_config (sample_nexus\<lparr>ns_admin_token := Some ''s3cret'',
          ns_policy_file := Some ''/policy.toml''\<rparr>) []\<rparr>,
      ad_page = ''<!doctype html>'', ad_version = ''0'', ad_started_at_rfc3339 = [], ad_messenger_feature = True,
      ad_defectdojo_feature = True, ad_elapsed_secs = (\<lambda>_. 0), ad_config_lib = (\<lambda>_. sample_config_lib\<lparr>read_to_string := Inr\<rparr>),
      ad_time_json = (\<lambda>_. JNull), ad_notifier = (\<lambda>_. None), ad_dojo = (\<lambda>_. None), ad_available_permits = (\<lambda>_. 4),
      ad_lookup = (\<lambda>_. None), ad_system_now = (\<lambda>_. 0), ad_format_system_time = (\<lambda>_. []),
      ad_dir_metadata = (\<lambda>_ _. MetadataNotFound)\<rparr>"

definition sample_token :: headers where
  "sample_token = [(''authorization'', ''Bearer s3cret'')]"

lemma sample_authorized: "admin_authorized sample_admin sample_token"
  by (simp add: admin_authorized_def sample_admin_def sample_token_def sample_env_def sample_config_def sample_nexus_def
      header_get_def sample_http_lib_def)

theorem policy_reload_atomic_witness:
  "\<exists>resp s'. admin_reload_policy sample_admin sample_token (sample_shared []) = Some (resp, [], s') \<and>
     rsp_status resp = 200 \<and> ap_generation (sh_active_policy s') = 2"
proof -
  have policy_path: "ns_policy_file (cf_nexus (ad_config sample_admin)) = Some ''/policy.toml''"
    by (simp add: sample_admin_def sample_config_def)
  have "\<not> isl (load_policy_file (sample_config_lib\<lparr>read_to_string := Inr\<rparr>) ''/policy.toml'')" by code_simp
  then obtain ps where "load_policy_file (ad_config_lib sample_admin (sample_shared [])) ''/policy.toml'' = Inr ps"
    by (cases "load_policy_file (sample_config_lib\<lparr>read_to_string := Inr\<rparr>) ''/policy.toml''") (auto simp: sample_admin_def)
  moreover have "snd (env_now (ad_env sample_admin) (sample_shared [])) = sample_shared []"
    by (simp add: sample_admin_def sample_env_def)
  ultimately show ?thesis
    using policy_reload_atomic [OF sample_authorized policy_path, of "sample_shared []"]
    by (auto simp: Let_def sample_shared_def)
qed

theorem views_hide_secrets_witness:
  "admin_status (with_config (sample_config (sample_nexus\<lparr>ns_nexus_password := Some ''a''\<rparr>) []) sample_admin) sample_token (sample_shared []) =
   admin_status (with_config (sample_config (sample_nexus\<lparr>ns_nexus_password := Some ''b''\<rparr>) []) sample_admin) sample_token (sample_shared [])"
  using views_hide_secrets [of "sample_config (sample_nexus\<lparr>ns_nexus_password := Some ''a''\<rparr>) []"
      "sample_config (sample_nexus\<lparr>ns_nexus_password := Some ''b''\<rparr>) []" sample_admin sample_token "sample_shared []"]
  by (simp add: redact_def sample_config_def)

theorem recent_decisions_listed_witness:
  "\<exists>resp s'. admin_decisions sample_admin sample_token (Some 0) ((sample_shared [])\<lparr>sh_decisions := decision_log_new 100\<rparr>) =
     Some (resp, [], s') \<and> rsp_status resp = 200"
  using recent_decisions_listed [OF sample_authorized, where limit = "Some 0" and s = "sample_shared []" and ds = "[]"] by simp

end
