(* ===== verification/Service.thy ===== *)
theory Service
  imports Admin
begin

text \<open>
  The service as a whole (\<^verbatim>\<open>build_app\<close> and the health checks of \<^verbatim>\<open>crates/proxy/src/main.rs\<close>): the table of routes
  and the handler of each, with the report backend that the process runs with. The router is a library, so how it finds a route,
  answers other methods and extracts arguments are parameters with the documented laws \<open>router_law\<close>. Checks that the code
  joins are run one after the other.
\<close>

section \<open>The router\<close>

datatype method_filter = OnGet | OnPost | OnAny

datatype route_handler =
    Healthz | ServeReport | AdminUi | AdminStatus | AdminPolicy | AdminReloadPolicy | AdminValidatePolicy
  | AdminRepositories | AdminReloadRepositories | AdminCache | AdminScanner | AdminDecisions | AdminUnknown
  | AdminDisabled

type_synonym route = "string \<times> method_filter \<times> route_handler"

fun method_accepted :: "method_filter \<Rightarrow> string \<Rightarrow> bool" where
  "method_accepted OnGet m \<longleftrightarrow> m = ''GET'' \<or> m = ''HEAD''"
| "method_accepted OnPost m \<longleftrightarrow> m = ''POST''"
| "method_accepted OnAny m \<longleftrightarrow> True"

text \<open>
  \<open>rt_match\<close> finds the pattern that a path matches, with the captured part of the path; the other fields answer a method that
  the route does not have, finish the answer to a HEAD request, and extract the arguments of the handlers.
\<close>

record router_lib =
  rt_match :: "string list \<Rightarrow> string \<Rightarrow> (string \<times> string) option"
  rt_method_not_allowed :: "method_filter \<Rightarrow> response"
  rt_head :: "response \<Rightarrow> response"
  rt_path :: "string \<Rightarrow> response + string"
  rt_query_limit :: "request_uri \<Rightarrow> response + nat option"
  rt_json_body :: "client_request \<Rightarrow> response + validate_policy_request"

definition pattern_matches :: "string \<Rightarrow> string \<Rightarrow> bool" where
  "pattern_matches pattern path \<longleftrightarrow>
     (case strip_suffix ''{*path}'' pattern of
        Some p \<Rightarrow> starts_with path p \<and> path \<noteq> p
      | None \<Rightarrow>
          (case strip_suffix ''{id}'' pattern of
             Some p \<Rightarrow>
               (case strip_prefix p path of Some rest \<Rightarrow> rest \<noteq> [] \<and> CHR ''/'' \<notin> set rest | None \<Rightarrow> False)
           | None \<Rightarrow> path = pattern))"

definition router_law :: "router_lib \<Rightarrow> bool" where
  "router_law rt \<longleftrightarrow>
     (\<forall>patterns path.
        (case rt_match rt patterns path of
           None \<Rightarrow> (\<forall>p \<in> set patterns. \<not> pattern_matches p path)
         | Some (p, _) \<Rightarrow> p \<in> set patterns \<and> pattern_matches p path \<and>
             (path \<in> set patterns \<and> CHR ''{'' \<notin> set path \<longrightarrow> p = path))) \<and>
     (\<forall>m. rsp_status (rt_method_not_allowed rt m) = 405) \<and>
     (\<forall>resp. rsp_status (rt_head rt resp) = rsp_status resp) \<and>
     (\<forall>u resp. rt_query_limit rt u = Inl resp \<longrightarrow> 400 \<le> rsp_status resp) \<and>
     (\<forall>q resp. rt_json_body rt q = Inl resp \<longrightarrow> 400 \<le> rsp_status resp)"

section \<open>The service\<close>

record ('c, 'w) service =
  sv_admin :: "('c, 'w backend_world) admin"
  sv_backend :: report_backend
  sv_backend_lib :: "'w backend_lib"
  sv_router :: router_lib
  sv_health_cut :: "('c, 'w backend_world) shared \<Rightarrow> (nat \<times> ('c, 'w backend_world) shared) option"

datatype service_event = Handled event | ReportFile fs_effect | RegistryProbed http_request

type_synonym ('c, 'w, 'a) service_io = "(('c, 'w backend_world) shared, service_event, 'a) io"

abbreviation sv_env :: "('c, 'w) service \<Rightarrow> ('c, 'w backend_world) env" where
  "sv_env sv \<equiv> ad_env (sv_admin sv)"

abbreviation sv_uuid :: "('c, 'w) service \<Rightarrow> uuid_lib" where
  "sv_uuid sv \<equiv> dl_uuid (bl_dojo (sv_backend_lib sv))"

definition handled :: "('c, 'w backend_world, 'a) action \<Rightarrow> ('c, 'w, 'a) service_io" where
  "handled = io_zoom id (\<lambda>s _. s) Handled"

definition on_reports :: "(disk, fs_effect, 'a) io \<Rightarrow> ('c, 'w, 'a) service_io" where
  "on_reports = io_zoom (\<lambda>s. bw_disk (sh_world s)) (\<lambda>d s. s\<lparr>sh_world := (sh_world s)\<lparr>bw_disk := d\<rparr>\<rparr>) ReportFile"

definition build_app :: "('c, 'w) service \<Rightarrow> route list" where
  "build_app sv =
     [(''/healthz'', OnGet, Healthz)] @
     (if local_store (sv_backend sv) \<noteq> None then [(''/trust/reports/{id}'', OnGet, ServeReport)] else []) @
     (if ns_admin_token (cf_nexus (env_config (sv_env sv))) \<noteq> None
      then [(''/admin'', OnGet, AdminUi),
            (''/admin/api/status'', OnGet, AdminStatus),
            (''/admin/api/policy'', OnGet, AdminPolicy),
            (''/admin/api/policy/reload'', OnPost, AdminReloadPolicy),
            (''/admin/api/policy/validate'', OnPost, AdminValidatePolicy),
            (''/admin/api/repositories'', OnGet, AdminRepositories),
            (''/admin/api/repositories/reload'', OnPost, AdminReloadRepositories),
            (''/admin/api/cache'', OnGet, AdminCache),
            (''/admin/api/scanner'', OnGet, AdminScanner),
            (''/admin/api/decisions'', OnGet, AdminDecisions),
            (''/admin/{*path}'', OnAny, AdminUnknown)]
      else [(''/admin'', OnAny, AdminDisabled), (''/admin/{*path}'', OnAny, AdminDisabled)])"

section \<open>Health\<close>

definition ok_text :: string where "ok_text = ''ok''"
definition failed_text :: string where "failed_text = ''failed''"
definition unused_text :: string where "unused_text = ''unused''"

definition used_artifact_scanners :: "app_config \<Rightarrow> artifact_scanner_kind list" where
  "used_artifact_scanners config =
     remdups (map snd (filter (scanner_used config) (ss_artifact_scanner_formats (cf_scan config))))"

definition check_nexus :: "('c, 'w) service \<Rightarrow> ('c, 'w, string) service_io" where
  "check_nexus sv =
     io_bind (handled (load_repository_catalog (sv_env sv) 0)) (\<lambda>r.
       io_return (case r of Inr _ \<Rightarrow> ok_text | Inl _ \<Rightarrow> failed_text))"

definition check_trust_reports :: "('c, 'w) service \<Rightarrow> ('c, 'w, string) service_io" where
  "check_trust_reports sv =
     (case local_store (sv_backend sv) of
        None \<Rightarrow> io_return unused_text
      | Some store \<Rightarrow>
          io_bind (io_ext (env_uuid (sv_env sv))) (\<lambda>i.
          io_bind (on_reports (verify_writable (probe_path (sv_uuid sv) store i))) (\<lambda>r.
            io_return (case r of Inr _ \<Rightarrow> ok_text | Inl _ \<Rightarrow> failed_text))))"

definition registry_probe :: "('c, 'w) env \<Rightarrow> url \<Rightarrow> http_request" where
  "registry_probe env base =
     (request_to ''GET'' (url_set_query (env_url env) None (url_set_path (env_url env) ''/v2/'' base)))
       \<lparr>hr_basic_auth :=
          (case ns_nexus_username (cf_nexus (env_config env)) of
             None \<Rightarrow> None
           | Some username \<Rightarrow> Some (username, ns_nexus_password (cf_nexus (env_config env))))\<rparr>"

definition check_docker_registry :: "('c, 'w) service \<Rightarrow> ('c, 'w, string) service_io" where
  "check_docker_registry sv =
     (let env = sv_env sv
      in case ns_docker_registry_base_url (cf_nexus (env_config env)) of
           None \<Rightarrow> io_return unused_text
         | Some base \<Rightarrow>
             (case env_url_parse env base of
                Inl _ \<Rightarrow> io_return failed_text
              | Inr _ \<Rightarrow>
                  io_bind (io_call (RegistryProbed (registry_probe env base)) (env_send env (registry_probe env base))) (\<lambda>r.
                    io_return (case r of
                        Inr resp \<Rightarrow>
                          if is_success (hs_status resp) \<or> hs_status resp = 401 then ok_text else failed_text
                      | Inl _ \<Rightarrow> failed_text))))"

definition scanner_version_ok :: "('c, 'w) env \<Rightarrow> artifact_scanner_kind \<Rightarrow> ('c, 'w, bool) action" where
  "scanner_version_ok env kind =
     io_bind (run_command env
       \<lparr>cmd_program = scanner_command kind, cmd_args = [''--version''], cmd_env = [], cmd_timeout = None\<rparr>) (\<lambda>r.
       io_return (case r of Exited success _ _ _ \<Rightarrow> success | _ \<Rightarrow> False))"

fun scanner_db_env :: "artifact_scanner_kind \<Rightarrow> string" where
  "scanner_db_env TrivyScanner = ''TRIVY_CACHE_DIR''"

definition check_scanner :: "('c, 'w) service \<Rightarrow> artifact_scanner_kind \<Rightarrow> bool \<Rightarrow> ('c, 'w, string) service_io" where
  "check_scanner sv kind used =
     (let ad = sv_admin sv
      in if \<not> used then io_return unused_text
         else
           io_bind (handled (scanner_version_ok (ad_env ad) kind)) (\<lambda>version_ok.
           io_bind (io_get (\<lambda>s. sd_status (scanner_db_summary_from_env (ad_format_system_time ad) (ad_system_now ad s)
               (ad_lookup ad) (ad_dir_metadata ad s) (scanner_db_env kind)))) (\<lambda>status.
             io_return (if version_ok \<and> status = Found then ok_text else failed_text))))"

definition health_map :: "string \<Rightarrow> string \<Rightarrow> string \<Rightarrow> string \<Rightarrow> (string, string) btree_map" where
  "health_map nexus trust_reports docker_registry trivy =
     btm_collect [(''nexus'', nexus), (''trust_reports'', trust_reports), (''docker_registry'', docker_registry),
       (''trivy'', trivy)]"

definition health_checks :: "('c, 'w) service \<Rightarrow> ('c, 'w, (string, string) btree_map) service_io" where
  "health_checks sv =
     (let scanners = used_artifact_scanners (env_config (sv_env sv))
      in io_bind (check_nexus sv) (\<lambda>nexus.
         io_bind (check_trust_reports sv) (\<lambda>trust_reports.
         io_bind (check_docker_registry sv) (\<lambda>docker_registry.
         io_bind (check_scanner sv TrivyScanner (TrivyScanner \<in> set scanners)) (\<lambda>trivy.
           io_return (health_map nexus trust_reports docker_registry trivy))))))"

definition timed_out_health_checks :: "('c, 'w) service \<Rightarrow> (string, string) btree_map" where
  "timed_out_health_checks sv =
     (let config = env_config (sv_env sv); scanners = used_artifact_scanners config
      in health_map failed_text
           (if local_store (sv_backend sv) \<noteq> None then failed_text else unused_text)
           (if docker_registry_configured config then failed_text else unused_text)
           (if TrivyScanner \<in> set scanners then failed_text else unused_text))"

text \<open>
  \<^verbatim>\<open>tokio::time::timeout\<close>: a computation that is cut off has performed some of its events.
\<close>

definition io_timeout :: "('s \<Rightarrow> (nat \<times> 's) option) \<Rightarrow> ('s, 'ev, 'a) io \<Rightarrow> ('s, 'ev, 'a option) io" where
  "io_timeout expired m = (\<lambda>s.
     case expired s of
       None \<Rightarrow> map_option (\<lambda>(a, evs, s'). (Some a, evs, s')) (m s)
     | Some (n, s') \<Rightarrow> Some (None, (case m s of Some (_, evs, _) \<Rightarrow> take n evs | None \<Rightarrow> []), s'))"

definition health_response :: "('c, 'w) env \<Rightarrow> (string, string) btree_map \<Rightarrow> response" where
  "health_response env checks =
     (let healthy = list_all (\<lambda>status. status \<noteq> failed_text) (btm_values checks)
      in json_response env (if healthy then 200 else 503) (JObject
           [(''status'', JString (if healthy then ok_text else failed_text)), (''checks'', jmap JString checks)]))"

definition healthz :: "('c, 'w) service \<Rightarrow> ('c, 'w, response) service_io" where
  "healthz sv =
     io_bind (io_timeout (sv_health_cut sv) (health_checks sv)) (\<lambda>r.
       io_return (health_response (sv_env sv)
         (case r of Some checks \<Rightarrow> checks | None \<Rightarrow> timed_out_health_checks sv)))"

section \<open>Requests\<close>

text \<open>An extractor that rejects a request answers it before the handler runs.\<close>

definition extracted :: "response + 'a \<Rightarrow> ('a \<Rightarrow> ('s, 'ev, response) io) \<Rightarrow> ('s, 'ev, response) io" where
  "extracted r handler = (case r of Inl resp \<Rightarrow> io_return resp | Inr a \<Rightarrow> handler a)"

fun run_handler :: "('c, 'w) service \<Rightarrow> client_request \<Rightarrow> string \<Rightarrow> route_handler \<Rightarrow> ('c, 'w, response) service_io" where
  "run_handler sv q arg Healthz = healthz sv"
| "run_handler sv q arg ServeReport =
     extracted (rt_path (sv_router sv) arg) (\<lambda>i.
       on_reports (serve_report (sv_uuid sv) (env_http (sv_env sv)) (local_store (sv_backend sv)) i))"
| "run_handler sv q arg AdminUi = io_return (admin_ui (sv_admin sv))"
| "run_handler sv q arg AdminStatus = handled (admin_status (sv_admin sv) (cq_headers q))"
| "run_handler sv q arg AdminPolicy = handled (admin_policy (sv_admin sv) (cq_headers q))"
| "run_handler sv q arg AdminReloadPolicy = handled (admin_reload_policy (sv_admin sv) (cq_headers q))"
| "run_handler sv q arg AdminValidatePolicy =
     extracted (rt_json_body (sv_router sv) q) (\<lambda>request.
       handled (admin_validate_policy (sv_admin sv) (cq_headers q) request))"
| "run_handler sv q arg AdminRepositories = handled (admin_repositories (sv_admin sv) (cq_headers q))"
| "run_handler sv q arg AdminReloadRepositories = handled (admin_reload_repositories (sv_admin sv) (cq_headers q))"
| "run_handler sv q arg AdminCache = handled (admin_cache (sv_admin sv) (cq_headers q))"
| "run_handler sv q arg AdminScanner = handled (admin_scanner (sv_admin sv) (cq_headers q))"
| "run_handler sv q arg AdminDecisions =
     extracted (rt_query_limit (sv_router sv) (cq_uri q)) (\<lambda>limit.
       handled (admin_decisions (sv_admin sv) (cq_headers q) limit))"
| "run_handler sv q arg AdminUnknown = io_return admin_unknown"
| "run_handler sv q arg AdminDisabled = io_return admin_disabled"

text \<open>The service creates its reports with its own backend.\<close>

definition request_env :: "('c, 'w) service \<Rightarrow> ('c, 'w backend_world) env" where
  "request_env sv = with_backend (sv_backend_lib sv) (sv_backend sv) (sv_env sv)"

definition handle_request :: "('c, 'w) service \<Rightarrow> client_request \<Rightarrow> ('c, 'w, response) service_io" where
  "handle_request sv q =
     (let routes = build_app sv; rt = sv_router sv
      in case rt_match rt (map fst routes) (uri_path (cq_uri q)) of
           None \<Rightarrow> handled (proxy_handler (request_env sv) q)
         | Some (pattern, arg) \<Rightarrow>
             (case map_of routes pattern of
                None \<Rightarrow> handled (proxy_handler (request_env sv) q)
              | Some (methods, handler) \<Rightarrow>
                  if method_accepted methods (cq_method q)
                  then io_bind (run_handler sv q arg handler) (\<lambda>resp. io_return
                    (if methods = OnGet \<and> cq_method q = ''HEAD'' then rt_head rt resp else resp))
                  else io_return (rt_method_not_allowed rt methods)))"

section \<open>Running the parts\<close>

lemma handled_run: "handled m s = map_option (\<lambda>(a, evs, s'). (a, map Handled evs, s')) (m s)"
  by (simp add: handled_def io_zoom_def)

lemma handled_return [simp]: "handled (io_return a) = io_return a"
  by (rule ext) (simp add: handled_run io_run_simps)

lemma io_bind_return [simp]: "io_bind (io_return a) f = f a"
  by (rule ext) (simp add: io_bind_def io_return_def split: option.split)

lemma router_lawD:
  assumes "router_law rt" "rt_match rt patterns path = Some (p, arg)"
  shows "p \<in> set patterns" "pattern_matches p path"
proof -
  have "case rt_match rt patterns path of None \<Rightarrow> (\<forall>p \<in> set patterns. \<not> pattern_matches p path)
      | Some (p, _) \<Rightarrow> p \<in> set patterns \<and> pattern_matches p path \<and>
          (path \<in> set patterns \<and> CHR ''{'' \<notin> set path \<longrightarrow> p = path)"
    using conjunct1 [OF assms(1) [unfolded router_law_def]] by (elim allE)
  with assms(2) show "p \<in> set patterns" "pattern_matches p path" by simp_all
qed

section \<open>The admin API behind its token\<close>

text \<open>A path starts like the pattern it matches.\<close>

lemma pattern_start:
  "pattern_matches pattern path \<Longrightarrow>
     path = pattern \<or> CHR ''{'' \<in> set pattern \<and> prefix (take (length pattern - 7) pattern) path"
  by (auto simp: pattern_matches_def strip_suffix_eq_Some strip_prefix_eq_Some take_append
      intro: take_is_prefix prefix_prefix split: option.splits)

lemma build_app_admin:
  assumes "(pattern, methods, handler) \<in> set (build_app sv)" "pattern_matches pattern path" "starts_with path ''/admin''"
  shows "handler \<noteq> Healthz" "handler \<noteq> ServeReport"
  using assms(1,3) pattern_start [OF assms(2)] by (auto simp: build_app_def prefix_def split: if_splits)

lemma admin_handler_refused:
  assumes "\<not> admin_authorized (sv_admin sv) (cq_headers q)" "router_law (sv_router sv)"
    "handler \<noteq> Healthz" "handler \<noteq> ServeReport"
  shows "\<exists>resp. run_handler sv q arg handler = io_return resp \<and>
    (resp = admin_ui (sv_admin sv) \<or> 400 \<le> rsp_status resp)"
proof -
  obtain refusal where refusal: "\<And>h. admin_guard (sv_admin sv) (cq_headers q) h = io_return refusal"
    "rsp_status refusal \<in> {401, 403, 404}"
    using admin_guard_refused [OF assms(1)] by metis
  have ex: "\<exists>resp. extracted r (\<lambda>_. io_return refusal) = io_return resp \<and> 400 \<le> rsp_status resp"
    if "\<And>resp. r = Inl resp \<Longrightarrow> 400 \<le> rsp_status resp" for r :: "response + 'z"
    using that refusal(2) by (cases r) (auto simp: extracted_def)
  have body: "\<exists>resp. extracted (rt_json_body (sv_router sv) q) (\<lambda>_. io_return refusal) = io_return resp \<and> 400 \<le> rsp_status resp"
    and limit: "\<exists>resp. extracted (rt_query_limit (sv_router sv) (cq_uri q)) (\<lambda>_. io_return refusal) = io_return resp \<and> 400 \<le> rsp_status resp"
    using assms(2) by (auto intro!: ex simp: router_law_def)
  show ?thesis
  proof (cases handler)
    case AdminValidatePolicy
    with body show ?thesis by (auto simp: admin_validate_policy_def refusal(1))
  next
    case AdminDecisions
    with limit show ?thesis by (auto simp: admin_decisions_def refusal(1))
  qed (use assms(3,4) refusal in \<open>auto simp: admin_status_def admin_policy_def admin_reload_policy_def
      admin_repositories_def admin_reload_repositories_def admin_cache_def admin_scanner_def admin_unknown_def
      admin_disabled_def response_with_text_def\<close>)
qed

text \<open>
  C7. Without the exact bearer token nobody can read or change anything through the admin API: whatever
  the path below \<^verbatim>\<open>/admin\<close>, the method and the body, the service performs no action, leaves its state as it is and answers with
  the static page or an error.
\<close>

theorem admin_requires_token:
  assumes "router_law (sv_router sv)" "starts_with (uri_path (cq_uri q)) ''/admin''"
    "\<not> admin_authorized (sv_admin sv) (cq_headers q)"
  shows "\<exists>resp. handle_request sv q s = Some (resp, [], s) \<and>
    (400 \<le> rsp_status resp \<or> resp = admin_ui (sv_admin sv) \<or> resp = rt_head (sv_router sv) (admin_ui (sv_admin sv)))"
proof -
  let ?rt = "sv_router sv" and ?path = "uri_path (cq_uri q)"
  have unmatched: "\<exists>resp. proxy_handler (request_env sv) q = io_return resp \<and> 400 \<le> rsp_status resp"
    using assms(2) by (auto simp: proxy_handler_def Let_def admin_unknown_def admin_disabled_def response_with_text_def)
  have head: "400 \<le> rsp_status (rt_head ?rt resp) \<longleftrightarrow> 400 \<le> rsp_status resp" "400 \<le> rsp_status (rt_method_not_allowed ?rt m)"
    for resp m
    using assms(1) by (simp_all add: router_law_def)
  show ?thesis
  proof (cases "rt_match ?rt (map fst (build_app sv)) ?path")
    case None
    with unmatched show ?thesis by (auto simp: handle_request_def Let_def io_run_simps)
  next
    case (Some m)
    obtain pattern arg where m: "m = (pattern, arg)" by fastforce
    have matches: "pattern_matches pattern ?path" using router_lawD(2) [OF assms(1)] Some by (simp add: m)
    show ?thesis
    proof (cases "map_of (build_app sv) pattern")
      case None
      with Some m unmatched show ?thesis by (auto simp: handle_request_def Let_def io_run_simps)
    next
      case (Some r)
      obtain methods handler where r: "r = (methods, handler)" by fastforce
      have "(pattern, methods, handler) \<in> set (build_app sv)" using Some by (simp add: r map_of_SomeD)
      from admin_handler_refused [OF assms(3,1) build_app_admin [OF this matches assms(2)]]
      obtain resp where "run_handler sv q arg handler = io_return resp" "resp = admin_ui (sv_admin sv) \<or> 400 \<le> rsp_status resp"
        by blast
      then show ?thesis
        using \<open>rt_match _ _ _ = Some m\<close> Some head by (auto simp: handle_request_def m r Let_def io_run_simps)
    qed
  qed
qed

section \<open>Downloads reach the gateway\<close>

text \<open>
  Requests for repositories and for the Docker registry are not taken by any other route: the gateway's handler
  gets them unchanged, with whatever method, and its answer is the service's.
\<close>

theorem downloads_reach_gateway:
  assumes "router_law (sv_router sv)"
    "starts_with (uri_path (cq_uri q)) ''/repository/'' \<or> starts_with (uri_path (cq_uri q)) ''/v2''"
  shows "handle_request sv q = handled (proxy_handler (request_env sv) q)"
proof -
  have "\<not> pattern_matches p (uri_path (cq_uri q))" if "p \<in> set (map fst (build_app sv))" for p
    using assms(2) that pattern_start [of p "uri_path (cq_uri q)"]
    by (auto simp: build_app_def prefix_def split: if_splits)
  then have "rt_match (sv_router sv) (map fst (build_app sv)) (uri_path (cq_uri q)) = None"
    using router_lawD [OF assms(1)] by (metis option.exhaust prod.exhaust)
  then show ?thesis by (simp add: handle_request_def Let_def)
qed

section \<open>The health checks\<close>

lemma health_map_run:
  "health_map nexus trust_reports docker_registry trivy =
     [(''docker_registry'', docker_registry), (''nexus'', nexus), (''trivy'', trivy), (''trust_reports'', trust_reports)]"
proof -
  have "''nexus'' < ''trust_reports''" "''docker_registry'' < ''nexus''" "''nexus'' < ''trivy''"
    "''trivy'' < ''trust_reports''" "''docker_registry'' < ''trust_reports''" "''docker_registry'' < ''trivy''"
    by code_simp+
  then show ?thesis
    by (simp add: health_map_def btm_collect_def)
qed

lemma status_texts [simp]: "ok_text \<noteq> failed_text" "failed_text \<noteq> ok_text" "ok_text \<noteq> unused_text" "failed_text \<noteq> unused_text"
  by (simp_all add: ok_text_def failed_text_def unused_text_def)

lemma handled_total [io_intros]: "io_total m \<Longrightarrow> io_total (handled m)"
  unfolding handled_def by (rule io_total_zoom)

lemma on_reports_total [io_intros]: "io_total m \<Longrightarrow> io_total (on_reports m)"
  unfolding on_reports_def by (rule io_total_zoom)

lemma load_catalog_total [io_intros]: "io_total (load_repository_catalog env generation)"
  unfolding load_repository_catalog_def send_def clock_def by (auto intro!: io_intros split: sum.split)

lemma verify_writable_total [io_intros]: "io_total (verify_writable p)"
  unfolding verify_writable_def or_remove_def write_fresh_def open_new_def write_all_def sync_all_def remove_file_def Let_def
  by (auto intro!: io_intros split: sum.split)

lemma check_totals [io_intros]:
  "io_total (check_nexus sv)" "io_total (check_trust_reports sv)" "io_total (check_docker_registry sv)"
  "io_total (check_scanner sv kind used)" "io_total (health_checks sv)"
proof -
  show nexus: "io_total (check_nexus sv)" unfolding check_nexus_def by (intro io_intros)
  show reports: "io_total (check_trust_reports sv)"
    unfolding check_trust_reports_def by (auto intro!: io_intros split: option.split)
  show registry: "io_total (check_docker_registry sv)"
    unfolding check_docker_registry_def Let_def by (auto intro!: io_intros split: option.split sum.split)
  show scanner: "io_total (check_scanner sv kind used)" for kind used
    unfolding check_scanner_def scanner_version_ok_def run_command_def Let_def by (auto intro!: io_intros)
  show "io_total (health_checks sv)"
    unfolding health_checks_def Let_def by (intro io_intros nexus reports registry scanner)
qed

text \<open>What each check may report: \<open>unused\<close> exactly if the dependency is not configured.\<close>

definition check_result :: "bool \<Rightarrow> string \<Rightarrow> bool" where
  "check_result used r \<longleftrightarrow> (if used then r = ok_text \<or> r = failed_text else r = unused_text)"

lemma check_result_texts:
  assumes "check_result used r"
  shows "r \<in> {''ok'', ''failed'', ''unused''}" "r = ''unused'' \<longleftrightarrow> \<not> used"
  using assms by (auto simp: check_result_def ok_text_def failed_text_def unused_text_def split: if_splits)

lemma check_results:
  "io_post (check_nexus sv) (\<lambda>r _. check_result True r)"
  "io_post (check_trust_reports sv) (\<lambda>r _. check_result (local_store (sv_backend sv) \<noteq> None) r)"
  "io_post (check_docker_registry sv)
     (\<lambda>r _. check_result (ns_docker_registry_base_url (cf_nexus (env_config (sv_env sv))) \<noteq> None) r)"
  "io_post (check_scanner sv kind used) (\<lambda>r _. check_result used r)"
  unfolding check_nexus_def check_trust_reports_def check_docker_registry_def check_scanner_def Let_def
  by (auto intro!: io_result_bind io_post_return simp: check_result_def split: sum.split option.split if_splits)

lemma health_checks_run:
  obtains nexus reports registry trivy evs s'
  where "health_checks sv s = Some (health_map nexus reports registry trivy, evs, s')"
    "check_result True nexus" "check_result (local_store (sv_backend sv) \<noteq> None) reports"
    "check_result (ns_docker_registry_base_url (cf_nexus (env_config (sv_env sv))) \<noteq> None) registry"
    "check_result (TrivyScanner \<in> set (used_artifact_scanners (env_config (sv_env sv)))) trivy"
    "\<exists>evs s'. check_nexus sv s = Some (nexus, evs, s')"
proof -
  have total: "\<exists>a evs s'. m s = Some (a, evs, s')" if "io_total m" for m :: "('a, 'b, 'z) service_io" and s
    using that by (fastforce simp: io_total_def)
  obtain nexus e1 s1 where nexus: "check_nexus sv s = Some (nexus, e1, s1)" using total check_totals(1) by blast
  obtain reports e2 s2 where reports: "check_trust_reports sv s1 = Some (reports, e2, s2)"
    using total check_totals(2) by blast
  obtain registry e3 s3 where registry: "check_docker_registry sv s2 = Some (registry, e3, s3)"
    using total check_totals(3) by blast
  obtain trivy e4 s4 where trivy: "check_scanner sv TrivyScanner
      (TrivyScanner \<in> set (used_artifact_scanners (env_config (sv_env sv)))) s3 = Some (trivy, e4, s4)"
    using total check_totals(4) by blast
  have "health_checks sv s = Some (health_map nexus reports registry trivy, e1 @ e2 @ e3 @ e4, s4)"
    by (simp add: health_checks_def Let_def io_bind_def io_run_simps nexus reports registry trivy)
  with that nexus reports registry trivy check_results [THEN io_postD] show ?thesis by metis
qed

lemma trivy_used_iff:
  "TrivyScanner \<in> set (used_artifact_scanners config) \<longleftrightarrow>
     (\<exists>route \<in> set (ss_artifact_scanner_formats (cf_scan config)). scanner_used config route)"
proof -
  have kind: "snd route = TrivyScanner" for route :: "string \<times> artifact_scanner_kind" by (cases "snd route")
  show ?thesis by (auto simp: used_artifact_scanners_def image_iff kind)
qed

text \<open>
  The health check always answers, also when it times out: 200 exactly if no check failed and 503 otherwise. It reports on
  four dependencies; Nexus is always checked, and the others are reported as unused exactly if the configuration does not
  use them. An answer of 200 means that the check was not cut off and that the catalog could be loaded from Nexus.
\<close>

theorem healthz_answer:
  assumes "ns_docker_registry_base_url (cf_nexus (env_config (sv_env sv))) \<noteq> None \<longrightarrow> docker_registry_configured (env_config (sv_env sv))"
  shows "\<exists>nexus reports registry trivy evs s'.
    (let checks = [(''docker_registry'', registry), (''nexus'', nexus), (''trivy'', trivy), (''trust_reports'', reports)]
     in healthz sv s = Some (health_response (sv_env sv) checks, evs, s') \<and>
        rsp_status (health_response (sv_env sv) checks) = (if ''failed'' \<in> snd ` set checks then 503 else 200) \<and>
        snd ` set checks \<subseteq> {''ok'', ''failed'', ''unused''} \<and> nexus \<noteq> ''unused'' \<and>
        (reports = ''unused'' \<longleftrightarrow> local_store (sv_backend sv) = None) \<and>
        (registry = ''unused'' \<longleftrightarrow> ns_docker_registry_base_url (cf_nexus (env_config (sv_env sv))) = None) \<and>
        (trivy = ''unused'' \<longleftrightarrow> (\<forall>route \<in> set (ss_artifact_scanner_formats (cf_scan (env_config (sv_env sv)))).
           \<not> scanner_used (env_config (sv_env sv)) route)) \<and>
        (nexus = ''ok'' \<longrightarrow> sv_health_cut sv s = None \<and>
           (\<exists>catalog evs1 s1. load_repository_catalog (sv_env sv) 0 s = Some (Inr catalog, evs1, s1))))"
proof -
  let ?config = "env_config (sv_env sv)"
  let ?ok = "\<lambda>nexus reports registry trivy. check_result True nexus \<and> check_result (local_store (sv_backend sv) \<noteq> None) reports \<and>
    check_result (ns_docker_registry_base_url (cf_nexus ?config) \<noteq> None) registry \<and>
    check_result (TrivyScanner \<in> set (used_artifact_scanners ?config)) trivy \<and>
    (nexus = ok_text \<longrightarrow> sv_health_cut sv s = None \<and>
       (\<exists>catalog evs1 s1. load_repository_catalog (sv_env sv) 0 s = Some (Inr catalog, evs1, s1)))"
  have "\<exists>nexus reports registry trivy evs s'.
      healthz sv s = Some (health_response (sv_env sv) (health_map nexus reports registry trivy), evs, s') \<and>
      ?ok nexus reports registry trivy"
  proof (cases "sv_health_cut sv s")
    case (Some cut)
    have "docker_registry_configured ?config \<longleftrightarrow> ns_docker_registry_base_url (cf_nexus ?config) \<noteq> None"
      using assms by (auto simp: docker_registry_configured_def)
    then have "?ok failed_text (if local_store (sv_backend sv) \<noteq> None then failed_text else unused_text)
        (if docker_registry_configured ?config then failed_text else unused_text)
        (if TrivyScanner \<in> set (used_artifact_scanners ?config) then failed_text else unused_text)"
      by (simp add: check_result_def)
    moreover have "\<exists>evs. healthz sv s = Some (health_response (sv_env sv) (timed_out_health_checks sv), evs, snd cut)"
      using Some by (simp add: healthz_def io_timeout_def io_bind_def io_run_simps split_beta)
    ultimately show ?thesis unfolding timed_out_health_checks_def Let_def by blast
  next
    case None
    obtain nexus reports registry trivy evs s' where run:
      "health_checks sv s = Some (health_map nexus reports registry trivy, evs, s')"
      "check_result True nexus" "check_result (local_store (sv_backend sv) \<noteq> None) reports"
      "check_result (ns_docker_registry_base_url (cf_nexus ?config) \<noteq> None) registry"
      "check_result (TrivyScanner \<in> set (used_artifact_scanners ?config)) trivy"
      "\<exists>evs s'. check_nexus sv s = Some (nexus, evs, s')"
      by (rule health_checks_run)
    have "\<exists>catalog evs1 s1. load_repository_catalog (sv_env sv) 0 s = Some (Inr catalog, evs1, s1)" if "nexus = ok_text"
    proof -
      obtain r evs1 s1 where load: "load_repository_catalog (sv_env sv) 0 s = Some (r, evs1, s1)"
        using load_catalog_total [of "sv_env sv" 0] by (fastforce simp: io_total_def)
      with run(6) that have "r \<noteq> Inl e" for e
        by (auto simp: check_nexus_def io_bind_def handled_run io_run_simps)
      with load show ?thesis by (cases r) auto
    qed
    with run None have "?ok nexus reports registry trivy" by simp
    moreover have "healthz sv s = Some (health_response (sv_env sv) (health_map nexus reports registry trivy), evs, s')"
      using run(1) None by (simp add: healthz_def io_timeout_def io_bind_def io_run_simps)
    ultimately show ?thesis by blast
  qed
  then obtain nexus reports registry trivy evs s' where
    run: "healthz sv s = Some (health_response (sv_env sv) (health_map nexus reports registry trivy), evs, s')"
    and oks: "?ok nexus reports registry trivy" by blast
  note ok = conjunct1 [OF oks] conjunct1 [OF conjunct2 [OF oks]] conjunct1 [OF conjunct2 [OF conjunct2 [OF oks]]]
    conjunct1 [OF conjunct2 [OF conjunct2 [OF conjunct2 [OF oks]]]]
  let ?checks = "[(''docker_registry'', registry), (''nexus'', nexus), (''trivy'', trivy), (''trust_reports'', reports)]"
  have status: "rsp_status (health_response (sv_env sv) ?checks) = (if ''failed'' \<in> snd ` set ?checks then 503 else 200)"
    by (auto simp: health_response_def btm_values_def failed_text_def Let_def)
  have texts: "snd ` set ?checks \<subseteq> {''ok'', ''failed'', ''unused''}" "nexus \<noteq> ''unused''"
    "reports = ''unused'' \<longleftrightarrow> local_store (sv_backend sv) = None"
    "registry = ''unused'' \<longleftrightarrow> ns_docker_registry_base_url (cf_nexus ?config) = None"
    and unused: "trivy = ''unused'' \<longleftrightarrow> (\<forall>route \<in> set (ss_artifact_scanner_formats (cf_scan ?config)). \<not> scanner_used ?config route)"
    using check_result_texts [OF ok(1)] check_result_texts [OF ok(2)] check_result_texts [OF ok(3)]
      check_result_texts [OF ok(4)] trivy_used_iff [of ?config]
    by simp_all
  have nexus_ok: "nexus = ''ok'' \<longrightarrow> sv_health_cut sv s = None \<and>
      (\<exists>catalog evs1 s1. load_repository_catalog (sv_env sv) 0 s = Some (Inr catalog, evs1, s1))"
    using oks by (simp add: ok_text_def)
  show ?thesis
    unfolding Let_def
    by (rule exI [of _ nexus], rule exI [of _ reports], rule exI [of _ registry], rule exI [of _ trivy],
        rule exI [of _ evs], rule exI [of _ s'], intro conjI)
      (fact run [unfolded health_map_run] status texts unused nexus_ok)+
qed

section \<open>What the service passes on\<close>

fun service_observe :: "app_config \<Rightarrow> service_event \<Rightarrow> observation option" where
  "service_observe config (Handled ev) = observe config ev"
| "service_observe config _ = None"

lemma map_filter_handled: "List.map_filter (service_observe config) (map Handled evs) = List.map_filter (observe config) evs"
  by (induction evs) (auto simp: List.map_filter_simps split: option.split)

lemma io_post_handled: "io_post m (\<lambda>a evs. Q a (map Handled evs)) \<Longrightarrow> io_post (handled m) Q"
  unfolding io_post_def handled_run by fastforce

lemma handled_sees:
  "io_sees (observe config) m Q \<Longrightarrow> io_sees (service_observe config) (handled m) Q"
  by (rule io_post_handled) (simp add: map_filter_handled)

lemma handled_silent: "io_silent (observe config) m \<Longrightarrow> io_silent (service_observe config) (handled m)"
  by (rule io_post_handled) (simp add: list.pred_map comp_def)

lemma on_reports_silent: "io_silent (service_observe config) (on_reports m)"
  by (auto simp: io_post_def on_reports_def io_zoom_def list_all_iff)

lemma timeout_silent: "io_silent h m \<Longrightarrow> io_silent h (io_timeout expired m)"
  unfolding io_post_def
proof (intro allI impI)
  fix s a evs s'
  assume post: "\<forall>s a evs s'. m s = Some (a, evs, s') \<longrightarrow> list_all (\<lambda>ev. h ev = None) evs"
    and run: "io_timeout expired m s = Some (a, evs, s')"
  show "list_all (\<lambda>ev. h ev = None) evs"
  proof (cases "m s")
    case None
    with run show ?thesis by (auto simp: io_timeout_def split: option.splits)
  next
    case (Some r)
    then have "list_all (\<lambda>ev. h ev = None) (fst (snd r))" using post by (metis prod.collapse)
    with run Some show ?thesis
      by (cases r) (auto simp: io_timeout_def list_all_iff split: option.splits dest!: in_set_takeD)
  qed
qed

lemma reload_silent:
  "io_silent (observe config) (load_repository_catalog env generation)"
  "io_silent (observe config) (reload_repository_catalog env)"
  unfolding reload_repository_catalog_def load_repository_catalog_def send_def clock_def
  by (auto intro!: io_intros split: sum.split option.split)

lemma health_silent: "io_silent (service_observe config) (healthz sv)"
proof -
  have "io_silent (service_observe config) (health_checks sv)"
    unfolding health_checks_def check_nexus_def check_trust_reports_def check_docker_registry_def check_scanner_def
      scanner_version_ok_def run_command_def Let_def
    by (auto intro!: io_intros handled_silent reload_silent on_reports_silent split: option.split sum.split)
  then show ?thesis
    unfolding healthz_def by (auto intro!: io_intros timeout_silent)
qed

lemma admin_silent:
  "io_silent (observe config) (admin_status ad hs)" "io_silent (observe config) (admin_policy ad hs)"
  "io_silent (observe config) (admin_reload_policy ad hs)" "io_silent (observe config) (admin_validate_policy ad hs request)"
  "io_silent (observe config) (admin_repositories ad hs)" "io_silent (observe config) (admin_reload_repositories ad hs)"
  "io_silent (observe config) (admin_cache ad hs)" "io_silent (observe config) (admin_scanner ad hs)"
  "io_silent (observe config) (admin_decisions ad hs limit)"
proof -
  have guard: "io_silent (observe config) (admin_guard ad hs m)" if "io_silent (observe config) m" for m
    using that by (auto simp: admin_guard_def intro!: io_intros split: sum.split)
  show "io_silent (observe config) (admin_status ad hs)" "io_silent (observe config) (admin_policy ad hs)"
    "io_silent (observe config) (admin_reload_policy ad hs)" "io_silent (observe config) (admin_validate_policy ad hs request)"
    "io_silent (observe config) (admin_repositories ad hs)" "io_silent (observe config) (admin_reload_repositories ad hs)"
    "io_silent (observe config) (admin_cache ad hs)" "io_silent (observe config) (admin_scanner ad hs)"
    "io_silent (observe config) (admin_decisions ad hs limit)"
    unfolding admin_status_def admin_policy_def admin_reload_policy_def admin_validate_policy_def admin_repositories_def
      admin_reload_repositories_def admin_cache_def admin_scanner_def admin_decisions_def cache_summary_of_def Let_def clock_def
    by (auto intro!: guard io_intros reload_silent split: option.split sum.split prod.split)
qed

lemma run_handler_silent: "io_silent (service_observe config) (run_handler sv q arg handler)"
proof -
  have ex: "io_silent (service_observe config) (extracted r f)"
    if "\<And>a. io_silent (service_observe config) (f a)" for r :: "response + 'z" and f :: "'z \<Rightarrow> ('a, 'b, response) service_io"
    using that by (auto simp: extracted_def intro!: io_intros split: sum.split)
  show ?thesis
    by (cases handler)
      (auto intro!: ex io_intros handled_silent admin_silent on_reports_silent health_silent)
qed

text \<open>
  C1. Nothing is passed on after a refusal. Whatever request reaches the service, on whatever route, it leads to at most one
  decision and at most one request passed on to Nexus, in this order, and the request is passed on only if the decision,
  when there is one, allows it.
\<close>

theorem service_passes_on_only_permitted:
  "io_post (handle_request sv q) (\<lambda>_ evs. handler_trace (List.map_filter (service_observe (env_config (sv_env sv))) evs))"
proof -
  let ?h = "service_observe (env_config (sv_env sv))"
  have silent: "io_sees ?h m (\<lambda>_ obs. handler_trace obs)" if "io_silent ?h m" for m :: "('a, 'b, response) service_io"
    by (rule io_post_weaken [OF io_silent_sees [OF that]]) simp
  have "env_config (request_env sv) = env_config (sv_env sv)" by (simp add: request_env_def with_backend_def)
  then have proxy: "io_sees ?h (handled (proxy_handler (request_env sv) q)) (\<lambda>_ obs. handler_trace obs)"
    using handled_sees [OF handler_passes_on_only_permitted [of "request_env sv" q]] by simp
  show ?thesis
    unfolding handle_request_def Let_def
    by (auto intro!: proxy silent io_intros run_handler_silent split: option.split)
qed

section \<open>An example\<close>

definition sample_router :: router_lib where
  "sample_router =
     \<lparr>rt_match = (\<lambda>patterns path.
        if path \<in> set patterns \<and> CHR ''{'' \<notin> set path then Some (path, [])
        else map_option (\<lambda>p. (p, [])) (find (\<lambda>p. pattern_matches p path) patterns)),
      rt_method_not_allowed = (\<lambda>_. response_with_text 405 []), rt_head = (\<lambda>resp. resp\<lparr>rsp_body := Bytes []\<rparr>),
      rt_path = Inr, rt_query_limit = (\<lambda>_. Inr None), rt_json_body = (\<lambda>_. Inl (response_with_text 415 []))\<rparr>"

lemma sample_router_law: "router_law sample_router"
proof -
  have static: "pattern_matches p p" if "CHR ''{'' \<notin> set p" for p
  proof -
    have "strip_suffix (CHR ''{'' # x) p = None" for x
      using that by (auto simp: strip_suffix_def suffix_def)
    then show ?thesis by (simp add: pattern_matches_def)
  qed
  show ?thesis
    by (auto simp: router_law_def sample_router_def response_with_text_def static find_None_iff
        dest: find_SomeD split: option.split)
qed

definition service_env :: "(sample_cache, unit backend_world) env" where
  "service_env =
     \<lparr>env_config = sample_config (sample_nexus\<lparr>ns_admin_token := Some ''s3cret''\<rparr>) [], env_nexus_base_url = ''nexus'',
      env_yandex_messenger = False, env_time = sample_time_lib, env_url = sample_url_lib,
      env_http = sample_http_lib, env_moka = list_moka, env_percent_decode = id,
      env_decoders = sample_decoders, env_url_parse = (\<lambda>s. Inl s), env_url_port = (\<lambda>_. None),
      env_host_str = (\<lambda>_. []), env_url_join = (\<lambda>u p. None), env_now = (\<lambda>s. (sample_instant 0, s)),
      env_uuid = (\<lambda>s. (0, s)), env_send = (\<lambda>_ s. (Inl ''connection refused'', s)),
      env_run = (\<lambda>_ s. (Exited True [] [] [], s)), env_other_tasks = id,
      env_acquire_permit = (\<lambda>s. (Inr (), s)), env_temp_file = (\<lambda>_ _ _ s. (Inr ''/tmp/artifact-0'', s)),
      env_temp_dir = (\<lambda>s. (Inr ''/tmp/dir'', s)), env_file_op = (\<lambda>_ _ _ s. (Inr (), s)),
      env_create_report = (\<lambda>_ s. (Inl [], s))\<rparr>"

definition sample_service :: "(sample_cache, unit) service" where
  "sample_service =
     \<lparr>sv_admin =
        \<lparr>ad_env = service_env, ad_page = ''<!doctype html>'', ad_version = ''0'', ad_started_at_rfc3339 = [],
         ad_messenger_feature = False, ad_defectdojo_feature = False, ad_elapsed_secs = (\<lambda>_. 0),
         ad_config_lib = (\<lambda>_. sample_config_lib), ad_time_json = (\<lambda>_. JNull), ad_notifier = (\<lambda>_. None),
         ad_dojo = (\<lambda>_. None), ad_available_permits = (\<lambda>_. 4), ad_lookup = (\<lambda>_. None), ad_system_now = (\<lambda>_. 0),
         ad_format_system_time = (\<lambda>_. []), ad_dir_metadata = (\<lambda>_ _. MetadataNotFound)\<rparr>,
      sv_backend = LocalBackend sample_store, sv_backend_lib = sample_backend_lib, sv_router = sample_router,
      sv_health_cut = (\<lambda>_. None)\<rparr>"

definition sample_query :: "string \<Rightarrow> string \<Rightarrow> client_request" where
  "sample_query method path =
     \<lparr>cq_method = method, cq_uri = \<lparr>uri_path = path, uri_query = None\<rparr>, cq_headers = [], cq_body = []\<rparr>"

lemma sample_service_simps:
  "sv_router sample_service = sample_router" "sv_env sample_service = service_env"
  "header_get (cq_headers (sample_query m p)) n = None" "uri_path (cq_uri (sample_query m p)) = p"
  by (simp_all add: sample_service_def sample_query_def header_get_def)

theorem admin_requires_token_witness:
  "\<forall>s. \<exists>resp. handle_request sample_service (sample_query ''POST'' ''/admin/api/policy/reload'') s = Some (resp, [], s)"
proof
  fix s
  have "\<not> admin_authorized (sv_admin sample_service) (cq_headers (sample_query ''POST'' ''/admin/api/policy/reload''))"
    by (simp add: admin_authorized_def sample_service_simps)
  then show "\<exists>resp. handle_request sample_service (sample_query ''POST'' ''/admin/api/policy/reload'') s = Some (resp, [], s)"
    using admin_requires_token [of sample_service "sample_query ''POST'' ''/admin/api/policy/reload''" s] sample_router_law
    by (auto simp: sample_service_simps)
qed

theorem downloads_reach_gateway_witness:
  "handle_request sample_service (sample_query ''GET'' ''/repository/npm/x'') =
     handled (proxy_handler (request_env sample_service) (sample_query ''GET'' ''/repository/npm/x''))"
  by (rule downloads_reach_gateway) (simp_all add: sample_service_simps sample_router_law)

theorem healthz_answer_witness:
  "\<forall>s. \<exists>resp evs s'. healthz sample_service s = Some (resp, evs, s') \<and> rsp_status resp \<in> {200, 503}"
proof
  fix s
  have "ns_docker_registry_base_url (cf_nexus (env_config (sv_env sample_service))) \<noteq> None \<longrightarrow>
      docker_registry_configured (env_config (sv_env sample_service))"
    by (simp add: sample_service_simps service_env_def sample_config_def sample_nexus_def)
  note answer = healthz_answer [OF this, of s, unfolded Let_def]
  from answer obtain checks evs s' where "healthz sample_service s = Some (health_response (sv_env sample_service) checks, evs, s')"
    "rsp_status (health_response (sv_env sample_service) checks) = (if ''failed'' \<in> snd ` set checks then 503 else 200)"
    by (elim exE conjE) rule
  then show "\<exists>resp evs s'. healthz sample_service s = Some (resp, evs, s') \<and> rsp_status resp \<in> {200, 503}"
    by (intro exI conjI) (assumption, simp)
qed

end
