(* ===== verification/Invariant.thy ===== *)
theory Invariant
  imports Service
begin

text \<open>
  Invariants of the shared state. Requests run concurrently, so an invariant is kept by a request under the assumption that
  whatever runs while the request waits keeps it (\<open>env_keeps\<close>), and the request itself is such another task.
  The locale \<open>request_invariant\<close> states what an invariant must allow, which is all that a request does to the state itself: change the caches and
  record decisions. It shows that every operation keeps such an invariant; the
  service's invariant is an instance, and the reloads, which also change the catalog and the policy, keep it as well.
\<close>

section \<open>Rules\<close>

definition io_keeps :: "('s \<Rightarrow> bool) \<Rightarrow> ('s, 'ev, 'a) io \<Rightarrow> bool" where
  "io_keeps I m \<longleftrightarrow> (\<forall>s a evs s'. I s \<longrightarrow> m s = Some (a, evs, s') \<longrightarrow> I s')"

named_theorems keeps_intros "operations that keep an invariant"

lemma io_keeps_basic [keeps_intros]:
  "io_keeps I (io_return a)" "io_keeps I (io_emit ev)" "io_keeps I (io_emits evs)" "io_keeps I (io_get g)"
  by (simp_all add: io_keeps_def io_run_simps)

lemma io_keeps_never [keeps_intros]: "io_keeps I (\<lambda>_. None)"
  by (simp add: io_keeps_def)

lemma io_keeps_ext [keeps_intros]: "(\<And>s. I s \<Longrightarrow> I (snd (f s))) \<Longrightarrow> io_keeps I (io_ext f)"
  by (auto simp: io_keeps_def io_run_simps)

lemma io_keeps_call [keeps_intros]: "(\<And>s. I s \<Longrightarrow> I (snd (f s))) \<Longrightarrow> io_keeps I (io_call ev f)"
  by (auto simp: io_keeps_def io_call_run)

lemma io_keeps_modify [keeps_intros]: "(\<And>s. I s \<Longrightarrow> I (f s)) \<Longrightarrow> io_keeps I (io_modify f)"
  by (auto simp: io_keeps_def io_run_simps)

lemma io_keeps_bind [keeps_intros]:
  "io_keeps I m \<Longrightarrow> (\<And>a. io_keeps I (f a)) \<Longrightarrow> io_keeps I (io_bind m f)"
  unfolding io_keeps_def io_bind_Some_iff by blast

lemma io_keeps_then [keeps_intros]: "io_keeps I m \<Longrightarrow> io_keeps I n \<Longrightarrow> io_keeps I (io_then m n)"
  unfolding io_then_def by (rule io_keeps_bind)

lemma io_keeps_try [keeps_intros]:
  "io_keeps I m \<Longrightarrow> (\<And>a. io_keeps I (f a)) \<Longrightarrow> io_keeps I (io_try m f)"
  unfolding io_try_def by (rule io_keeps_bind) (auto intro: keeps_intros split: sum.split)

lemma io_keepsD: "io_keeps I m \<Longrightarrow> m s = Some (a, evs, s') \<Longrightarrow> I s \<Longrightarrow> I s'"
  by (auto simp: io_keeps_def)

section \<open>The environment\<close>

definition env_keeps :: "(('c, 'w) shared \<Rightarrow> bool) \<Rightarrow> ('c, 'w) env \<Rightarrow> bool" where
  "env_keeps I env \<longleftrightarrow> (\<forall>s. I s \<longrightarrow>
     I (snd (env_now env s)) \<and> I (snd (env_uuid env s)) \<and> (\<forall>req. I (snd (env_send env req s))) \<and>
     (\<forall>cmd. I (snd (env_run env cmd s))) \<and> I (env_other_tasks env s) \<and> I (snd (env_acquire_permit env s)) \<and>
     (\<forall>d p x. I (snd (env_temp_file env d p x s))) \<and> I (snd (env_temp_dir env s)) \<and>
     (\<forall>op p b. I (snd (env_file_op env op p b s))) \<and> (\<forall>r. I (snd (env_create_report env r s))))"

locale request_invariant =
  fixes inv :: "('c, 'w) shared \<Rightarrow> bool"
  assumes cache_free: "inv s \<Longrightarrow> inv (s\<lparr>sh_cache := c\<rparr>)"
    and decision_recorded: "inv s \<Longrightarrow> inv (s\<lparr>sh_decisions := decision_log_push d (sh_decisions s)\<rparr>)"
begin

lemma env_keepsD:
  assumes "env_keeps inv env" "inv s"
  shows "inv (snd (env_now env s))" "inv (snd (env_uuid env s))" "inv (snd (env_send env req s))"
    "inv (snd (env_run env cmd s))" "inv (env_other_tasks env s)" "inv (snd (env_acquire_permit env s))"
    "inv (snd (env_temp_file env d p x s))" "inv (snd (env_temp_dir env s))" "inv (snd (env_file_op env op' p b s))"
    "inv (snd (env_create_report env r s))"
  using assms by (simp_all add: env_keeps_def)

lemma effects_keep [keeps_intros]:
  assumes "env_keeps inv env"
  shows "io_keeps inv (send env purpose req)" "io_keeps inv (run_command env cmd)" "io_keeps inv (clock env)"
    "io_keeps inv (now_rfc3339 env)" "io_keeps inv (get_cache env key)" "io_keeps inv (store_cache env key scan)"
  unfolding send_def run_command_def clock_def now_rfc3339_def get_cache_def store_cache_def
  by (auto intro!: keeps_intros env_keepsD [OF assms] cache_free simp: Let_def split: prod.splits)

lemma requester_keeps [keeps_intros]:
  assumes "env_keeps inv env"
  shows "io_keeps inv (verify_requester env r)" "io_keeps inv (messenger_recipient env user)"
  unfolding verify_requester_def messenger_recipient_def resolve_nexus_email_def
  by (auto intro!: keeps_intros assms split: option.split requester.split)

lemma record_decision_keeps [keeps_intros]:
  assumes "env_keeps inv env"
  shows "io_keeps inv (record_decision env context outcome report url)"
  unfolding record_decision_def Let_def by (auto intro!: keeps_intros assms decision_recorded)

lemma audit_keeps [keeps_intros]:
  "io_keeps inv (audit_policy_evaluation context target e url)" "io_keeps inv (audit_unsupported_block context report url')"
  unfolding audit_policy_evaluation_def audit_unsupported_block_def by (intro keeps_intros)+

lemma block_with_report_keeps [keeps_intros]:
  assumes "env_keeps inv env" "\<And>url. io_keeps inv (audit url)"
  shows "io_keeps inv (block_with_report env context report user audit)"
  unfolding block_with_report_def new_trust_report_def create_trust_report_def messenger_recipient_for_block_def
    notify_blocked_def Let_def
  by (auto intro!: keeps_intros assms env_keepsD [OF assms(1)] split: option.split)

lemma handle_policy_evaluation_keeps [keeps_intros]:
  assumes "env_keeps inv env"
  shows "io_keeps inv (handle_policy_evaluation env context target e requester)"
  unfolding handle_policy_evaluation_def by (cases "pe_outcome e") (auto intro!: keeps_intros assms)

lemma handle_unsupported_target_keeps [keeps_intros]:
  assumes "env_keeps inv env"
  shows "io_keeps inv (handle_unsupported_target env repository target reason requester)"
  unfolding handle_unsupported_target_def Let_def
  by (auto intro!: keeps_intros assms split: unsupported_target_policy.split)

lemma decide_keeps [keeps_intros]:
  assumes "env_keeps inv env"
  shows "io_keeps inv (decide env repository target vs requester)" "io_keeps inv (put_cache env key scan)"
  unfolding decide_def evaluate_active_def put_cache_def Let_def
  by (auto intro!: keeps_intros assms split: prod.split)

lemma query_loop_keeps:
  "query_loop lib decode ask endpoint package tok acc s = Some y \<Longrightarrow> (\<And>req. io_keeps inv (ask req)) \<Longrightarrow>
   inv s \<Longrightarrow> inv (snd (snd y))"
proof (induction rule: query_loop.raw_induct [rotated, consumes 1, case_names step])
  case (step ql lib decode ask endpoint package tok acc s y)
  obtain q where q: "osv_query_from_package package tok = Inr q"
    by (cases "pc_identity package") (auto simp: osv_query_from_package_def)
  with step.hyps obtain reply evs s1 where r: "ask (osv_request endpoint q) s = Some (reply, evs, s1)"
    by (auto simp: bind_eq_Some_conv)
  have "inv s1" by (rule io_keepsD [OF step.prems(1) r step.prems(2)])
  then show ?case
    using step.hyps q r step.IH [OF _ step.prems(1)]
    by (auto simp: bind_eq_Some_conv split: sum.splits option.splits)
qed

lemma osv_vulnerabilities_keeps [keeps_intros]:
  "(\<And>req. io_keeps inv (ask req)) \<Longrightarrow> io_keeps inv (osv_vulnerabilities lib decode ask endpoint target)"
  unfolding osv_vulnerabilities_def query_package_def
  by (cases target) (auto simp: io_keeps_def io_return_def dest!: query_loop_keeps)

lemma package_keeps [keeps_intros]:
  assumes "env_keeps inv env"
  shows "io_keeps inv (package_scanned env repository target requester found)"
    "io_keeps inv (authorize_package_target env repository target requester)"
proof -
  show scanned: "io_keeps inv (package_scanned env repository target requester found)" for found
    unfolding package_scanned_def by (auto intro!: keeps_intros assms split: sum.split security_error.split)
  show "io_keeps inv (authorize_package_target env repository target requester)"
    unfolding authorize_package_target_def
    by (auto intro!: keeps_intros assms scanned split: sum.split option.split)
qed

lemma docker_auth_keeps [keeps_intros]:
  assumes "env_keeps inv env"
  shows "io_keeps inv (docker_auth_config env u)" "io_keeps inv (scan_with_image env x target img docker_config insecure)"
    "io_keeps inv (scan_path tjson (run_command env) x target path)"
  unfolding docker_auth_config_def scan_with_image_def scan_image_def scan_path_def Let_def
  by (auto intro!: keeps_intros assms env_keepsD [OF assms] split: option.split sum.split)

lemma scan_images_keeps [keeps_intros]:
  assumes "env_keeps inv env"
  shows "io_keeps inv (scan_images env x target authority auth insecure acc imgs)"
  by (induction imgs arbitrary: acc) (auto intro!: keeps_intros assms simp: Let_def split: sum.split)

lemma scan_prefetched_keeps [keeps_intros]:
  assumes "env_keeps inv env"
  shows "io_keeps inv (scan_prefetched env repository target kind path)"
  unfolding scan_prefetched_def scan_helm_chart_def extract_chart_images_def scan_chart_images_def Let_def
  by (auto intro!: keeps_intros assms split: sum.split option.split)

lemma read_chunks_keeps [keeps_intros]:
  assumes "env_keeps inv env"
  shows "io_keeps inv (read_chunks env path acc sz chunks)"
proof (induction chunks arbitrary: acc sz)
  case (Cons chunk chunks)
  then show ?case
    by (cases chunk) (auto intro!: keeps_intros env_keepsD [OF assms] split: option.split sum.split)
qed (simp add: keeps_intros)

lemma prefetch_artifact_keeps [keeps_intros]:
  assumes "env_keeps inv env"
  shows "io_keeps inv (prefetch_artifact env uri hs)"
  unfolding prefetch_artifact_def prefetch_body_def temporary_artifact_file_def file_step_def Let_def
  by (auto intro!: keeps_intros assms env_keepsD [OF assms] split: sum.split option.split)

lemma authorize_artifact_target_keeps [keeps_intros]:
  assumes "env_keeps inv env"
  shows "io_keeps inv (authorize_artifact_target env repository a kind uri hs requester)"
proof -
  have prefetched: "io_keeps inv (artifact_prefetched env repository a kind uri requester p)" for p
    unfolding artifact_prefetched_def by (auto intro!: keeps_intros assms split: sum.split)
  have failed: "io_keeps inv (artifact_scan_failure env (Artifact a) reason)" for reason
    unfolding artifact_scan_failure_def by (intro keeps_intros)
  have oversized: "io_keeps inv (oversized_artifact_response env repository (Artifact a) r requester)" for r
    unfolding oversized_artifact_response_def by (intro keeps_intros assms)
  have "io_keeps inv (artifact_fetched env repository a kind uri requester fetched)" for fetched
    unfolding artifact_fetched_def
    by (auto intro!: keeps_intros assms prefetched failed oversized split: sum.split prefetch_result.split)
  then show ?thesis
    unfolding authorize_artifact_target_def scan_artifact_target_def
    by (auto intro!: keeps_intros assms failed env_keepsD [OF assms] split: sum.split option.split)
qed

lemma forward_keeps [keeps_intros]:
  assumes "env_keeps inv env"
  shows "io_keeps inv (forward_request_to_base env base q)" "io_keeps inv (forward_or_fail env q)"
  unfolding forward_or_fail_def forward_request_def forward_request_to_base_def by (intro keeps_intros assms)+

lemma docker_manifest_keeps [keeps_intros]:
  assumes "env_keeps inv env"
  shows "io_keeps inv (authorize_docker_manifest env base repository kind hs request uri)"
proof -
  have failure: "io_keeps inv (docker_manifest_failure env target reason p)" for target reason p
    unfolding docker_manifest_failure_def by (intro keeps_intros)
  have fetch_failure: "io_keeps inv (docker_manifest_fetch_failure env b uri hs target reason)" for b target reason
    unfolding docker_manifest_fetch_failure_def by (auto intro!: keeps_intros assms)
  have scan: "io_keeps inv (docker_scan env u kind a image_name digest)" for u a image_name digest
    unfolding docker_scan_def by (auto intro!: keeps_intros assms env_keepsD [OF assms] split: sum.split)
  have scanned: "io_keeps inv (docker_scanned_manifest env u repository kind requester image_name digest p)"
    for u requester image_name digest p
    unfolding docker_scanned_manifest_def Let_def
    by (auto intro!: keeps_intros assms scan failure split: sum.split option.split)
  have fetched: "io_keeps inv (authorize_fetched_manifest env u repository kind hs request p)" for u p
    unfolding authorize_fetched_manifest_def Let_def
    by (auto intro!: keeps_intros assms scanned failure split: docker_manifest_kind.split option.split)
  show ?thesis
    unfolding authorize_docker_manifest_def authorize_docker_manifest_inner_def fetch_docker_manifest_def
    by (auto intro!: keeps_intros assms fetched fetch_failure split: sum.split docker_manifest_fetch.split)
qed

lemma handle_docker_keeps [keeps_intros]:
  assumes "env_keeps inv env"
  shows "io_keeps inv (handle_docker_registry_request env q)"
  unfolding handle_docker_registry_request_def forward_docker_request_def
  by (auto intro!: keeps_intros assms split: option.split sum.split prod.split)

lemma proxy_handler_keeps [keeps_intros]:
  assumes "env_keeps inv env"
  shows "io_keeps inv (proxy_handler env q)"
proof -
  have artifact: "io_keeps inv (authorize_artifact_download env repository q a requester)" for repository a requester
    unfolding authorize_artifact_download_def Let_def by (auto intro!: keeps_intros assms split: option.split)
  have "io_keeps inv (authorize_download env repository q path requester)" for repository path requester
    unfolding authorize_download_def
    by (auto intro!: keeps_intros assms artifact split: request_classification.split scan_target.split)
  then show ?thesis
    unfolding proxy_handler_def Let_def by (auto intro!: keeps_intros assms split: option.split)
qed

end

section \<open>The service's invariant\<close>

definition catalog_ok :: "app_config \<Rightarrow> repository_catalog \<Rightarrow> bool" where
  "catalog_ok config c \<longleftrightarrow> rc_repositories c \<noteq> [] \<and> validate_configured_repositories c config = Inr ()"

definition service_inv :: "app_config \<Rightarrow> ('c, 'w) shared \<Rightarrow> bool" where
  "service_inv config s \<longleftrightarrow>
     catalog_ok config (sh_catalog s) \<and> wf_policy_set (ap_policy_set (sh_active_policy s)) \<and>
     dl_capacity (sh_decisions s) = 100 \<and> length (dl_inner (sh_decisions s)) \<le> 100"

interpretation si: request_invariant "service_inv config" for config
  by unfold_locales (simp_all add: service_inv_def decision_log_push_def pop_back_to_take)

lemma btm_insert_ne [simp]: "btm_insert k v m \<noteq> []"
  by (cases m) (auto split: if_splits)

lemma index_repositories_ne:
  "index_repositories rs m = Inr m' \<Longrightarrow> rs \<noteq> [] \<or> m \<noteq> [] \<Longrightarrow> m' \<noteq> []"
  by (induction rs m rule: index_repositories.induct) (auto split: if_splits)

lemma catalog_from_items_ok:
  "catalog_from_items env generation items now = Inr c \<Longrightarrow> catalog_ok (env_config env) c"
  by (auto simp: catalog_from_items_def catalog_ok_def catalog_new_def res_bind_Inr_iff
      dest: index_repositories_ne split: if_splits)

lemma reload_catalog_keeps:
  assumes "env_keeps (service_inv (env_config env)) env"
  shows "io_keeps (service_inv (env_config env)) (reload_repository_catalog env)"
proof -
  note keeps = si.env_keepsD [OF assms]
  have replaced: "service_inv (env_config env) (s\<lparr>sh_catalog := c\<rparr>)" if "service_inv (env_config env) s" "catalog_ok (env_config env) c" for s :: "('a, 'b) shared" and c
    using that by (simp add: service_inv_def)
  show ?thesis
    unfolding io_keeps_def reload_run Let_def
    by (auto split: option.splits sum.splits intro!: keeps replaced catalog_from_items_ok)
qed

lemma admin_keeps:
  assumes "env_keeps (service_inv (ad_config ad)) (ad_env ad)"
  shows "io_keeps (service_inv (ad_config ad)) (admin_status ad hs)"
    "io_keeps (service_inv (ad_config ad)) (admin_policy ad hs)"
    "io_keeps (service_inv (ad_config ad)) (admin_reload_policy ad hs)"
    "io_keeps (service_inv (ad_config ad)) (admin_validate_policy ad hs request)"
    "io_keeps (service_inv (ad_config ad)) (admin_repositories ad hs)"
    "io_keeps (service_inv (ad_config ad)) (admin_reload_repositories ad hs)"
    "io_keeps (service_inv (ad_config ad)) (admin_cache ad hs)"
    "io_keeps (service_inv (ad_config ad)) (admin_scanner ad hs)"
    "io_keeps (service_inv (ad_config ad)) (admin_decisions ad hs limit)"
proof -
  let ?inv = "service_inv (ad_config ad) :: ('a, 'b) shared \<Rightarrow> bool"
  have guard: "io_keeps ?inv (admin_guard ad hs m)" if "io_keeps ?inv m" for m
    using that by (auto simp: admin_guard_def intro!: keeps_intros split: sum.split)
  have cache: "io_keeps ?inv (cache_summary_of ad)"
    unfolding cache_summary_of_def
    by (auto intro!: keeps_intros si.cache_free si.env_keepsD [OF assms] simp: Let_def split: prod.split)
  have policy: "wf_policy_set ps" if "load_policy_file lib path = Inr ps" for lib path ps
    using load_policy_ok(3) [of lib "\<lambda>_. None" "Some path"] that by (simp add: load_policy_def res_bind_Inr_iff)
  show "io_keeps ?inv (admin_status ad hs)" "io_keeps ?inv (admin_policy ad hs)"
    "io_keeps ?inv (admin_validate_policy ad hs request)" "io_keeps ?inv (admin_repositories ad hs)"
    "io_keeps ?inv (admin_reload_repositories ad hs)" "io_keeps ?inv (admin_cache ad hs)"
    "io_keeps ?inv (admin_scanner ad hs)" "io_keeps ?inv (admin_decisions ad hs limit)"
    unfolding admin_status_def admin_policy_def admin_validate_policy_def admin_repositories_def
      admin_reload_repositories_def admin_cache_def admin_scanner_def admin_decisions_def
    by (auto intro!: guard keeps_intros cache reload_catalog_keeps assms split: prod.split)
  show "io_keeps ?inv (admin_reload_policy ad hs)"
    unfolding admin_reload_policy_def Let_def
  proof (rule guard, cases "ns_policy_file (cf_nexus (ad_config ad))", goal_cases)
    case 1
    then show ?case by (simp add: keeps_intros)
  next
    case (2 path)
    have "?inv s'" if "?inv s" "(io_bind (clock (ad_env ad)) (\<lambda>now. io_bind (io_ext (reload_active_policy
        (env_time (ad_env ad)) now ps (Some path))) (\<lambda>next. io_return (f next)))) s = Some (r, evs, s')" "wf_policy_set ps"
      for s ps f and r :: response and evs s'
      using that si.env_keepsD(1) [OF assms that(1)]
      by (auto simp: io_bind_def io_run_simps clock_def reload_active_policy_def active_policy_new_def service_inv_def Let_def)
    with 2 show ?case
      by (auto simp: io_keeps_def io_bind_Some_iff [of "io_get _"] io_run_simps dest!: policy split: sum.splits)
  qed
qed

section \<open>Requests keep the invariant\<close>

text \<open>
  The rely condition of a service: its environment, and the state in which a health check is cut off.
\<close>

definition service_relies :: "('c, 'w) service \<Rightarrow> bool" where
  "service_relies sv \<longleftrightarrow>
     env_keeps (service_inv (env_config (sv_env sv))) (sv_env sv) \<and>
     (\<forall>s n s'. service_inv (env_config (sv_env sv)) s \<longrightarrow> sv_health_cut sv s = Some (n, s') \<longrightarrow>
        service_inv (env_config (sv_env sv)) s')"

lemma service_inv_world [simp]: "service_inv config (s\<lparr>sh_world := w\<rparr>) = service_inv config s"
  by (simp add: service_inv_def)

lemma zoom_keeps:
  "io_keeps (service_inv config) m \<Longrightarrow> io_keeps (service_inv config) (handled m)"
  "io_keeps (service_inv config) (on_reports m')"
  by (auto simp: io_keeps_def handled_run on_reports_def io_zoom_def)

lemma with_backend_keeps:
  "env_keeps (service_inv config) env \<Longrightarrow> env_keeps (service_inv config) (with_backend lib backend env)"
  by (auto simp: env_keeps_def with_backend_def split: option.split)

lemma timeout_keeps:
  assumes "io_keeps I m" "\<And>s n s'. I s \<Longrightarrow> expired s = Some (n, s') \<Longrightarrow> I s'"
  shows "io_keeps I (io_timeout expired m)"
  unfolding io_keeps_def
proof (intro allI impI)
  fix s a evs s'
  assume inv: "I s" and run: "io_timeout expired m s = Some (a, evs, s')"
  show "I s'"
  proof (cases "expired s")
    case None
    with run obtain b where "m s = Some (b, evs, s')" by (auto simp: io_timeout_def)
    then show ?thesis by (rule io_keepsD [OF assms(1) _ inv])
  next
    case (Some p)
    with run have "expired s = Some (fst p, s')" by (auto simp: io_timeout_def split: prod.splits)
    then show ?thesis by (rule assms(2) [OF inv])
  qed
qed

lemma healthz_keeps:
  assumes "service_relies sv"
  shows "io_keeps (service_inv (env_config (sv_env sv))) (healthz sv)"
proof -
  let ?inv = "service_inv (env_config (sv_env sv)) :: ('a, 'b backend_world) shared \<Rightarrow> bool"
  have env: "env_keeps ?inv (sv_env sv)" using assms by (simp add: service_relies_def)
  have load: "io_keeps ?inv (load_repository_catalog (sv_env sv) 0)"
    unfolding load_repository_catalog_def by (auto intro!: keeps_intros si.effects_keep env split: sum.split)
  have "io_keeps ?inv (health_checks sv)"
    unfolding health_checks_def check_nexus_def check_trust_reports_def check_docker_registry_def check_scanner_def
      scanner_version_ok_def Let_def
    by (auto intro!: keeps_intros zoom_keeps load si.effects_keep env si.env_keepsD [OF env] split: option.split sum.split)
  then have "io_keeps ?inv (io_timeout (sv_health_cut sv) (health_checks sv))"
    using assms unfolding service_relies_def by (intro timeout_keeps) blast+
  then show ?thesis unfolding healthz_def by (intro keeps_intros)
qed

lemma run_handler_keeps:
  assumes "service_relies sv"
  shows "io_keeps (service_inv (env_config (sv_env sv))) (run_handler sv q arg handler)"
proof -
  let ?inv = "service_inv (env_config (sv_env sv)) :: ('a, 'b backend_world) shared \<Rightarrow> bool"
  have env: "env_keeps ?inv (sv_env sv)" using assms by (simp add: service_relies_def)
  have ex: "io_keeps ?inv (extracted r f)" if "\<And>a. io_keeps ?inv (f a)"
    for r :: "response + 'z" and f :: "'z \<Rightarrow> ('a, 'b, response) service_io"
    using that by (auto simp: extracted_def intro!: keeps_intros split: sum.split)
  show ?thesis
    by (cases handler) (auto intro!: ex keeps_intros zoom_keeps admin_keeps env healthz_keeps assms)
qed

lemma handle_request_keeps:
  assumes "service_relies sv"
  shows "io_keeps (service_inv (env_config (sv_env sv))) (handle_request sv q)"
proof -
  let ?inv = "service_inv (env_config (sv_env sv)) :: ('a, 'b backend_world) shared \<Rightarrow> bool"
  have "env_keeps ?inv (request_env sv)"
    using assms by (simp add: service_relies_def request_env_def with_backend_keeps)
  then have "io_keeps ?inv (handled (proxy_handler (request_env sv) q))"
    by (intro zoom_keeps si.proxy_handler_keeps)
  then show ?thesis
    unfolding handle_request_def Let_def
    by (auto intro!: keeps_intros run_handler_keeps assms split: option.split)
qed

end
