(* ===== verification/Startup.thy ===== *)
theory Startup
  imports Invariant
begin

text \<open>
  The start of the process and its background refresh of the catalog (\<^verbatim>\<open>crates/proxy/src/main.rs\<close>). The start reads the
  configuration, checks it against the compiled-in features, prepares the report backend, loads the catalog and builds the
  shared state. It runs on a shared state of which only the world is meaningful at first; the other
  components are assigned in the end. An error is the outermost context of the code's error.
\<close>

section \<open>Building the parts\<close>

datatype startup_error = ConfigRejected config_error | StartFailed string | Unreachable

definition validate_compiled_integrations :: "bool \<Rightarrow> bool \<Rightarrow> app_config \<Rightarrow> startup_error + unit" where
  "validate_compiled_integrations messenger_feature defectdojo_feature config =
     (if \<not> messenger_feature \<and> ms_enabled (cf_messenger config)
      then Inl (StartFailed
        ''Yandex Messenger is enabled but this binary was built without the yandex-messenger feature'')
      else if \<not> defectdojo_feature \<and> rs_defectdojo_enabled (cf_report config)
      then Inl (StartFailed
        ''DefectDojo is enabled but this binary was built without the defectdojo feature'')
      else Inr ())"

text \<open>\<^verbatim>\<open>option.context(message)?\<close> and \<^verbatim>\<open>result.context(message)?\<close>\<close>

definition some_or :: "string \<Rightarrow> 'a option \<Rightarrow> startup_error + 'a" where
  "some_or message x = (case x of Some a \<Rightarrow> Inr a | None \<Rightarrow> Inl (StartFailed message))"

definition err_context :: "string \<Rightarrow> 'e + 'a \<Rightarrow> startup_error + 'a" where
  "err_context message = map_err (\<lambda>_. StartFailed message)"

definition dojo_backend_from_config :: "(string \<Rightarrow> string + parsed_url) \<Rightarrow> report_settings \<Rightarrow> startup_error + dojo_config" where
  "dojo_backend_from_config parse r =
     res_bind (some_or ''DefectDojo URL is missing'' (rs_defectdojo_url r)) (\<lambda>base_url.
     res_bind (err_context ''invalid DefectDojo URL'' (parse base_url)) (\<lambda>_.
     res_bind (some_or ''DefectDojo token is missing'' (rs_defectdojo_token r)) (\<lambda>token.
     res_bind (some_or ''DefectDojo Engagement ID is missing'' (rs_defectdojo_engagement_id r)) (\<lambda>engagement_id.
     res_bind (some_or ''DefectDojo Engagement ID must be positive'' (then_some (engagement_id \<noteq> 0) engagement_id)) (\<lambda>engagement_id.
       Inr \<lparr>dc_base_url = base_url, dc_token = token, dc_engagement_id = engagement_id\<rparr>)))))"

definition report_backend_from_config ::
  "bool \<Rightarrow> (string \<Rightarrow> string + parsed_url) \<Rightarrow> uuid_lib \<Rightarrow> uuid \<Rightarrow> report_settings \<Rightarrow>
   (disk, fs_effect, startup_error + report_backend) io" where
  "report_backend_from_config defectdojo_feature parse ulib i r =
     (if rs_defectdojo_enabled r then
        io_return (if defectdojo_feature
          then res_bind (dojo_backend_from_config parse r) (\<lambda>config. Inr (DojoBackend config))
          else Inl Unreachable)
      else
        (case some_or ''Trust report base URL is missing'' (rs_trust_base_url r) of
           Inl e \<Rightarrow> io_return (Inl e)
         | Inr base_url \<Rightarrow>
             io_bind (store_initialize ulib i (rs_trust_report_dir r) base_url (rs_trust_report_retention_days r)) (\<lambda>s.
               io_return (res_bind
                 (err_context (''failed to initialize Trust report directory '' @ rs_trust_report_dir r) s)
                 (\<lambda>store. Inr (LocalBackend store))))))"

definition yandex_messenger_from_config ::
  "(string \<Rightarrow> string + parsed_url) \<Rightarrow> (string \<Rightarrow> string + string) \<Rightarrow> messenger_settings \<Rightarrow>
   startup_error + messenger_config option" where
  "yandex_messenger_from_config parse read_file m =
     (if \<not> ms_enabled m then Inr None
      else
        res_bind (some_or ''Yandex Messenger token is missing'' (ms_token m)) (\<lambda>token.
        res_bind (some_or ''Yandex Messenger template file is missing'' (ms_template_file m)) (\<lambda>template_file.
        let config = \<lparr>mc_token = token, mc_template_file = template_file, mc_api_url = ms_api_url m\<rparr>
        in res_bind (map_err StartFailed (validate_config parse read_file config)) (\<lambda>_. Inr (Some config)))))"

text \<open>\<^verbatim>\<open>env_log_json\<close> of \<^verbatim>\<open>tracing_setup.rs\<close>: the format of the log, read before the configuration.\<close>

definition env_log_json :: "lookup \<Rightarrow> bool" where
  "env_log_json lookup = unwrap_or (Option.bind (lookup ''NEXUS_SEC_PROXY_LOG_JSON'') parse_bool) False"

section \<open>The start\<close>

text \<open>
  What the start uses: the environment variables, the compiled-in features, the libraries, and the environment of requests for a given
  configuration and Nexus URL.
\<close>

record ('c, 'w) launch =
  la_lookup :: lookup
  la_config_lib :: "('c, 'w backend_world) shared \<Rightarrow> config_lib"
  la_messenger_feature :: bool
  la_defectdojo_feature :: bool
  la_url_parse :: "string \<Rightarrow> string + parsed_url"
  la_http_client :: "duration \<Rightarrow> string + unit"
  la_uuid :: uuid_lib
  la_moka_build :: "u64 \<Rightarrow> duration \<Rightarrow> 'c"
  la_env :: "app_config \<Rightarrow> url \<Rightarrow> ('c, 'w backend_world) env"

record launched =
  ln_config :: app_config
  ln_backend :: report_backend
  ln_notifier :: "messenger_config option"
  ln_permits :: nat
  ln_started_at_rfc3339 :: string

text \<open>The configuration and the checks of it that need no further resources.\<close>

definition launch_config :: "('c, 'w) launch \<Rightarrow> config_lib \<Rightarrow> startup_error + app_config" where
  "launch_config la lib =
     res_bind (map_err ConfigRejected (from_env_vars lib (la_lookup la))) (\<lambda>config.
     res_bind (validate_compiled_integrations (la_messenger_feature la) (la_defectdojo_feature la) config) (\<lambda>_.
     let nexus_base_url = ns_nexus_base_url (cf_nexus config)
     in res_bind (err_context (''invalid Nexus base URL: '' @ nexus_base_url) (la_url_parse la nexus_base_url)) (\<lambda>_.
     res_bind (err_context ''failed to build HTTP client''
         (la_http_client la (from_secs (ss_request_timeout_secs (cf_scan config))))) (\<lambda>_. Inr config))))"

definition launch_notifier :: "('c, 'w) launch \<Rightarrow> app_config \<Rightarrow> config_lib \<Rightarrow> startup_error + messenger_config option" where
  "launch_notifier la config lib =
     (if la_messenger_feature la
      then yandex_messenger_from_config (la_url_parse la) (read_to_string lib) (cf_messenger config)
      else Inr None)"

text \<open>The shared state of the running service.\<close>

definition launch_state ::
  "('c, 'w) launch \<Rightarrow> app_config \<Rightarrow> repository_catalog \<Rightarrow> offset_date_time \<Rightarrow> ('c, 'w backend_world) shared \<Rightarrow>
   ('c, 'w backend_world) shared" where
  "launch_state la config catalog loaded_at s =
     (let scan = cf_scan config; env = la_env la config (ns_nexus_base_url (cf_nexus config))
      in s\<lparr>sh_cache := moka_scan_cache_new (la_moka_build la) (ss_cache_max_capacity scan)
             (from_secs (ss_cache_allowed_ttl_secs scan)) (from_secs (ss_cache_blocked_ttl_secs scan)),
           sh_active_policy := active_policy_new (env_time env) loaded_at (cf_policy_set config)
             (ns_policy_file (cf_nexus config)) 1,
           sh_catalog := catalog,
           sh_decisions := decision_log_new 100\<rparr>)"

definition launch_finish :: "('c, 'w) launch \<Rightarrow> app_config \<Rightarrow> repository_catalog \<Rightarrow> ('c, 'w, string) service_io" where
  "launch_finish la config catalog =
     (let env = la_env la config (ns_nexus_base_url (cf_nexus config))
      in io_bind (handled (clock env)) (\<lambda>loaded_at.
         io_bind (handled (now_rfc3339 env)) (\<lambda>started_at.
         io_then (io_modify (launch_state la config catalog loaded_at)) (io_return started_at))))"

definition startup_with :: "('c, 'w) launch \<Rightarrow> app_config \<Rightarrow> ('c, 'w, startup_error + launched) service_io" where
  "startup_with la config =
     (let env = la_env la config (ns_nexus_base_url (cf_nexus config))
      in io_bind (io_ext (env_uuid env)) (\<lambda>i.
     io_try (on_reports (report_backend_from_config (la_defectdojo_feature la) (la_url_parse la) (la_uuid la) i
       (cf_report config))) (\<lambda>backend.
     io_try (io_bind (handled (load_repository_catalog env 1)) (\<lambda>r.
       io_return (err_context ''failed to load Nexus repository catalog'' r))) (\<lambda>catalog.
     io_try (io_get (\<lambda>s. launch_notifier la config (la_config_lib la s))) (\<lambda>notifier.
     io_bind (launch_finish la config catalog) (\<lambda>started_at.
     io_return (Inr
       \<lparr>ln_config = config, ln_backend = backend, ln_notifier = notifier,
        ln_permits = unat (max (ss_artifact_scanner_concurrency (cf_scan config)) 1),
        ln_started_at_rfc3339 = started_at\<rparr>)))))))"

definition startup :: "('c, 'w) launch \<Rightarrow> ('c, 'w, startup_error + launched) service_io" where
  "startup la = io_try (io_get (\<lambda>s. launch_config la (la_config_lib la s))) (startup_with la)"

section \<open>The background refresh\<close>

datatype refresher = Ticking | Reloading | Ended

record ('c, 'w) refresh =
  rf_shared :: "('c, 'w) shared"
  rf_cancelled :: bool
  rf_task :: refresher

text \<open>
  The task is spawned unless the interval is zero. Each \<^verbatim>\<open>select!\<close> looks at the cancellation first, so a tick is
  taken and a reload completes only while the task is not cancelled; a cancelled reload is dropped.
\<close>

definition spawn_repository_catalog_refresh :: "app_config \<Rightarrow> ('c, 'w) shared \<Rightarrow> ('c, 'w) refresh" where
  "spawn_repository_catalog_refresh config s =
     \<lparr>rf_shared = s, rf_cancelled = False,
      rf_task = (if ns_repository_refresh_interval_secs (cf_nexus config) = 0 then Ended else Ticking)\<rparr>"

inductive refresh_step :: "('c, 'w) env \<Rightarrow> ('c, 'w) refresh \<Rightarrow> ('c, 'w) refresh \<Rightarrow> bool" for env where
  cancel: "refresh_step env r (r\<lparr>rf_cancelled := True\<rparr>)"
| tick: "rf_task r = Ticking \<Longrightarrow> \<not> rf_cancelled r \<Longrightarrow> refresh_step env r (r\<lparr>rf_task := Reloading\<rparr>)"
| reloaded: "rf_task r = Reloading \<Longrightarrow> \<not> rf_cancelled r \<Longrightarrow>
    reload_repository_catalog env (rf_shared r) = Some (result, evs, s') \<Longrightarrow>
    refresh_step env r (r\<lparr>rf_task := Ticking, rf_shared := s'\<rparr>)"
| stopped: "rf_task r \<noteq> Ended \<Longrightarrow> rf_cancelled r \<Longrightarrow> refresh_step env r (r\<lparr>rf_task := Ended\<rparr>)"

section \<open>Errors of the start\<close>

definition setting_missing :: "string list" where
  "setting_missing =
     [''DefectDojo URL is missing'', ''DefectDojo token is missing'', ''DefectDojo Engagement ID is missing'',
      ''DefectDojo Engagement ID must be positive'', ''Trust report base URL is missing'',
      ''Yandex Messenger token is missing'', ''Yandex Messenger template file is missing'']"

definition inconsistent_start :: "startup_error \<Rightarrow> bool" where
  "inconsistent_start e \<longleftrightarrow> e = Unreachable \<or> (\<exists>m \<in> set setting_missing. e = StartFailed m)"

lemma some_or_Inl: "some_or m x = Inl e \<longleftrightarrow> x = None \<and> e = StartFailed m"
  by (auto simp: some_or_def split: option.splits)

lemma some_or_Some [simp]: "some_or m (Some a) = Inr a"
  by (simp add: some_or_def)

lemma map_err_Inl_iff: "map_err g r = Inl e \<longleftrightarrow> (\<exists>e'. r = Inl e' \<and> e = g e')"
  by (cases r) auto

lemma err_context_Inl: "err_context m r = Inl e \<longleftrightarrow> isl r \<and> e = StartFailed m"
  by (cases r) (auto simp: err_context_def map_err_def)

lemma accepted_config:
  assumes "from_env_vars lib lookup = Inr c"
  shows "report_settings_ok (cf_report c)"
    and "ms_enabled (cf_messenger c) \<Longrightarrow> ms_token (cf_messenger c) \<noteq> None \<and> ms_template_file (cf_messenger c) \<noteq> None"
    and "ns_docker_registry_base_url (cf_nexus c) \<noteq> None \<Longrightarrow> docker_registry_configured c"
  using assms
  by (auto simp: from_env_vars_def res_bind_Inr_iff docker_registry_configured_def
      dest: report_settings_env_ok messenger_settings_complete nexus_settings_docker)

text \<open>A result that fails only with errors of a given kind.\<close>

definition fails_only :: "('e \<Rightarrow> bool) \<Rightarrow> 'e + 'a \<Rightarrow> bool" where
  "fails_only P r \<longleftrightarrow> (\<forall>e. r = Inl e \<longrightarrow> P e)"

lemma fails_only_simps [simp]: "fails_only P (Inl e) = P e" "fails_only P (Inr a)"
  by (simp_all add: fails_only_def)

lemma fails_only_try:
  "io_post m (\<lambda>r _. fails_only P r) \<Longrightarrow> (\<And>a. io_post (f a) (\<lambda>r _. fails_only P r)) \<Longrightarrow>
   io_post (io_try m f) (\<lambda>r _. fails_only P r)"
  by (erule io_post_try) (auto simp: fails_only_def intro: io_post_weaken)

lemma zoom_post: "io_post m (\<lambda>a _. Q a) \<Longrightarrow> io_post (on_reports m) (\<lambda>a _. Q a)"
    "io_post m' (\<lambda>a _. Q a) \<Longrightarrow> io_post (handled m') (\<lambda>a _. Q a)"
  by (fastforce simp: io_post_def on_reports_def handled_def io_zoom_def)+

lemma report_backend_errors:
  assumes "report_settings_ok r" "rs_defectdojo_enabled r \<longrightarrow> feature"
  shows "io_post (report_backend_from_config feature parse ulib i r) (\<lambda>x _. fails_only (\<lambda>e. \<not> inconsistent_start e) x)"
proof -
  have "fails_only (\<lambda>e. \<not> inconsistent_start e) (dojo_backend_from_config parse r)" if "rs_defectdojo_enabled r"
    using assms that
    by (auto simp: fails_only_def dojo_backend_from_config_def report_settings_ok_def res_bind_Inl_iff some_or_Inl
        err_context_Inl inconsistent_start_def setting_missing_def)
  moreover have "\<not> inconsistent_start (StartFailed (''failed to initialize Trust report directory '' @ x))" for x
    by (simp add: inconsistent_start_def setting_missing_def)
  ultimately show ?thesis
    using assms
    unfolding report_backend_from_config_def
    by (auto simp: report_settings_ok_def some_or_def fails_only_def res_bind_Inl_iff err_context_Inl
        intro!: io_post_return io_result_bind split: option.splits)
qed

lemma messenger_errors:
  assumes "ms_enabled m \<Longrightarrow> ms_token m \<noteq> None \<and> ms_template_file m \<noteq> None"
  shows "fails_only (\<lambda>e. \<not> inconsistent_start e) (yandex_messenger_from_config parse read_file m)"
proof -
  have "\<not> inconsistent_start (StartFailed e)" if "validate_config parse read_file config = Inl e" for config e
    using that
    by (auto simp: validate_config_def res_bind_Inl_iff map_err_Inl_iff inconsistent_start_def setting_missing_def
        split: if_splits)
  with assms show ?thesis
    by (auto simp: fails_only_def yandex_messenger_from_config_def res_bind_Inl_iff some_or_Inl map_err_Inl_iff Let_def
        split: if_splits)
qed

lemma launch_config_InrD:
  assumes "launch_config la lib = Inr config"
  shows "from_env_vars lib (la_lookup la) = Inr config"
    "rs_defectdojo_enabled (cf_report config) \<longrightarrow> la_defectdojo_feature la"
    "ms_enabled (cf_messenger config) \<longrightarrow> la_messenger_feature la"
  using assms
  by (auto simp: launch_config_def res_bind_Inr_iff validate_compiled_integrations_def Let_def split: if_splits)

lemma launch_config_errors: "launch_config la lib = Inl e \<Longrightarrow> \<not> inconsistent_start e"
  by (auto simp: launch_config_def res_bind_Inl_iff map_err_Inl_iff err_context_Inl validate_compiled_integrations_def
      inconsistent_start_def setting_missing_def Let_def split: if_splits)

text \<open>
  C34. An accepted configuration is enough to start: once it has been read and checked against the compiled-in features, the start
  never reaches the code marked as unreachable and never fails because a setting is missing; it fails only for reasons outside
  the configuration's consistency.
\<close>

theorem startup_errors_external:
  "io_post (startup la) (\<lambda>r _. fails_only (\<lambda>e. \<not> inconsistent_start e) r)"
proof -
  have rest: "io_post (startup_with la config) (\<lambda>r _. fails_only (\<lambda>e. \<not> inconsistent_start e) r)"
    if "launch_config la lib = Inr config" for config lib
  proof -
    note config = launch_config_InrD [OF that]
    note accepted = accepted_config [OF config(1)]
    have catalog: "io_post (io_bind m (\<lambda>r. io_return (err_context ''failed to load Nexus repository catalog'' r)))
        (\<lambda>r _. fails_only (\<lambda>e. \<not> inconsistent_start e) r)" for m :: "('a, 'b, 'z + repository_catalog) service_io"
      by (rule io_result_bind)
        (auto intro!: io_post_return simp: fails_only_def err_context_Inl inconsistent_start_def setting_missing_def)
    have notifier: "fails_only (\<lambda>e. \<not> inconsistent_start e) (launch_notifier la config lib')" for lib'
      using messenger_errors [OF accepted(2)] by (simp add: launch_notifier_def)
    show ?thesis
      unfolding startup_with_def Let_def
      by (intro io_result_bind fails_only_try zoom_post report_backend_errors [OF accepted(1) config(2)] catalog io_post_get
          notifier io_result_then io_post_return) simp
  qed
  show ?thesis
    unfolding startup_def
    by (rule io_post_try [where R = "\<lambda>r _. \<exists>lib. launch_config la lib = r"])
      (auto intro!: io_post_get dest: launch_config_errors rest)
qed

section \<open>The initial state\<close>

lemma legacy_policy_wf: "wf_policy_set (from_legacy_policy (security_policy_new minimum ids lims))"
proof -
  have "trim ''default'' = ''default''" by code_simp
  then show ?thesis
    by (auto simp: wf_policy_set_def from_legacy_policy_def wf_rule_def default_scope_def btm_invar_def
        normalized_selector_list_def set_security_policy_new dest: vid.map_filter_fixed)
qed

lemma environment_policy_wf: "security_policy_env lookup = Inr p \<Longrightarrow> wf_policy_set (from_legacy_policy p)"
  by (auto simp: security_policy_env_def res_bind_Inr_iff legacy_policy_wf Let_def)

lemma accepted_policy_wf:
  assumes "from_env_vars lib lookup = Inr c"
  shows "wf_policy_set (cf_policy_set c)"
proof -
  obtain policy_path where "load_policy lib lookup policy_path = Inr (cf_security_policy c, cf_policy_set c)"
  proof -
    have "\<exists>policy_path. load_policy lib lookup policy_path = Inr (cf_security_policy c, cf_policy_set c)"
      using assms by (fastforce simp: from_env_vars_def res_bind_Inr_iff)
    with that show ?thesis by blast
  qed
  then show ?thesis
    using load_policy_ok(3) [of lib lookup policy_path]
    by (cases policy_path)
      (auto simp: load_policy_def res_bind_Inr_iff dest: environment_policy_wf)
qed

lemma load_catalog_result:
  "load_repository_catalog env generation s = Some (Inr c, evs, s') \<Longrightarrow>
     catalog_ok (env_config env) c \<and> rc_generation c = generation"
  by (auto simp: load_repository_catalog_def io_bind_def run_send clock_def io_run_simps catalog_from_items_ok
      catalog_from_items_Inr split: sum.splits)

lemma permits_positive: "1 \<le> unat (max (n :: u64) 1)"
proof -
  have "max n 1 \<noteq> 0" by (auto simp: max_def)
  then have "unat (max n 1) \<noteq> 0" by (simp add: unat_eq_0)
  then show ?thesis by simp
qed

lemma startup_with_InrD:
  assumes "startup_with la config s = Some (Inr l, evs, s')"
  obtains catalog loaded_at s0 s1 lib i d evs1 d'
  where "s' = launch_state la config catalog loaded_at s0" "ln_config l = config"
    "ln_permits l = unat (max (ss_artifact_scanner_concurrency (cf_scan config)) 1)"
    "catalog_ok (env_config (la_env la config (ns_nexus_base_url (cf_nexus config)))) catalog" "rc_generation catalog = 1"
    "launch_notifier la config lib = Inr (ln_notifier l)"
    "report_backend_from_config (la_defectdojo_feature la) (la_url_parse la) (la_uuid la) i (cf_report config) d =
       Some (Inr (ln_backend l), evs1, d')"
proof -
  let ?backend = "\<lambda>i. report_backend_from_config (la_defectdojo_feature la) (la_url_parse la) (la_uuid la) i (cf_report config)"
  let ?load = "io_bind (handled (load_repository_catalog (la_env la config (ns_nexus_base_url (cf_nexus config))) 1)) (\<lambda>r.
    io_return (err_context ''failed to load Nexus repository catalog'' r))"
  let ?notify = "\<lambda>backend catalog. io_try (io_get (\<lambda>s. launch_notifier la config (la_config_lib la s))) (\<lambda>notifier.
    io_bind (launch_finish la config catalog) (\<lambda>started_at. io_return (Inr
       \<lparr>ln_config = config, ln_backend = backend, ln_notifier = notifier,
        ln_permits = unat (max (ss_artifact_scanner_concurrency (cf_scan config)) 1),
        ln_started_at_rfc3339 = started_at\<rparr>)))"
  obtain i e1 s1 where "io_try (on_reports (?backend i)) (\<lambda>b. io_try ?load (?notify b)) s1 = Some (Inr l, e1, s')"
    using assms by (auto simp: startup_with_def Let_def io_bind_Some_iff [of "io_ext _"] io_run_simps)
  from io_try_InrD [OF this] obtain b e2 s2 e3 where
    b: "on_reports (?backend i) s1 = Some (Inr b, e2, s2)" and "io_try ?load (?notify b) s2 = Some (Inr l, e3, s')"
    by blast
  from io_try_InrD [OF this(2)] obtain catalog e4 s3 e5 where
    load: "?load s2 = Some (Inr catalog, e4, s3)" and "?notify b catalog s3 = Some (Inr l, e5, s')"
    by blast
  from io_try_InrD [OF this(2)] obtain n where
    n: "launch_notifier la config (la_config_lib la s3) = Inr n" "ln_notifier l = n" "ln_backend l = b" "ln_config l = config"
      "ln_permits l = unat (max (ss_artifact_scanner_concurrency (cf_scan config)) 1)"
    and finish: "\<exists>x e. launch_finish la config catalog s3 = Some (x, e, s')"
    by (auto simp: io_run_simps io_bind_Some_iff [of "launch_finish _ _ _"])
  have state: "\<exists>loaded_at s0. s' = launch_state la config catalog loaded_at s0"
    using finish by (auto simp: launch_finish_def Let_def io_bind_Some_iff io_then_def io_run_simps)
  have backend: "\<exists>d evs d'. ?backend i d = Some (Inr b, evs, d')"
    using b by (auto simp: on_reports_def io_zoom_def)
  have "\<exists>s e s'. load_repository_catalog (la_env la config (ns_nexus_base_url (cf_nexus config))) 1 s = Some (Inr catalog, e, s')"
    using load by (auto simp: io_bind_Some_iff handled_run io_run_simps err_context_def)
  then have catalog: "catalog_ok (env_config (la_env la config (ns_nexus_base_url (cf_nexus config)))) catalog"
    "rc_generation catalog = 1"
    using load_catalog_result by blast+
  show ?thesis using that state backend catalog n by blast
qed

text \<open>What the environment of a service is built from.\<close>

definition launch_law :: "('c, 'w) launch \<Rightarrow> bool" where
  "launch_law la \<longleftrightarrow> (\<forall>config u. env_config (la_env la config u) = config)"

lemma startup_InrD:
  assumes "startup la s = Some (Inr l, evs, s')"
  obtains s0 evs' where "startup_with la (ln_config l) s0 = Some (Inr l, evs', s')"
    "launch_config la (la_config_lib la s) = Inr (ln_config l)"
proof -
  from io_try_InrD [OF assms [unfolded startup_def]] obtain config s0 evs' where
    "launch_config la (la_config_lib la s) = Inr config" and run: "startup_with la config s0 = Some (Inr l, evs', s')"
    by (auto simp: io_run_simps)
  moreover from run have "ln_config l = config" by (elim startup_with_InrD)
  ultimately show ?thesis using that by blast
qed

lemma startup_establishes:
  assumes "launch_law la" "startup la s = Some (Inr l, evs, s')"
  shows "service_inv (ln_config l) s'"
proof -
  obtain s0 evs' where run: "startup_with la (ln_config l) s0 = Some (Inr l, evs', s')"
    and config: "launch_config la (la_config_lib la s) = Inr (ln_config l)"
    using startup_InrD [OF assms(2)] by blast
  have "wf_policy_set (cf_policy_set (ln_config l))"
    by (rule accepted_policy_wf [OF launch_config_InrD(1) [OF config]])
  with run assms(1) show ?thesis
    by (elim startup_with_InrD)
      (auto simp: service_inv_def launch_state_def launch_law_def active_policy_new_def decision_log_new_def Let_def)
qed

text \<open>
  C35. A successful start leaves a consistent service: the configuration was accepted, every enabled integration is compiled in, the first
  generation of the policy is the configuration's, the catalog is not empty and has the configured Docker repository, the
  decision log is empty, at least one scan may run, reports go to DefectDojo exactly if that is enabled, and there is a notifier exactly if
  notifications are enabled.
\<close>

theorem startup_state:
  assumes "launch_law la" "startup la s = Some (Inr l, evs, s')"
  shows "from_env_vars (la_config_lib la s) (la_lookup la) = Inr (ln_config l) \<and> service_inv (ln_config l) s' \<and>
    ap_policy_set (sh_active_policy s') = cf_policy_set (ln_config l) \<and> ap_generation (sh_active_policy s') = 1 \<and>
    rc_generation (sh_catalog s') = 1 \<and> dl_inner (sh_decisions s') = [] \<and> 1 \<le> ln_permits l \<and>
    (defectdojo (ln_backend l) \<noteq> None \<longleftrightarrow> rs_defectdojo_enabled (cf_report (ln_config l))) \<and>
    (rs_defectdojo_enabled (cf_report (ln_config l)) \<longrightarrow> la_defectdojo_feature la) \<and>
    (ln_notifier l \<noteq> None \<longleftrightarrow> ms_enabled (cf_messenger (ln_config l)))"
proof -
  obtain s0 evs' where run: "startup_with la (ln_config l) s0 = Some (Inr l, evs', s')"
    and config: "launch_config la (la_config_lib la s) = Inr (ln_config l)"
    using startup_InrD [OF assms(2)] by blast
  note accepted = launch_config_InrD [OF config]
  have notifier: "n \<noteq> None \<longleftrightarrow> ms_enabled (cf_messenger (ln_config l))"
    if "launch_notifier la (ln_config l) lib = Inr n" for lib n
    using that accepted(3)
    by (auto simp: launch_notifier_def yandex_messenger_from_config_def res_bind_Inr_iff Let_def split: if_splits)
  have backend: "defectdojo b \<noteq> None \<longleftrightarrow> rs_defectdojo_enabled (cf_report (ln_config l))"
    if "report_backend_from_config f parse ulib i (cf_report (ln_config l)) d = Some (Inr b, e, d')"
    for f parse ulib i d b e d'
    using that
    by (auto simp: report_backend_from_config_def io_run_simps io_bind_Some_iff res_bind_Inr_iff split: if_splits sum.splits)
  show ?thesis
    using run
  proof (rule startup_with_InrD)
    fix catalog loaded_at s0 s1 lib i d evs1 d'
    assume state: "s' = launch_state la (ln_config l) catalog loaded_at s0" "rc_generation catalog = 1"
      "ln_permits l = unat (max (ss_artifact_scanner_concurrency (cf_scan (ln_config l))) 1)"
      and parts: "launch_notifier la (ln_config l) lib = Inr (ln_notifier l)"
      "report_backend_from_config (la_defectdojo_feature la) (la_url_parse la) (la_uuid la) i (cf_report (ln_config l)) d =
         Some (Inr (ln_backend l), evs1, d')"
    from notifier [OF parts(1)] backend [OF parts(2)] accepted startup_establishes [OF assms] permits_positive state
    show ?thesis
      by (simp add: launch_state_def active_policy_new_def decision_log_new_def Let_def)
  qed
qed

section \<open>The background refresh stops\<close>

inductive_cases refresh_stepE: "refresh_step env r r'"

lemma refresh_step_cancelled:
  "refresh_step env r r' \<Longrightarrow> rf_cancelled r \<Longrightarrow>
     rf_cancelled r' \<and> rf_shared r' = rf_shared r \<and> (rf_task r' = rf_task r \<or> rf_task r' = Ended)"
  by (elim refresh_stepE) auto

text \<open>
  Once the refresh is cancelled it never touches the catalog again, even if a reload was under way, and it ends: as long as it
  has not ended a step that ends it is possible, and it stays ended. With an interval of zero it never starts.
\<close>

theorem refresh_stops:
  assumes "(refresh_step env)\<^sup>*\<^sup>* r r'" "rf_cancelled r \<or> rf_task r = Ended"
  shows "rf_shared r' = rf_shared r \<and> (rf_task r = Ended \<longrightarrow> rf_task r' = Ended) \<and>
    (rf_cancelled r' \<and> rf_task r' \<noteq> Ended \<longrightarrow> (\<exists>r''. refresh_step env r' r'' \<and> rf_task r'' = Ended))"
proof -
  have "(rf_cancelled r' \<or> rf_task r' = Ended) \<and> rf_shared r' = rf_shared r \<and> (rf_task r = Ended \<longrightarrow> rf_task r' = Ended)"
    using assms by (induction rule: rtranclp_induct) (auto elim!: refresh_stepE)
  moreover have "\<exists>r''. refresh_step env r' r'' \<and> rf_task r'' = Ended" if "rf_cancelled r'" "rf_task r' \<noteq> Ended"
    using refresh_step.stopped [OF that(2,1), of env] by (auto intro!: exI [of _ "r'\<lparr>rf_task := Ended\<rparr>"])
  ultimately show ?thesis by blast
qed

section \<open>The running service\<close>

text \<open>
  What can happen to the shared state: the start, any request, and the refresh in the background, in any order.
\<close>

inductive service_state :: "('c, 'w) launch \<Rightarrow> ('c, 'w) service \<Rightarrow> ('c, 'w backend_world) shared \<Rightarrow> bool"
  for la sv
where
  started: "startup la s = Some (Inr l, evs, s') \<Longrightarrow> ln_config l = env_config (sv_env sv) \<Longrightarrow> service_state la sv s'"
| request: "service_state la sv s \<Longrightarrow> handle_request sv q s = Some (resp, evs, s') \<Longrightarrow> service_state la sv s'"
| refresh: "service_state la sv (rf_shared r) \<Longrightarrow> refresh_step (sv_env sv) r r' \<Longrightarrow> service_state la sv (rf_shared r')"

lemma service_state_inv:
  assumes "launch_law la" "service_relies sv" "service_state la sv s"
  shows "service_inv (env_config (sv_env sv)) s"
  using assms(3)
proof (induction rule: service_state.induct)
  case (started s l evs s')
  with startup_establishes [OF assms(1) started(1)] show ?case by simp
next
  case (request s q resp evs s')
  then show ?case using io_keepsD [OF handle_request_keeps [OF assms(2)]] by blast
next
  case (refresh r r')
  have keeps: "io_keeps (service_inv (env_config (sv_env sv))) (reload_repository_catalog (sv_env sv))"
    using assms(2) by (intro reload_catalog_keeps) (simp add: service_relies_def)
  from refresh(2,3) show ?case
    by (elim refresh_stepE) (auto dest: io_keepsD [OF keeps])
qed

text \<open>
  C11. Whatever requests arrive and however the catalog and the policy are reloaded, the running service always has a catalog that is not empty and has the
  configured Docker repository, a well-formed policy, and a decision log within its capacity, provided that what runs
  while a request waits keeps this too.
\<close>

theorem service_state_invariant:
  assumes "launch_law la" "service_relies sv" "service_state la sv s"
  shows "service_inv (env_config (sv_env sv)) s"
  by (rule service_state_inv [OF assms])

section \<open>An example\<close>

definition dojo_lookup :: lookup where
  "dojo_lookup = map_of
     [(''NEXUS_SEC_PROXY_NEXUS_BASE_URL'', ''https://nexus.example/''),
      (''NEXUS_SEC_PROXY_DEFECTDOJO_ENABLED'', ''true''),
      (''NEXUS_SEC_PROXY_DEFECTDOJO_URL'', ''https://dojo.example/''),
      (''NEXUS_SEC_PROXY_DEFECTDOJO_TOKEN'', ''t0ken''),
      (''NEXUS_SEC_PROXY_DEFECTDOJO_ENGAGEMENT_ID'', ''1'')]"

definition launch_env :: "app_config \<Rightarrow> url \<Rightarrow> (sample_cache, unit backend_world) env" where
  "launch_env config u = service_env
     \<lparr>env_config := config, env_nexus_base_url := u,
      env_send := (\<lambda>_ s. (Inr (sample_reply 200 []), s)),
      env_decoders := sample_decoders\<lparr>catalog_json := (\<lambda>_. Inr
        [\<lparr>ri_name = ''npm-proxy'', ri_format = ''npm'', ri_repository_type = None, ri_url = None, ri_online = None\<rparr>])\<rparr>\<rparr>"

definition sample_launch :: "(sample_cache, unit) launch" where
  "sample_launch =
     \<lparr>la_lookup = dojo_lookup, la_config_lib = (\<lambda>_. sample_config_lib), la_messenger_feature = False,
      la_defectdojo_feature = True, la_url_parse = url_parse sample_config_lib, la_http_client = (\<lambda>_. Inr ()),
      la_uuid = sample_uuid_lib, la_moka_build = (\<lambda>_ _. []), la_env = launch_env\<rparr>"

lemma sample_launch_law: "launch_law sample_launch"
  by (simp add: launch_law_def sample_launch_def launch_env_def)

lemma dojo_engagement: "optional_u64_env dojo_lookup ''NEXUS_SEC_PROXY_DEFECTDOJO_ENGAGEMENT_ID'' = Inr (Some 1)"
proof -
  have "optional_string_env dojo_lookup ''NEXUS_SEC_PROXY_DEFECTDOJO_ENGAGEMENT_ID'' = Some ''1''"
    "is_ascii_digit CHR ''1''" "nat_of_digits ''1'' = 1"
    by code_simp+
  then show ?thesis by (simp add: optional_u64_env_def parsed_env_def parse_u64_def parse_uint_def)
qed

lemma dojo_report_settings:
  "\<exists>rs. report_settings_env sample_config_lib dojo_lookup = Inr rs \<and> rs_defectdojo_enabled rs"
proof -
  have "bool_env dojo_lookup ''NEXUS_SEC_PROXY_DEFECTDOJO_ENABLED'' False = Inr True"
    "secret_env sample_config_lib dojo_lookup ''NEXUS_SEC_PROXY_DEFECTDOJO_TOKEN''
       ''NEXUS_SEC_PROXY_DEFECTDOJO_TOKEN_FILE'' = Inr (Some ''t0ken'')"
    "optional_string_env dojo_lookup ''NEXUS_SEC_PROXY_TRUST_REPORT_RETENTION_DAYS'' = None"
    "defectdojo_base_url sample_config_lib dojo_lookup ''NEXUS_SEC_PROXY_DEFECTDOJO_URL'' True =
       Inr (Some ''https://dojo.example'')"
    by code_simp+
  with dojo_engagement show ?thesis
    by (simp add: report_settings_env_def u64_env_def parsed_env_def Let_def)
qed

lemma dojo_config_accepted:
  "\<exists>c. from_env_vars sample_config_lib dojo_lookup = Inr c \<and> \<not> ms_enabled (cf_messenger c) \<and>
     rs_defectdojo_enabled (cf_report c) \<and> ns_docker_repository_name (cf_nexus c) = None"
proof -
  have "\<forall>n \<in> set scan_variables. optional_string_env dojo_lookup n = None" by code_simp
  then obtain ss where ss: "scan_settings_env dojo_lookup = Inr ss"
    using scan_settings_default by blast
  have inr: "\<not> isl r \<Longrightarrow> r = Inr (projr r)" for r :: "'a + 'b"
    by (cases r) auto
  define ns where "ns = projr (nexus_settings_env sample_config_lib dojo_lookup)"
  define ms where "ms = projr (messenger_settings_env sample_config_lib dojo_lookup ns)"
  have "\<not> isl (nexus_settings_env sample_config_lib dojo_lookup)"
    "\<not> isl (messenger_settings_env sample_config_lib dojo_lookup ns)" "\<not> isl (load_policy sample_config_lib dojo_lookup None)"
    by code_simp+
  note runs = this [THEN inr, folded ns_def ms_def]
  have ns: "ns_docker_repository_name ns = None" "ns_policy_file ns = None" unfolding ns_def by code_simp+
  have ms: "\<not> ms_enabled ms" unfolding ms_def by code_simp
  obtain rs where rs: "report_settings_env sample_config_lib dojo_lookup = Inr rs" "rs_defectdojo_enabled rs"
    using dojo_report_settings by blast
  obtain p ps where "load_policy sample_config_lib dojo_lookup None = Inr (p, ps)"
    using runs(3) by (cases "projr (load_policy sample_config_lib dojo_lookup None)") simp
  with runs(1,2) ns ms rs ss show ?thesis by (simp add: from_env_vars_def)
qed

lemma sample_launch_runs:
  "\<exists>l evs s'. startup sample_launch s = Some (Inr l, evs, s') \<and> rs_defectdojo_enabled (cf_report (ln_config l))"
proof -
  obtain c where c: "from_env_vars sample_config_lib dojo_lookup = Inr c" "\<not> ms_enabled (cf_messenger c)"
    "rs_defectdojo_enabled (cf_report c)" "ns_docker_repository_name (cf_nexus c) = None"
    using dojo_config_accepted by blast
  have config: "launch_config sample_launch (la_config_lib sample_launch s) = Inr c"
    using c by (simp add: launch_config_def sample_launch_def validate_compiled_integrations_def err_context_def
        sample_config_lib_def Let_def)
  obtain d where dojo: "dojo_backend_from_config (url_parse sample_config_lib) (cf_report c) = Inr d"
    using accepted_config(1) [OF c(1)] c(3)
    by (auto simp: report_settings_ok_def dojo_backend_from_config_def err_context_def sample_config_lib_def)
  have "filled ''npm-proxy''" "filled ''npm''" by code_simp+
  then have load: "\<exists>cat. load_repository_catalog (launch_env c u) 1 s =
      Some (Inr cat, [HttpSent CatalogLoad (repositories_request (launch_env c u))], s)" for u s
    using c(4)
    by (simp add: load_repository_catalog_def io_bind_def run_send clock_def io_run_simps launch_env_def service_env_def
        sample_reply_def is_success_def catalog_items_def catalog_from_items_def catalog_new_def repository_of_item_def
        validate_configured_repositories_def sample_decoders_def Let_def)
  let ?u = "ns_nexus_base_url (cf_nexus c)"
  obtain cat where cat: "load_repository_catalog (launch_env c ?u) 1 s =
      Some (Inr cat, [HttpSent CatalogLoad (repositories_request (launch_env c ?u))], s)"
    using load by blast
  have backend: "report_backend_from_config True (url_parse sample_config_lib) sample_uuid_lib i (cf_report c) d' =
      Some (Inr (DojoBackend d), [], d')" for i d'
    using c(3) dojo by (simp add: report_backend_from_config_def io_run_simps)
  have env: "env_uuid (launch_env c ?u) s = (0, s)" by (simp add: launch_env_def service_env_def)
  have finish: "launch_finish la c cat s \<noteq> None" for la :: "(sample_cache, unit) launch"
    unfolding launch_finish_def Let_def clock_def now_rfc3339_def
    by (simp add: io_bind_def io_run_simps handled_run io_then_def)
  have "\<exists>l evs s'. startup_with sample_launch c s = Some (Inr l, evs, s') \<and> ln_config l = c"
    using finish [of sample_launch]
    by (auto simp: startup_with_def sample_launch_def Let_def io_bind_def io_try_def io_run_simps env on_reports_def io_zoom_def
        backend handled_run cat err_context_def launch_notifier_def)
  then show ?thesis
    using config c(3) by (auto simp: startup_def io_try_def io_bind_def io_run_simps)
qed

theorem startup_state_witness:
  "\<forall>s. \<exists>l evs s'. startup sample_launch s = Some (Inr l, evs, s') \<and> service_inv (ln_config l) s' \<and> 1 \<le> ln_permits l"
proof
  fix s :: "(sample_cache, unit backend_world) shared"
  obtain l evs s' where run: "startup sample_launch s = Some (Inr l, evs, s')"
    using sample_launch_runs by blast
  with startup_state [OF sample_launch_law run]
  show "\<exists>l evs s'. startup sample_launch s = Some (Inr l, evs, s') \<and> service_inv (ln_config l) s' \<and> 1 \<le> ln_permits l"
    by blast
qed

theorem refresh_stops_witness:
  "\<exists>r''. refresh_step sample_env \<lparr>rf_shared = sample_shared [], rf_cancelled = True, rf_task = Reloading\<rparr> r'' \<and>
     rf_task r'' = Ended"
  using refresh_stops [of sample_env "\<lparr>rf_shared = sample_shared [], rf_cancelled = True, rf_task = Reloading\<rparr>"
      "\<lparr>rf_shared = sample_shared [], rf_cancelled = True, rf_task = Reloading\<rparr>"]
  by simp

theorem service_state_invariant_witness:
  "\<exists>sv s. service_state sample_launch sv s \<and> service_relies sv \<and> service_inv (env_config (sv_env sv)) s"
proof -
  obtain l evs s' where run: "startup sample_launch \<lparr>sh_cache = \<lparr>clean = [], vulnerable = []\<rparr>,
      sh_active_policy = sh_active_policy (sample_shared []), sh_catalog = sample_catalog,
      sh_decisions = decision_log_new 100, sh_world = sample_backend_world\<rparr> = Some (Inr l, evs, s')"
    using sample_launch_runs by blast
  define sv where "sv = sample_service\<lparr>sv_admin := (sv_admin sample_service)\<lparr>ad_env := launch_env (ln_config l) []\<rparr>\<rparr>"
  have "env_config (sv_env sv) = ln_config l" by (simp add: sv_def launch_env_def)
  with run have state: "service_state sample_launch sv s'" by (intro service_state.started) simp_all
  have relies: "service_relies sv"
    by (simp add: service_relies_def env_keeps_def sv_def launch_env_def service_env_def sample_service_def)
  from service_state_invariant [OF sample_launch_law relies state] state relies show ?thesis by blast
qed

text \<open>
  The log format and the configuration read the same variable differently: with white space around it, the configuration
  has JSON logs and the log does not.
\<close>

theorem log_json_disagrees:
  "bool_env (map_of [(''NEXUS_SEC_PROXY_LOG_JSON'', '' true'')]) ''NEXUS_SEC_PROXY_LOG_JSON'' False = Inr True \<and>
   \<not> env_log_json (map_of [(''NEXUS_SEC_PROXY_LOG_JSON'', '' true'')])"
  by code_simp

end
