(* ===== verification/Shutdown.thy ===== *)
theory Shutdown
  imports Startup
begin

text \<open>
  The running process and its end (the rest of \<^verbatim>\<open>main\<close> and \<^verbatim>\<open>shutdown_signal\<close> of \<^verbatim>\<open>crates/proxy/src/main.rs\<close>, and \<^verbatim>\<open>shutdown\<close> of the
  messenger). Requests, the background refresh, the worker of the messenger and the main task take steps in any order. Binding and
  serving the socket are library code; the server ends after the signal, when its requests have been answered, or with an error.
\<close>

section \<open>Signals\<close>

text \<open>
  Each signal handler may fail to be installed; otherwise the signal arrives at some time or never. The result is the time at which the
  shutdown begins, measured from the start of the server.
\<close>

datatype signal_handler = Installed "nat option" | InstallFailed

fun ctrl_c_done :: "signal_handler \<Rightarrow> nat option" where
  "ctrl_c_done (Installed t) = t"
| "ctrl_c_done InstallFailed = Some 0"

fun terminate_done :: "signal_handler \<Rightarrow> nat option" where
  "terminate_done (Installed t) = t"
| "terminate_done InstallFailed = None"

definition shutdown_signal :: "signal_handler \<Rightarrow> signal_handler \<Rightarrow> nat option" where
  "shutdown_signal ctrl_c terminate =
     (case (ctrl_c_done ctrl_c, terminate_done terminate) of
        (None, t) \<Rightarrow> t
      | (t, None) \<Rightarrow> t
      | (Some t, Some u) \<Rightarrow> Some (min t u))"

section \<open>The process\<close>

type_synonym server_result = "string + unit"

text \<open>
  Where the main task is: the server runs; the refresh task is awaited; the shutdown signal is sent to the messenger; the
  worker of the messenger is awaited; the process has ended.
\<close>

datatype main_task = Serving | Joining server_result | Signalling server_result | Awaiting server_result
  | Exited "startup_error + unit"

text \<open>The last component is history: what all requests so far did.\<close>

record ('c, 'w, 'm) process =
  pr_main :: main_task
  pr_refresh :: "('c, 'w backend_world) refresh"
  pr_notifier :: "'m messenger option"
  pr_handled :: "service_event list"

definition main_listen ::
  "string + unit \<Rightarrow> launched \<Rightarrow> ('c, 'w backend_world) shared \<Rightarrow> 'm \<Rightarrow> startup_error + ('c, 'w, 'm) process" where
  "main_listen bound l s w =
     res_bind (err_context (''failed to bind '' @ ns_bind_addr (cf_nexus (ln_config l))) bound) (\<lambda>_.
       Inr \<lparr>pr_main = Serving, pr_refresh = spawn_repository_catalog_refresh (ln_config l) s,
            pr_notifier = map_option (\<lambda>_. messenger_new w) (ln_notifier l), pr_handled = []\<rparr>)"

text \<open>What a request does to the messenger.\<close>

fun notify_event :: "service_event \<Rightarrow> 'm messenger \<Rightarrow> 'm messenger" where
  "notify_event (Handled (NotificationQueued n)) m = notifier_notify_blocked n m"
| "notify_event (Handled (NotificationSkipped reason)) m = record_skipped reason m"
| "notify_event e m = m"

definition server_finished :: "server_result \<Rightarrow> main_task" where
  "server_finished r = Exited (err_context ''server failed'' r)"

definition with_worker :: "('m messenger \<Rightarrow> 'm messenger) \<Rightarrow> main_task \<Rightarrow> ('c, 'w, 'm) process \<Rightarrow> ('c, 'w, 'm) process" where
  "with_worker f t p = p\<lparr>pr_main := t, pr_notifier := map_option f (pr_notifier p)\<rparr>"

definition cancel_refresh :: "('c, 'w, 'm) process \<Rightarrow> ('c, 'w, 'm) process" where
  "cancel_refresh p = p\<lparr>pr_refresh := (pr_refresh p)\<lparr>rf_cancelled := True\<rparr>\<rparr>"

definition running :: "('c, 'w, 'm) process \<Rightarrow> bool" where
  "running p \<longleftrightarrow> (case pr_main p of Exited _ \<Rightarrow> False | _ \<Rightarrow> True)"

definition refresh_failed :: "startup_error + unit" where
  "refresh_failed = Inl (StartFailed ''repository catalog refresh task failed'')"

inductive process_step ::
  "('c, 'w) service \<Rightarrow> 'm messenger_lib \<Rightarrow> messenger_config \<Rightarrow> ('c, 'w, 'm) process \<Rightarrow> ('c, 'w, 'm) process \<Rightarrow> bool"
  for sv lib config
where
  request: "pr_main p = Serving \<Longrightarrow> handle_request sv q (rf_shared (pr_refresh p)) = Some (resp, evs, s') \<Longrightarrow>
    process_step sv lib config p
      (p\<lparr>pr_refresh := (pr_refresh p)\<lparr>rf_shared := s'\<rparr>, pr_notifier := map_option (fold notify_event evs) (pr_notifier p),
         pr_handled := pr_handled p @ evs\<rparr>)"
| refreshing: "running p \<Longrightarrow> refresh_step (sv_env sv) (pr_refresh p) r \<Longrightarrow>
    rf_cancelled r = rf_cancelled (pr_refresh p) \<Longrightarrow> process_step sv lib config p (p\<lparr>pr_refresh := r\<rparr>)"
| working: "running p \<Longrightarrow> pr_notifier p = Some m \<Longrightarrow> worker_step lib config m m' \<Longrightarrow>
    process_step sv lib config p (p\<lparr>pr_notifier := Some m'\<rparr>)"
| signalled: "pr_main p = Serving \<Longrightarrow> process_step sv lib config p (cancel_refresh p)"
| served: "pr_main p = Serving \<Longrightarrow> rf_cancelled (pr_refresh p) \<or> isl r \<Longrightarrow>
    process_step sv lib config p ((cancel_refresh p)\<lparr>pr_main := Joining r\<rparr>)"
| joined: "pr_main p = Joining r \<Longrightarrow> rf_task (pr_refresh p) = Ended \<Longrightarrow>
    process_step sv lib config p (p\<lparr>pr_main := (if pr_notifier p = None then server_finished r else Signalling r)\<rparr>)"
| join_failed: "pr_main p = Joining r \<Longrightarrow> rf_task (pr_refresh p) \<noteq> Ended \<Longrightarrow>
    process_step sv lib config p (p\<lparr>pr_main := Exited refresh_failed\<rparr>)"
| shutdown_sent: "pr_main p = Signalling r \<Longrightarrow> pr_notifier p = Some m \<Longrightarrow> \<not> receiver_gone (ms_worker m) \<Longrightarrow>
    length (ms_queue m) < queue_capacity \<Longrightarrow> process_step sv lib config p (with_worker send_shutdown (Awaiting r) p)"
| shutdown_closed: "pr_main p = Signalling r \<Longrightarrow> pr_notifier p = Some m \<Longrightarrow> receiver_gone (ms_worker m) \<Longrightarrow>
    process_step sv lib config p (p\<lparr>pr_main := Awaiting r\<rparr>)"
| shutdown_timeout: "pr_main p = Signalling r \<Longrightarrow> pr_notifier p = Some m \<Longrightarrow> \<not> receiver_gone (ms_worker m) \<Longrightarrow>
    process_step sv lib config p (with_worker abort_worker (server_finished r) p)"
| drained: "pr_main p = Awaiting r \<Longrightarrow> pr_notifier p = Some m \<Longrightarrow> receiver_gone (ms_worker m) \<Longrightarrow>
    process_step sv lib config p (p\<lparr>pr_main := server_finished r\<rparr>)"
| drain_timeout: "pr_main p = Awaiting r \<Longrightarrow> pr_notifier p = Some m \<Longrightarrow> \<not> receiver_gone (ms_worker m) \<Longrightarrow>
    process_step sv lib config p (with_worker abort_worker (server_finished r) p)"

inductive process_run ::
  "('c, 'w) launch \<Rightarrow> ('c, 'w) service \<Rightarrow> 'm messenger_lib \<Rightarrow> messenger_config \<Rightarrow> ('c, 'w, 'm) process \<Rightarrow> bool"
  for la sv lib config
where
  listening: "startup la s0 = Some (Inr l, evs, s) \<Longrightarrow> ln_config l = env_config (sv_env sv) \<Longrightarrow>
    main_listen bound l s w = Inr p \<Longrightarrow> process_run la sv lib config p"
| next_step: "process_run la sv lib config p \<Longrightarrow> process_step sv lib config p p' \<Longrightarrow> process_run la sv lib config p'"

section \<open>Invariants\<close>

inductive_cases process_stepE: "process_step sv lib config p p'"

definition notifications :: "service_event list \<Rightarrow> block_notification list" where
  "notifications evs =
     List.map_filter (\<lambda>e. case e of Handled (NotificationQueued n) \<Rightarrow> Some n | _ \<Rightarrow> None) evs"

lemma notifications_append [simp]: "notifications (xs @ ys) = notifications xs @ notifications ys"
  by (simp add: notifications_def map_filter_def)

text \<open>No shutdown signal has reached the worker.\<close>

definition open_worker :: "'m messenger \<Rightarrow> bool" where
  "open_worker m \<longleftrightarrow> \<not> receiver_gone (ms_worker m) \<and> Shutdown \<notin> set (ms_queue m)"

definition ended_worker :: "'m messenger \<Rightarrow> bool" where
  "ended_worker m \<longleftrightarrow> ms_worker m = Stopped \<and> ms_queue m = []"

lemma notify_events:
  assumes "messenger_inv m" "open_worker m"
  shows "messenger_inv (fold notify_event evs m) \<and> open_worker (fold notify_event evs m) \<and>
    ms_offered (fold notify_event evs m) = ms_offered m @ notifications evs"
  using assms
proof (induction evs arbitrary: m)
  case Nil
  then show ?case by (simp add: notifications_def map_filter_def)
next
  case (Cons e evs)
  have "messenger_inv (notify_event e m) \<and> open_worker (notify_event e m) \<and>
      ms_offered (notify_event e m) = ms_offered m @ notifications [e]"
    using Cons.prems notify_inv [OF Cons.prems(1)]
    by (cases "(e, m)" rule: notify_event.cases)
      (auto simp: notifications_def map_filter_def open_worker_def notifier_notify_blocked_def record_skipped_def
        messenger_inv_def Let_def)
  with Cons.IH [of "notify_event e m"] show ?case
    using notifications_append [of "[e]" evs] by simp
qed

text \<open>What holds of the worker while the main task is at each place.\<close>

fun worker_at :: "main_task \<Rightarrow> 'm messenger \<Rightarrow> bool" where
  "worker_at Serving m = open_worker m"
| "worker_at (Joining r) m = open_worker m"
| "worker_at (Signalling r) m = open_worker m"
| "worker_at (Awaiting r) m =
     (ended_worker m \<or> \<not> receiver_gone (ms_worker m) \<and> (\<exists>q. ms_queue m = q @ [Shutdown] \<and> Shutdown \<notin> set q))"
| "worker_at (Exited result) m = (result = refresh_failed \<or> ms_worker m = Aborted \<or> ended_worker m)"

fun refresh_at :: "main_task \<Rightarrow> ('c, 'w) refresh \<Rightarrow> bool" where
  "refresh_at Serving r = True"
| "refresh_at (Joining _) r = rf_cancelled r"
| "refresh_at (Exited result) r = (rf_cancelled r \<and> (result = refresh_failed \<or> rf_task r = Ended))"
| "refresh_at _ r = (rf_cancelled r \<and> rf_task r = Ended)"

definition process_inv :: "('c, 'w, 'm) process \<Rightarrow> bool" where
  "process_inv p \<longleftrightarrow>
     refresh_at (pr_main p) (pr_refresh p) \<and>
     (case pr_notifier p of
        None \<Rightarrow> (case pr_main p of Signalling _ \<Rightarrow> False | Awaiting _ \<Rightarrow> False | _ \<Rightarrow> True)
      | Some m \<Rightarrow> messenger_inv m \<and> ms_offered m = notifications (pr_handled p) \<and> worker_at (pr_main p) m)"

lemma worker_step_open: "worker_step lib config m m' \<Longrightarrow> open_worker m \<Longrightarrow> open_worker m'"
  by (elim worker_stepE) (auto simp: open_worker_def receiver_gone_def)

lemma worker_step_closing:
  assumes "worker_step lib config m m'" "ms_queue m = q @ [Shutdown]" "Shutdown \<notin> set q"
  shows "ended_worker m' \<or> \<not> receiver_gone (ms_worker m') \<and> (\<exists>q. ms_queue m' = q @ [Shutdown] \<and> Shutdown \<notin> set q)"
  using assms by (elim worker_stepE; cases q) (auto simp: ended_worker_def receiver_gone_def)

lemma worker_step_ended: "worker_step lib config m m' \<Longrightarrow> \<not> ended_worker m"
  by (elim worker_stepE) (auto simp: ended_worker_def)

lemma worker_step_offered: "worker_step lib config m m' \<Longrightarrow> ms_offered m' = ms_offered m"
  by (elim worker_stepE) auto

lemma worker_step_at:
  assumes "worker_step lib config m m'" "worker_at t m" "\<And>x. t \<noteq> Exited x"
  shows "worker_at t m'"
  using assms worker_step_open [OF assms(1)] worker_step_ended [OF assms(1)] worker_step_closing [OF assms(1)]
  by (cases t) auto

lemma refresh_step_at: "refresh_step env r r' \<Longrightarrow> rf_cancelled r' = rf_cancelled r \<Longrightarrow> refresh_at t r \<Longrightarrow> refresh_at t r'"
  by (cases t) (auto elim: refresh_stepE)

lemma process_step_inv:
  assumes "process_step sv lib config p p'" "process_inv p"
  shows "process_inv p'"
  using assms
proof (induction rule: process_step.induct)
  case (request p q resp evs s')
  then show ?case using notify_events by (auto simp: process_inv_def split: option.splits)
next
  case (refreshing p r)
  then show ?case using refresh_step_at by (auto simp: process_inv_def split: option.splits)
next
  case (working p m m')
  then have "worker_at (pr_main p) m'"
    using worker_step_at [of lib config m m' "pr_main p"] by (auto simp: process_inv_def running_def split: main_task.splits)
  with working show ?case
    using worker_step_inv [OF working(3)] worker_step_offered [OF working(3)] by (auto simp: process_inv_def)
next
  case (shutdown_sent p r m)
  have "messenger_inv (send_shutdown m)"
    using shutdown_sent by (auto simp: process_inv_def messenger_inv_def send_shutdown_def receiver_gone_def)
  with shutdown_sent show ?case by (auto simp: process_inv_def with_worker_def send_shutdown_def open_worker_def)
next
  case (shutdown_timeout p r m)
  then show ?case by (auto simp: process_inv_def with_worker_def abort_worker_def server_finished_def messenger_inv_def)
next
  case (drain_timeout p r m)
  then show ?case by (auto simp: process_inv_def with_worker_def abort_worker_def server_finished_def messenger_inv_def)
qed (auto simp: process_inv_def cancel_refresh_def server_finished_def open_worker_def ended_worker_def receiver_gone_def split: option.splits)

lemma process_run_inv: "process_run la sv lib config p \<Longrightarrow> process_inv p"
proof (induction rule: process_run.induct)
  case (listening s0 l evs s bound w p)
  then show ?case
    by (auto simp: main_listen_def res_bind_Inr_iff process_inv_def messenger_inv_def messenger_new_def open_worker_def
        receiver_gone_def notifications_def map_filter_def queue_capacity_def split: option.splits)
qed (rule process_step_inv)

lemma process_run_state: "process_run la sv lib config p \<Longrightarrow> service_state la sv (rf_shared (pr_refresh p))"
proof (induction rule: process_run.induct)
  case (listening s0 l evs s bound w p)
  then show ?case
    using service_state.started [OF listening(1,2)]
    by (auto simp: main_listen_def res_bind_Inr_iff spawn_repository_catalog_refresh_def)
next
  case (next_step p p')
  from next_step(2,3) show ?case
    by (induction rule: process_step.induct)
      (auto simp: cancel_refresh_def with_worker_def intro: service_state.request service_state.refresh)
qed

section \<open>Draining\<close>

lemma worker_delivers:
  assumes "\<not> receiver_gone (ms_worker m)"
  shows "\<exists>m'. (worker_step lib config)\<^sup>*\<^sup>* m m' \<and> ms_worker m' = Waiting \<and> ms_queue m' = ms_queue m"
proof (cases "ms_worker m")
  case (Delivering n)
  obtain evs c where "deliver lib config n (ms_courier m) = Some ((), evs, c)"
    using deliver_run [of lib config n "ms_courier m"] by blast
  from worker_step.delivered [OF Delivering this] show ?thesis
    by (intro exI [where x = "m\<lparr>ms_worker := Waiting, ms_courier := c, ms_delivered := ms_delivered m @ [n]\<rparr>"]) (simp add: r_into_rtranclp)
qed (use assms in \<open>auto simp: receiver_gone_def\<close>)

lemma worker_drains:
  assumes "\<not> receiver_gone (ms_worker m)" "ms_queue m = map Notification ns @ q"
  shows "\<exists>m'. (worker_step lib config)\<^sup>*\<^sup>* m m' \<and> ms_worker m' = Waiting \<and> ms_queue m' = q"
  using assms
proof (induction ns arbitrary: m)
  case Nil
  then show ?case using worker_delivers by fastforce
next
  case (Cons n ns)
  obtain m1 where m1: "(worker_step lib config)\<^sup>*\<^sup>* m m1" "ms_worker m1 = Waiting" "ms_queue m1 = Notification n # map Notification ns @ q"
    using worker_delivers [OF Cons.prems(1), of lib config] Cons.prems(2) by auto
  let ?m2 = "m1\<lparr>ms_queue := map Notification ns @ q, ms_worker := Delivering n\<rparr>"
  have "worker_step lib config m1 ?m2" by (rule worker_step.receive) (use m1 in auto)
  moreover obtain m' where "(worker_step lib config)\<^sup>*\<^sup>* ?m2 m'" "ms_worker m' = Waiting" "ms_queue m' = q"
    using Cons.IH [of ?m2] by (auto simp: receiver_gone_def)
  ultimately show ?case using m1(1) by (intro exI [of _ m']) (auto intro: rtranclp_trans converse_rtranclp_into_rtranclp)
qed

lemma no_signal_notifications: "Shutdown \<notin> set q \<Longrightarrow> q = map Notification (queued q)"
  by (induction q rule: queued.induct) auto

lemma process_works:
  assumes "(worker_step lib config)\<^sup>*\<^sup>* m m'" "pr_notifier p = Some m" "running p"
  shows "(process_step sv lib config)\<^sup>*\<^sup>* p (p\<lparr>pr_notifier := Some m'\<rparr>)"
  using assms(1)
proof (induction rule: rtranclp_induct)
  case base
  have "p\<lparr>pr_notifier := Some m\<rparr> = p" using assms(2) by simp
  then show ?case by simp
next
  case (step m1 m2)
  have "process_step sv lib config (p\<lparr>pr_notifier := Some m1\<rparr>) ((p\<lparr>pr_notifier := Some m1\<rparr>)\<lparr>pr_notifier := Some m2\<rparr>)"
    by (rule process_step.working [OF _ _ step(2)]) (use assms(3) in \<open>simp_all add: running_def\<close>)
  with step(3) show ?case by simp
qed

text \<open>From each place of the main task the process can go on to the next.\<close>

lemma process_drains_from:
  assumes "process_inv p" "pr_main p = Awaiting r" "pr_notifier p = Some m"
  shows "\<exists>p' m'. (process_step sv lib config)\<^sup>*\<^sup>* p p' \<and> pr_main p' = server_finished r \<and> pr_notifier p' = Some m' \<and> ended_worker m'"
proof -
  have run: "running p" using assms(2) by (simp add: running_def)
  have "\<exists>m'. (worker_step lib config)\<^sup>*\<^sup>* m m' \<and> ended_worker m'"
  proof (cases "ended_worker m")
    case False
    then obtain q where m: "\<not> receiver_gone (ms_worker m)" "ms_queue m = q @ [Shutdown]" "Shutdown \<notin> set q"
      using assms by (auto simp: process_inv_def)
    then obtain m1 where m1: "(worker_step lib config)\<^sup>*\<^sup>* m m1" "ms_worker m1 = Waiting" "ms_queue m1 = [Shutdown]"
      using worker_drains [of m "queued q" "[Shutdown]" lib config] no_signal_notifications [of q] by auto
    have "worker_step lib config m1 (m1\<lparr>ms_queue := [], ms_worker := Stopped\<rparr>)" by (rule worker_step.stop [OF m1(2,3)])
    with m1(1) show ?thesis by (intro exI conjI, rule rtranclp.rtrancl_into_rtrancl) (simp_all add: ended_worker_def)
  qed blast
  then obtain m' where m': "(worker_step lib config)\<^sup>*\<^sup>* m m'" "ended_worker m'" by blast
  let ?p = "p\<lparr>pr_notifier := Some m'\<rparr>"
  have "(process_step sv lib config)\<^sup>*\<^sup>* p ?p" by (rule process_works [OF m'(1) assms(3) run])
  moreover have "process_step sv lib config ?p (?p\<lparr>pr_main := server_finished r\<rparr>)"
    by (rule process_step.drained [where m = m']) (use assms m' in \<open>simp_all add: ended_worker_def receiver_gone_def\<close>)
  ultimately show ?thesis using m'(2)
    by (intro exI [of _ "?p\<lparr>pr_main := server_finished r\<rparr>"] exI [of _ m']) auto
qed

lemma process_signals_from:
  assumes "process_inv p" "pr_main p = Signalling r" "pr_notifier p = Some m"
  shows "\<exists>p' m'. (process_step sv lib config)\<^sup>*\<^sup>* p p' \<and> pr_main p' = Awaiting r \<and> pr_notifier p' = Some m'"
proof -
  have run: "running p" using assms(2) by (simp add: running_def)
  from assms have m: "\<not> receiver_gone (ms_worker m)" "Shutdown \<notin> set (ms_queue m)" by (simp_all add: process_inv_def open_worker_def)
  then obtain m' where m': "(worker_step lib config)\<^sup>*\<^sup>* m m'" "ms_worker m' = Waiting" "ms_queue m' = []"
    using worker_drains [of m "queued (ms_queue m)" "[]" lib config] no_signal_notifications [of "ms_queue m"] by auto
  let ?p = "p\<lparr>pr_notifier := Some m'\<rparr>"
  have "(process_step sv lib config)\<^sup>*\<^sup>* p ?p" by (rule process_works [OF m'(1) assms(3) run])
  moreover have "process_step sv lib config ?p (with_worker send_shutdown (Awaiting r) ?p)"
    by (rule process_step.shutdown_sent [where m = m']) (use assms m' in \<open>simp_all add: receiver_gone_def queue_capacity_def\<close>)
  ultimately show ?thesis
    by (intro exI [of _ "with_worker send_shutdown (Awaiting r) ?p"] exI [of _ "send_shutdown m'"]) (auto simp: with_worker_def)
qed

lemma process_steps_inv: "(process_step sv lib config)\<^sup>*\<^sup>* p p' \<Longrightarrow> process_inv p \<Longrightarrow> process_inv p'"
  by (induction rule: rtranclp_induct) (auto intro: process_step_inv)

definition orderly_end :: "server_result \<Rightarrow> ('c, 'w, 'm) process \<Rightarrow> bool" where
  "orderly_end r p \<longleftrightarrow>
     pr_main p = server_finished r \<and> rf_task (pr_refresh p) = Ended \<and>
     (case pr_notifier p of None \<Rightarrow> True | Some m \<Rightarrow> ended_worker m \<and> ms_delivered m = ms_accepted m)"

lemma server_finished_other: "Exited (err_context ''server failed'' r) \<noteq> Exited refresh_failed"
  by (cases r) (simp_all add: err_context_def refresh_failed_def)

lemma orderly_endI:
  assumes "process_inv p" "pr_main p = server_finished r" "\<And>m. pr_notifier p = Some m \<Longrightarrow> ended_worker m"
  shows "orderly_end r p"
  using assms server_finished_other [of r]
  by (auto simp: orderly_end_def process_inv_def server_finished_def messenger_inv_def ended_worker_def split: option.splits)

lemma process_closes_from:
  assumes "process_inv p" "pr_main p = Signalling r \<or> pr_main p = Awaiting r" "pr_notifier p = Some m"
  shows "\<exists>p'. (process_step sv lib config)\<^sup>*\<^sup>* p p' \<and> orderly_end r p'"
proof -
  obtain p1 m1 where p1: "(process_step sv lib config)\<^sup>*\<^sup>* p p1" "pr_main p1 = Awaiting r" "pr_notifier p1 = Some m1"
    using assms process_signals_from [OF assms(1) _ assms(3), of r sv lib config] by blast
  moreover obtain p' m' where "(process_step sv lib config)\<^sup>*\<^sup>* p1 p'" "pr_main p' = server_finished r"
      "pr_notifier p' = Some m'" "ended_worker m'"
    using process_drains_from [OF process_steps_inv [OF p1(1) assms(1)] p1(2,3)] by blast
  ultimately have "(process_step sv lib config)\<^sup>*\<^sup>* p p'" by (simp add: rtranclp_trans)
  moreover have "orderly_end r p'"
    by (rule orderly_endI [OF process_steps_inv [OF calculation assms(1)]])
      (use \<open>pr_main p' = _\<close> \<open>pr_notifier p' = _\<close> \<open>ended_worker m'\<close> in auto)
  ultimately show ?thesis by blast
qed

lemma process_joins_from:
  assumes "process_inv p" "pr_main p = Joining r"
  shows "\<exists>p'. (process_step sv lib config)\<^sup>*\<^sup>* p p' \<and> orderly_end r p'"
proof -
  let ?p1 = "p\<lparr>pr_refresh := (pr_refresh p)\<lparr>rf_task := Ended\<rparr>\<rparr>"
  have "(process_step sv lib config)\<^sup>*\<^sup>* p ?p1"
  proof (cases "rf_task (pr_refresh p) = Ended")
    case True
    then have "?p1 = p" by simp
    then show ?thesis by simp
  next
    case False
    have "process_step sv lib config p ?p1"
      using assms False by (intro process_step.refreshing refresh_step.stopped) (auto simp: process_inv_def running_def)
    then show ?thesis by simp
  qed
  moreover have joined: "process_step sv lib config ?p1
      (?p1\<lparr>pr_main := (if pr_notifier ?p1 = None then server_finished r else Signalling r)\<rparr>)" (is "process_step _ _ _ _ ?p2")
    by (rule process_step.joined) (use assms in simp_all)
  ultimately have steps: "(process_step sv lib config)\<^sup>*\<^sup>* p ?p2" by (rule rtranclp.rtrancl_into_rtrancl)
  note inv = process_steps_inv [OF steps assms(1)]
  show ?thesis
  proof (cases "pr_notifier p")
    case None
    then have "orderly_end r ?p2" by (intro orderly_endI [OF inv]) simp_all
    with steps show ?thesis by blast
  next
    case (Some m)
    then obtain p' where "(process_step sv lib config)\<^sup>*\<^sup>* ?p2 p'" "orderly_end r p'"
      using process_closes_from [OF inv, of r m sv lib config] by auto
    with steps show ?thesis by (meson rtranclp_trans)
  qed
qed

fun result_pending :: "main_task \<Rightarrow> server_result" where
  "result_pending Serving = Inr ()"
| "result_pending (Joining r) = r"
| "result_pending (Signalling r) = r"
| "result_pending (Awaiting r) = r"
| "result_pending (Exited _) = Inr ()"

section \<open>The end of the process\<close>

text \<open>
  C20. The process can always end in order: from every state that it reaches, the refresh can stop, every notification that was accepted can be
  delivered, the worker can stop, and the process then ends with the result of the server.
\<close>

theorem process_can_end:
  assumes "process_run la sv lib config p" "running p"
  shows "\<exists>p'. (process_step sv lib config)\<^sup>*\<^sup>* p p' \<and> orderly_end (result_pending (pr_main p)) p'"
proof -
  note inv = process_run_inv [OF assms(1)]
  show ?thesis
  proof (cases "pr_main p")
    case Serving
    let ?p1 = "cancel_refresh p"
    let ?p2 = "(cancel_refresh ?p1)\<lparr>pr_main := Joining (Inr ())\<rparr>"
    have "process_step sv lib config p ?p1" by (rule process_step.signalled [OF Serving])
    moreover have "process_step sv lib config ?p1 ?p2"
      by (rule process_step.served) (use Serving in \<open>simp_all add: cancel_refresh_def\<close>)
    ultimately have steps: "(process_step sv lib config)\<^sup>*\<^sup>* p ?p2" by simp
    from process_joins_from [OF process_steps_inv [OF steps inv], of "Inr ()" sv lib config] obtain p'
      where "(process_step sv lib config)\<^sup>*\<^sup>* ?p2 p'" "orderly_end (Inr ()) p'" by auto
    with steps Serving show ?thesis by (auto intro: rtranclp_trans)
  next
    case (Joining r)
    then show ?thesis using process_joins_from [OF inv] by simp
  next
    case (Signalling r)
    with inv obtain m where "pr_notifier p = Some m" by (cases "pr_notifier p") (simp_all add: process_inv_def)
    then show ?thesis using process_closes_from [OF inv, of r m] Signalling by simp
  next
    case (Awaiting r)
    with inv obtain m where "pr_notifier p = Some m" by (cases "pr_notifier p") (simp_all add: process_inv_def)
    then show ?thesis using process_closes_from [OF inv, of r m] Awaiting by simp
  qed (use assms(2) in \<open>simp add: running_def\<close>)
qed

text \<open>
  C19. When the process has ended, and not because the refresh task failed, the refresh has ended, and the worker of the messenger has delivered every
  notification it accepted unless it was aborted after a timeout. The notifications delivered are among those that requests asked for, in their order. And the
  shared state was always well formed, if what runs while a request waits keeps it so.
\<close>

theorem process_ended:
  assumes "process_run la sv lib config p" "pr_main p = Exited result" "result \<noteq> refresh_failed"
  shows "rf_task (pr_refresh p) = Ended \<and>
    (\<forall>m. pr_notifier p = Some m \<longrightarrow>
       subseq (ms_delivered m) (notifications (pr_handled p)) \<and>
       (ms_worker m = Aborted \<or> ended_worker m \<and> ms_delivered m = ms_accepted m)) \<and>
    (launch_law la \<and> service_relies sv \<longrightarrow> service_inv (env_config (sv_env sv)) (rf_shared (pr_refresh p)))"
proof -
  have inv: "process_inv p" by (rule process_run_inv [OF assms(1)])
  have "subseq (ms_delivered m) (notifications (pr_handled p)) \<and>
      (ms_worker m = Aborted \<or> ended_worker m \<and> ms_delivered m = ms_accepted m)" if "pr_notifier p = Some m" for m
    using inv assms(2,3) that
    by (auto simp: process_inv_def messenger_inv_def ended_worker_def intro: subseq_order.trans dest: prefix_imp_subseq)
  moreover have "rf_task (pr_refresh p) = Ended" using inv assms(2,3) by (simp add: process_inv_def)
  ultimately show ?thesis using service_state_inv [OF _ _ process_run_state [OF assms(1)]] by blast
qed

text \<open>
  If the handler of the interrupt signal cannot be installed, the failure is logged and the shutdown begins at once; if that of
  the termination signal cannot be installed, the process waits for the other.
\<close>

theorem failed_handler_shuts_down:
  "shutdown_signal InstallFailed terminate = Some 0" "shutdown_signal ctrl_c InstallFailed = ctrl_c_done ctrl_c"
  by (cases terminate; auto simp: shutdown_signal_def split: option.splits)+

section \<open>An example\<close>

lemma process_steps_run:
  "(process_step sv lib config)\<^sup>*\<^sup>* p p' \<Longrightarrow> process_run la sv lib config p \<Longrightarrow> process_run la sv lib config p'"
  by (induction rule: rtranclp_induct) (auto intro: process_run.next_step)

lemma sample_process:
  obtains sv p where "process_run sample_launch sv sample_messenger_lib sample_messenger_config p" "pr_main p = Serving"
proof -
  obtain l evs s' where run: "startup sample_launch \<lparr>sh_cache = \<lparr>clean = [], vulnerable = []\<rparr>,
      sh_active_policy = sh_active_policy (sample_shared []), sh_catalog = sample_catalog,
      sh_decisions = decision_log_new 100, sh_world = sample_backend_world\<rparr> = Some (Inr l, evs, s')"
    using sample_launch_runs by blast
  define sv where "sv = sample_service\<lparr>sv_admin := (sv_admin sample_service)\<lparr>ad_env := launch_env (ln_config l) []\<rparr>\<rparr>"
  define p :: "(sample_cache, unit, unit) process" where
    "p = \<lparr>pr_main = Serving, pr_refresh = spawn_repository_catalog_refresh (ln_config l) s',
      pr_notifier = map_option (\<lambda>_. messenger_new ()) (ln_notifier l), pr_handled = []\<rparr>"
  have "ln_config l = env_config (sv_env sv)" by (simp add: sv_def launch_env_def)
  moreover have "main_listen (Inr ()) l s' () = Inr p" by (simp add: main_listen_def p_def err_context_def)
  ultimately have "process_run sample_launch sv sample_messenger_lib sample_messenger_config p"
    by (rule process_run.listening [OF run])
  then show ?thesis by (rule that) (simp add: p_def)
qed

theorem process_can_end_witness:
  "\<exists>sv p p'. process_run sample_launch sv sample_messenger_lib sample_messenger_config p \<and>
     (process_step sv sample_messenger_lib sample_messenger_config)\<^sup>*\<^sup>* p p' \<and> orderly_end (Inr ()) p'"
proof -
  obtain sv p where p: "process_run sample_launch sv sample_messenger_lib sample_messenger_config p" "pr_main p = Serving"
    by (rule sample_process)
  from p(2) have "running p" by (simp add: running_def)
  from process_can_end [OF p(1) this] p show ?thesis by auto
qed

theorem process_ended_witness:
  "\<exists>sv p. process_run sample_launch sv sample_messenger_lib sample_messenger_config p \<and>
     pr_main p = Exited (Inl (StartFailed ''server failed'')) \<and> rf_task (pr_refresh p) = Ended"
proof -
  obtain sv p where p: "process_run sample_launch sv sample_messenger_lib sample_messenger_config p" "pr_main p = Serving"
    by (rule sample_process)
  let ?p1 = "(cancel_refresh p)\<lparr>pr_main := Joining (Inl ''closed'')\<rparr>"
  have p1: "process_run sample_launch sv sample_messenger_lib sample_messenger_config ?p1"
    by (rule process_run.next_step [OF p(1) process_step.served]) (use p(2) in simp_all)
  obtain p' where p': "(process_step sv sample_messenger_lib sample_messenger_config)\<^sup>*\<^sup>* ?p1 p'" "orderly_end (Inl ''closed'') p'"
    using process_joins_from [OF process_run_inv [OF p1], of "Inl ''closed''" sv sample_messenger_lib sample_messenger_config] by auto
  have main: "pr_main p' = Exited (Inl (StartFailed ''server failed''))"
    using p'(2) by (simp add: orderly_end_def server_finished_def err_context_def map_err_def)
  note run = process_steps_run [OF p'(1) p1]
  from process_ended [OF run main] run main show ?thesis by (auto simp: refresh_failed_def)
qed

end
