(* ===== verification/Spec2Isabelle.thy ===== *)
theory Spec2Isabelle
  imports Policy_Schema Osv Shutdown
begin

text \<open>
  A verification of nexus-sec-proxy, a reverse proxy in front of a Nexus repository manager that
  scans downloads for known vulnerabilities and refuses those which violate a policy. The sources are the Rust
  crates under \<^verbatim>\<open>src/crates\<close>.

  \<^bold>\<open>The program.\<close> A request arrives at \<^verbatim>\<open>proxy_handler\<close>. A path below \<^verbatim>\<open>/repository/\<close> names a repository of
  the catalog that is loaded from Nexus; a classifier decides whether the path is the download of a package version
  or of an artifact. Packages are looked up in OSV, artifacts are fetched, written to a temporary file and scanned by Trivy,
  Helm charts are rendered and their images scanned, and in Docker registry mode manifests are fetched and their images scanned.
  Findings are cached, and every decision is the evaluation of the findings under the active policy at the current
  time. A blocked download is answered with a 403 after a report of it has been created, audited, recorded and notified;
  an allowed one is passed on.

  \<^bold>\<open>Theories.\<close>
  \<^item> \<open>Prelude\<close>, \<open>Btree\<close>, \<open>Utf8\<close>, \<open>Io\<close>, \<open>Http\<close>: the parts of Rust's library that the code uses (strings as byte lists,
    options and results, ordered maps, UTF-8) and the frame for asynchronous code.
  \<^item> \<open>Severity\<close>, \<open>Normalize\<close>, \<open>Target\<close>, \<open>Policy_Model\<close>, \<open>Policy_Eval\<close>, \<open>Policy_Parse\<close>, \<open>Policy_Schema\<close>, \<open>Trust_Report\<close>, \<open>Osv\<close>, \<open>Trivy\<close>: the crate
    \<^verbatim>\<open>security\<close>: severities and CVSS scores as binary64 values, targets and findings, policies, their evaluation and
    their files and the JSON schema of these, reports, the OSV client and the external scanner.
  \<^item> \<open>Scan_Cache\<close>: the crate \<^verbatim>\<open>cache\<close>. \<open>Config\<close>: the crate \<^verbatim>\<open>config\<close>. \<open>Defectdojo\<close>: the crate \<^verbatim>\<open>defectdojo\<close>. \<open>Messenger\<close>: the crate
    \<^verbatim>\<open>yandex-messenger\<close>: templates, the queue of notifications, its worker, and shutting it down.
  \<^item> \<open>Classifier\<close>, \<open>App_State\<close>, \<open>Effects\<close>, \<open>Requester\<close>, \<open>Catalog_Load\<close>, \<open>Scan\<close>, \<open>Docker_Auth\<close>, \<open>Helm\<close>, \<open>Gateway\<close>, \<open>Docker\<close>, \<open>Proxy\<close>:
    the crate \<^verbatim>\<open>proxy\<close>, one theory per source file or per group of functions that call each other; \<open>Sample_World\<close> is a
    concrete environment to run them on.
  \<^item> \<open>Report_Html\<close>, \<open>Report_Store\<close>, \<open>Report_Backend\<close>: \<^verbatim>\<open>trust_reports.rs\<close>: the page, the store on the disk, the backends.
  \<^item> \<open>Scanner_Db\<close>: \<^verbatim>\<open>scanner_db.rs\<close>. \<open>Admin\<close>: \<^verbatim>\<open>admin.rs\<close>: the admin API and its JSON.
  \<^item> \<open>Service\<close>, \<open>Invariant\<close>, \<open>Startup\<close>, \<open>Shutdown\<close>: \<^verbatim>\<open>main.rs\<close>: the routes and health checks, the invariant of the shared state that every
    handler keeps, the start of the process with its background refresh, and the running process with its tasks up to its end.

  \<^bold>\<open>How the code is modelled.\<close> Structs are records, enums datatypes, \<^verbatim>\<open>Result\<close> is a sum with the error on the left, a
  Rust string is the list of its bytes, machine integers are words where they can wrap. A request handler is a
  computation of type \<open>io\<close>: it takes the shared state to a result, the list of events it performed, in
  order, and the state afterwards; \<^const>\<open>None\<close> means that it never completes, which only the paging loop of the OSV client
  can do. Events are the requests sent, commands run, files written, cache accesses, audit records, decisions,
  notifications and permits; a few (\<open>Evaluated\<close>, \<open>ScanFailed\<close>, \<open>Unsupported\<close> and the purpose of a request) only name the place
  in the code. What the code calls but the repository does not contain is a field of a parameter record
  (\<open>env\<close>, \<open>http_lib\<close>, \<open>url_lib\<close>, \<open>moka_lib\<close>, \<open>time_lib\<close>, \<open>config_lib\<close>, \<open>uuid_lib\<close>, \<open>dojo_lib\<close>, \<open>messenger_lib\<close>, \<open>router_lib\<close>, \<open>launch\<close>): the HTTP client and server libraries,
  the decoders of JSON, TOML and base64, the Moka cache, clocks, random identifiers, processes. Documented laws of a library are named
  predicates (\<open>header_insert_law\<close>, \<open>percent_decode_law\<close>, \<open>uuid_law\<close>, \<open>dot_segment_law\<close>, \<open>router_law\<close>, \<open>launch_law\<close>; for the cache, a locale) that occur as
  hypotheses, with a concrete library that satisfies them. Other tasks may change the shared state whenever a handler waits.

  \<^bold>\<open>What is shown.\<close>
  \<^item> End to end (\<open>Proxy\<close>, \<open>Service\<close>): a request to the service leads to at most one decision and one forwarded request, in this order, and it is forwarded only
    if the decision allows it; recognised package downloads are always judged; vulnerable ones are refused and cached;
    unknown repositories are refused without any effect. No admin route does anything without the token.
  \<^item> Decisions (\<open>Scan\<close>, \<open>Policy_Eval\<close>): the answer on every branch; blocking exactly if a limit is exceeded by the findings
    that no live exception and no allow list removes; monotonicity in findings and time; exceptions and their log.
  \<^item> Artifacts and images (\<open>Gateway\<close>, \<open>Docker\<close>, \<open>Helm\<close>): what is delivered is what was scanned, within the size limit; permits are
    returned on every path; every image of a chart is scanned; which manifests pass without a decision.
  \<^item> State (\<open>Scan_Cache\<close>, \<open>App_State\<close>, \<open>Catalog_Load\<close>): the two-part cache refines a map under any eviction and interleaving; the bounded
    decision log; atomic reloads with generations that do not wrap.
  \<^item> Reports (\<open>Report_Html\<close>, \<open>Report_Store\<close>, \<open>Report_Backend\<close>, \<open>Defectdojo\<close>): no text of a report changes the tags of its page; creation is
    atomic under faults and crashes; created reports are served; deliveries are counted.
  \<^item> Notifications (\<open>Messenger\<close>): the bounded queue keeps the order and loses nothing unless the worker is aborted; every delivery ends,
    after at most three attempts, and is counted; long texts are cut at a character.
  \<^item> Operation (\<open>Admin\<close>, \<open>Service\<close>, \<open>Startup\<close>, \<open>Invariant\<close>): views show no secret; reloading the policy is all or nothing; the
    health checks; what the start establishes and why it fails; the catalog, the policy and the log stay well formed under every request and
    refresh, provided that what runs meanwhile keeps them so; the background refresh stops when it is cancelled.
    The process, in which requests, the refresh, the messenger and the main task interleave, can always end in order, and when it has ended
    no accepted notification is lost unless the messenger was aborted after a timeout, or the refresh task failed, which makes the
    main task return before it shuts the messenger down.
  \<^item> Inputs (\<open>Policy_Parse\<close>, \<open>Policy_Schema\<close>, \<open>Config\<close>, \<open>Classifier\<close>, \<open>Osv\<close>, \<open>Requester\<close>): which files and environments are accepted and what follows; that the published schema agrees
    with the parser;
    which paths are recognised; the pages of OSV; recipients of notifications.

  \<^bold>\<open>Not modelled.\<close> The set-up of the log and the texts that are logged; the socket and the loop of the server, of which only the outcomes matter here;
  the text of the static admin page; derived serialisers, deserialisers and schemas, extractors, and the bodies of third-party libraries, none of which is
  code of the repository; poisoned locks, whose value the code goes on to use. Times and durations are read
  from parameters; timeouts are outcomes of the operation that is timed.
\<close>

end
